(* ===== verification/Prelude.thy ===== *)
theory Prelude
  imports Main "HOL-Library.Word"
begin

text \<open>
  What every component of the development shares: the widths of the machine integers, the
  three ways a Rust call can end (\<open>Ok\<close>, \<open>Err\<close>, a panic that unwinds), programs as functions
  of an explicit state that may fail to return (\<open>None\<close>), the \<open>?\<close> operator, destructors that
  run on every exit, checked arithmetic, and the pieces of \<open>core::fmt\<close> and of integer
  parsing that the code relies on.
\<close>

named_theorems run_simps \<open>one step of a program, run on a state\<close>
named_theorems rust_defs \<open>definitions unfolded when a closed program is evaluated\<close>

type_synonym u8 = "8 word"
type_synonym u16 = "16 word"
type_synonym u32 = "32 word"
type_synonym u64 = "64 word"

section \<open>Outcomes and programs\<close>

text \<open>
  The build profiles of \<open>Cargo.toml\<close> all set \<open>overflow-checks = true\<close>, so an overflowing
  \<open>+\<close> or \<open>*\<close> is a panic in the release build too, like a failed \<open>assert!\<close>, a failed
  \<open>expect\<close> and an index out of range.
\<close>

datatype panic = Assert_Failed | Arith_Overflow | Index_Out_Of_Bounds | Expect_Failed

datatype ('x, 'a) outcome = Ok 'a | Err 'x | Panic panic

text \<open>What one round of a \<open>loop\<close> decides.\<close>

datatype ('c, 'a) flow = Continue 'c | Break 'a

type_synonym ('s, 'x, 'a) prog = "'s \<Rightarrow> (('x, 'a) outcome \<times> 's) option"

definition ret :: "'a \<Rightarrow> ('s, 'x, 'a) prog" where
  "ret a = (\<lambda>s. Some (Ok a, s))"

definition fail :: "'x \<Rightarrow> ('s, 'x, 'a) prog" where
  "fail e = (\<lambda>s. Some (Err e, s))"

definition panic :: "panic \<Rightarrow> ('s, 'x, 'a) prog" where
  "panic p = (\<lambda>s. Some (Panic p, s))"

definition gets :: "('s \<Rightarrow> 'a) \<Rightarrow> ('s, 'x, 'a) prog" where
  "gets f = (\<lambda>s. Some (Ok (f s), s))"

definition modify :: "('s \<Rightarrow> 's) \<Rightarrow> ('s, 'x, unit) prog" where
  "modify f = (\<lambda>s. Some (Ok (), f s))"

text \<open>\<open>let x = m?; k\<close>: an error or a panic of \<open>m\<close> leaves at once.\<close>

definition bindR :: "('s, 'x, 'a) prog \<Rightarrow> ('a \<Rightarrow> ('s, 'x, 'b) prog) \<Rightarrow> ('s, 'x, 'b) prog" where
  "bindR m k = (\<lambda>s. case m s of
       None \<Rightarrow> None
     | Some (r, s') \<Rightarrow>
         (case r of Ok a \<Rightarrow> k a s' | Err e \<Rightarrow> Some (Err e, s') | Panic p \<Rightarrow> Some (Panic p, s')))"

definition andthen :: "('s, 'x, unit) prog \<Rightarrow> ('s, 'x, 'b) prog \<Rightarrow> ('s, 'x, 'b) prog" where
  "andthen m k = bindR m (\<lambda>_. k)"

text \<open>The conversion \<open>From\<close> that \<open>?\<close> applies to the error of the callee.\<close>

definition map_err :: "('x \<Rightarrow> 'y) \<Rightarrow> ('s, 'x, 'a) prog \<Rightarrow> ('s, 'y, 'a) prog" where
  "map_err f m = (\<lambda>s. case m s of
       None \<Rightarrow> None
     | Some (r, s') \<Rightarrow>
         Some ((case r of Ok a \<Rightarrow> Ok a | Err e \<Rightarrow> Err (f e) | Panic p \<Rightarrow> Panic p), s'))"

text \<open>\<open>match m { Ok(..) => .., Err(..) => .. }\<close> and \<open>let _ = m\<close>: the error is a value.\<close>

definition attempt :: "('s, 'x, 'a) prog \<Rightarrow> ('s, 'y, 'x + 'a) prog" where
  "attempt m = (\<lambda>s. case m s of
       None \<Rightarrow> None
     | Some (r, s') \<Rightarrow>
         Some ((case r of Ok a \<Rightarrow> Ok (Inr a) | Err e \<Rightarrow> Ok (Inl e) | Panic p \<Rightarrow> Panic p), s'))"

text \<open>
  A local with a destructor: \<open>d\<close> runs when \<open>m\<close> is left, by its value, an early return or
  the unwinding of a panic. \<open>unless_moved\<close> is the same for a local that a successful \<open>m\<close>
  moves away, so that only the other two exits drop it.
\<close>

definition with_drop :: "('s, 'x, 'a) prog \<Rightarrow> ('s, 'y, unit) prog \<Rightarrow> ('s, 'x, 'a) prog" where
  "with_drop m d = (\<lambda>s. case m s of
       None \<Rightarrow> None
     | Some (r, s') \<Rightarrow> (case d s' of None \<Rightarrow> None | Some (_, s'') \<Rightarrow> Some (r, s'')))"

definition unless_moved :: "('s, 'x, 'a) prog \<Rightarrow> ('s, 'y, unit) prog \<Rightarrow> ('s, 'x, 'a) prog" where
  "unless_moved m d = (\<lambda>s. case m s of
       None \<Rightarrow> None
     | Some (r, s') \<Rightarrow>
         (case r of
            Ok a \<Rightarrow> Some (Ok a, s')
          | Err e \<Rightarrow> (case d s' of None \<Rightarrow> None | Some (_, s'') \<Rightarrow> Some (Err e, s''))
          | Panic p \<Rightarrow> (case d s' of None \<Rightarrow> None | Some (_, s'') \<Rightarrow> Some (Panic p, s''))))"

definition assert_that :: "bool \<Rightarrow> ('s, 'x, unit) prog" where
  "assert_that b = (if b then ret () else panic Assert_Failed)"

lemmas prog_defs = ret_def fail_def panic_def gets_def modify_def bindR_def andthen_def
  map_err_def attempt_def with_drop_def unless_moved_def assert_that_def

lemma ret_run [run_simps]: "ret a s = Some (Ok a, s)"
  by (simp add: ret_def)

lemma fail_run [run_simps]: "fail e s = Some (Err e, s)"
  by (simp add: fail_def)

lemma panic_run [run_simps]: "panic p s = Some (Panic p, s)"
  by (simp add: panic_def)

lemma gets_run [run_simps]: "gets f s = Some (Ok (f s), s)"
  by (simp add: gets_def)

lemma modify_run [run_simps]: "modify f s = Some (Ok (), f s)"
  by (simp add: modify_def)

lemma bindR_run [run_simps]:
  "m s = Some (Ok a, s') \<Longrightarrow> bindR m k s = k a s'"
  "m s = Some (Err e, s') \<Longrightarrow> bindR m k s = Some (Err e, s')"
  "m s = Some (Panic p, s') \<Longrightarrow> bindR m k s = Some (Panic p, s')"
  "m s = None \<Longrightarrow> bindR m k s = None"
  by (simp_all add: bindR_def)

lemma bindR_step: "m s = Some (Ok a, s') \<Longrightarrow> k a s' = x \<Longrightarrow> bindR m k s = x"
  by (simp add: bindR_def)

lemma andthen_run [run_simps]:
  "m s = Some (Ok a, s') \<Longrightarrow> andthen m k s = k s'"
  "m s = Some (Err e, s') \<Longrightarrow> andthen m k s = Some (Err e, s')"
  "m s = Some (Panic p, s') \<Longrightarrow> andthen m k s = Some (Panic p, s')"
  "m s = None \<Longrightarrow> andthen m k s = None"
  by (simp_all add: andthen_def run_simps)

lemma map_err_run [run_simps]:
  "m s = Some (Ok a, s') \<Longrightarrow> map_err f m s = Some (Ok a, s')"
  "m s = Some (Err e, s') \<Longrightarrow> map_err f m s = Some (Err (f e), s')"
  "m s = Some (Panic p, s') \<Longrightarrow> map_err f m s = Some (Panic p, s')"
  by (simp_all add: map_err_def)

lemma attempt_run [run_simps]:
  "m s = Some (Ok a, s') \<Longrightarrow> attempt m s = Some (Ok (Inr a), s')"
  "m s = Some (Err e, s') \<Longrightarrow> attempt m s = Some (Ok (Inl e), s')"
  "m s = Some (Panic p, s') \<Longrightarrow> attempt m s = Some (Panic p, s')"
  by (simp_all add: attempt_def)

lemma assert_that_run [run_simps]:
  "b \<Longrightarrow> assert_that b s = Some (Ok (), s)"
  "\<not> b \<Longrightarrow> assert_that b s = Some (Panic Assert_Failed, s)"
  by (simp_all add: assert_that_def run_simps)

lemma with_drop_run [run_simps]:
  "m s = Some (r, s') \<Longrightarrow> d s' = Some (q, s'') \<Longrightarrow> with_drop m d s = Some (r, s'')"
  by (simp add: with_drop_def)

text \<open>Inversion: what a composed program that returned must have done.\<close>

lemma bindR_cases:
  assumes "bindR m k s = Some (r, s')"
  obtains (Ok) a s1 where "m s = Some (Ok a, s1)" "k a s1 = Some (r, s')"
  | (Err) e where "m s = Some (Err e, s')" "r = Err e"
  | (Panic) p where "m s = Some (Panic p, s')" "r = Panic p"
  using assms by (auto simp: bindR_def split: option.splits prod.splits outcome.splits)

lemma bindR_OkD:
  assumes "bindR m k s = Some (Ok b, s')"
  obtains a s1 where "m s = Some (Ok a, s1)" "k a s1 = Some (Ok b, s')"
  using assms by (cases rule: bindR_cases) auto

lemma andthen_OkD:
  assumes "andthen m k s = Some (Ok b, s')"
  obtains a s1 where "m s = Some (Ok a, s1)" "k s1 = Some (Ok b, s')"
  using assms by (auto simp: andthen_def elim: bindR_OkD)

lemma bindR_ret [simp]: "bindR (ret a) k = k a"
  by (simp add: bindR_def ret_def)

lemma bindR_gets: "bindR (gets f) k s = k (f s) s"
  by (simp add: bindR_def gets_def)

lemma bindR_modify: "bindR (modify f) k s = k () (f s)"
  by (simp add: bindR_def modify_def)

lemma bindR_assoc: "bindR (bindR m k) h = bindR m (\<lambda>a. bindR (k a) h)"
  by (rule ext) (auto simp: bindR_def split: option.splits prod.splits outcome.splits)

text \<open>
  The monotonicity of the combinators, so that a loop may be written with them in a
  \<^theory_text>\<open>partial_function\<close>, and the congruences that keep the simplifier out of a
  continuation that is not due yet.
\<close>

lemma bindR_mono [partial_function_mono]:
  assumes "\<And>s. mono_option (\<lambda>f. m f s)" and "\<And>a s. mono_option (\<lambda>f. k a f s)"
  shows "mono_option (\<lambda>f. bindR (m f) (\<lambda>a. k a f) s)"
proof -
  have eq: "bindR (m f) (\<lambda>a. k a f) s =
      Option.bind (m f s) (\<lambda>rs. case fst rs of
          Ok a \<Rightarrow> k a f (snd rs) | Err e \<Rightarrow> Some (Err e, snd rs) | Panic p \<Rightarrow> Some (Panic p, snd rs))"
    for f by (auto simp: bindR_def split: option.splits prod.splits outcome.splits)
  have "mono_option (\<lambda>f. case fst rs of
          Ok a \<Rightarrow> k a f (snd rs) | Err e \<Rightarrow> Some (Err e, snd rs) | Panic p \<Rightarrow> Some (Panic p, snd rs))"
    for rs using assms(2) by (cases "fst rs") (simp_all add: option.const_mono)
  then show ?thesis unfolding eq by (intro bind_mono assms(1))
qed

lemma bindR_cong: "m = m' \<Longrightarrow> bindR m k = bindR m' k"
  by simp

lemma andthen_cong: "m = m' \<Longrightarrow> andthen m k = andthen m' k"
  by simp

lemma case_flow_mono [partial_function_mono]:
  assumes "\<And>c. mono_option (\<lambda>f. F f c s)" and "\<And>a. mono_option (\<lambda>f. G f a s)"
  shows "mono_option (\<lambda>f. (case x of Continue c \<Rightarrow> F f c | Break a \<Rightarrow> G f a) s)"
  using assms by (cases x) simp_all

section \<open>Loops\<close>

text \<open>
  \<open>loop { .. }\<close>: one round of the body, from the values of the variables it carries, either
  goes on with new values or leaves the loop with a result; an error or a panic leaves it
  too. A loop that never leaves is \<open>None\<close>.
\<close>

partial_function (option) loopR ::
  "('c \<Rightarrow> ('s, 'x, ('c, 'a) flow) prog) \<Rightarrow> 'c \<Rightarrow> 's \<Rightarrow> (('x, 'a) outcome \<times> 's) option" where
  "loopR body c s =
     bindR (body c) (\<lambda>x. case x of Continue c' \<Rightarrow> loopR body c' | Break a \<Rightarrow> ret a) s"

lemma loopR_run:
  "body c s = Some (Ok (Continue c'), s') \<Longrightarrow> loopR body c s = loopR body c' s'"
  "body c s = Some (Ok (Break a), s') \<Longrightarrow> loopR body c s = Some (Ok a, s')"
  "body c s = Some (Err e, s') \<Longrightarrow> loopR body c s = Some (Err e, s')"
  "body c s = Some (Panic p, s') \<Longrightarrow> loopR body c s = Some (Panic p, s')"
  "body c s = None \<Longrightarrow> loopR body c s = None"
  by (simp_all add: loopR.simps [of body c] bindR_def ret_def)

text \<open>Partial correctness: a relation that holds where the loop is left and goes back over a round.\<close>

lemma loopR_induct [consumes 1, case_names Break Err Panic Continue]:
  assumes ret: "loopR body c s = Some (r, s')"
    and brk: "\<And>c s a s'. body c s = Some (Ok (Break a), s') \<Longrightarrow> Q c s (Ok a) s'"
    and err: "\<And>c s e s'. body c s = Some (Err e, s') \<Longrightarrow> Q c s (Err e) s'"
    and pan: "\<And>c s p s'. body c s = Some (Panic p, s') \<Longrightarrow> Q c s (Panic p) s'"
    and cont: "\<And>c s c' s1 r s'. body c s = Some (Ok (Continue c'), s1) \<Longrightarrow> Q c' s1 r s' \<Longrightarrow> Q c s r s'"
  shows "Q c s r s'"
proof -
  have "b = body \<longrightarrow> Q c s (fst rs) (snd rs)" if "loopR b c s = Some rs" for b c s rs
  proof (rule loopR.raw_induct [where P = "\<lambda>b c s rs. b = body \<longrightarrow> Q c s (fst rs) (snd rs)", OF _ that],
      intro impI)
    fix f b c s rs
    assume IH: "\<And>b c s rs. f b c s = Some rs \<Longrightarrow> b = body \<longrightarrow> Q c s (fst rs) (snd rs)"
      and eq: "bindR (b c) (\<lambda>x. case x of Continue c' \<Rightarrow> f b c' | Break a \<Rightarrow> ret a) s = Some rs"
      and b: "b = body"
    obtain r t where rs: "rs = (r, t)" by (cases rs)
    from eq [unfolded rs b] show "Q c s (fst rs) (snd rs)"
    proof (cases rule: bindR_cases)
      case (Ok x s1)
      then show ?thesis
        using IH [of body _ s1 rs] brk cont rs by (cases x) (auto simp: ret_def)
    qed (use err pan rs in auto)
  qed
  from this [OF ret] show ?thesis by simp
qed

text \<open>Total correctness: an invariant under which every round returns and lowers a measure.\<close>

lemma loopR_returns:
  assumes "I c s"
    and "\<And>c s. I c s \<Longrightarrow> body c s \<noteq> None"
    and "\<And>c s c' s'. I c s \<Longrightarrow> body c s = Some (Ok (Continue c'), s') \<Longrightarrow> I c' s' \<and> \<mu> c' s' < (\<mu> c s :: nat)"
  shows "\<exists>r s'. loopR body c s = Some (r, s')"
  using assms(1)
proof (induction "\<mu> c s" arbitrary: c s rule: less_induct)
  case less
  from assms(2) [OF less.prems] obtain r s' where b: "body c s = Some (r, s')" by auto
  show ?case
  proof (cases r)
    case (Ok x)
    with b less assms(3) [OF less.prems] show ?thesis
      by (cases x) (auto simp: loopR_run)
  qed (use b in \<open>auto simp: loopR_run\<close>)
qed

text \<open>A loop with an invariant under which every round goes on never returns.\<close>

lemma loopR_diverges:
  assumes "I c s" and "\<And>c s. I c s \<Longrightarrow> \<exists>c' s'. body c s = Some (Ok (Continue c'), s') \<and> I c' s'"
  shows "loopR body c s = None"
proof -
  have "I c s \<longrightarrow> False" if "loopR body c s = Some (r, s')" for r s'
    using that by (induction rule: loopR_induct) (use assms(2) in fastforce)+
  with assms(1) show ?thesis by (metis not_None_eq prod.exhaust)
qed

section \<open>Checked and wrapping arithmetic\<close>

text \<open>\<open>a + b\<close> and \<open>a * b\<close> on \<open>u32\<close> under \<open>overflow-checks = true\<close>.\<close>

definition add32 :: "u32 \<Rightarrow> u32 \<Rightarrow> ('s, 'x, u32) prog" where
  "add32 a b = (if unat a + unat b < 2 ^ 32 then ret (a + b) else panic Arith_Overflow)"

definition mul32 :: "u32 \<Rightarrow> u32 \<Rightarrow> ('s, 'x, u32) prog" where
  "mul32 a b = (if unat a * unat b < 2 ^ 32 then ret (a * b) else panic Arith_Overflow)"

text \<open>\<open>u64::checked_mul\<close> and \<open>u64::checked_add\<close>.\<close>

definition checked_mul64 :: "u64 \<Rightarrow> u64 \<Rightarrow> u64 option" where
  "checked_mul64 a b = (if unat a * unat b < 2 ^ 64 then Some (a * b) else None)"

definition checked_add64 :: "u64 \<Rightarrow> u64 \<Rightarrow> u64 option" where
  "checked_add64 a b = (if unat a + unat b < 2 ^ 64 then Some (a + b) else None)"

definition u32_max :: u32 where
  "u32_max = 4294967295"

lemma unat_add_less: "unat (a :: 'a::len word) + unat b < 2 ^ LENGTH('a) \<Longrightarrow> unat (a + b) = unat a + unat b"
  by (simp add: unat_word_ariths)

lemma add32_run [run_simps]:
  "unat a + unat b < 2 ^ 32 \<Longrightarrow> add32 a b s = Some (Ok (a + b), s)"
  "\<not> unat a + unat b < 2 ^ 32 \<Longrightarrow> add32 a b s = Some (Panic Arith_Overflow, s)"
  by (simp_all add: add32_def run_simps)

lemma mul32_run [run_simps]:
  "unat a * unat b < 2 ^ 32 \<Longrightarrow> mul32 a b s = Some (Ok (a * b), s)"
  "\<not> unat a * unat b < 2 ^ 32 \<Longrightarrow> mul32 a b s = Some (Panic Arith_Overflow, s)"
  by (simp_all add: mul32_def run_simps)

lemma unat_u32_max [simp]: "unat u32_max = 4294967295"
  by (simp add: u32_max_def)

lemma checked_mul64_Some: "checked_mul64 a b = Some c \<longleftrightarrow> unat a * unat b < 2 ^ 64 \<and> c = a * b"
  by (auto simp: checked_mul64_def)

lemma unat_mul_less: "unat (a :: 'a::len word) * unat b < 2 ^ LENGTH('a) \<Longrightarrow> unat (a * b) = unat a * unat b"
  by (simp add: unat_word_ariths)

lemma unat_less_2p32 [simp]: "unat (a :: u32) < 4294967296"
  using unsigned_less [of a] by simp

section \<open>What a program keeps, and how it can end\<close>

text \<open>
  \<open>keeps f m\<close>: whatever way \<open>m\<close> returns, \<open>f\<close> reads the same before and after.
  \<open>errs m E\<close> and \<open>panics m Q\<close>: every error of \<open>m\<close> satisfies \<open>E\<close>, every panic \<open>Q\<close>.
  \<open>returns m\<close>: \<open>m\<close> returns from every state. The introduction rules follow the structure of the program.
\<close>

named_theorems keeps_intros \<open>rules for keeps\<close>
named_theorems errs_intros \<open>rules for errs\<close>
named_theorems panics_intros \<open>rules for panics\<close>
named_theorems returns_intros \<open>rules for returns\<close>

definition keeps :: "('s \<Rightarrow> 'b) \<Rightarrow> ('s, 'x, 'a) prog \<Rightarrow> bool" where
  "keeps f m \<longleftrightarrow> (\<forall>s r s'. m s = Some (r, s') \<longrightarrow> f s' = f s)"

definition errs :: "('s, 'x, 'a) prog \<Rightarrow> ('x \<Rightarrow> bool) \<Rightarrow> bool" where
  "errs m E \<longleftrightarrow> (\<forall>s e s'. m s = Some (Err e, s') \<longrightarrow> E e)"

definition panics :: "('s, 'x, 'a) prog \<Rightarrow> (panic \<Rightarrow> bool) \<Rightarrow> bool" where
  "panics m Q \<longleftrightarrow> (\<forall>s p s'. m s = Some (Panic p, s') \<longrightarrow> Q p)"

definition returns :: "('s, 'x, 'a) prog \<Rightarrow> bool" where
  "returns m \<longleftrightarrow> (\<forall>s. m s \<noteq> None)"

lemma keepsI: "(\<And>s r s'. m s = Some (r, s') \<Longrightarrow> f s' = f s) \<Longrightarrow> keeps f m"
  by (simp add: keeps_def)

lemma keepsD: "keeps f m \<Longrightarrow> m s = Some (r, s') \<Longrightarrow> f s' = f s"
  by (simp add: keeps_def)

lemma errsI: "(\<And>s e s'. m s = Some (Err e, s') \<Longrightarrow> E e) \<Longrightarrow> errs m E"
  by (auto simp: errs_def)

lemma errsD: "errs m E \<Longrightarrow> m s = Some (Err e, s') \<Longrightarrow> E e"
  by (auto simp: errs_def)

lemma panicsI: "(\<And>s p s'. m s = Some (Panic p, s') \<Longrightarrow> Q p) \<Longrightarrow> panics m Q"
  by (auto simp: panics_def)

lemma panicsD: "panics m Q \<Longrightarrow> m s = Some (Panic p, s') \<Longrightarrow> Q p"
  by (auto simp: panics_def)

lemma returnsI: "(\<And>s. \<exists>r s'. m s = Some (r, s')) \<Longrightarrow> returns m"
  by (simp add: returns_def)

lemma returnsD: "returns m \<Longrightarrow> \<exists>r s'. m s = Some (r, s')"
  by (auto simp: returns_def)

lemma keeps_basic [keeps_intros]:
  "keeps f (ret a)" "keeps f (fail e)" "keeps f (panic p)" "keeps f (gets g)"
  "keeps f (add32 x y)" "keeps f (mul32 x y)" "keeps f (assert_that b)"
  by (auto simp: keeps_def prog_defs add32_def mul32_def split: if_splits)

lemma keeps_modify [keeps_intros]: "(\<And>s. f (g s) = f s) \<Longrightarrow> keeps f (modify g)"
  by (simp add: keeps_def modify_def)

lemma keeps_bindR [keeps_intros]:
  assumes "keeps f m" and "\<And>a. keeps f (k a)"
  shows "keeps f (bindR m k)"
  by (rule keepsI, erule bindR_cases) (metis keepsD [OF assms(1)] keepsD [OF assms(2)])+

lemma keeps_andthen [keeps_intros]: "keeps f m \<Longrightarrow> keeps f k \<Longrightarrow> keeps f (andthen m k)"
  unfolding andthen_def by (rule keeps_bindR)

lemma keeps_map_err [keeps_intros]: "keeps f m \<Longrightarrow> keeps f (map_err h m)"
  by (auto simp: keeps_def map_err_def split: option.splits prod.splits)

lemma keeps_attempt [keeps_intros]: "keeps f m \<Longrightarrow> keeps f (attempt m)"
  by (auto simp: keeps_def attempt_def split: option.splits prod.splits)

lemma keeps_with_drop [keeps_intros]: "keeps f m \<Longrightarrow> keeps f d \<Longrightarrow> keeps f (with_drop m d)"
  by (fastforce simp: keeps_def with_drop_def split: option.splits prod.splits)

lemma keeps_unless_moved [keeps_intros]: "keeps f m \<Longrightarrow> keeps f d \<Longrightarrow> keeps f (unless_moved m d)"
  by (fastforce simp: keeps_def unless_moved_def split: option.splits prod.splits outcome.splits)

lemma keeps_if [keeps_intros]: "(c \<Longrightarrow> keeps f m) \<Longrightarrow> (\<not> c \<Longrightarrow> keeps f k) \<Longrightarrow> keeps f (if c then m else k)"
  by simp

lemma keeps_option [keeps_intros]:
  "(x = None \<Longrightarrow> keeps f m) \<Longrightarrow> (\<And>a. x = Some a \<Longrightarrow> keeps f (k a)) \<Longrightarrow>
     keeps f (case x of None \<Rightarrow> m | Some a \<Rightarrow> k a)"
  by (cases x) simp_all

lemma keeps_sum [keeps_intros]:
  "(\<And>a. x = Inl a \<Longrightarrow> keeps f (m a)) \<Longrightarrow> (\<And>b. x = Inr b \<Longrightarrow> keeps f (k b)) \<Longrightarrow>
     keeps f (case x of Inl a \<Rightarrow> m a | Inr b \<Rightarrow> k b)"
  by (cases x) simp_all

lemma keeps_prod [keeps_intros]: "(\<And>a b. keeps f (m a b)) \<Longrightarrow> keeps f (case x of (a, b) \<Rightarrow> m a b)"
  by (cases x) simp

lemma keeps_loopR [keeps_intros]:
  assumes "\<And>c. keeps f (body c)"
  shows "keeps f (loopR body c)"
proof (rule keepsI)
  fix s r s'
  assume "loopR body c s = Some (r, s')"
  then show "f s' = f s"
    by (induction rule: loopR_induct) (auto dest: keepsD [OF assms])
qed

lemma keeps_let [keeps_intros]: "keeps f (m x) \<Longrightarrow> keeps f (let y = x in m y)"
  by simp

lemma errs_basic [errs_intros]:
  "errs (ret a) E" "E e \<Longrightarrow> errs (fail e) E" "errs (panic p) E" "errs (gets g) E" "errs (modify h) E"
  "errs (add32 x y) E" "errs (mul32 x y) E" "errs (assert_that b) E" "errs (attempt m) E"
  by (auto simp: errs_def prog_defs add32_def mul32_def
      split: if_splits option.splits prod.splits outcome.splits)

lemma errs_bindR [errs_intros]: "errs m E \<Longrightarrow> (\<And>a. errs (k a) E) \<Longrightarrow> errs (bindR m k) E"
  by (rule errsI, erule bindR_cases) (auto dest: errsD)

lemma errs_andthen [errs_intros]: "errs m E \<Longrightarrow> errs k E \<Longrightarrow> errs (andthen m k) E"
  unfolding andthen_def by (rule errs_bindR)

lemma errs_loopR [errs_intros]:
  assumes "\<And>c. errs (body c) E"
  shows "errs (loopR body c) E"
proof -
  have "loopR body c s = Some (r, s') \<Longrightarrow> r = Err e \<longrightarrow> E e" for s r s' e
    by (induction rule: loopR_induct) (auto dest: errsD [OF assms])
  then show ?thesis by (auto simp: errs_def)
qed

lemma errs_if [errs_intros]: "(c \<Longrightarrow> errs m E) \<Longrightarrow> (\<not> c \<Longrightarrow> errs k E) \<Longrightarrow> errs (if c then m else k) E"
  by simp

lemma errs_option [errs_intros]:
  "(x = None \<Longrightarrow> errs m E) \<Longrightarrow> (\<And>a. x = Some a \<Longrightarrow> errs (k a) E) \<Longrightarrow>
     errs (case x of None \<Rightarrow> m | Some a \<Rightarrow> k a) E"
  by (cases x) simp_all

lemma errs_sum [errs_intros]:
  "(\<And>a. x = Inl a \<Longrightarrow> errs (m a) E) \<Longrightarrow> (\<And>b. x = Inr b \<Longrightarrow> errs (k b) E) \<Longrightarrow>
     errs (case x of Inl a \<Rightarrow> m a | Inr b \<Rightarrow> k b) E"
  by (cases x) simp_all

lemma errs_prod [errs_intros]: "(\<And>a b. errs (m a b) E) \<Longrightarrow> errs (case x of (a, b) \<Rightarrow> m a b) E"
  by (cases x) simp

lemma errs_let [errs_intros]: "errs (m x) E \<Longrightarrow> errs (let y = x in m y) E"
  by simp

lemma errs_map_err [errs_intros]: "errs m (\<lambda>e. E (h e)) \<Longrightarrow> errs (map_err h m) E"
  by (auto simp: errs_def map_err_def split: option.splits prod.splits outcome.splits)

lemma errs_with_drop [errs_intros]: "errs m E \<Longrightarrow> errs (with_drop m d) E"
  by (fastforce simp: errs_def with_drop_def split: option.splits prod.splits)

lemma errs_unless_moved [errs_intros]: "errs m E \<Longrightarrow> errs (unless_moved m d) E"
  by (fastforce simp: errs_def unless_moved_def split: option.splits prod.splits outcome.splits)

lemma panics_basic [panics_intros]:
  "panics (ret a) E" "panics (fail e) E" "E p \<Longrightarrow> panics (panic p) E" "panics (gets g) E"
  "panics (modify h) E" "E Arith_Overflow \<Longrightarrow> panics (add32 x y) E"
  "E Arith_Overflow \<Longrightarrow> panics (mul32 x y) E" "E Assert_Failed \<Longrightarrow> panics (assert_that b) E"
  by (auto simp: panics_def prog_defs add32_def mul32_def split: if_splits)

lemma panics_bindR [panics_intros]: "panics m E \<Longrightarrow> (\<And>a. panics (k a) E) \<Longrightarrow> panics (bindR m k) E"
  by (rule panicsI, erule bindR_cases) (auto dest: panicsD)

lemma panics_andthen [panics_intros]: "panics m E \<Longrightarrow> panics k E \<Longrightarrow> panics (andthen m k) E"
  unfolding andthen_def by (rule panics_bindR)

lemma panics_loopR [panics_intros]:
  assumes "\<And>c. panics (body c) E"
  shows "panics (loopR body c) E"
proof -
  have "loopR body c s = Some (r, s') \<Longrightarrow> r = Panic e \<longrightarrow> E e" for s r s' e
    by (induction rule: loopR_induct) (auto dest: panicsD [OF assms])
  then show ?thesis by (auto simp: panics_def)
qed

lemma panics_if [panics_intros]: "(c \<Longrightarrow> panics m E) \<Longrightarrow> (\<not> c \<Longrightarrow> panics k E) \<Longrightarrow> panics (if c then m else k) E"
  by simp

lemma panics_option [panics_intros]:
  "(x = None \<Longrightarrow> panics m E) \<Longrightarrow> (\<And>a. x = Some a \<Longrightarrow> panics (k a) E) \<Longrightarrow>
     panics (case x of None \<Rightarrow> m | Some a \<Rightarrow> k a) E"
  by (cases x) simp_all

lemma panics_sum [panics_intros]:
  "(\<And>a. x = Inl a \<Longrightarrow> panics (m a) E) \<Longrightarrow> (\<And>b. x = Inr b \<Longrightarrow> panics (k b) E) \<Longrightarrow>
     panics (case x of Inl a \<Rightarrow> m a | Inr b \<Rightarrow> k b) E"
  by (cases x) simp_all

lemma panics_prod [panics_intros]: "(\<And>a b. panics (m a b) E) \<Longrightarrow> panics (case x of (a, b) \<Rightarrow> m a b) E"
  by (cases x) simp

lemma panics_let [panics_intros]: "panics (m x) E \<Longrightarrow> panics (let y = x in m y) E"
  by simp

lemma panics_map_err [panics_intros]: "panics m Q \<Longrightarrow> panics (map_err h m) Q"
  by (auto simp: panics_def map_err_def split: option.splits prod.splits outcome.splits)

lemma panics_attempt [panics_intros]: "panics m Q \<Longrightarrow> panics (attempt m) Q"
  by (auto simp: panics_def attempt_def split: option.splits prod.splits outcome.splits)

lemma panics_with_drop [panics_intros]: "panics m Q \<Longrightarrow> panics (with_drop m d) Q"
  by (fastforce simp: panics_def with_drop_def split: option.splits prod.splits)

lemma panics_unless_moved [panics_intros]: "panics m Q \<Longrightarrow> panics (unless_moved m d) Q"
  by (fastforce simp: panics_def unless_moved_def split: option.splits prod.splits outcome.splits)

text \<open>
  An outcome that \<open>m\<close> cannot have itself must come from what follows \<open>m\<close>.
\<close>

lemma bindR_pass:
  assumes "bindR m k s = Some (r, s')" and "errs m (\<lambda>e. r \<noteq> Err e)" and "\<And>p. r \<noteq> Panic p"
  obtains a s1 where "m s = Some (Ok a, s1)" "k a s1 = Some (r, s')"
  using assms(1)
  by (cases rule: bindR_cases) (use assms(2,3) in \<open>auto simp: errs_def intro: that\<close>)

text \<open>
  \<open>adds \<mu> m n e\<close>: \<open>m\<close> changes the balance \<open>\<mu>\<close> by \<open>n\<close> when it succeeds and by \<open>e\<close> when it
  fails or panics.
\<close>

definition adds :: "('s \<Rightarrow> int) \<Rightarrow> ('s, 'x, 'a) prog \<Rightarrow> int \<Rightarrow> int \<Rightarrow> bool" where
  "adds \<mu> m n e \<longleftrightarrow>
     (\<forall>s r s'. m s = Some (r, s') \<longrightarrow> \<mu> s' = \<mu> s + (case r of Ok _ \<Rightarrow> n | _ \<Rightarrow> e))"

lemma addsI:
  "(\<And>s r s'. m s = Some (r, s') \<Longrightarrow> \<mu> s' = \<mu> s + (case r of Ok _ \<Rightarrow> n | _ \<Rightarrow> e)) \<Longrightarrow> adds \<mu> m n e"
  by (simp add: adds_def)

lemma addsD: "adds \<mu> m n e \<Longrightarrow> m s = Some (r, s') \<Longrightarrow> \<mu> s' = \<mu> s + (case r of Ok _ \<Rightarrow> n | _ \<Rightarrow> e)"
  by (simp add: adds_def)

lemma adds_keeps: "keeps \<mu> m \<Longrightarrow> adds \<mu> m 0 0"
  by (auto simp: adds_def keeps_def split: outcome.splits)

lemma adds_bindR:
  assumes m: "adds \<mu> m n1 e" and k: "\<And>a. adds \<mu> (k a) n2 e2" and "n1 + n2 = n" and "n1 + e2 = e"
  shows "adds \<mu> (bindR m k) n e"
proof (rule addsI, erule bindR_cases)
  fix s r s' a s1
  assume "m s = Some (Ok a, s1)" and "k a s1 = Some (r, s')"
  from addsD [OF m this(1)] addsD [OF k this(2)] assms(3,4)
  show "\<mu> s' = \<mu> s + (case r of Ok _ \<Rightarrow> n | _ \<Rightarrow> e)"
    by (auto split: outcome.splits)
qed (auto dest: addsD [OF m])

lemma adds_after_keeps: "keeps \<mu> m \<Longrightarrow> (\<And>a. adds \<mu> (k a) n 0) \<Longrightarrow> adds \<mu> (bindR m k) n 0"
  by (rule adds_bindR [OF adds_keeps]) simp_all

lemma adds_gets_ret: "adds \<mu> (bindR (gets f) (\<lambda>a. ret (F a))) 0 e"
  by (simp add: adds_def bindR_def gets_def ret_def)

lemma adds_map_err: "adds \<mu> m n e \<Longrightarrow> adds \<mu> (map_err h m) n e"
  by (fastforce simp: adds_def map_err_def split: option.splits prod.splits outcome.splits)

lemma adds_attempt: "adds \<mu> m n n \<Longrightarrow> adds \<mu> (attempt m) n n"
  by (fastforce simp: adds_def attempt_def split: option.splits prod.splits outcome.splits)

lemma adds_with_drop: "adds \<mu> m n e \<Longrightarrow> adds \<mu> d x x \<Longrightarrow> adds \<mu> (with_drop m d) (n + x) (e + x)"
  by (fastforce simp: adds_def with_drop_def split: option.splits prod.splits outcome.splits)

lemma adds_unless_moved: "adds \<mu> m n e \<Longrightarrow> adds \<mu> d x x \<Longrightarrow> adds \<mu> (unless_moved m d) n (e + x)"
  by (fastforce simp: adds_def unless_moved_def split: option.splits prod.splits outcome.splits)

lemma returns_basic [returns_intros]:
  "returns (ret a)" "returns (fail e)" "returns (panic p)" "returns (gets g)" "returns (modify h)"
  "returns (add32 x y)" "returns (mul32 x y)" "returns (assert_that b)"
  by (auto simp: returns_def prog_defs add32_def mul32_def)

lemma returns_bindR [returns_intros]:
  "returns m \<Longrightarrow> (\<And>a. returns (k a)) \<Longrightarrow> returns (bindR m k)"
  by (auto simp: returns_def bindR_def split: option.splits prod.splits outcome.splits)

lemma returns_andthen [returns_intros]: "returns m \<Longrightarrow> returns k \<Longrightarrow> returns (andthen m k)"
  unfolding andthen_def by (rule returns_bindR)

lemma returns_map_err [returns_intros]: "returns m \<Longrightarrow> returns (map_err h m)"
  by (auto simp: returns_def map_err_def split: option.splits prod.splits)

lemma returns_attempt [returns_intros]: "returns m \<Longrightarrow> returns (attempt m)"
  by (auto simp: returns_def attempt_def split: option.splits prod.splits)

lemma returns_with_drop [returns_intros]: "returns m \<Longrightarrow> returns d \<Longrightarrow> returns (with_drop m d)"
  by (auto simp: returns_def with_drop_def simp del: not_None_eq split: option.splits prod.splits)

lemma returns_unless_moved [returns_intros]: "returns m \<Longrightarrow> returns d \<Longrightarrow> returns (unless_moved m d)"
  by (auto simp: returns_def unless_moved_def simp del: not_None_eq
      split: option.splits prod.splits outcome.splits)

lemma returns_if [returns_intros]:
  "(c \<Longrightarrow> returns m) \<Longrightarrow> (\<not> c \<Longrightarrow> returns k) \<Longrightarrow> returns (if c then m else k)"
  by simp

lemma returns_option [returns_intros]:
  "returns m \<Longrightarrow> (\<And>a. returns (k a)) \<Longrightarrow> returns (case x of None \<Rightarrow> m | Some a \<Rightarrow> k a)"
  by (cases x) simp_all

section \<open>Formatting and parsing\<close>

text \<open>\<open>format!("{}", n)\<close> for an unsigned and a signed integer.\<close>

definition digit_char :: "nat \<Rightarrow> char" where
  "digit_char d = char_of (48 + d)"

fun show_nat :: "nat \<Rightarrow> string" where
  "show_nat n = (if n < 10 then [digit_char n] else show_nat (n div 10) @ [digit_char (n mod 10)])"

declare show_nat.simps [simp del]

definition show_i32 :: "u32 \<Rightarrow> string" where
  "show_i32 w = (if sint w < 0 then ''-'' @ show_nat (nat (- sint w)) else show_nat (nat (sint w)))"

text \<open>\<open>{:02x}\<close> of a byte and \<open>{:02x?}\<close> of a slice of bytes.\<close>

definition hex_digit :: "nat \<Rightarrow> char" where
  "hex_digit d = (if d < 10 then char_of (48 + d) else char_of (87 + d))"

definition hex02 :: "u8 \<Rightarrow> string" where
  "hex02 b = [hex_digit (unat b div 16), hex_digit (unat b mod 16)]"

fun hex02_elems :: "u8 list \<Rightarrow> string" where
  "hex02_elems [] = ''''"
| "hex02_elems [b] = hex02 b"
| "hex02_elems (b # bs) = hex02 b @ '', '' @ hex02_elems bs"

definition hex02_slice :: "u8 list \<Rightarrow> string" where
  "hex02_slice bs = ''['' @ hex02_elems bs @ '']''"

text \<open>
  \<open>str::parse::<u32>\<close>: one optional leading \<open>+\<close>, then at least one digit, and no overflow
  on the way.
\<close>

definition digit_val :: "char \<Rightarrow> nat option" where
  "digit_val c = (let n = of_char c :: nat in if 48 \<le> n \<and> n \<le> 57 then Some (n - 48) else None)"

fun parse_digits :: "nat \<Rightarrow> string \<Rightarrow> u32 option" where
  "parse_digits acc [] = Some (of_nat acc)"
| "parse_digits acc (c # cs) =
     (case digit_val c of
        None \<Rightarrow> None
      | Some d \<Rightarrow> if acc * 10 + d < 2 ^ 32 then parse_digits (acc * 10 + d) cs else None)"

definition parse_u32 :: "string \<Rightarrow> u32 option" where
  "parse_u32 s = (let t = (case s of c # cs \<Rightarrow> if c = CHR ''+'' then cs else s | [] \<Rightarrow> [])
     in if t = [] then None else parse_digits 0 t)"

lemma digit_val_digit_char [simp]: "d < 10 \<Longrightarrow> digit_val (digit_char d) = Some d"
  by (simp add: digit_val_def digit_char_def Let_def)

lemma show_nat_not_Nil [simp]: "show_nat n \<noteq> []"
  by (subst show_nat.simps) simp

lemma parse_digits_append:
  "parse_digits acc (xs @ ys) =
     (case parse_digits acc xs of None \<Rightarrow> None | Some v \<Rightarrow> parse_digits (unat v) ys)"
  if "acc < 2 ^ 32"
  using that
proof (induction xs arbitrary: acc)
  case Nil
  then show ?case by (simp add: unat_of_nat take_bit_nat_eq_self)
next
  case (Cons x xs)
  then show ?case by (auto split: option.splits)
qed

lemma parse_digits_show_nat: "n < 2 ^ 32 \<Longrightarrow> parse_digits 0 (show_nat n) = Some (of_nat n)"
proof (induction n rule: show_nat.induct)
  case (1 n)
  show ?case
  proof (cases "n < 10")
    case True
    then show ?thesis by (simp add: show_nat.simps [of n])
  next
    case False
    with 1 have "parse_digits 0 (show_nat (n div 10)) = Some (of_nat (n div 10))" by simp
    with False 1(2) show ?thesis
      by (simp add: show_nat.simps [of n] parse_digits_append unat_of_nat take_bit_nat_eq_self)
  qed
qed

lemma hd_show_nat: "\<exists>d < 10. hd (show_nat n) = digit_char d"
proof (induction n rule: show_nat.induct)
  case (1 n)
  then show ?case by (cases "n < 10") (auto simp: show_nat.simps [of n])
qed

lemma digit_char_neq_plus: "d < 10 \<Longrightarrow> digit_char d \<noteq> CHR ''+''"
proof
  assume "d < 10" and "digit_char d = CHR ''+''"
  then have "digit_val (CHR ''+'') = Some d" using digit_val_digit_char by metis
  then show False by (simp add: digit_val_def)
qed

lemma parse_show_nat: "n < 2 ^ 32 \<Longrightarrow> parse_u32 (show_nat n) = Some (of_nat n)"
proof -
  assume n: "n < 2 ^ 32"
  obtain c cs where s: "show_nat n = c # cs" by (cases "show_nat n") auto
  with hd_show_nat [of n] have "c \<noteq> CHR ''+''" using digit_char_neq_plus by auto
  with s show ?thesis using parse_digits_show_nat [OF n] by (simp add: parse_u32_def)
qed

end
