(* ===== verification/Pigpio.thy ===== *)
theory Pigpio
  imports Prelude
begin

text \<open>
  The crate \<open>hardware/pigpio-rust\<close> (\<open>src/lib.rs\<close>): the safe wrapper over the C library
  \<open>pigpio\<close>. The C library is a git submodule that the repository does not hold, so it is the
  parameter \<open>P\<close> of every definition: one transition function on a device state of unknown
  type, and the constants the linked module exports. Each foreign call is a value of
  \<open>gpio_call\<close>; the state keeps the log of the calls made with their results, in order.
\<close>

section \<open>Foreign calls, devices, the world\<close>

datatype gpio_call =
    GpioCfgInterfaces u32
  | GpioInitialise
  | GpioTick
  | GpioDelay u32
  | GpioSerialReadOpen u32 u32 u32
  | GpioSerialReadClose u32
  | GpioSerialRead u32 nat
  | GpioWaveAddNew
  | GpioWaveAddSerial u32 u32 u32 u32 u32 u32 "u8 list"
  | GpioWaveCreate
  | GpioWaveDelete u32
  | GpioWaveTxBusy
  | GpioWaveTxSend u32 u32
  | GpioWaveTxStop
  | GpioSetMode u32 u32
  | GpioWrite u32 u32

text \<open>
  The C functions return a 32-bit value (\<open>i32\<close>, or \<open>u32\<close> for \<open>gpioTick\<close> and
  \<open>gpioDelay\<close>); \<open>gpioSerialRead\<close> also writes bytes into the buffer it is given.
\<close>

record 'd pigpio =
  pg_call :: "gpio_call \<Rightarrow> 'd \<Rightarrow> u32 \<times> u8 list \<times> 'd"
  PI_INPUT :: u32
  PI_OUTPUT :: u32
  PI_WAVE_MODE_ONE_SHOT_SYNC :: u32
  PI_DISABLE_FIFO_IF :: u32
  PI_DISABLE_SOCK_IF :: u32

record event =
  ev_call :: gpio_call
  ev_rc :: u32
  ev_bytes :: "u8 list"

text \<open>
  \<open>wait_step_var\<close> is the environment variable \<open>iodin_mdb_wait_step\<close> (\<open>None\<close> when
  \<open>std::env::var\<close> fails), \<open>stack_junk\<close> the bytes that
  \<open>std::mem::uninitialized()\<close> happens to give, \<open>debug_on\<close> whether the logger takes
  \<open>debug!\<close> records (their arguments are evaluated only then).
\<close>

record 'd world =
  dev :: 'd
  ffi_log :: "event list"
  wait_step_var :: "string option"
  stack_junk :: "nat \<Rightarrow> u8"
  debug_on :: bool

definition ffi :: "'d pigpio \<Rightarrow> gpio_call \<Rightarrow> (('d, 'z) world_scheme, 'x, u32 \<times> u8 list) prog" where
  "ffi P c = (\<lambda>w. case pg_call P c (dev w) of (rc, bs, d) \<Rightarrow>
     Some (Ok (rc, bs), w\<lparr>dev := d, ffi_log := ffi_log w @ [\<lparr>ev_call = c, ev_rc = rc, ev_bytes = bs\<rparr>]\<rparr>))"

definition ffi_rc :: "'d pigpio \<Rightarrow> gpio_call \<Rightarrow> (('d, 'z) world_scheme, 'x, u32) prog" where
  "ffi_rc P c = bindR (ffi P c) (\<lambda>r. ret (fst r))"

section \<open>The functions of lib.rs\<close>

text \<open>\<open>std::io::Error\<close>, with the two kinds the crate makes.\<close>

datatype io_kind = Other | Timed_Out

record io_error =
  io_kind :: io_kind
  io_msg :: string

definition is_neg :: "u32 \<Rightarrow> bool" where
  "is_neg rc \<longleftrightarrow> sint rc < 0"

lemma is_neg_simps [simp]: "\<not> is_neg 0" "\<not> is_neg 1" "is_neg (- 1)"
  by (simp_all add: is_neg_def)

lemma not_is_neg: "unat rc < 2 ^ 31 \<Longrightarrow> \<not> is_neg rc"
proof -
  assume "unat rc < 2 ^ 31"
  then have "nat (uint rc) < 2 ^ 31" by (simp only: unat_eq_nat_uint)
  then have "uint rc < int (2 ^ 31)" by (simp only: nat_less_iff [OF unsigned_greater_eq])
  then have "uint rc < 2 ^ 31" by simp
  moreover have "- (2 ^ 31) \<le> uint rc" by (rule order_trans [of _ 0]) simp_all
  ultimately have "signed_take_bit 31 (uint rc) = uint rc" by (intro signed_take_bit_int_eq_self)
  then show ?thesis by (simp add: is_neg_def sint_uint)
qed

definition check :: "u32 \<Rightarrow> ('s, io_error, u32) prog" where
  "check rc = (if is_neg rc
     then fail \<lparr>io_kind = Other, io_msg = ''pigpio err='' @ show_i32 rc\<rparr>
     else ret rc)"

text \<open>\<open>check(unsafe { c(..) })\<close>\<close>

definition check_ffi :: "'d pigpio \<Rightarrow> gpio_call \<Rightarrow> (('d, 'z) world_scheme, io_error, u32) prog" where
  "check_ffi P c = bindR (ffi_rc P c) check"

definition init :: "'d pigpio \<Rightarrow> u32 \<Rightarrow> (('d, 'z) world_scheme, io_error, unit) prog" where
  "init P flag_interfaces =
     bindR (check_ffi P (GpioCfgInterfaces flag_interfaces)) (\<lambda>_.
     bindR (check_ffi P GpioInitialise) (\<lambda>_.
     ret ()))"

definition wave_tx_busy :: "'d pigpio \<Rightarrow> (('d, 'z) world_scheme, io_error, bool) prog" where
  "wave_tx_busy P = bindR (check_ffi P GpioWaveTxBusy) (\<lambda>rc. ret (rc = 1))"

text \<open>One round of the loop of \<open>wave_busy_wait\<close>, with the sum so far: \<open>total +=\<close> is checked.\<close>

definition wave_busy_round ::
  "'d pigpio \<Rightarrow> u32 \<Rightarrow> u32 \<Rightarrow> string \<Rightarrow> u32 \<Rightarrow> (('d, 'z) world_scheme, io_error, (u32, u32) flow) prog" where
  "wave_busy_round P delay_step timeout err tot =
     bindR (bindR (ffi_rc P (GpioDelay delay_step)) (add32 tot)) (\<lambda>tot.
     bindR (wave_tx_busy P) (\<lambda>busy.
     if \<not> busy then ret (Break tot)
     else if tot > timeout then fail \<lparr>io_kind = Timed_Out, io_msg = err\<rparr>
     else ret (Continue tot)))"

definition wave_busy_wait ::
  "'d pigpio \<Rightarrow> u32 \<Rightarrow> u32 \<Rightarrow> string \<Rightarrow> (('d, 'z) world_scheme, io_error, u32) prog" where
  "wave_busy_wait P delay_step timeout err = loopR (wave_busy_round P delay_step timeout err) 0"

definition tick_since :: "'d pigpio \<Rightarrow> u32 \<Rightarrow> (('d, 'z) world_scheme, 'x, u32) prog" where
  "tick_since P start = bindR (ffi_rc P GpioTick) (\<lambda>end. ret (end - start))"

datatype wave = Wave (wave_id: u32)

definition new_serial ::
  "'d pigpio \<Rightarrow> u32 \<Rightarrow> u32 \<Rightarrow> u32 \<Rightarrow> u32 \<Rightarrow> u32 \<Rightarrow> u8 list
     \<Rightarrow> (('d, 'z) world_scheme, io_error, wave) prog" where
  "new_serial P tx baud data_bits stop_bits offset s =
     bindR (check_ffi P GpioWaveAddNew) (\<lambda>_.
     bindR (check_ffi P (GpioWaveAddSerial tx baud data_bits stop_bits offset (of_nat (length s)) s)) (\<lambda>_.
     bindR (check_ffi P GpioWaveCreate) (\<lambda>wid.
     ret (Wave wid))))"

definition from_id :: "u32 \<Rightarrow> wave" where
  "from_id i = Wave i"

definition wave_send :: "'d pigpio \<Rightarrow> wave \<Rightarrow> u32 \<Rightarrow> (('d, 'z) world_scheme, io_error, unit) prog" where
  "wave_send P v mode = bindR (check_ffi P (GpioWaveTxSend (wave_id v) mode)) (\<lambda>_. ret ())"

text \<open>\<open>impl Drop for Wave\<close>: the result of the call is ignored.\<close>

definition wave_drop :: "'d pigpio \<Rightarrow> wave \<Rightarrow> (('d, 'z) world_scheme, io_error, unit) prog" where
  "wave_drop P v = bindR (ffi_rc P (GpioWaveDelete (wave_id v))) (\<lambda>_. ret ())"

section \<open>Running the wrapper\<close>

text \<open>The world after one foreign call.\<close>

definition after :: "'d pigpio \<Rightarrow> gpio_call \<Rightarrow> ('d, 'z) world_scheme \<Rightarrow> ('d, 'z) world_scheme" where
  "after P c w = (case pg_call P c (dev w) of (rc, bs, d) \<Rightarrow>
     w\<lparr>dev := d, ffi_log := ffi_log w @ [\<lparr>ev_call = c, ev_rc = rc, ev_bytes = bs\<rparr>]\<rparr>)"

definition rc_of :: "'d pigpio \<Rightarrow> gpio_call \<Rightarrow> ('d, 'z) world_scheme \<Rightarrow> u32" where
  "rc_of P c w = fst (pg_call P c (dev w))"

definition bytes_of :: "'d pigpio \<Rightarrow> gpio_call \<Rightarrow> ('d, 'z) world_scheme \<Rightarrow> u8 list" where
  "bytes_of P c w = fst (snd (pg_call P c (dev w)))"

lemma ffi_run [run_simps]: "ffi P c w = Some (Ok (rc_of P c w, bytes_of P c w), after P c w)"
  by (simp add: ffi_def after_def rc_of_def bytes_of_def split: prod.splits)

lemma ffi_rc_run [run_simps]: "ffi_rc P c w = Some (Ok (rc_of P c w), after P c w)"
  by (simp add: ffi_rc_def run_simps)

lemma check_run [run_simps]:
  "\<not> is_neg rc \<Longrightarrow> check rc s = Some (Ok rc, s)"
  "is_neg rc \<Longrightarrow> check rc s = Some (Err \<lparr>io_kind = Other, io_msg = ''pigpio err='' @ show_i32 rc\<rparr>, s)"
  by (simp_all add: check_def run_simps)

lemma check_ffi_run:
  "check_ffi P c w = Some (if is_neg (rc_of P c w)
     then Err \<lparr>io_kind = Other, io_msg = ''pigpio err='' @ show_i32 (rc_of P c w)\<rparr>
     else Ok (rc_of P c w), after P c w)"
  by (simp add: check_ffi_def run_simps check_def)

lemma wave_tx_busy_run:
  "wave_tx_busy P w = Some (if is_neg (rc_of P GpioWaveTxBusy w)
     then Err \<lparr>io_kind = Other, io_msg = ''pigpio err='' @ show_i32 (rc_of P GpioWaveTxBusy w)\<rparr>
     else Ok (rc_of P GpioWaveTxBusy w = 1), after P GpioWaveTxBusy w)"
  by (simp add: wave_tx_busy_def bindR_def check_ffi_run ret_def)

lemma tick_since_run [run_simps]:
  "tick_since P start w = Some (Ok (rc_of P GpioTick w - start), after P GpioTick w)"
  by (simp add: tick_since_def run_simps)

lemma ffi_log_after [simp]:
  "ffi_log (after P c w) = ffi_log w @ [\<lparr>ev_call = c, ev_rc = rc_of P c w, ev_bytes = bytes_of P c w\<rparr>]"
  by (simp add: after_def rc_of_def bytes_of_def split: prod.splits)

lemma after_frame [simp]:
  "world.more (after P c w) = world.more w"
  "wait_step_var (after P c w) = wait_step_var w"
  "stack_junk (after P c w) = stack_junk w"
  "debug_on (after P c w) = debug_on w"
  by (simp_all add: after_def split: prod.splits)

text \<open>Equal devices answer alike, whatever the rest of the world is.\<close>

lemma dev_after: "dev (after P c w) = snd (snd (pg_call P c (dev w)))"
  by (simp add: after_def split: prod.splits)

section \<open>Waves alive\<close>

text \<open>
  Waves are the one resource of the C library the crate owns: \<open>gpioWaveCreate\<close> takes one
  when it succeeds, \<open>gpioWaveDelete\<close> gives it back. \<open>live_waves\<close> reads the difference
  off the log.
\<close>

definition wave_delta :: "event \<Rightarrow> int" where
  "wave_delta e = (case ev_call e of
       GpioWaveCreate \<Rightarrow> if is_neg (ev_rc e) then 0 else 1
     | GpioWaveDelete _ \<Rightarrow> -1
     | _ \<Rightarrow> 0)"

definition live_waves :: "('d, 'z) world_scheme \<Rightarrow> int" where
  "live_waves w = sum_list (map wave_delta (ffi_log w))"

definition wave_call :: "gpio_call \<Rightarrow> bool" where
  "wave_call c = (case c of GpioWaveCreate \<Rightarrow> True | GpioWaveDelete _ \<Rightarrow> True | _ \<Rightarrow> False)"

lemma live_waves_after:
  "live_waves (after P c w) = live_waves w + wave_delta \<lparr>ev_call = c, ev_rc = rc_of P c w, ev_bytes = bytes_of P c w\<rparr>"
  by (simp add: live_waves_def)

lemma live_waves_after_other [simp]: "\<not> wave_call c \<Longrightarrow> live_waves (after P c w) = live_waves w"
  by (cases c) (simp_all add: live_waves_after wave_call_def wave_delta_def)

lemma wave_call_simps [simp]:
  "\<not> wave_call (GpioCfgInterfaces a)" "\<not> wave_call GpioInitialise" "\<not> wave_call GpioTick"
  "\<not> wave_call (GpioDelay a)" "\<not> wave_call (GpioSerialReadOpen a b c)"
  "\<not> wave_call (GpioSerialReadClose a)" "\<not> wave_call (GpioSerialRead a n)"
  "\<not> wave_call GpioWaveAddNew" "\<not> wave_call (GpioWaveAddSerial a b c e f g bs)"
  "\<not> wave_call GpioWaveTxBusy" "\<not> wave_call (GpioWaveTxSend a b)" "\<not> wave_call GpioWaveTxStop"
  "\<not> wave_call (GpioSetMode a b)" "\<not> wave_call (GpioWrite a b)"
  by (simp_all add: wave_call_def)

subsection \<open>What a call leaves alone\<close>

text \<open>
  \<open>quiet f c\<close>: the observation \<open>f\<close> of the world does not see the call \<open>c\<close>. All the
  \<open>keeps\<close> facts about the wrapper come from it.
\<close>

definition quiet :: "('d pigpio) \<Rightarrow> (('d, 'z) world_scheme \<Rightarrow> 'b) \<Rightarrow> gpio_call \<Rightarrow> bool" where
  "quiet P f c \<longleftrightarrow> (\<forall>w. f (after P c w) = f w)"

lemma quiet_more [simp]: "quiet P world.more c"
  by (simp add: quiet_def)

lemma quiet_live_waves [simp]: "\<not> wave_call c \<Longrightarrow> quiet P live_waves c"
  by (simp add: quiet_def)

lemma keeps_ffi [keeps_intros]: "quiet P f c \<Longrightarrow> keeps f (ffi P c)"
  by (simp add: keeps_def quiet_def run_simps)

lemma keeps_ffi_rc [keeps_intros]: "quiet P f c \<Longrightarrow> keeps f (ffi_rc P c)"
  unfolding ffi_rc_def by (intro keeps_intros)

lemma keeps_check [keeps_intros]: "keeps f (check rc)"
  unfolding check_def by (intro keeps_intros)

lemma keeps_check_ffi [keeps_intros]: "quiet P f c \<Longrightarrow> keeps f (check_ffi P c)"
  unfolding check_ffi_def by (intro keeps_intros)

lemma keeps_wave_tx_busy [keeps_intros]: "quiet P f GpioWaveTxBusy \<Longrightarrow> keeps f (wave_tx_busy P)"
  unfolding wave_tx_busy_def by (intro keeps_intros)

lemma keeps_tick_since [keeps_intros]: "quiet P f GpioTick \<Longrightarrow> keeps f (tick_since P start)"
  unfolding tick_since_def by (intro keeps_intros)

lemma keeps_wave_send [keeps_intros]:
  "(\<And>v m. quiet P f (GpioWaveTxSend v m)) \<Longrightarrow> keeps f (wave_send P v mode)"
  unfolding wave_send_def by (intro keeps_intros)

lemma keeps_wave_drop [keeps_intros]:
  "(\<And>v. quiet P f (GpioWaveDelete v)) \<Longrightarrow> keeps f (wave_drop P v)"
  unfolding wave_drop_def by (intro keeps_intros)

lemma keeps_new_serial [keeps_intros]:
  "(\<And>c. quiet P f c) \<Longrightarrow> keeps f (new_serial P tx baud data_bits stop_bits offset s)"
  unfolding new_serial_def by (intro keeps_intros)

lemma keeps_init [keeps_intros]: "(\<And>c. \<not> wave_call c \<Longrightarrow> quiet P f c) \<Longrightarrow> keeps f (init P flags)"
  unfolding init_def by (intro keeps_intros) simp_all

text \<open>The only errors are those of \<open>check\<close>; no wrapper panics by itself.\<close>

lemma errs_ffi [errs_intros]: "errs (ffi P c) E" "errs (ffi_rc P c) E" "errs (tick_since P start) E"
  by (simp_all add: errs_def run_simps)

lemma errs_wave_drop [errs_intros]: "errs (wave_drop P v) E"
  unfolding wave_drop_def by (intro errs_intros)

lemma errs_check [errs_intros]: "(\<And>m. E \<lparr>io_kind = Other, io_msg = m\<rparr>) \<Longrightarrow> errs (check rc) E"
  unfolding check_def by (intro errs_intros)

lemma panics_ffi [panics_intros]: "panics (ffi P c) Q" "panics (ffi_rc P c) Q" "panics (tick_since P start) Q"
  by (simp_all add: panics_def run_simps)

lemma panics_check [panics_intros]: "panics (check rc) Q"
  unfolding check_def by (intro panics_intros)

lemma panics_check_ffi [panics_intros]: "panics (check_ffi P c) Q"
  unfolding check_ffi_def by (intro panics_intros)

lemma panics_wave_ops [panics_intros]:
  "panics (wave_tx_busy P) Q" "panics (wave_send P v mode) Q"
  "panics (wave_drop P v) Q" "panics (new_serial P tx baud data_bits stop_bits offset s) Q"
  "panics (init P flags) Q"
  unfolding wave_tx_busy_def wave_send_def wave_drop_def new_serial_def init_def
  by (intro panics_intros)+

text \<open>Everything but the loop returns.\<close>

lemma returns_ffi [returns_intros]: "returns (ffi P c)"
  by (simp add: returns_def run_simps)

lemma returns_ffi_rc [returns_intros]: "returns (ffi_rc P c)"
  by (simp add: returns_def run_simps)

lemma returns_check [returns_intros]: "returns (check rc)"
  unfolding check_def by (intro returns_intros)

lemma returns_check_ffi [returns_intros]: "returns (check_ffi P c)"
  unfolding check_ffi_def by (intro returns_intros)

lemma returns_wave_ops [returns_intros]:
  "returns (wave_tx_busy P)" "returns (tick_since P start)" "returns (wave_send P v mode)"
  "returns (wave_drop P v)" "returns (new_serial P tx baud data_bits stop_bits offset s)"
  "returns (init P flags)"
  unfolding wave_tx_busy_def tick_since_def wave_send_def wave_drop_def new_serial_def init_def
  by (intro returns_intros)+

subsection \<open>Making and dropping one wave\<close>

lemma new_serial_live_waves:
  assumes "new_serial P tx baud data_bits stop_bits offset s w = Some (r, w')"
  shows "live_waves w' = live_waves w + (case r of Ok _ \<Rightarrow> 1 | _ \<Rightarrow> 0)"
  using assms
  by (auto simp: new_serial_def bindR_def check_ffi_run ret_def live_waves_after wave_delta_def
      split: if_splits)

lemma wave_drop_live_waves:
  assumes "wave_drop P v w = Some (r, w')"
  shows "live_waves w' = live_waves w - 1" and "r = Ok ()"
  using assms by (auto simp: wave_drop_def run_simps live_waves_after wave_delta_def)

end
