(* ===== verification/Pigpio_Mock.thy ===== *)
theory Pigpio_Mock
  imports Pigpio
begin

text \<open>
  The module \<open>mock\<close> of the crate (\<open>hardware/pigpio-rust/src/mock.rs\<close>): the stand-in
  that is linked where the target is not Linux, and the constants of the real library that
  are linked on Linux (\<open>hardware/pigpio-sys/src/bindings-arm-linux.rs\<close>).
\<close>

text \<open>Each mock function ignores its arguments but \<open>gpioDelay\<close>, and changes nothing.\<close>

fun mock_call :: "gpio_call \<Rightarrow> 'd \<Rightarrow> u32 \<times> u8 list \<times> 'd" where
  "mock_call (GpioCfgInterfaces _) d = (0, [], d)"
| "mock_call GpioInitialise d = (0, [], d)"
| "mock_call GpioTick d = (0, [], d)"
| "mock_call (GpioDelay n) d = (n, [], d)"
| "mock_call (GpioSerialReadOpen _ _ _) d = (0, [], d)"
| "mock_call (GpioSerialReadClose _) d = (-1, [], d)"
| "mock_call (GpioSerialRead _ _) d = (-1, [], d)"
| "mock_call GpioWaveAddNew d = (0, [], d)"
| "mock_call (GpioWaveAddSerial _ _ _ _ _ _ _) d = (0, [], d)"
| "mock_call GpioWaveCreate d = (0, [], d)"
| "mock_call (GpioWaveDelete _) d = (-1, [], d)"
| "mock_call GpioWaveTxBusy d = (0, [], d)"
| "mock_call (GpioWaveTxSend _ _) d = (-1, [], d)"
| "mock_call GpioWaveTxStop d = (0, [], d)"
| "mock_call (GpioSetMode _ _) d = (0, [], d)"
| "mock_call (GpioWrite _ _) d = (-1, [], d)"

definition mock_pigpio :: "'d pigpio" where
  "mock_pigpio = \<lparr>pg_call = mock_call, PI_INPUT = 0, PI_OUTPUT = 0,
     PI_WAVE_MODE_ONE_SHOT_SYNC = 0, PI_DISABLE_FIFO_IF = 0, PI_DISABLE_SOCK_IF = 0\<rparr>"

text \<open>The real library: its constants, around an unknown behaviour \<open>f\<close>.\<close>

definition linux_pigpio :: "(gpio_call \<Rightarrow> 'd \<Rightarrow> u32 \<times> u8 list \<times> 'd) \<Rightarrow> 'd pigpio" where
  "linux_pigpio f = \<lparr>pg_call = f, PI_INPUT = 0, PI_OUTPUT = 1,
     PI_WAVE_MODE_ONE_SHOT_SYNC = 2, PI_DISABLE_FIFO_IF = 1, PI_DISABLE_SOCK_IF = 2\<rparr>"

lemma mock_pigpio_simps [simp]:
  "pg_call mock_pigpio = mock_call"
  "PI_INPUT mock_pigpio = 0"
  "PI_OUTPUT mock_pigpio = 0"
  "PI_WAVE_MODE_ONE_SHOT_SYNC mock_pigpio = 0"
  "PI_DISABLE_FIFO_IF mock_pigpio = 0"
  "PI_DISABLE_SOCK_IF mock_pigpio = 0"
  by (simp_all add: mock_pigpio_def)

lemma linux_pigpio_simps [simp]:
  "pg_call (linux_pigpio f) = f"
  "PI_INPUT (linux_pigpio f) = 0"
  "PI_OUTPUT (linux_pigpio f) = 1"
  "PI_WAVE_MODE_ONE_SHOT_SYNC (linux_pigpio f) = 2"
  "PI_DISABLE_FIFO_IF (linux_pigpio f) = 1"
  "PI_DISABLE_SOCK_IF (linux_pigpio f) = 2"
  by (simp_all add: linux_pigpio_def)

end
