(* ===== verification/Bench.thy ===== *)
theory Bench
  imports Pigpio_Mock
begin

text \<open>
  Concrete devices for the witnesses: the C library is a parameter of the development, so a
  property whose hypotheses speak of it is instantiated with one of these.
\<close>

definition bench_world :: "'d \<Rightarrow> 'd world" where
  "bench_world d = \<lparr>dev = d, ffi_log = [], wait_step_var = None, stack_junk = (\<lambda>_. 0),
     debug_on = False\<rparr>"

lemma bench_world_simps [simp]:
  "dev (bench_world d) = d" "ffi_log (bench_world d) = []" "wait_step_var (bench_world d) = None"
  "stack_junk (bench_world d) = (\<lambda>_. 0)" "debug_on (bench_world d) = False"
  by (simp_all add: bench_world_def)

text \<open>A device without memory: each call returns what \<open>f\<close> says and no bytes.\<close>

definition steady :: "(gpio_call \<Rightarrow> u32) \<Rightarrow> unit pigpio" where
  "steady f = linux_pigpio (\<lambda>c d. (f c, [], d))"

lemma steady_simps [simp]: "pg_call (steady f) c d = (f c, [], d)"
  by (simp add: steady_def)

lemma rc_of_steady [simp]: "rc_of (steady f) c w = f c"
  by (simp add: rc_of_def)

end
