(* ===== verification/Pigpio_Wait.thy ===== *)
theory Pigpio_Wait
  imports Bench
begin

text \<open>
  Lemmas on \<open>tick_since\<close> and on the polling loop \<open>wave_busy_wait\<close>: elapsed time across the
  wrap of the 32-bit tick, the three ways the loop ends, and when it ends at all.
\<close>

section \<open>The polling loop\<close>

text \<open>The microseconds the \<open>gpioDelay\<close> calls of a piece of log report as slept.\<close>

definition slept :: "event list \<Rightarrow> nat" where
  "slept evs = sum_list (map (\<lambda>e. case ev_call e of GpioDelay _ \<Rightarrow> unat (ev_rc e) | _ \<Rightarrow> 0) evs)"

lemma slept_simps [simp]:
  "slept [] = 0"
  "slept (e # evs) = (case ev_call e of GpioDelay _ \<Rightarrow> unat (ev_rc e) | _ \<Rightarrow> 0) + slept evs"
  "slept (evs @ evs') = slept evs + slept evs'"
  by (simp_all add: slept_def)

definition busy_wait_post ::
  "u32 \<Rightarrow> string \<Rightarrow> nat \<Rightarrow> (io_error, u32) outcome \<Rightarrow> event list \<Rightarrow> bool" where
  "busy_wait_post timeout err t0 r ev = (ev \<noteq> [] \<and> (case r of
       Ok t \<Rightarrow> unat t = t0 + slept ev \<and> ev_call (last ev) = GpioWaveTxBusy \<and> ev_rc (last ev) \<noteq> 1
     | Err e \<Rightarrow>
         (e = \<lparr>io_kind = Timed_Out, io_msg = err\<rparr> \<and> t0 + slept ev > unat timeout
            \<and> ev_call (last ev) = GpioWaveTxBusy \<and> ev_rc (last ev) = 1)
         \<or> (io_kind e = Other \<and> ev_call (last ev) = GpioWaveTxBusy \<and> is_neg (ev_rc (last ev)))
     | Panic p \<Rightarrow> p = Arith_Overflow \<and> t0 + slept ev \<ge> 2 ^ 32))"

lemma wave_busy_loop_post:
  assumes "loopR (wave_busy_round P delay_step timeout err) tot w = Some (r, w')"
  shows "\<exists>ev. ffi_log w' = ffi_log w @ ev \<and> busy_wait_post timeout err (unat tot) r ev"
  using assms
proof (induction rule: loopR_induct)
  case (Continue tot w tot' w1 r w')
  then obtain ev where "ffi_log w' = ffi_log w1 @ ev" and "busy_wait_post timeout err (unat tot') r ev"
    by blast
  with Continue(1) show ?case
    by (auto simp: wave_busy_round_def bindR_def run_simps wave_tx_busy_run add32_def busy_wait_post_def
        unat_word_ariths ret_def panic_def fail_def split: if_splits outcome.splits)
qed (auto simp: wave_busy_round_def bindR_def run_simps wave_tx_busy_run add32_def busy_wait_post_def
        unat_word_ariths word_less_nat_alt ret_def panic_def fail_def split: if_splits)

text \<open>
  Each round that goes on adds at least one microsecond to the sum, and the sum is checked
  against \<open>timeout\<close> and against the width of the counter, so the loop ends.
\<close>

lemma wave_busy_loop_returns:
  assumes delay: "\<And>d. unat (fst (pg_call P (GpioDelay delay_step) d)) \<ge> 1"
  shows "\<exists>r w'. loopR (wave_busy_round P delay_step timeout err) tot w = Some (r, w')"
proof (rule loopR_returns [where I = "\<lambda>_ _. True" and \<mu> = "\<lambda>tot _. 2 ^ 32 - unat tot"])
  show "wave_busy_round P delay_step timeout err tot w \<noteq> None" for tot w
    by (simp add: wave_busy_round_def bindR_def run_simps wave_tx_busy_run add32_def ret_def panic_def fail_def)
next
  fix tot tot' and w w' :: "('a, 'b) world_scheme"
  assume "wave_busy_round P delay_step timeout err tot w = Some (Ok (Continue tot'), w')"
  then have "unat tot' = unat tot + unat (rc_of P (GpioDelay delay_step) w)"
    by (auto simp: wave_busy_round_def bindR_def run_simps wave_tx_busy_run add32_def unat_word_ariths
        ret_def panic_def fail_def split: if_splits)
  moreover have "unat (rc_of P (GpioDelay delay_step) w) \<ge> 1"
    using delay by (simp add: rc_of_def)
  ultimately show "True \<and> 2 ^ 32 - unat tot' < 2 ^ 32 - unat tot"
    using unat_less_2p32 [of tot'] by simp
qed simp

text \<open>
  A device on which time stands still and whose wave never ends holds the loop for ever.
\<close>

lemma wave_busy_loop_stuck:
  assumes delay: "\<And>d. fst (pg_call P (GpioDelay delay_step) d) = 0"
    and busy: "\<And>d. fst (pg_call P GpioWaveTxBusy d) = 1"
    and tot: "\<not> tot > timeout"
  shows "loopR (wave_busy_round P delay_step timeout err) tot w = None"
  by (rule loopR_diverges [where I = "\<lambda>t _. t = tot"])
    (use delay busy tot in \<open>simp_all add: wave_busy_round_def bindR_def run_simps wave_tx_busy_run
       rc_of_def add32_def ret_def\<close>)

section \<open>Properties\<close>

text \<open>
  \<open>tick_since\<close> is exact across the wrap of the counter: when the tick has advanced by
  \<open>d\<close> microseconds since \<open>start\<close>, less than one full turn of the 32-bit counter, it
  returns \<open>d\<close>, also when \<open>start + d\<close> has wrapped past zero.
\<close>

lemma tick_since_exact:
  fixes w :: "('d, 'z) world_scheme"
  assumes "rc_of P GpioTick w = start + of_nat d" and "d < 2 ^ 32"
  shows "\<exists>v. (tick_since P start w :: ((io_error, u32) outcome \<times> ('d, 'z) world_scheme) option)
      = Some (Ok v, after P GpioTick w) \<and> unat v = d"
  using assms by (simp add: run_simps unat_of_nat take_bit_nat_eq_self)

text \<open>
  C23: how \<open>wave_busy_wait\<close> ends. It returns the microseconds slept, right after a poll that
  saw the transmission over; or the \<open>TimedOut\<close> error with the caller's text, with more than
  \<open>timeout\<close> microseconds slept and the wave still busy; or the error of a failed poll; or it
  panics, exactly because the sum of the sleeps does not fit in 32 bits.
\<close>

theorem wave_busy_wait_outcome:
  assumes "wave_busy_wait P delay_step timeout err w = Some (r, w')"
  shows "\<exists>ev. ffi_log w' = ffi_log w @ ev \<and> busy_wait_post timeout err 0 r ev"
  using wave_busy_loop_post [OF assms [unfolded wave_busy_wait_def]] by simp

theorem wave_busy_wait_outcome_witness:
  "\<exists>ev. ffi_log (after (steady (\<lambda>c. case c of GpioDelay n \<Rightarrow> n | _ \<Rightarrow> 0)) GpioWaveTxBusy
       (after (steady (\<lambda>c. case c of GpioDelay n \<Rightarrow> n | _ \<Rightarrow> 0)) (GpioDelay 7) (bench_world ())))
     = ffi_log (bench_world ()) @ ev \<and> busy_wait_post 100 ''late'' 0 (Ok 7) ev"
  by (rule wave_busy_wait_outcome [where P = "steady (\<lambda>c. case c of GpioDelay n \<Rightarrow> n | _ \<Rightarrow> 0)" and delay_step = 7])
    (simp add: wave_busy_wait_def loopR_run wave_busy_round_def run_simps bindR_def wave_tx_busy_run)

text \<open>
  C24: \<open>wave_busy_wait\<close> returns, whatever the wave does, if \<open>gpioDelay\<close> of the given step
  always sleeps at least a microsecond.
\<close>

theorem wave_busy_wait_returns:
  assumes "\<And>d. unat (fst (pg_call P (GpioDelay delay_step) d)) \<ge> 1"
  shows "\<exists>r w'. wave_busy_wait P delay_step timeout err w = Some (r, w')"
  unfolding wave_busy_wait_def by (rule wave_busy_loop_returns) (rule assms)

theorem wave_busy_wait_returns_witness:
  "\<exists>r w'. wave_busy_wait (steady (\<lambda>_. 1)) 10 1000 ''late'' (bench_world ()) = Some (r, w')"
  by (rule wave_busy_wait_returns) simp

end
