(* ===== verification/Iodin_Error.thy ===== *)
theory Iodin_Error
  imports Pigpio
begin

text \<open>
  The module \<open>error\<close> of \<open>cmd/iodin/src/main.rs\<close>: the error kinds of the daemon and the
  texts \<open>to_string()\<close> gives for them. The kinds made from foreign errors are displayed as
  the foreign error is; the text of those the daemon never takes apart is their only content.
\<close>

text \<open>
  \<open>protobuf::ProtobufError\<close>: an I/O error at the end of the stream (the one a test of the
  daemon asks for), or any other; both with their displayed text.
\<close>

datatype proto_error = Proto_Unexpected_Eof string | Proto_Other string

fun proto_text :: "proto_error \<Rightarrow> string" where
  "proto_text (Proto_Unexpected_Eof s) = s"
| "proto_text (Proto_Other s) = s"

datatype error =
    Msg string
  | Env_Error string
  | Fmt_Error string
  | Io_Error io_error
  | Num_Parse string
  | Protobuf proto_error
  | String_Utf8 string
  | Mdb_Nak
  | Mdb_Invalid_Response u8
  | Mdb_Checksum u8 u8 "u8 list"

fun error_to_string :: "error \<Rightarrow> string" where
  "error_to_string (Msg s) = s"
| "error_to_string (Env_Error s) = s"
| "error_to_string (Fmt_Error s) = s"
| "error_to_string (Io_Error e) = io_msg e"
| "error_to_string (Num_Parse s) = s"
| "error_to_string (Protobuf e) = proto_text e"
| "error_to_string (String_Utf8 s) = s"
| "error_to_string Mdb_Nak = ''MDB received NAK, probably invalid command''"
| "error_to_string (Mdb_Invalid_Response b) =
     ''MDB expected ACK/NAK, received unknown byte '' @ hex02 b"
| "error_to_string (Mdb_Checksum computed received response) =
     ''MDB invalid checksum recv='' @ hex02 received @ '' comp='' @ hex02 computed
       @ '' response='' @ hex02_slice response"

text \<open>\<open>?\<close> on a result of the crate \<open>pigpio\<close>.\<close>

definition io_q :: "('s, io_error, 'a) prog \<Rightarrow> ('s, error, 'a) prog" where
  "io_q m = map_err Io_Error m"

end
