(* ===== verification/Mdb_Frame.thy ===== *)
theory Mdb_Frame
  imports Iodin_Error
begin

text \<open>
  The pure part of \<open>cmd/iodin/src/mdb.rs\<close>: its constants, the checksum of a block, the
  conversion of a \<open>Duration\<close> to microseconds, and the 9-bit words of the frame that \<open>tx\<close>
  writes into the buffer (two bytes a word, the second one holding the ninth bit).
\<close>

section \<open>Constants\<close>

definition BLOCK_MAX_LENGTH :: nat where "BLOCK_MAX_LENGTH = 40"
definition BAUD :: u32 where "BAUD = 9600"
definition DATA_BITS :: u32 where "DATA_BITS = 9"
definition STOP_BITS :: u32 where "STOP_BITS = 2"
definition RESPONSE_ACK :: u8 where "RESPONSE_ACK = 0x00"
definition RESPONSE_NAK :: u8 where "RESPONSE_NAK = 0xff"
definition WORD_SIZE :: nat where "WORD_SIZE = 2"
definition BUF_SIZE :: nat where "BUF_SIZE = BLOCK_MAX_LENGTH * WORD_SIZE"
definition TIMEOUT_SMALL_US :: u32 where "TIMEOUT_SMALL_US = 10000"
definition TIMEOUT_CHAR_US :: u32 where
  "TIMEOUT_CHAR_US = (1000000 * (DATA_BITS + 2)) div BAUD + 2000"
definition TIMEOUT_RECEIVE_US :: u32 where
  "TIMEOUT_RECEIVE_US = of_nat BLOCK_MAX_LENGTH * TIMEOUT_CHAR_US"

lemmas mdb_consts = BLOCK_MAX_LENGTH_def BAUD_def DATA_BITS_def STOP_BITS_def
  RESPONSE_ACK_def RESPONSE_NAK_def WORD_SIZE_def BUF_SIZE_def TIMEOUT_SMALL_US_def

lemma TIMEOUT_CHAR_US_val: "TIMEOUT_CHAR_US = 3145"
  by (simp add: TIMEOUT_CHAR_US_def mdb_consts)

lemma TIMEOUT_RECEIVE_US_val: "TIMEOUT_RECEIVE_US = 125800"
  by (simp add: TIMEOUT_RECEIVE_US_def TIMEOUT_CHAR_US_val mdb_consts)

section \<open>Checksum\<close>

definition checksum :: "u8 list \<Rightarrow> u8" where
  "checksum b = foldl (\<lambda>sum x. sum + x) 0 b"

section \<open>Durations\<close>

record duration =
  as_secs :: u64
  subsec_nanos :: u32

definition from_millis :: "u64 \<Rightarrow> duration" where
  "from_millis ms = \<lparr>as_secs = ms div 1000, subsec_nanos = ucast (ms mod 1000) * 1000000\<rparr>"

definition subsec_micros :: "duration \<Rightarrow> u32" where
  "subsec_micros d = subsec_nanos d div 1000"

definition duration_as_micros32 :: "duration \<Rightarrow> ('s, error, u32) prog" where
  "duration_as_micros32 d =
     (case checked_mul64 (as_secs d) 1000000 of
        None \<Rightarrow> fail (Msg ''duration_as_micros32 overflow'')
      | Some y \<Rightarrow>
     (case checked_add64 y (ucast (subsec_micros d)) of
        None \<Rightarrow> fail (Msg ''duration_as_micros32 overflow'')
      | Some x \<Rightarrow>
        if x \<ge> ucast u32_max then fail (Msg ''duration_as_micros32 overflow'')
        else ret (ucast x)))"

section \<open>The frame of a request\<close>

text \<open>The loop \<open>for (i, b) in request.iter().enumerate()\<close>.\<close>

fun put_words :: "nat \<Rightarrow> u8 list \<Rightarrow> u8 list \<Rightarrow> u8 list" where
  "put_words i [] buf = buf"
| "put_words i (b # bs) buf = put_words (Suc i) bs (buf[i * WORD_SIZE := b])"

definition load_request :: "u8 list \<Rightarrow> u8 list \<Rightarrow> u8 list" where
  "load_request request buf =
     (put_words 0 request (buf[WORD_SIZE - 1 := 1]))[length request * WORD_SIZE := checksum request]"

end
