(* ===== verification/Mdb.thy ===== *)
theory Mdb
  imports Mdb_Frame
begin

text \<open>
  The driver \<open>GpioMdb\<close> of \<open>cmd/iodin/src/mdb.rs\<close>: the bit-banged MDB bus master. The
  definitions follow the source from top to bottom; \<open>tx\<close> is split where its \<open>wave\<close>
  comes into scope (so that its destructor surrounds the rest) and where the answer is
  complete.
\<close>

section \<open>Waves\<close>

definition mdb_wave_create ::
  "'d pigpio \<Rightarrow> u16 \<Rightarrow> u8 list \<Rightarrow> (('d, 'z) world_scheme, error, wave) prog" where
  "mdb_wave_create P pin s = io_q (new_serial P (ucast pin) BAUD DATA_BITS STOP_BITS 0 s)"

text \<open>One round of the loop of \<open>mdb_wave_send_wait\<close>.\<close>

definition send_wait_round ::
  "'d pigpio \<Rightarrow> u32 \<Rightarrow> u32 \<Rightarrow> u32 \<Rightarrow> string \<Rightarrow> unit \<Rightarrow> (('d, 'z) world_scheme, error, (unit, unit) flow) prog" where
  "send_wait_round P start deadline wait_step err _ =
     bindR (ffi_rc P (GpioDelay wait_step)) (\<lambda>_.
     bindR (io_q (wave_tx_busy P)) (\<lambda>busy.
     if \<not> busy then ret (Break ())
     else bindR (tick_since P start) (\<lambda>tot.
       if tot > deadline then fail (Msg err) else ret (Continue ()))))"

definition mdb_wave_send_wait ::
  "'d pigpio \<Rightarrow> wave \<Rightarrow> u32 \<Rightarrow> u32 \<Rightarrow> string \<Rightarrow> (('d, 'z) world_scheme, error, unit) prog" where
  "mdb_wave_send_wait P v deadline wait_step err =
     bindR (tick_since P 0) (\<lambda>start.
     bindR (io_q (wave_send P v (PI_WAVE_MODE_ONE_SHOT_SYNC P))) (\<lambda>_.
     bindR (loopR (send_wait_round P start deadline wait_step err) ()) (\<lambda>_.
     bindR (io_q (check_ffi P GpioWaveTxStop)) (\<lambda>_.
     ret ()))))"

section \<open>The driver\<close>

record gpio_mdb =
  rx_pin :: u16
  tx_pin :: u16
  wave_ack :: wave
  wave_nak :: wave
  wait_step :: u32
  buf :: "u8 list"

text \<open>The variable is read before the first foreign call; an unreadable value is a panic.\<close>

definition read_wait_step :: "(('d, 'z) world_scheme, error, u32) prog" where
  "read_wait_step = bindR (gets wait_step_var) (\<lambda>v.
     case parse_u32 (case v of Some s \<Rightarrow> s | None \<Rightarrow> ''101'') of
       Some n \<Rightarrow> ret n
     | None \<Rightarrow> panic Expect_Failed)"

definition gpio_mdb_new :: "'d pigpio \<Rightarrow> u16 \<Rightarrow> u16 \<Rightarrow> (('d, 'z) world_scheme, error, gpio_mdb) prog" where
  "gpio_mdb_new P rx tx =
     bindR read_wait_step (\<lambda>step.
     bindR (io_q (check_ffi P (GpioSetMode (ucast rx) (PI_INPUT P)))) (\<lambda>_.
     bindR (io_q (check_ffi P (GpioSetMode (ucast tx) (PI_OUTPUT P)))) (\<lambda>_.
     bindR (io_q (check_ffi P (GpioSerialReadOpen (ucast rx) BAUD DATA_BITS))) (\<lambda>_.
     bindR (io_q (check_ffi P GpioWaveTxStop)) (\<lambda>_.
     bindR (mdb_wave_create P tx [RESPONSE_ACK, 0x00]) (\<lambda>ack.
     bindR (unless_moved (mdb_wave_create P tx [RESPONSE_NAK, 0x00]) (wave_drop P ack)) (\<lambda>nak.
     bindR (gets stack_junk) (\<lambda>junk.
     ret \<lparr>rx_pin = rx, tx_pin = tx, wave_ack = ack, wave_nak = nak, wait_step = step,
          buf = map junk [0..<BUF_SIZE]\<rparr>))))))))"

definition gpio_mdb_close :: "'d pigpio \<Rightarrow> gpio_mdb \<Rightarrow> (('d, 'z) world_scheme, error, unit) prog" where
  "gpio_mdb_close P m =
     bindR (io_q (check_ffi P GpioWaveTxStop)) (\<lambda>_.
     bindR (io_q (check_ffi P (GpioSerialReadClose (ucast (rx_pin m))))) (\<lambda>_.
     ret ()))"

text \<open>\<open>impl Drop for GpioMdb\<close>, then the destructors of the fields in their order.\<close>

definition gpio_mdb_drop :: "'d pigpio \<Rightarrow> gpio_mdb \<Rightarrow> (('d, 'z) world_scheme, error, unit) prog" where
  "gpio_mdb_drop P m =
     bindR (attempt (gpio_mdb_close P m)) (\<lambda>_.
     bindR (io_q (wave_drop P (wave_ack m))) (\<lambda>_.
     io_q (wave_drop P (wave_nak m))))"

definition bus_reset :: "'d pigpio \<Rightarrow> gpio_mdb \<Rightarrow> duration \<Rightarrow> (('d, 'z) world_scheme, error, unit) prog" where
  "bus_reset P m d =
     bindR (duration_as_micros32 d) (\<lambda>duration_us.
     bindR (io_q (check_ffi P (GpioWrite (ucast (tx_pin m)) 1))) (\<lambda>_.
     bindR (ffi_rc P (GpioDelay duration_us)) (\<lambda>_.
     bindR (io_q (check_ffi P (GpioWrite (ucast (tx_pin m)) 0))) (\<lambda>_.
     ret ()))))"

section \<open>Transactions\<close>

text \<open>\<open>tx\<close> runs on the world with its two mutable references, \<open>self\<close> and \<open>response\<close>.\<close>

record 'd mdb_world = "'d world" +
  mself :: gpio_mdb
  response :: "u8 list"

definition set_buf :: "u8 list \<Rightarrow> ('d, 'z) mdb_world_scheme \<Rightarrow> ('d, 'z) mdb_world_scheme" where
  "set_buf b w = w\<lparr>mself := (mself w)\<lparr>buf := b\<rparr>\<rparr>"

text \<open>The C function writes from the start of the buffer, which has a fixed size.\<close>

definition fill :: "u8 list \<Rightarrow> u8 list \<Rightarrow> u8 list" where
  "fill bs b = take (length b) (bs @ drop (length bs) b)"

definition serial_read :: "'d pigpio \<Rightarrow> (('d, 'z) mdb_world_scheme, error, nat) prog" where
  "serial_read P =
     bindR (gets mself) (\<lambda>m.
     bindR (ffi P (GpioSerialRead (ucast (rx_pin m)) (length (buf m)))) (\<lambda>r.
     bindR (modify (set_buf (fill (snd r) (buf m)))) (\<lambda>_.
     bindR (io_q (check (fst r))) (\<lambda>n.
     ret (unat n)))))"

text \<open>One round of the loop of \<open>wait_receive\<close>.\<close>

definition wait_receive_round ::
  "'d pigpio \<Rightarrow> u32 \<Rightarrow> unit \<Rightarrow> (('d, 'z) mdb_world_scheme, error, (unit, nat) flow) prog" where
  "wait_receive_round P deadline _ =
     bindR (serial_read P) (\<lambda>n.
     if n > 0 then ret (Break n)
     else bindR (tick_since P 0) (\<lambda>t.
       if t > deadline then fail (Msg ''recv timeout'')
       else bindR (gets (\<lambda>w. wait_step (mself w))) (\<lambda>step.
         bindR (ffi_rc P (GpioDelay step)) (\<lambda>_.
         ret (Continue ())))))"

definition wait_receive :: "'d pigpio \<Rightarrow> u32 \<Rightarrow> (('d, 'z) mdb_world_scheme, error, nat) prog" where
  "wait_receive P deadline = loopR (wait_receive_round P deadline) ()"

definition buf_at :: "nat \<Rightarrow> (('d, 'z) mdb_world_scheme, error, u8) prog" where
  "buf_at i = bindR (gets (\<lambda>w. buf (mself w))) (\<lambda>b.
     if i < length b then ret (b ! i) else panic Index_Out_Of_Bounds)"

definition push_response :: "u8 \<Rightarrow> (('d, 'z) mdb_world_scheme, error, unit) prog" where
  "push_response v = modify (\<lambda>w. w\<lparr>response := response w @ [v]\<rparr>)"

text \<open>
  The inner loop, \<open>for i in (0..received_count).step_by(2)\<close>: \<open>Some\<close> of the byte whose
  ninth bit is set, or \<open>None\<close> when the loop is left at its end.
\<close>

function scan_words :: "nat \<Rightarrow> nat \<Rightarrow> (('d, 'z) mdb_world_scheme, error, u8 option) prog" where
  "scan_words i n =
     (if i < n then
        bindR (buf_at i) (\<lambda>bvalue.
        bindR (buf_at (i + 1)) (\<lambda>bflag.
        if 1 = bflag then ret (Some bvalue)
        else bindR (push_response bvalue) (\<lambda>_. scan_words (i + 2) n)))
      else ret None)"
  by pat_completeness auto
termination
  by (relation "measure (\<lambda>(i, n). n - i)") auto

declare scan_words.simps [simp del]

text \<open>One round of the loop \<open>'receive\<close>, with the count of the read before it.\<close>

definition receive_round ::
  "'d pigpio \<Rightarrow> u32 \<Rightarrow> nat \<Rightarrow> (('d, 'z) mdb_world_scheme, error, (nat, u8) flow) prog" where
  "receive_round P receive_deadline received_count =
     bindR (scan_words 0 received_count) (\<lambda>r.
     case r of
       None \<Rightarrow> bindR (wait_receive P receive_deadline) (\<lambda>n. ret (Continue n))
     | Some end_byte \<Rightarrow> ret (Break end_byte))"

text \<open>What follows the loop, up to the end of the critical section.\<close>

definition tx_answer :: "'d pigpio \<Rightarrow> u32 \<Rightarrow> u8 \<Rightarrow> (('d, 'z) mdb_world_scheme, error, unit) prog" where
  "tx_answer P timeout_small_us end_byte =
     bindR (gets response) (\<lambda>resp.
     bindR (gets mself) (\<lambda>m.
     if resp = [] then
       (if end_byte = RESPONSE_ACK then ret ()
        else if end_byte = RESPONSE_NAK then fail Mdb_Nak
        else fail (Mdb_Invalid_Response end_byte))
     else
       bindR (bindR (tick_since P 0) (\<lambda>t. add32 t timeout_small_us)) (\<lambda>deadline_us.
       let computed_chk = checksum resp in
       if end_byte \<noteq> computed_chk then
         bindR (mdb_wave_send_wait P (wave_nak m) deadline_us (wait_step m) ''send NAK timeout'') (\<lambda>_.
         fail (Mdb_Checksum computed_chk end_byte resp))
       else mdb_wave_send_wait P (wave_ack m) deadline_us (wait_step m) ''send ACK timeout'')))"

text \<open>
  The critical section after the request is on the wire, and the \<open>debug!\<close> that ends \<open>tx\<close>:
  one of its arguments is a foreign call.
\<close>

definition tx_debug :: "'d pigpio \<Rightarrow> u32 \<Rightarrow> (('d, 'z) mdb_world_scheme, error, unit) prog" where
  "tx_debug P io_start_us = bindR (gets debug_on) (\<lambda>dbg.
     if dbg then bindR (tick_since P io_start_us) (\<lambda>_. ret ()) else ret ())"

definition tx_receive ::
  "'d pigpio \<Rightarrow> u32 \<Rightarrow> u32 \<Rightarrow> u32 \<Rightarrow> (('d, 'z) mdb_world_scheme, error, unit) prog" where
  "tx_receive P io_start_us receive_wait_deadline_us timeout_small_us =
     bindR (wait_receive P receive_wait_deadline_us) (\<lambda>received_count.
     bindR (bindR (tick_since P 0) (\<lambda>t. add32 t TIMEOUT_RECEIVE_US)) (\<lambda>receive_deadline.
     bindR (loopR (receive_round P receive_deadline) received_count) (\<lambda>end_byte.
     bindR (tx_answer P timeout_small_us end_byte) (\<lambda>_.
     tx_debug P io_start_us))))"

text \<open>The part of \<open>tx\<close> that runs while the wave of the request exists.\<close>

definition tx_transfer ::
  "'d pigpio \<Rightarrow> wave \<Rightarrow> u8 list \<Rightarrow> duration \<Rightarrow> (('d, 'z) mdb_world_scheme, error, unit) prog" where
  "tx_transfer P v request timeout =
     bindR (duration_as_micros32 timeout) (\<lambda>timeout_us.
     let timeout_small_us = min timeout_us TIMEOUT_SMALL_US in
     bindR (tick_since P 0) (\<lambda>io_start_us.
     bindR (add32 io_start_us timeout_us) (\<lambda>receive_wait_deadline_us.
     bindR (bindR (mul32 TIMEOUT_CHAR_US (of_nat (length request))) (add32 io_start_us)) (\<lambda>send_deadline_us.
     bindR (gets (\<lambda>w. wait_step (mself w))) (\<lambda>step.
     bindR (mdb_wave_send_wait P v send_deadline_us step ''send request timeout'') (\<lambda>_.
     tx_receive P io_start_us receive_wait_deadline_us timeout_small_us))))))"

definition gpio_mdb_tx ::
  "'d pigpio \<Rightarrow> u8 list \<Rightarrow> nat \<Rightarrow> duration \<Rightarrow> (('d, 'z) mdb_world_scheme, error, unit) prog" where
  "gpio_mdb_tx P request response_capacity timeout =
     andthen (assert_that (request \<noteq> []))
     (andthen (assert_that (length request < BLOCK_MAX_LENGTH))
     (andthen (assert_that (response_capacity \<ge> BLOCK_MAX_LENGTH))
     (bindR (gets mself) (\<lambda>m.
     let b = load_request request (buf m); buf_req_len = length request * WORD_SIZE in
     andthen (modify (set_buf b))
     (bindR (mdb_wave_create P (tx_pin m) (take (buf_req_len + WORD_SIZE) b)) (\<lambda>v.
     with_drop (tx_transfer P v request timeout) (wave_drop P v)))))))"

end
