(* ===== verification/Mdb_Block.thy ===== *)
theory Mdb_Block
  imports Mdb_Frame
begin

text \<open>
  Lemmas on the pure part of the driver: the checksum through the interface
  \<open>block_checksum\<close>, durations, and the frame of a request; and the specification of an
  answer (\<open>parse_block\<close>, \<open>block_verdict\<close>) that the driver's receive loop is proved against.
\<close>

section \<open>Additive checksums\<close>

text \<open>
  What every peer on the bus promises of its checksum: it starts at zero and adds the next
  byte. Everything else about it follows.
\<close>

locale block_checksum =
  fixes chk :: "u8 list \<Rightarrow> u8"
  assumes chk_Nil: "chk [] = 0"
    and chk_snoc: "chk (bs @ [b]) = chk bs + b"
begin

lemma chk_sum_list: "chk bs = sum_list bs"
  by (induction bs rule: rev_induct) (simp_all add: chk_Nil chk_snoc)

lemma chk_append: "chk (xs @ ys) = chk xs + chk ys"
  by (simp add: chk_sum_list)

lemma chk_Cons: "chk (x # xs) = x + chk xs"
  by (simp add: chk_sum_list)

lemma chk_value: "unat (chk bs) = sum_list (map unat bs) mod 256"
proof (induction bs)
  case Nil
  then show ?case by (simp add: chk_Nil)
next
  case (Cons x xs)
  then show ?case by (simp add: chk_Cons unat_word_ariths mod_simps)
qed

lemma chk_update: "i < length bs \<Longrightarrow> chk (bs[i := b]) = chk bs - bs ! i + b"
proof (induction bs arbitrary: i)
  case Nil
  then show ?case by simp
next
  case (Cons x xs)
  then show ?case by (cases i) (simp_all add: chk_Cons)
qed

lemma chk_single_error: "i < length bs \<Longrightarrow> chk (bs[i := b]) = chk bs \<longleftrightarrow> b = bs ! i"
  by (simp add: chk_update)

lemma chk_swap:
  assumes "i < length bs" and "j < length bs"
  shows "chk (bs[i := bs ! j, j := bs ! i]) = chk bs"
  using assms by (cases "i = j") (simp_all add: chk_update)

end

interpretation mdb_chk: block_checksum checksum
  by unfold_locales (simp_all add: checksum_def)

lemma checksum_Nil [simp]: "checksum [] = 0"
  by (rule mdb_chk.chk_Nil)

section \<open>Durations\<close>

definition duration_micros :: "duration \<Rightarrow> nat" where
  "duration_micros d = unat (as_secs d) * 1000000 + unat (subsec_nanos d) div 1000"

lemma unat_subsec_micros: "unat (ucast (subsec_micros d) :: u64) = unat (subsec_nanos d) div 1000"
proof -
  have "unat (subsec_nanos d) div 1000 < 2 ^ 64"
    using unat_less_2p32 [of "subsec_nanos d"] by (simp del: unat_less_2p32)
  then show ?thesis
    by (simp add: subsec_micros_def unsigned_ucast_eq unat_div take_bit_nat_eq_self)
qed

lemma duration_as_micros32_eq:
  "duration_as_micros32 d s =
     Some (if duration_micros d < 2 ^ 32 - 1 then Ok (of_nat (duration_micros d))
           else Err (Msg ''duration_as_micros32 overflow''), s)"
proof -
  let ?S = "as_secs d" and ?M = "ucast (subsec_micros d) :: u64"
  have M: "unat ?M = unat (subsec_nanos d) div 1000" by (rule unat_subsec_micros)
  have T: "duration_micros d = unat ?S * 1000000 + unat ?M"
    by (simp add: duration_micros_def M)
  show ?thesis
  proof (cases "duration_micros d < 2 ^ 64")
    case True
    then have mul: "unat ?S * 1000000 < 2 ^ 64" and "unat ?S * 1000000 + unat ?M < 2 ^ 64"
      using T by simp_all
    then have x: "unat (?S * 1000000 + ?M) = duration_micros d"
      by (simp add: unat_word_ariths T)
    have ge: "ucast u32_max \<le> ?S * 1000000 + ?M \<longleftrightarrow> \<not> duration_micros d < 2 ^ 32 - 1"
      by (simp add: word_le_nat_alt x u32_max_def not_less)
    have cast: "ucast (?S * 1000000 + ?M) = (of_nat (duration_micros d) :: u32)"
      by (simp add: x [symmetric])
    have "checked_mul64 ?S 1000000 = Some (?S * 1000000)"
      using mul by (simp add: checked_mul64_def)
    moreover have "checked_add64 (?S * 1000000) ?M = Some (?S * 1000000 + ?M)"
      using mul x T True by (simp add: checked_add64_def unat_mul_less)
    ultimately show ?thesis
      using ge cast by (simp add: duration_as_micros32_def ret_def fail_def)
  next
    case False
    have "checked_mul64 ?S 1000000 = None \<or>
        (checked_mul64 ?S 1000000 = Some (?S * 1000000) \<and> checked_add64 (?S * 1000000) ?M = None)"
    proof (cases "unat ?S * 1000000 < 2 ^ 64")
      case True
      then show ?thesis using False T by (simp add: checked_mul64_def checked_add64_def unat_mul_less)
    next
      case False
      then show ?thesis by (simp add: checked_mul64_def)
    qed
    with False show ?thesis by (auto simp: duration_as_micros32_def fail_def)
  qed
qed

lemma duration_from_millis: "duration_micros (from_millis ms) = unat ms * 1000"
proof -
  define q r where "q = unat ms div 1000" and "r = unat ms mod 1000"
  have lt: "unat ms mod 1000 < 1000" by simp
  then have small: "unat (ucast (ms mod 1000) :: u32) = unat ms mod 1000"
    by (simp add: unsigned_ucast_eq unat_mod take_bit_nat_eq_self)
  have "(unat ms mod 1000) * 1000000 < 2 ^ 32"
  proof -
    have "(unat ms mod 1000) * 1000000 < 1000 * 1000000" using lt by linarith
    then show ?thesis by simp
  qed
  then have "unat (ucast (ms mod 1000) * 1000000 :: u32) = (unat ms mod 1000) * 1000000"
    by (simp add: unat_mul_less small)
  then have eq: "duration_micros (from_millis ms) = q * 1000000 + r * 1000"
    by (simp add: duration_micros_def from_millis_def unat_div q_def r_def)
  have "unat ms = q * 1000 + r" by (simp add: q_def r_def)
  with eq show ?thesis by simp
qed

section \<open>The frame of a request\<close>

lemma length_put_words [simp]: "length (put_words i bs buf) = length buf"
  by (induction bs arbitrary: i buf) simp_all

lemma length_load_request [simp]: "length (load_request request buf) = length buf"
  by (simp add: load_request_def)

lemma put_words_odd: "put_words i bs buf ! (2 * k + 1) = buf ! (2 * k + 1)"
proof (induction bs arbitrary: i buf)
  case Nil
  then show ?case by simp
next
  case (Cons b bs)
  have "i * 2 \<noteq> 2 * k + 1" by presburger
  with Cons show ?case by (simp add: WORD_SIZE_def)
qed

lemma put_words_even:
  "2 * k < length buf \<Longrightarrow> put_words i bs buf ! (2 * k) =
     (if i \<le> k \<and> k < i + length bs then bs ! (k - i) else buf ! (2 * k))"
proof (induction bs arbitrary: i buf)
  case Nil
  then show ?case by auto
next
  case (Cons b bs)
  then show ?case
    by (auto simp: WORD_SIZE_def nth_list_update nth_Cons' not_less_eq_eq)
qed

text \<open>
  The words that \<open>tx\<close> hands to the wave: the bytes of the request and its checksum; the
  ninth bit is set by the code for the first word only, and every other word keeps the ninth
  bit that happens to be in the buffer.
\<close>

lemma load_request_byte:
  assumes "k \<le> length request" and "2 * length request < length b"
  shows "load_request request b ! (2 * k) = (request @ [checksum request]) ! k"
proof (cases "k = length request")
  case True
  with assms show ?thesis by (simp add: load_request_def WORD_SIZE_def mult.commute)
next
  case False
  with assms have "k < length request" by simp
  with assms put_words_even [of k "b[1 := 1]" 0 request] show ?thesis
    by (simp add: load_request_def WORD_SIZE_def nth_append mult.commute)
qed

lemma load_request_flag:
  assumes "1 < length b"
  shows "load_request request b ! (2 * k + 1) = (if k = 0 then 1 else b ! (2 * k + 1))"
proof -
  have "length request * 2 \<noteq> Suc (2 * k)" by presburger
  then show ?thesis
    using put_words_odd [of 0 request "b[1 := 1]" k] assms
    by (auto simp: load_request_def WORD_SIZE_def nth_list_update)
qed

section \<open>The answer of a peripheral\<close>

text \<open>
  A block on the bus is a list of 9-bit words. The specification of an answer: the bytes
  before the first word whose ninth bit is set, and the byte of that word.
\<close>

type_synonym bus_word = "u8 \<times> u8"

fun words_of :: "u8 list \<Rightarrow> bus_word list" where
  "words_of (b # f # bs) = (b, f) # words_of bs"
| "words_of _ = []"

fun parse_block :: "bus_word list \<Rightarrow> (u8 list \<times> u8) option" where
  "parse_block [] = None"
| "parse_block ((b, f) # ws) =
     (if f = 1 then Some ([], b) else map_option (\<lambda>(d, e). (b # d, e)) (parse_block ws))"

text \<open>An answer without data is an acknowledgement by its last byte alone.\<close>

fun block_verdict :: "u8 list \<times> u8 \<Rightarrow> error + unit" where
  "block_verdict (d, e) =
     (if d = [] then
        (if e = RESPONSE_ACK then Inr ()
         else if e = RESPONSE_NAK then Inl Mdb_Nak
         else Inl (Mdb_Invalid_Response e))
      else if e = checksum d then Inr ()
      else Inl (Mdb_Checksum (checksum d) e d))"

text \<open>What a peripheral sends to answer with the data \<open>d\<close>, and to acknowledge.\<close>

definition answer_frame :: "u8 list \<Rightarrow> bus_word list" where
  "answer_frame d = map (\<lambda>b. (b, 0)) d @ [(checksum d, 1)]"

definition wire_bytes :: "bus_word list \<Rightarrow> u8 list" where
  "wire_bytes ws = concat (map (\<lambda>(b, f). [b, f]) ws)"

lemma words_of_wire_bytes [simp]: "words_of (wire_bytes ws) = ws"
  by (induction ws) (auto simp: wire_bytes_def)

lemma words_of_append: "even (length xs) \<Longrightarrow> words_of (xs @ ys) = words_of xs @ words_of ys"
  by (induction xs rule: words_of.induct) auto

lemma length_words_of: "length (words_of bs) = length bs div 2"
  by (induction bs rule: words_of.induct) auto

lemma nth_words_of: "2 * k + 1 < length bs \<Longrightarrow> words_of bs ! k = (bs ! (2 * k), bs ! (2 * k + 1))"
proof (induction bs arbitrary: k rule: words_of.induct)
  case (1 b f bs)
  then show ?case by (cases k) auto
qed auto

lemma parse_block_append:
  "parse_block (xs @ ys) = (case parse_block xs of
       Some p \<Rightarrow> Some p
     | None \<Rightarrow> map_option (\<lambda>(d, e). (map fst xs @ d, e)) (parse_block ys))"
  by (induction xs rule: parse_block.induct)
    (auto split: option.splits simp: option.map_comp o_def split_beta option.map_id0 map_option_case)

lemma parse_block_None: "parse_block ws = None \<longleftrightarrow> (\<forall>w \<in> set ws. snd w \<noteq> 1)"
  by (induction ws rule: parse_block.induct) auto

lemma parse_answer_frame: "parse_block (answer_frame d) = Some (d, checksum d)"
proof -
  have "parse_block (map (\<lambda>b. (b, 0)) d) = None"
    by (auto simp: parse_block_None)
  then show ?thesis by (simp add: answer_frame_def parse_block_append o_def)
qed

end
