(* ===== verification/Mdb_Waves.thy ===== *)
theory Mdb_Waves
  imports Mdb Mdb_Block Bench
begin

text \<open>
  Resources of the driver: what each operation of \<open>GpioMdb\<close> leaves alone (the rest of the
  world, and the waves it does not own), and the balance of waves created and deleted.
\<close>

section \<open>Frames\<close>

text \<open>An observation that sees no call but the making and deleting of waves and the reads.\<close>

definition io_call :: "gpio_call \<Rightarrow> bool" where
  "io_call c = (case c of GpioWaveCreate \<Rightarrow> False | GpioWaveDelete _ \<Rightarrow> False
     | GpioSerialRead _ _ \<Rightarrow> False | GpioWaveTxSend _ _ \<Rightarrow> False
     | GpioWaveAddSerial _ _ _ _ _ _ _ \<Rightarrow> False | _ \<Rightarrow> True)"

definition blind :: "'d pigpio \<Rightarrow> (('d, 'z) world_scheme \<Rightarrow> 'b) \<Rightarrow> bool" where
  "blind P f \<longleftrightarrow> (\<forall>c. io_call c \<longrightarrow> quiet P f c)"

lemma io_call_simps [simp]:
  "io_call GpioTick" "io_call (GpioDelay a)" "io_call (GpioSerialReadOpen a b c)"
  "io_call (GpioSerialReadClose a)" "io_call GpioWaveAddNew"
  "io_call GpioWaveTxBusy" "io_call GpioWaveTxStop" "io_call (GpioSetMode a b)" "io_call (GpioWrite a b)"
  by (simp_all add: io_call_def)

lemma blindD [intro]: "blind P f \<Longrightarrow> io_call c \<Longrightarrow> quiet P f c"
  by (simp add: blind_def)

lemma io_call_not_wave: "io_call c \<Longrightarrow> \<not> wave_call c"
  by (cases c) (simp_all add: io_call_def wave_call_def)

lemma blind_live_waves [simp]: "blind P live_waves"
  by (simp add: blind_def io_call_not_wave)

lemma blind_more [simp]: "blind P world.more"
  by (simp add: blind_def)

lemma keeps_io_q [keeps_intros]: "keeps f m \<Longrightarrow> keeps f (io_q m)"
  unfolding io_q_def by (rule keeps_map_err)

lemma returns_io_q [returns_intros]: "returns m \<Longrightarrow> returns (io_q m)"
  unfolding io_q_def by (rule returns_map_err)

lemma keeps_duration [keeps_intros]: "keeps f (duration_as_micros32 d)"
  by (simp add: keeps_def duration_as_micros32_eq)

lemma returns_duration [returns_intros]: "returns (duration_as_micros32 d)"
  by (simp add: returns_def duration_as_micros32_eq)

lemma keeps_mdb_wave_create_more [keeps_intros]: "keeps world.more (mdb_wave_create P pin s)"
  unfolding mdb_wave_create_def by (intro keeps_intros) simp

lemma keeps_mdb_wave_send_wait [keeps_intros]:
  "blind P f \<Longrightarrow> (\<And>v m. quiet P f (GpioWaveTxSend v m)) \<Longrightarrow> keeps f (mdb_wave_send_wait P v deadline step err)"
  unfolding mdb_wave_send_wait_def send_wait_round_def by (intro keeps_intros) auto

lemma keeps_read_wait_step [keeps_intros]: "keeps f read_wait_step"
  unfolding read_wait_step_def by (intro keeps_intros)

lemma keeps_gpio_mdb_close [keeps_intros]: "blind P f \<Longrightarrow> keeps f (gpio_mdb_close P m)"
  unfolding gpio_mdb_close_def by (intro keeps_intros) auto

lemma keeps_bus_reset [keeps_intros]: "blind P f \<Longrightarrow> keeps f (bus_reset P m d)"
  unfolding bus_reset_def by (intro keeps_intros) auto

lemma keeps_gpio_mdb_new_more [keeps_intros]: "keeps world.more (gpio_mdb_new P rx tx)"
  unfolding gpio_mdb_new_def by (intro keeps_intros) simp_all

lemma keeps_gpio_mdb_drop_more [keeps_intros]: "keeps world.more (gpio_mdb_drop P m)"
  unfolding gpio_mdb_drop_def by (intro keeps_intros) simp_all

lemma returns_read_wait_step [returns_intros]: "returns read_wait_step"
  unfolding read_wait_step_def by (intro returns_intros)

lemma returns_mdb_wave_create [returns_intros]: "returns (mdb_wave_create P pin s)"
  unfolding mdb_wave_create_def by (intro returns_intros)

lemma returns_driver_ops [returns_intros]:
  "returns (gpio_mdb_new P rx tx)" "returns (gpio_mdb_close P m)" "returns (gpio_mdb_drop P m)"
  "returns (bus_reset P m d)"
  unfolding gpio_mdb_new_def gpio_mdb_close_def gpio_mdb_drop_def bus_reset_def
  by (intro returns_intros)+

text \<open>Panics and errors of the operations on a port.\<close>

lemma panics_io_q [panics_intros]: "panics m Q \<Longrightarrow> panics (io_q m) Q"
  unfolding io_q_def by (rule panics_map_err)

lemma errs_io_q [errs_intros]: "errs m (\<lambda>e. E (Io_Error e)) \<Longrightarrow> errs (io_q m) E"
  unfolding io_q_def by (rule errs_map_err)

lemma panics_duration [panics_intros]: "panics (duration_as_micros32 d) Q"
  by (simp add: panics_def duration_as_micros32_eq)

lemma panics_mdb_wave_create [panics_intros]: "panics (mdb_wave_create P pin s) Q"
  unfolding mdb_wave_create_def by (intro panics_intros)

lemma panics_mdb_wave_send_wait [panics_intros]: "panics (mdb_wave_send_wait P v deadline step err) Q"
  unfolding mdb_wave_send_wait_def send_wait_round_def by (intro panics_intros)

lemma panics_bus_reset [panics_intros]: "panics (bus_reset P m d) Q"
  unfolding bus_reset_def by (intro panics_intros)

lemma panics_gpio_mdb_new [panics_intros]: "Q Expect_Failed \<Longrightarrow> panics (gpio_mdb_new P rx tx) Q"
  unfolding gpio_mdb_new_def read_wait_step_def by (intro panics_intros)

section \<open>The balance of waves\<close>

lemma adds_mdb_wave_create: "adds live_waves (mdb_wave_create P pin s) 1 0"
  unfolding mdb_wave_create_def io_q_def
  by (rule adds_map_err) (rule addsI, drule new_serial_live_waves, simp split: outcome.splits)

lemma adds_wave_drop: "adds live_waves (wave_drop P v) (-1) (-1)"
  by (rule addsI) (auto dest: wave_drop_live_waves split: outcome.splits)

lemma adds_io_q: "adds \<mu> m n e \<Longrightarrow> adds \<mu> (io_q m) n e"
  unfolding io_q_def by (rule adds_map_err)

lemma adds_gpio_mdb_new: "adds live_waves (gpio_mdb_new P rx tx) 2 0"
proof -
  have nak: "adds live_waves (unless_moved (mdb_wave_create P tx bs) (wave_drop P ack)) 1 (-1)"
    for bs ack using adds_unless_moved [OF adds_mdb_wave_create adds_wave_drop] by force
  have two: "adds live_waves (bindR (mdb_wave_create P tx bs) (\<lambda>ack.
      bindR (unless_moved (mdb_wave_create P tx bs') (wave_drop P ack)) (\<lambda>nak.
      bindR (gets stack_junk) (\<lambda>junk. ret (F ack nak junk))))) 2 0" for bs bs' F
  proof (rule adds_bindR [OF adds_mdb_wave_create])
    show "adds live_waves (bindR (unless_moved (mdb_wave_create P tx bs') (wave_drop P ack)) (\<lambda>nak.
        bindR (gets stack_junk) (\<lambda>junk. ret (F ack nak junk)))) 1 (-1)" for ack
      by (rule adds_bindR [OF nak adds_gets_ret [where e = "-2"]]) simp_all
  qed simp_all
  show ?thesis
    unfolding gpio_mdb_new_def by (intro adds_after_keeps two keeps_intros) auto
qed

lemma wave_drop_io_q_Ok: "io_q (wave_drop P v) w = Some (r, w') \<Longrightarrow> r = Ok ()"
  by (auto simp: io_q_def map_err_def wave_drop_def run_simps)

lemma gpio_mdb_close_no_panic: "gpio_mdb_close P m w = Some (r, w') \<Longrightarrow> r \<noteq> Panic p"
  by (auto simp: gpio_mdb_close_def bindR_def io_q_def map_err_def check_ffi_run ret_def split: if_splits)

lemma gpio_mdb_drop_Ok: "gpio_mdb_drop P m w = Some (r, w') \<Longrightarrow> r = Ok ()"
  unfolding gpio_mdb_drop_def
  by (elim bindR_cases)
    (auto simp: attempt_def dest: wave_drop_io_q_Ok gpio_mdb_close_no_panic
      split: option.splits prod.splits outcome.splits)

text \<open>The destructor gives back both waves, also when closing the port fails.\<close>

lemma adds_gpio_mdb_drop: "adds live_waves (gpio_mdb_drop P m) (-2) (-2)"
proof (rule addsI)
  fix w r w'
  assume "gpio_mdb_drop P m w = Some (r, w')"
  moreover from this have "r = Ok ()" by (rule gpio_mdb_drop_Ok)
  moreover have "keeps live_waves (attempt (gpio_mdb_close P m) :: (_, error, _) prog)"
    by (intro keeps_intros) simp
  ultimately show "live_waves w' = live_waves w + (case r of Ok _ \<Rightarrow> -2 | _ \<Rightarrow> -2)"
    unfolding gpio_mdb_drop_def
    by (auto elim!: bindR_OkD dest!: keepsD addsD [OF adds_io_q [OF adds_wave_drop]])
qed

end
