(* ===== verification/Mdb_Receive.thy ===== *)
theory Mdb_Receive
  imports Mdb_Waves
begin

text \<open>
  The receiving half of \<open>tx\<close>: \<open>wait_receive\<close>, the word scanner and the loop around them
  refine \<open>parse_block\<close> on the bytes the serial port delivered, however they are cut into
  reads.
\<close>

section \<open>What the log says was received and sent\<close>

definition rcvd :: "('d, 'z) world_scheme \<Rightarrow> u8 list" where
  "rcvd w = concat (map (\<lambda>e. case ev_call e of GpioSerialRead _ _ \<Rightarrow> ev_bytes e | _ \<Rightarrow> []) (ffi_log w))"

definition sent :: "('d, 'z) world_scheme \<Rightarrow> u32 list" where
  "sent w = concat (map (\<lambda>e. case ev_call e of GpioWaveTxSend v _ \<Rightarrow> [v] | _ \<Rightarrow> []) (ffi_log w))"

text \<open>The serial waves described to the library: the pin and the bytes of each.\<close>

definition frames :: "('d, 'z) world_scheme \<Rightarrow> (u32 \<times> u8 list) list" where
  "frames w = concat (map (\<lambda>e. case ev_call e of
     GpioWaveAddSerial pin _ _ _ _ _ bs \<Rightarrow> [(pin, bs)] | _ \<Rightarrow> []) (ffi_log w))"

lemma frames_after:
  "frames (after P c w) = frames w @ (case c of GpioWaveAddSerial pin _ _ _ _ _ bs \<Rightarrow> [(pin, bs)] | _ \<Rightarrow> [])"
  by (simp add: frames_def)

lemma quiet_frames [simp]:
  "(case c of GpioWaveAddSerial _ _ _ _ _ _ _ \<Rightarrow> False | _ \<Rightarrow> True) \<Longrightarrow> quiet P frames c"
  by (cases c) (simp_all add: quiet_def frames_after)

lemma rcvd_after:
  "rcvd (after P c w) = rcvd w @ (case c of GpioSerialRead _ _ \<Rightarrow> bytes_of P c w | _ \<Rightarrow> [])"
  by (simp add: rcvd_def split: gpio_call.split)

lemma sent_after:
  "sent (after P c w) = sent w @ (case c of GpioWaveTxSend v _ \<Rightarrow> [v] | _ \<Rightarrow> [])"
  by (simp add: sent_def split: gpio_call.split)

lemma quiet_rcvd [simp]: "(case c of GpioSerialRead _ _ \<Rightarrow> False | _ \<Rightarrow> True) \<Longrightarrow> quiet P rcvd c"
  by (cases c) (simp_all add: quiet_def rcvd_after)

lemma quiet_sent [simp]: "(case c of GpioWaveTxSend _ _ \<Rightarrow> False | _ \<Rightarrow> True) \<Longrightarrow> quiet P sent c"
  by (cases c) (simp_all add: quiet_def sent_after)

lemma log_obs_after_other [simp]:
  "(case c of GpioSerialRead _ _ \<Rightarrow> False | _ \<Rightarrow> True) \<Longrightarrow> rcvd (after P c w) = rcvd w"
  "(case c of GpioWaveTxSend _ _ \<Rightarrow> False | _ \<Rightarrow> True) \<Longrightarrow> sent (after P c w) = sent w"
  "(case c of GpioWaveAddSerial _ _ _ _ _ _ _ \<Rightarrow> False | _ \<Rightarrow> True) \<Longrightarrow> frames (after P c w) = frames w"
  by (cases c; simp add: rcvd_after sent_after frames_after)+

section \<open>The driver's part of the state\<close>

lemma mdb_after [simp]: "mself (after P c w) = mself w" "response (after P c w) = response w"
  by (simp_all add: after_def split: prod.splits)

lemma set_buf_simps [simp]:
  "mself (set_buf b w) = (mself w)\<lparr>buf := b\<rparr>" "response (set_buf b w) = response w"
  "ffi_log (set_buf b w) = ffi_log w" "dev (set_buf b w) = dev w" "debug_on (set_buf b w) = debug_on w"
  by (simp_all add: set_buf_def)

lemma log_obs_set [simp]:
  "rcvd (set_buf b w) = rcvd w" "sent (set_buf b w) = sent w" "live_waves (set_buf b w) = live_waves w"
  "rcvd (w\<lparr>response := r\<rparr>) = rcvd w" "sent (w\<lparr>response := r\<rparr>) = sent w"
  "live_waves (w\<lparr>response := r\<rparr>) = live_waves w"
  "frames (set_buf b w) = frames w" "frames (w\<lparr>response := r\<rparr>) = frames w"
  by (simp_all add: rcvd_def sent_def live_waves_def frames_def)

lemma length_fill [simp]: "length (fill bs b) = length b"
  by (simp add: fill_def)

lemma take_fill: "length bs = n \<Longrightarrow> n \<le> length b \<Longrightarrow> take n (fill bs b) = bs"
  by (simp add: fill_def)

lemma blind_obs [simp]:
  "blind P rcvd" "blind P sent" "blind P frames" "blind P mself" "blind P response"
  by (auto simp: blind_def io_call_def quiet_def split: gpio_call.splits)

section \<open>Scanning one read\<close>

lemma buf_at_run [run_simps]:
  "i < length (buf (mself w)) \<Longrightarrow> buf_at i w = Some (Ok (buf (mself w) ! i), w)"
  "\<not> i < length (buf (mself w)) \<Longrightarrow> buf_at i w = Some (Panic Index_Out_Of_Bounds, w)"
  by (simp_all add: buf_at_def run_simps)

lemma push_response_run [run_simps]:
  "push_response v w = Some (Ok (), w\<lparr>response := response w @ [v]\<rparr>)"
  by (simp add: push_response_def run_simps)

lemma words_of_drop:
  "i + 1 < n \<Longrightarrow> n \<le> length b \<Longrightarrow>
     words_of (drop i (take n b)) = (b ! i, b ! (i + 1)) # words_of (drop (i + 2) (take n b))"
proof -
  assume "i + 1 < n" and "n \<le> length b"
  then have "i < length (take n b)" and "Suc i < length (take n b)" by simp_all
  from Cons_nth_drop_Suc [OF this(1)] Cons_nth_drop_Suc [OF this(2)]
  have "drop i (take n b) = take n b ! i # take n b ! Suc i # drop (Suc (Suc i)) (take n b)" by simp
  with \<open>i + 1 < n\<close> show ?thesis by simp
qed

lemma scan_words_run:
  assumes "n \<le> length (buf (mself w))" and "even i" and "even n"
  shows "scan_words i n w = (case parse_block (words_of (drop i (take n (buf (mself w))))) of
       Some (d, e) \<Rightarrow> Some (Ok (Some e), w\<lparr>response := response w @ d\<rparr>)
     | None \<Rightarrow> Some (Ok None, w\<lparr>response := response w
                @ map fst (words_of (drop i (take n (buf (mself w)))))\<rparr>))"
  using assms
proof (induction i n arbitrary: w rule: scan_words.induct)
  case (1 i n)
  show ?case
  proof (cases "i < n")
    case True
    with 1(3,4) have i: "i + 1 < n" by presburger
    let ?b = "buf (mself w)" and ?w = "w\<lparr>response := response w @ [buf (mself w) ! i]\<rparr>"
    note ws = words_of_drop [OF i 1(2)]
    show ?thesis
    proof (cases "?b ! (i + 1) = 1")
      case flag: True
      then show ?thesis using i 1(2) ws
        by (subst scan_words.simps) (simp add: run_simps bindR_def ret_def)
    next
      case False
      have "scan_words (i + 2) n ?w = (case parse_block (words_of (drop (i + 2) (take n ?b))) of
          Some (d, e) \<Rightarrow> Some (Ok (Some e), w\<lparr>response := response w @ ?b ! i # d\<rparr>)
        | None \<Rightarrow> Some (Ok None, w\<lparr>response := response w @ ?b ! i # map fst (words_of (drop (i + 2) (take n ?b)))\<rparr>))"
        using "1.IH" [OF True, of "?b ! (i + 1)" ?w] 1(2,3,4) False by (simp split: option.splits prod.splits)
      with False show ?thesis using i 1(2) ws
        by (subst scan_words.simps) (simp add: run_simps bindR_def split: option.splits prod.splits)
    qed
  next
    case False
    then show ?thesis by (subst scan_words.simps) (simp add: run_simps)
  qed
qed

section \<open>Reads of the serial port\<close>

text \<open>
  What the documentation of \<open>pigpio\<close> promises of \<open>gpioSerialRead\<close>: it returns the number
  of bytes it copied, at most the size of the buffer, and copies none when it fails; with 9
  data bits a character takes two bytes, so the number is even.
\<close>

locale serial_reader =
  fixes P :: "'d pigpio"
  assumes read_count: "pg_call P (GpioSerialRead pin n) d = (rc, bs, d') \<Longrightarrow> \<not> is_neg rc \<Longrightarrow>
      unat rc = length bs \<and> length bs \<le> n \<and> even (length bs)"
    and read_error: "pg_call P (GpioSerialRead pin n) d = (rc, bs, d') \<Longrightarrow> is_neg rc \<Longrightarrow> bs = []"

interpretation mock_reader: serial_reader "mock_pigpio :: 'd pigpio"
  by unfold_locales auto

definition read_call :: "('d, 'z) mdb_world_scheme \<Rightarrow> gpio_call" where
  "read_call w = GpioSerialRead (ucast (rx_pin (mself w))) (length (buf (mself w)))"

lemma after_read_call [simp]:
  "sent (after P (read_call w) v) = sent v"
  "rcvd (after P (read_call w) v) = rcvd v @ bytes_of P (read_call w) v"
  "live_waves (after P (read_call w) v) = live_waves v"
  by (simp_all add: read_call_def sent_after rcvd_after)

lemma serial_read_run:
  "serial_read P w = Some (
     if is_neg (rc_of P (read_call w) w)
     then Err (Io_Error \<lparr>io_kind = Other, io_msg = ''pigpio err='' @ show_i32 (rc_of P (read_call w) w)\<rparr>)
     else Ok (unat (rc_of P (read_call w) w)),
     set_buf (fill (bytes_of P (read_call w) w) (buf (mself w))) (after P (read_call w) w))"
  by (simp add: serial_read_def read_call_def run_simps bindR_def io_q_def map_err_def check_def)

lemma fill_Nil [simp]: "fill [] b = b"
  by (simp add: fill_def)

text \<open>How \<open>wait_receive\<close> changes the state: only through the read that had data.\<close>

definition waited ::
  "('d, 'z) mdb_world_scheme \<Rightarrow> (error, nat) outcome \<Rightarrow> ('d, 'z) mdb_world_scheme \<Rightarrow> bool" where
  "waited w r w' \<longleftrightarrow> response w' = response w \<and> sent w' = sent w \<and> live_waves w' = live_waves w
     \<and> (\<exists>b. mself w' = (mself w)\<lparr>buf := b\<rparr> \<and> length b = length (buf (mself w)))
     \<and> (\<forall>p. r \<noteq> Panic p)
     \<and> (\<exists>xs. rcvd w' = rcvd w @ xs \<and> (case r of
           Ok n \<Rightarrow> n = length xs \<and> 0 < n \<and> even n \<and> n \<le> length (buf (mself w))
             \<and> take n (buf (mself w')) = xs
         | _ \<Rightarrow> xs = []))"

text \<open>
  The loop \<open>'receive\<close>: entered with a chunk of words in the buffer, it leaves with the end
  byte of the block these words and all later ones make, and the data bytes pushed to
  \<open>response\<close>; it fails or times out only if no word received so far ended a block.
\<close>

definition received ::
  "nat \<Rightarrow> ('d, 'z) mdb_world_scheme \<Rightarrow> (error, u8) outcome \<Rightarrow> ('d, 'z) mdb_world_scheme \<Rightarrow> bool" where
  "received n w r w' \<longleftrightarrow> sent w' = sent w \<and> live_waves w' = live_waves w
     \<and> (\<exists>b. mself w' = (mself w)\<lparr>buf := b\<rparr> \<and> length b = length (buf (mself w)))
     \<and> (\<forall>p. r \<noteq> Panic p)
     \<and> (\<exists>ys. rcvd w' = rcvd w @ ys \<and> (case r of
           Ok e \<Rightarrow> \<exists>d. parse_block (words_of (take n (buf (mself w)) @ ys)) = Some (d, e)
             \<and> response w' = response w @ d
         | _ \<Rightarrow> parse_block (words_of (take n (buf (mself w)) @ ys)) = None))"

lemma receive_round_break:
  assumes "n \<le> length (buf (mself w))" and "even n"
    and "parse_block (words_of (take n (buf (mself w)))) = Some (d, e)"
  shows "receive_round P deadline n w = Some (Ok (Break e), w\<lparr>response := response w @ d\<rparr>)"
  using assms scan_words_run [of n w 0] by (simp add: receive_round_def bindR_def ret_def)

lemma receive_round_next:
  assumes "n \<le> length (buf (mself w))" and "even n"
    and "parse_block (words_of (take n (buf (mself w)))) = None"
  shows "receive_round P deadline n w = bindR (wait_receive P deadline) (\<lambda>k. ret (Continue k))
      (w\<lparr>response := response w @ map fst (words_of (take n (buf (mself w))))\<rparr>)"
  using assms scan_words_run [of n w 0] by (simp add: receive_round_def bindR_def)

lemma words_of_chunks:
  assumes "n \<le> length b" and "even n" and "parse_block (words_of (take n b)) = None"
  shows "parse_block (words_of (take n b @ ys))
    = map_option (\<lambda>(d, e). (map fst (words_of (take n b)) @ d, e)) (parse_block (words_of ys))"
  using assms by (simp add: words_of_append parse_block_append)

context serial_reader
begin

lemma read_bytes:
  "\<not> is_neg (rc_of P (read_call w) w) \<Longrightarrow> unat (rc_of P (read_call w) w) = length (bytes_of P (read_call w) w)
     \<and> length (bytes_of P (read_call w) w) \<le> length (buf (mself w)) \<and> even (length (bytes_of P (read_call w) w))"
  "is_neg (rc_of P (read_call w) w) \<Longrightarrow> bytes_of P (read_call w) w = []"
  using read_count read_error
  by (cases "pg_call P (read_call w) (dev w)"; fastforce simp: rc_of_def bytes_of_def read_call_def)+

lemma read_nothing: "rc_of P (read_call w) w = 0 \<Longrightarrow> bytes_of P (read_call w) w = []"
  using read_bytes(1) [of w] by simp

lemma wait_receive_waited:
  assumes "wait_receive P deadline w = Some (r, w')"
  shows "waited w r w'"
  using assms unfolding wait_receive_def
proof (induction rule: loopR_induct)
  case (Break c w n w')
  then have n: "0 < n" "\<not> is_neg (rc_of P (read_call w) w)" "n = unat (rc_of P (read_call w) w)"
    and w': "w' = set_buf (fill (bytes_of P (read_call w) w) (buf (mself w))) (after P (read_call w) w)"
    by (auto simp: wait_receive_round_def bindR_def serial_read_run run_simps ret_def fail_def
        split: if_splits)
  from read_bytes(1) [OF n(2)] n(1,3) show ?case
    by (auto simp: waited_def w' take_fill)
next
  case (Err c w e w')
  then show ?case
    using read_bytes(2) [of w] read_nothing [of w]
    by (auto simp: wait_receive_round_def bindR_def serial_read_run run_simps ret_def fail_def
        waited_def unat_eq_0 intro: exI [of _ "buf (mself w)"] split: if_splits)
next
  case (Panic c w p w')
  then show ?case
    by (auto simp: wait_receive_round_def bindR_def serial_read_run run_simps ret_def fail_def
        split: if_splits)
next
  case (Continue c w c' w1 r w')
  from Continue(1) have "rc_of P (read_call w) w = 0"
    and w1: "w1 = after P (GpioDelay (wait_step (mself w))) (after P GpioTick
        (set_buf (fill (bytes_of P (read_call w) w) (buf (mself w))) (after P (read_call w) w)))"
    by (auto simp: wait_receive_round_def bindR_def serial_read_run run_simps ret_def fail_def unat_eq_0
        split: if_splits)
  with read_nothing [of w] have "response w1 = response w" "sent w1 = sent w" "live_waves w1 = live_waves w"
      "mself w1 = mself w" "rcvd w1 = rcvd w"
    by simp_all
  with Continue(2) show ?case by (cases r) (auto simp: waited_def)
qed

lemma receive_loop_received:
  assumes "loopR (receive_round P deadline) n w = Some (r, w')"
    and "n \<le> length (buf (mself w))" and "even n"
  shows "received n w r w'"
  using assms
proof (induction rule: loopR_induct)
  case (Break n w e w')
  show ?case
  proof (cases "parse_block (words_of (take n (buf (mself w))))")
    case None
    with Break receive_round_next [OF Break(2,3) None] show ?thesis
      by (auto simp: bindR_def ret_def split: option.splits prod.splits outcome.splits)
  next
    case (Some p)
    with Break receive_round_break [OF Break(2,3)] show ?thesis
      by (cases p) (auto simp: received_def intro: exI [of _ "buf (mself w)"])
  qed
next
  case (Err n w e w')
  show ?case
  proof (cases "parse_block (words_of (take n (buf (mself w))))")
    case None
    with Err receive_round_next [OF Err(2,3) None] have
      "wait_receive P deadline (w\<lparr>response := response w @ map fst (words_of (take n (buf (mself w))))\<rparr>) = Some (Err e, w')"
      by (auto simp: bindR_def ret_def split: option.splits prod.splits outcome.splits)
    from wait_receive_waited [OF this] None show ?thesis
      by (auto simp: waited_def received_def)
  qed (use Err receive_round_break [OF Err(2,3)] in auto)
next
  case (Panic n w p w')
  show ?case
  proof (cases "parse_block (words_of (take n (buf (mself w))))")
    case None
    with Panic receive_round_next [OF Panic(2,3) None] have
      "wait_receive P deadline (w\<lparr>response := response w @ map fst (words_of (take n (buf (mself w))))\<rparr>) = Some (Panic p, w')"
      by (auto simp: bindR_def ret_def split: option.splits prod.splits outcome.splits)
    from wait_receive_waited [OF this] show ?thesis by (simp add: waited_def)
  qed (use Panic receive_round_break [OF Panic(2,3)] in auto)
next
  case (Continue n w k w1 r w')
  have None: "parse_block (words_of (take n (buf (mself w)))) = None"
  proof (rule ccontr)
    assume "parse_block (words_of (take n (buf (mself w)))) \<noteq> None"
    then obtain d e where "parse_block (words_of (take n (buf (mself w)))) = Some (d, e)" by auto
    from receive_round_break [OF Continue(3,4) this] Continue(1) show False by simp
  qed
  let ?w0 = "w\<lparr>response := response w @ map fst (words_of (take n (buf (mself w))))\<rparr>"
  from Continue(1) receive_round_next [OF Continue(3,4) None]
  have "wait_receive P deadline ?w0 = Some (Ok k, w1)"
    by (auto simp: bindR_def ret_def split: option.splits prod.splits outcome.splits)
  from wait_receive_waited [OF this] obtain b1 where
      w1: "response w1 = response ?w0" "sent w1 = sent w" "live_waves w1 = live_waves w"
      "mself w1 = (mself w)\<lparr>buf := b1\<rparr>" "length b1 = length (buf (mself w))"
      "rcvd w1 = rcvd w @ take k (buf (mself w1))" "even k" "k \<le> length (buf (mself w))"
    by (auto simp: waited_def)
  with Continue(2) have rec: "received k w1 r w'" by simp
  then obtain ys where ys: "rcvd w' = rcvd w1 @ ys" "case r of
           Ok e \<Rightarrow> \<exists>d. parse_block (words_of (take k (buf (mself w1)) @ ys)) = Some (d, e)
             \<and> response w' = response w1 @ d
         | _ \<Rightarrow> parse_block (words_of (take k (buf (mself w1)) @ ys)) = None"
    by (auto simp: received_def)
  have "rcvd w' = rcvd w @ (take k (buf (mself w1)) @ ys) \<and> (case r of
           Ok e \<Rightarrow> \<exists>d. parse_block (words_of (take n (buf (mself w)) @ (take k (buf (mself w1)) @ ys))) = Some (d, e)
             \<and> response w' = response w @ d
         | _ \<Rightarrow> parse_block (words_of (take n (buf (mself w)) @ (take k (buf (mself w1)) @ ys))) = None)"
    using ys w1 words_of_chunks [OF Continue(3,4) None, of "take k (buf (mself w1)) @ ys"]
    by (auto split: outcome.splits)
  then have "\<exists>ys. rcvd w' = rcvd w @ ys \<and> (case r of
           Ok e \<Rightarrow> \<exists>d. parse_block (words_of (take n (buf (mself w)) @ ys)) = Some (d, e)
             \<and> response w' = response w @ d
         | _ \<Rightarrow> parse_block (words_of (take n (buf (mself w)) @ ys)) = None)" by blast
  then show ?case using rec w1(2-5) by (auto simp: received_def)
qed

end

end
