(* ===== verification/Mdb_Tx.thy ===== *)
theory Mdb_Tx
  imports Mdb_Receive
begin

text \<open>
  Whole transactions: how \<open>tx\<close> settles, which waves it sends, that it gives back every wave
  it makes, and how it can panic.
\<close>

section \<open>Sending one wave\<close>

lemma mdb_wave_send_wait_sent:
  assumes "mdb_wave_send_wait P v deadline step err w = Some (r, w')"
  shows "sent w' = sent w @ [wave_id v]"
proof -
  let ?w1 = "after P (GpioWaveTxSend (wave_id v) (PI_WAVE_MODE_ONE_SHOT_SYNC P)) (after P GpioTick w)"
  have keep: "keeps sent (bindR (loopR (send_wait_round P start deadline step err) ()) (\<lambda>_.
      bindR (io_q (check_ffi P GpioWaveTxStop)) (\<lambda>_. ret ())) :: (('a, 'b) world_scheme, error, unit) prog)"
    for start unfolding send_wait_round_def by (intro keeps_intros) auto
  have send: "io_q (wave_send P v m) x = Some (z, y) \<Longrightarrow> y = after P (GpioWaveTxSend (wave_id v) m) x"
    for m x y and z :: "(error, unit) outcome"
    by (auto simp: wave_send_def io_q_def map_err_def bindR_def check_ffi_run ret_def split: if_splits)
  have "sent w' = sent ?w1"
    using assms unfolding mdb_wave_send_wait_def bindR_run(1) [OF tick_since_run]
    by (cases rule: bindR_cases) (auto dest!: send keepsD [OF keep])
  then show ?thesis by (simp add: sent_after)
qed

lemma send_wait_keeps:
  assumes "mdb_wave_send_wait P v deadline step err w = Some (r, w')"
  shows "rcvd w' = rcvd w" "mself w' = mself w" "response w' = response w" "live_waves w' = live_waves w"
    "debug_on w' = debug_on w"
proof -
  have "keeps f (mdb_wave_send_wait P v deadline step err)"
    if "blind P f" and "\<And>v m. quiet P f (GpioWaveTxSend v m)" for f :: "('a, 'b) mdb_world_scheme \<Rightarrow> 'c"
    by (rule keeps_mdb_wave_send_wait [OF that])
  note k = this [THEN keepsD, OF _ _ assms]
  show "rcvd w' = rcvd w" by (rule k) simp_all
  show "live_waves w' = live_waves w" by (rule k) simp_all
  show "mself w' = mself w" by (rule k) (simp_all add: quiet_def)
  show "response w' = response w" by (rule k) (simp_all add: quiet_def)
  show "debug_on w' = debug_on w" by (rule k) (simp_all add: quiet_def blind_def)
qed

lemma send_wait_frame:
  "mdb_wave_send_wait P v deadline step err w = Some (r, w') \<Longrightarrow>
     rcvd w' = rcvd w \<and> mself w' = mself w \<and> response w' = response w \<and> live_waves w' = live_waves w"
  by (simp add: send_wait_keeps)

section \<open>Settling a transaction\<close>

text \<open>
  The outcomes that say something about the peripheral: success, and the three errors of the
  MDB protocol. Time-outs, failed foreign calls and panics say nothing about it.
\<close>

definition bus_error :: "error \<Rightarrow> bool" where
  "bus_error e = (case e of Mdb_Nak \<Rightarrow> True | Mdb_Invalid_Response _ \<Rightarrow> True
     | Mdb_Checksum _ _ _ \<Rightarrow> True | _ \<Rightarrow> False)"

definition settled :: "(error, unit) outcome \<Rightarrow> bool" where
  "settled r = (case r of Ok _ \<Rightarrow> True | Err e \<Rightarrow> bus_error e | Panic _ \<Rightarrow> False)"

definition settle :: "u8 list \<times> u8 \<Rightarrow> (error, unit) outcome" where
  "settle p = (case block_verdict p of Inr u \<Rightarrow> Ok u | Inl e \<Rightarrow> Err e)"

lemma bus_error_simps [simp]: "\<not> bus_error (Msg s)" "\<not> bus_error (Io_Error i)"
  "bus_error Mdb_Nak" "bus_error (Mdb_Invalid_Response b)" "bus_error (Mdb_Checksum c e' d)"
  by (simp_all add: bus_error_def)

lemma settled_simps [simp]: "settled (Ok u)" "settled (Err e) = bus_error e" "\<not> settled (Panic p)"
  by (simp_all add: settled_def)

lemma settled_pass:
  assumes "bindR m k s = Some (r, s')" and "settled r" and "errs m (\<lambda>e. \<not> bus_error e)"
  obtains a s1 where "m s = Some (Ok a, s1)" "k a s1 = Some (r, s')"
proof (rule bindR_pass [OF assms(1)])
  show "errs m (\<lambda>e. r \<noteq> Err e)"
    using assms(2) by (intro errsI) (auto dest: errsD [OF assms(3)])
  show "r \<noteq> Panic p" for p using assms(2) by auto
qed

lemma errs_send_wait_bus [errs_intros]:
  "errs (mdb_wave_send_wait P v deadline step err) (\<lambda>e. \<not> bus_error e)"
  unfolding mdb_wave_send_wait_def wave_send_def send_wait_round_def wave_tx_busy_def check_ffi_def
  by (intro errs_intros) simp_all

lemma tx_answer_empty: "response w = [] \<Longrightarrow> tx_answer P small e w = Some (settle ([], e), w)"
  by (simp add: tx_answer_def run_simps bindR_def settle_def)

lemma tick_add_run:
  "unat (rc_of P GpioTick w) + unat n < 2 ^ 32 \<Longrightarrow>
     bindR (tick_since P 0) (\<lambda>t. add32 t n) w = Some (Ok (rc_of P GpioTick w + n), after P GpioTick w)"
  "\<not> unat (rc_of P GpioTick w) + unat n < 2 ^ 32 \<Longrightarrow>
     bindR (tick_since P 0) (\<lambda>t. add32 t n) w = Some (Panic Arith_Overflow, after P GpioTick w)"
  by (simp_all add: run_simps bindR_def)

lemma tx_answer_data:
  assumes "response w \<noteq> []"
  shows "tx_answer P small e w =
    (let t = rc_of P GpioTick w; w1 = after P GpioTick w; m = mself w; c = checksum (response w) in
     if \<not> unat t + unat small < 2 ^ 32 then Some (Panic Arith_Overflow, w1)
     else if e \<noteq> c then bindR (mdb_wave_send_wait P (wave_nak m) (t + small) (wait_step m) ''send NAK timeout'')
       (\<lambda>_. fail (Mdb_Checksum c e (response w))) w1
     else mdb_wave_send_wait P (wave_ack m) (t + small) (wait_step m) ''send ACK timeout'' w1)"
proof -
  let ?t = "rc_of P GpioTick w"
  show ?thesis
  proof (cases "unat ?t + unat small < 2 ^ 32")
    case True
    with assms show ?thesis
      unfolding tx_answer_def bindR_run(1) [OF gets_run]
      by (simp add: tick_add_run(1) [THEN bindR_run(1)] Let_def)
  next
    case False
    with assms show ?thesis
      unfolding tx_answer_def bindR_run(1) [OF gets_run]
      by (simp add: tick_add_run(2) [THEN bindR_run(3)] Let_def)
  qed
qed

text \<open>Whatever the outcome, \<open>tx_answer\<close> sends at most one wave, ACK or NAK by the checksum.\<close>

definition reply_wave :: "gpio_mdb \<Rightarrow> u8 list \<Rightarrow> u8 \<Rightarrow> wave" where
  "reply_wave m d e = (if e = checksum d then wave_ack m else wave_nak m)"

lemma tx_answer_sent:
  assumes "tx_answer P small e w = Some (r, w')"
  shows "sent w' = sent w \<or> (response w \<noteq> [] \<and> sent w' = sent w @ [wave_id (reply_wave (mself w) (response w) e)])"
proof (cases "response w = []")
  case True
  with assms show ?thesis by (simp add: tx_answer_empty)
next
  case False
  with assms show ?thesis
    by (auto simp: tx_answer_data Let_def fail_def reply_wave_def dest!: mdb_wave_send_wait_sent
        elim!: bindR_cases split: if_splits)
qed

lemma tx_answer_settle:
  assumes "tx_answer P small e w = Some (r, w')" and "settled r"
  shows "r = settle (response w, e)"
    and "sent w' = sent w @ (if response w = [] then [] else [wave_id (reply_wave (mself w) (response w) e)])"
proof -
  have "r = settle (response w, e) \<and>
    sent w' = sent w @ (if response w = [] then [] else [wave_id (reply_wave (mself w) (response w) e)])"
  proof (cases "response w = []")
    case True
    with assms show ?thesis by (simp add: tx_answer_empty)
  next
    case False
    let ?c = "checksum (response w)" and ?w1 = "after P GpioTick w"
    let ?dl = "rc_of P GpioTick w + small"
    show ?thesis
    proof (cases "e = ?c")
      case True
      with False assms have ack: "mdb_wave_send_wait P (wave_ack (mself w)) ?dl
          (wait_step (mself w)) ''send ACK timeout'' ?w1 = Some (r, w')"
        by (auto simp: tx_answer_data Let_def split: if_splits)
      from True assms(2) have "r = Ok ()"
        using ack by (cases r) (auto dest: errsD [OF errs_send_wait_bus])
      with True False mdb_wave_send_wait_sent [OF ack] show ?thesis
        by (simp add: settle_def reply_wave_def)
    next
      case bad: False
      with False assms have "bindR (mdb_wave_send_wait P (wave_nak (mself w)) ?dl
          (wait_step (mself w)) ''send NAK timeout'') (\<lambda>_. fail (Mdb_Checksum ?c e (response w))) ?w1 = Some (r, w')"
        by (auto simp: tx_answer_data Let_def split: if_splits)
      then obtain u s1 where "mdb_wave_send_wait P (wave_nak (mself w)) ?dl
          (wait_step (mself w)) ''send NAK timeout'' ?w1 = Some (Ok u, s1)"
          and "fail (Mdb_Checksum ?c e (response w)) s1 = Some (r, w')"
        by (rule settled_pass [OF _ assms(2) errs_send_wait_bus])
      with bad False mdb_wave_send_wait_sent show ?thesis
        by (fastforce simp: settle_def reply_wave_def fail_def)
    qed
  qed
  then show "r = settle (response w, e)"
    and "sent w' = sent w @ (if response w = [] then [] else [wave_id (reply_wave (mself w) (response w) e)])"
    by auto
qed

lemma tx_answer_keeps:
  assumes "tx_answer P small e w = Some (r, w')"
  shows "rcvd w' = rcvd w" "mself w' = mself w" "response w' = response w" "live_waves w' = live_waves w"
proof -
  have "rcvd w' = rcvd w \<and> mself w' = mself w \<and> response w' = response w \<and> live_waves w' = live_waves w"
  proof (cases "response w = []")
    case False
    with assms show ?thesis
      by (auto simp: tx_answer_data Let_def fail_def elim!: bindR_cases split: if_splits dest!: send_wait_frame)
  qed (use assms in \<open>simp add: tx_answer_empty\<close>)
  then show "rcvd w' = rcvd w" "mself w' = mself w" "response w' = response w" "live_waves w' = live_waves w"
    by auto
qed

section \<open>The receiving phase\<close>

lemma tx_debug_run:
  "\<exists>w'. tx_debug P t w = Some (Ok (), w') \<and> rcvd w' = rcvd w \<and> sent w' = sent w
     \<and> mself w' = mself w \<and> response w' = response w \<and> live_waves w' = live_waves w"
  by (cases "debug_on w") (simp_all add: tx_debug_def run_simps bindR_def)

text \<open>
  What a phase of a transaction may do to the state, from a point where \<open>seen\<close> is already
  received: \<open>xs\<close> is what it receives, \<open>s\<close> the waves it sends.
\<close>

definition tx_trace ::
  "u32 list \<Rightarrow> (error, unit) outcome \<Rightarrow> gpio_mdb \<Rightarrow> u8 list \<Rightarrow> bus_word list \<Rightarrow> u32 list \<Rightarrow> bool" where
  "tx_trace pre r m resp ws s \<longleftrightarrow>
     (\<not> settled r \<longrightarrow> s = [] \<or> s = pre \<or> (\<exists>d e. parse_block ws = Some (d, e) \<and> d \<noteq> []
         \<and> s = pre @ [wave_id (reply_wave m d e)]))
     \<and> (settled r \<longrightarrow> (\<exists>d e. parse_block ws = Some (d, e) \<and> r = settle (d, e) \<and> resp = d
         \<and> s = pre @ (if d = [] then [] else [wave_id (reply_wave m d e)])))"

definition tx_phase ::
  "u32 list \<Rightarrow> u8 list \<Rightarrow> ('d, 'z) mdb_world_scheme \<Rightarrow> (error, unit) outcome \<Rightarrow> ('d, 'z) mdb_world_scheme \<Rightarrow> bool" where
  "tx_phase pre seen w r w' \<longleftrightarrow> live_waves w' = live_waves w
     \<and> (\<exists>b. mself w' = (mself w)\<lparr>buf := b\<rparr> \<and> length b = length (buf (mself w)))
     \<and> (\<exists>xs s. rcvd w' = rcvd w @ xs \<and> sent w' = sent w @ s
        \<and> tx_trace pre r (mself w) (response w') (words_of (seen @ xs)) s)"

lemma tx_answer_phase_aux:
  assumes "tx_answer P small e w = Some (r, w')" and block: "parse_block (words_of seen) = Some (response w, e)"
  shows "tx_phase [] seen w r w'"
proof -
  note k = tx_answer_keeps [OF assms(1)]
  have "\<exists>b. mself w' = (mself w)\<lparr>buf := b\<rparr> \<and> length b = length (buf (mself w))"
    using k(2) by (intro exI [of _ "buf (mself w)"]) simp
  moreover have "rcvd w' = rcvd w @ []" using k(1) by simp
  moreover have "\<exists>s. sent w' = sent w @ s \<and> (\<not> settled r \<longrightarrow> s = [] \<or> response w \<noteq> []
      \<and> s = [wave_id (reply_wave (mself w) (response w) e)])
    \<and> (settled r \<longrightarrow> r = settle (response w, e)
      \<and> s = (if response w = [] then [] else [wave_id (reply_wave (mself w) (response w) e)]))"
    using tx_answer_sent [OF assms(1)] tx_answer_settle [OF assms(1)] by (cases "settled r") auto
  ultimately show ?thesis
    using k(3,4) block unfolding tx_phase_def tx_trace_def by (cases "settled r") fastforce+
qed

lemma tx_answer_phase:
  assumes ret: "bindR (tx_answer P small e) (\<lambda>_. tx_debug P t) w = Some (r, w')"
    and block: "parse_block (words_of seen) = Some (response w, e)"
  shows "tx_phase [] seen w r w'"
  using ret
proof (cases rule: bindR_cases)
  case (Ok a s1)
  from tx_debug_run [of P t s1] Ok(2) have r: "r = Ok a"
    and same: "rcvd w' = rcvd s1" "sent w' = sent s1" "mself w' = mself s1" "response w' = response s1"
      "live_waves w' = live_waves s1" by auto
  from tx_answer_phase_aux [OF Ok(1) block] show ?thesis unfolding tx_phase_def same r .
qed (use tx_answer_phase_aux [OF _ block] in auto)

text \<open>Phases compose: an unsettled step that received and kept everything else goes before.\<close>

definition tx_quiet_step ::
  "('d, 'z) mdb_world_scheme \<Rightarrow> u8 list \<Rightarrow> ('d, 'z) mdb_world_scheme \<Rightarrow> bool" where
  "tx_quiet_step w xs w1 \<longleftrightarrow> live_waves w1 = live_waves w \<and> rcvd w1 = rcvd w @ xs \<and> sent w1 = sent w
     \<and> (\<exists>b. mself w1 = (mself w)\<lparr>buf := b\<rparr> \<and> length b = length (buf (mself w)))"

lemma reply_wave_buf [simp]: "reply_wave (m\<lparr>buf := b\<rparr>) = reply_wave m"
  by (rule ext)+ (simp add: reply_wave_def)

lemma tx_trace_buf [simp]: "tx_trace pre r (m\<lparr>buf := b\<rparr>) = tx_trace pre r m"
  by (rule ext)+ (simp add: tx_trace_def)

lemma tx_phase_after:
  assumes "tx_quiet_step w xs w1" and "tx_phase pre (seen @ xs) w1 r w'"
  shows "tx_phase pre seen w r w'"
proof -
  from assms(1) obtain b where b: "mself w1 = (mself w)\<lparr>buf := b\<rparr>" "length b = length (buf (mself w))"
    and eq: "live_waves w1 = live_waves w" "rcvd w1 = rcvd w @ xs" "sent w1 = sent w"
    by (auto simp: tx_quiet_step_def)
  from assms(2) obtain b' ys s where b': "mself w' = (mself w1)\<lparr>buf := b'\<rparr>" "length b' = length (buf (mself w1))"
    and eq': "live_waves w' = live_waves w1" "rcvd w' = rcvd w1 @ ys" "sent w' = sent w1 @ s"
    and tr: "tx_trace pre r (mself w1) (response w') (words_of ((seen @ xs) @ ys)) s"
    unfolding tx_phase_def by blast
  have "mself w' = (mself w)\<lparr>buf := b'\<rparr>" and "length b' = length (buf (mself w))"
    using b b' by simp_all
  moreover have "rcvd w' = rcvd w @ (xs @ ys)" and "sent w' = sent w @ s" and "live_waves w' = live_waves w"
    using eq eq' by simp_all
  moreover have "tx_trace pre r (mself w) (response w') (words_of (seen @ xs @ ys)) s"
    using tr b(1) by simp
  ultimately show ?thesis unfolding tx_phase_def by blast
qed

lemma tx_phase_stop:
  assumes "tx_quiet_step w xs w'" and "\<not> settled r"
  shows "tx_phase pre seen w r w'"
proof -
  have "tx_trace pre r (mself w) (response w') (words_of (seen @ xs)) []"
    using assms(2) by (simp add: tx_trace_def)
  with assms(1) show ?thesis unfolding tx_phase_def tx_quiet_step_def by fastforce
qed

text \<open>\<open>tx_receive\<close> is one phase, on a device that keeps the contract of \<open>gpioSerialRead\<close>.\<close>

lemma tick_add_cases:
  assumes "bindR (tick_since P 0) (\<lambda>t. add32 t n) w = Some (r, w')"
  shows "w' = after P GpioTick w" and "r = Panic Arith_Overflow \<or> (\<exists>t. r = Ok t)"
  using assms by (auto simp: run_simps bindR_def add32_def ret_def panic_def split: if_splits)

lemma quiet_tick: "tx_quiet_step w [] (after P GpioTick w)"
  by (simp add: tx_quiet_step_def) (metis gpio_mdb.surjective gpio_mdb.update_convs(6))

lemma tx_quiet_step_trans:
  assumes "tx_quiet_step w xs w1" and "tx_quiet_step w1 ys w2"
  shows "tx_quiet_step w (xs @ ys) w2"
  using assms unfolding tx_quiet_step_def by auto

lemma errs_wait_receive [errs_intros]: "errs (wait_receive P deadline) (\<lambda>e. \<not> bus_error e)"
  unfolding wait_receive_def wait_receive_round_def serial_read_def
  by (intro errs_intros) simp_all

lemma errs_scan_words [errs_intros]: "errs (scan_words i n) E"
  by (induction i n rule: scan_words.induct)
    (subst scan_words.simps, auto intro!: errs_intros simp: buf_at_def push_response_def)

lemma errs_receive_loop [errs_intros]: "errs (loopR (receive_round P deadline) n) (\<lambda>e. \<not> bus_error e)"
  unfolding receive_round_def by (intro errs_intros)

lemma waited_quiet_step:
  assumes "waited w r w'"
  shows "\<exists>xs. tx_quiet_step w xs w' \<and> response w' = response w \<and> (\<forall>n. r = Ok n \<longrightarrow> xs = take n (buf (mself w'))
     \<and> n \<le> length (buf (mself w')) \<and> even n)"
  using assms unfolding waited_def tx_quiet_step_def by (cases r) auto

lemma received_quiet_step:
  assumes "received n w r w'"
  shows "\<exists>ys. tx_quiet_step w ys w' \<and> (\<forall>e. r = Ok e \<longrightarrow> (\<exists>d.
     parse_block (words_of (take n (buf (mself w)) @ ys)) = Some (d, e) \<and> response w' = response w @ d))"
  using assms unfolding received_def tx_quiet_step_def by (cases r) auto

context serial_reader
begin

lemma tx_receive_block:
  assumes ret: "bindR (loopR (receive_round P dl) n) (\<lambda>e. bindR (tx_answer P small e) (\<lambda>_. tx_debug P io)) w
      = Some (r, w')"
    and "n \<le> length (buf (mself w))" and "even n" and "response w = []"
  shows "tx_phase [] (take n (buf (mself w))) w r w'"
  using ret
proof (cases rule: bindR_cases)
  case (Ok e w1)
  from received_quiet_step [OF receive_loop_received [OF Ok(1) assms(2,3)]] assms(4)
  obtain ys where q: "tx_quiet_step w ys w1"
    and "parse_block (words_of (take n (buf (mself w)) @ ys)) = Some (response w1, e)" by auto
  from tx_phase_after [OF q tx_answer_phase [OF Ok(2) this(2)]] show ?thesis .
next
  case (Err e)
  from received_quiet_step [OF receive_loop_received [OF Err(1) assms(2,3)]]
  show ?thesis using Err(2) errsD [OF errs_receive_loop Err(1)] by (auto intro: tx_phase_stop)
next
  case (Panic p)
  from received_quiet_step [OF receive_loop_received [OF Panic(1) assms(2,3)]]
  show ?thesis using Panic(2) by (auto intro: tx_phase_stop)
qed

lemma tx_receive_phase:
  assumes ret: "tx_receive P io dl small w = Some (r, w')" and empty: "response w = []"
  shows "tx_phase [] [] w r w'"
  using ret unfolding tx_receive_def
proof (cases rule: bindR_cases)
  case (Ok n w1)
  from waited_quiet_step [OF wait_receive_waited [OF Ok(1)]] empty
  have q: "tx_quiet_step w (take n (buf (mself w1))) w1" and n: "n \<le> length (buf (mself w1))" "even n"
    and e: "response w1 = []" by auto
  from Ok(2) show ?thesis
  proof (cases rule: bindR_cases)
    case (Ok dl2 w2)
    note w2 = tick_add_cases(1) [OF Ok(1)]
    from Ok(2) have "tx_phase [] (take n (buf (mself w2))) w2 r w'"
      by (rule tx_receive_block) (use n e w2 in simp_all)
    with w2 tx_phase_after [OF tx_quiet_step_trans [OF q quiet_tick]] show ?thesis by auto
  next
    case (Err x)
    with tick_add_cases(2) [OF Err(1)] show ?thesis by auto
  next
    case (Panic x)
    with tick_add_cases(1) [OF Panic(1)] tx_phase_stop [OF tx_quiet_step_trans [OF q quiet_tick]]
    show ?thesis by auto
  qed
next
  case (Err x)
  from waited_quiet_step [OF wait_receive_waited [OF Err(1)]] show ?thesis
    using Err(2) errsD [OF errs_wait_receive Err(1)] by (auto intro: tx_phase_stop)
next
  case (Panic x)
  from waited_quiet_step [OF wait_receive_waited [OF Panic(1)]] show ?thesis
    using Panic(2) by (auto intro: tx_phase_stop)
qed

end

section \<open>The whole transaction\<close>

lemma quiet_step_refl: "tx_quiet_step w [] w"
  by (simp add: tx_quiet_step_def) (metis gpio_mdb.surjective gpio_mdb.update_convs(6))

lemma tx_phase_sent:
  assumes w1: "sent w1 = sent w @ [v]" "rcvd w1 = rcvd w" "mself w1 = mself w" "live_waves w1 = live_waves w"
    and "tx_phase [] [] w1 r w'"
  shows "tx_phase [v] [] w r w'"
proof -
  from assms(5) obtain b xs s where "mself w' = (mself w)\<lparr>buf := b\<rparr>" "length b = length (buf (mself w))"
    "live_waves w' = live_waves w" "rcvd w' = rcvd w @ xs" and s: "sent w' = sent w @ (v # s)"
    and tr: "tx_trace [] r (mself w) (response w') (words_of xs) s"
    using w1 unfolding tx_phase_def by auto
  moreover have "tx_trace [v] r (mself w) (response w') (words_of xs) (v # s)"
    using tr by (auto simp: tx_trace_def)
  ultimately show ?thesis unfolding tx_phase_def by fastforce
qed

lemma unsettled_sent:
  assumes "sent w1 = sent w @ [v]" "rcvd w1 = rcvd w" "mself w1 = mself w" "live_waves w1 = live_waves w"
    and "\<not> settled r"
  shows "tx_phase [v] [] w r w1"
proof -
  have "tx_trace [v] r (mself w) (response w1) (words_of []) [v]"
    using assms(5) by (simp add: tx_trace_def)
  moreover have "mself w1 = (mself w)\<lparr>buf := buf (mself w)\<rparr>" using assms(3) by simp
  ultimately show ?thesis using assms(1-4) unfolding tx_phase_def by fastforce
qed

text \<open>Computing the deadlines is pure but for one reading of the tick.\<close>

definition tx_times ::
  "'d pigpio \<Rightarrow> u8 list \<Rightarrow> duration \<Rightarrow> (('d, 'z) mdb_world_scheme, error, u32 \<times> u32 \<times> u32 \<times> u32) prog" where
  "tx_times P request timeout =
     bindR (duration_as_micros32 timeout) (\<lambda>timeout_us.
     bindR (tick_since P 0) (\<lambda>io_start_us.
     bindR (add32 io_start_us timeout_us) (\<lambda>receive_wait_deadline_us.
     bindR (bindR (mul32 TIMEOUT_CHAR_US (of_nat (length request))) (add32 io_start_us)) (\<lambda>send_deadline_us.
     ret (min timeout_us TIMEOUT_SMALL_US, io_start_us, receive_wait_deadline_us, send_deadline_us)))))"

lemma tx_transfer_times:
  "tx_transfer P v request timeout =
     bindR (tx_times P request timeout) (\<lambda>(small, start, receive_deadline, send_deadline).
     bindR (gets (\<lambda>w. wait_step (mself w))) (\<lambda>step.
     bindR (mdb_wave_send_wait P v send_deadline step ''send request timeout'') (\<lambda>_.
     tx_receive P start receive_deadline small)))"
  by (simp add: tx_transfer_def tx_times_def bindR_assoc Let_def)

lemma tx_times_quiet:
  assumes "tx_times P request timeout w = Some (r, w')"
  shows "tx_quiet_step w [] w'" and "response w' = response w" and "r = Err e \<Longrightarrow> \<not> bus_error e"
  using assms quiet_step_refl [of w] quiet_tick [of w P]
  by (auto simp: tx_times_def bindR_def duration_as_micros32_eq run_simps add32_def mul32_def ret_def panic_def
      split: if_splits)

context serial_reader
begin

lemma tx_transfer_phase:
  assumes ret: "tx_transfer P v request timeout w = Some (r, w')" and empty: "response w = []"
  shows "tx_phase [wave_id v] [] w r w'"
  using ret unfolding tx_transfer_times
proof (cases rule: bindR_cases)
  case (Ok ts w1)
  obtain small start dl1 dl2 where ts: "ts = (small, start, dl1, dl2)" by (cases ts)
  note q = tx_times_quiet [OF Ok(1)]
  from Ok(2) have "bindR (mdb_wave_send_wait P v dl2 (wait_step (mself w1)) ''send request timeout'') (\<lambda>_.
      tx_receive P start dl1 small) w1 = Some (r, w')"
    by (simp add: ts bindR_run(1) [OF gets_run])
  then have "tx_phase [wave_id v] [] w1 r w'"
  proof (cases rule: bindR_cases)
    case (Ok u w2)
    note s = mdb_wave_send_wait_sent [OF Ok(1)] send_wait_keeps [OF Ok(1)]
    have "response w2 = []" using s q empty by simp
    from tx_phase_sent [OF s(1,2,3,5) tx_receive_phase [OF Ok(2) this]] show ?thesis .
  next
    case (Err e)
    note s = mdb_wave_send_wait_sent [OF Err(1)] send_wait_keeps [OF Err(1)]
    have "\<not> settled r" using Err(2) errsD [OF errs_send_wait_bus Err(1)] by simp
    from unsettled_sent [OF s(1,2,3,5) this] show ?thesis .
  next
    case (Panic p)
    note s = mdb_wave_send_wait_sent [OF Panic(1)] send_wait_keeps [OF Panic(1)]
    have "\<not> settled r" using Panic(2) by simp
    from unsettled_sent [OF s(1,2,3,5) this] show ?thesis .
  qed
  with tx_phase_after [OF q(1)] show ?thesis by simp
next
  case (Err e)
  with tx_times_quiet(3) [OF Err(1)] tx_phase_stop [OF tx_times_quiet(1) [OF Err(1)]] show ?thesis by simp
next
  case (Panic p)
  with tx_phase_stop [OF tx_times_quiet(1) [OF Panic(1)]] show ?thesis by simp
qed

end

text \<open>What a transaction never touches: an observation of the world that sees only other calls.\<close>

definition tx_blind :: "'d pigpio \<Rightarrow> (('d, 'z) mdb_world_scheme \<Rightarrow> 'b) \<Rightarrow> bool" where
  "tx_blind P f \<longleftrightarrow> blind P f \<and> (\<forall>v m. quiet P f (GpioWaveTxSend v m)) \<and> (\<forall>p n. quiet P f (GpioSerialRead p n))
     \<and> (\<forall>b w. f (set_buf b w) = f w) \<and> (\<forall>r w. f (w\<lparr>response := r\<rparr>) = f w)"

lemma tx_blindD:
  assumes "tx_blind P f"
  shows "blind P f" "quiet P f (GpioWaveTxSend v m)" "quiet P f (GpioSerialRead p n)"
    "f (set_buf b w) = f w" "f (w\<lparr>response := r\<rparr>) = f w" "quiet P f GpioTick" "quiet P f (GpioDelay k)"
  using assms unfolding tx_blind_def by auto

lemma tx_blind_obs [simp]: "tx_blind P live_waves" "tx_blind P frames"
  by (simp_all add: tx_blind_def)

lemma keeps_scan_words: "tx_blind P f \<Longrightarrow> keeps f (scan_words i n)"
proof (induction i n rule: scan_words.induct)
  case (1 i n)
  show ?case
    using 1 by (subst scan_words.simps)
      (auto intro!: keeps_intros simp: buf_at_def push_response_def tx_blindD)
qed

lemma keeps_tx_transfer [keeps_intros]:
  assumes "tx_blind P f"
  shows "keeps f (tx_transfer P v request timeout)"
  unfolding tx_transfer_def tx_receive_def tx_answer_def tx_debug_def receive_round_def
    wait_receive_def wait_receive_round_def serial_read_def Let_def
  by (intro keeps_scan_words [OF assms] keeps_intros) (simp_all add: tx_blindD [OF assms] assms)

text \<open>The three assertions come first; then the frame, its wave, and the transfer around it.\<close>

definition tx_args_ok :: "u8 list \<Rightarrow> nat \<Rightarrow> bool" where
  "tx_args_ok request cap \<longleftrightarrow> request \<noteq> [] \<and> length request < BLOCK_MAX_LENGTH \<and> cap \<ge> BLOCK_MAX_LENGTH"

definition tx_frame :: "u8 list \<Rightarrow> u8 list \<Rightarrow> u8 list" where
  "tx_frame request b = take (length request * WORD_SIZE + WORD_SIZE) (load_request request b)"

lemma gpio_mdb_tx_rejects:
  "\<not> tx_args_ok request cap \<Longrightarrow> gpio_mdb_tx P request cap timeout w = Some (Panic Assert_Failed, w)"
  by (auto simp: gpio_mdb_tx_def tx_args_ok_def andthen_def bindR_def assert_that_def ret_def panic_def)

lemma gpio_mdb_tx_runs:
  "tx_args_ok request cap \<Longrightarrow> gpio_mdb_tx P request cap timeout w =
     bindR (mdb_wave_create P (tx_pin (mself w)) (tx_frame request (buf (mself w)))) (\<lambda>v.
       with_drop (tx_transfer P v request timeout) (wave_drop P v))
     (set_buf (load_request request (buf (mself w))) w)"
  by (simp add: gpio_mdb_tx_def tx_args_ok_def run_simps Let_def tx_frame_def andthen_def
      bindR_run(1) [OF assert_that_run(1)] bindR_run(1) [OF gets_run] bindR_run(1) [OF modify_run])

end
