(* ===== verification/Mdb_Transaction.thy ===== *)
theory Mdb_Transaction
  imports Mdb_Tx
begin

text \<open>
  The properties of a whole transaction: what its result says about the peripheral, which
  waves it sends, the frame of its request, its balance of waves, and its panics.
\<close>

section \<open>One transaction, end to end\<close>

lemma keeps_mdb_wave_create:
  assumes "blind P f" and "\<And>a b c d e g s. quiet P f (GpioWaveAddSerial a b c d e g s)"
    and "quiet P f GpioWaveCreate"
  shows "keeps f (mdb_wave_create P pin s)"
  unfolding mdb_wave_create_def new_serial_def by (intro keeps_intros) (use assms in auto)

lemma errs_mdb_wave_create: "errs (mdb_wave_create P pin s) (\<lambda>e. \<not> bus_error e)"
  unfolding mdb_wave_create_def new_serial_def check_ffi_def by (intro errs_intros) simp_all

lemma mdb_wave_create_quiet:
  fixes w :: "('d, 'z) mdb_world_scheme"
  assumes "mdb_wave_create P pin s w = Some (r, w')"
  shows "sent w' = sent w" "rcvd w' = rcvd w" "mself w' = mself w" "response w' = response w"
proof -
  have "keeps f (mdb_wave_create P pin s)" if "blind P f"
      and "\<And>a b c d e g s. quiet P f (GpioWaveAddSerial a b c d e g s)" "quiet P f GpioWaveCreate"
    for f :: "('d, 'z) mdb_world_scheme \<Rightarrow> 'c" by (rule keeps_mdb_wave_create [OF that])
  note k = this [THEN keepsD, OF _ _ _ assms]
  show "sent w' = sent w" "rcvd w' = rcvd w" by (rule k; simp)+
  show "mself w' = mself w" "response w' = response w" by (rule k; simp add: quiet_def)+
qed

lemma mdb_wave_create_frames:
  assumes "mdb_wave_create P pin s w = Some (r, w')"
  shows "frames w' = frames w @ [(ucast pin, s)] \<or> (frames w' = frames w \<and> (\<forall>v. r \<noteq> Ok v))"
  using assms
  by (auto simp: mdb_wave_create_def new_serial_def io_q_def map_err_def bindR_def check_ffi_run ret_def
      frames_after split: if_splits)

lemma with_drop_cases:
  assumes "with_drop m d s = Some (r, s')"
  obtains s1 q where "m s = Some (r, s1)" "d s1 = Some (q, s')"
  using assms by (auto simp: with_drop_def split: option.splits prod.splits)

context serial_reader
begin

lemma tx_cases:
  assumes "gpio_mdb_tx P request cap timeout w = Some (r, w')" and "response w = []"
    and "tx_args_ok request cap"
  obtains (No_Wave) "\<not> settled r" "\<forall>p. r \<noteq> Panic p" "sent w' = sent w" "rcvd w' = rcvd w" "response w' = []"
  | (Wave) v w1 w2 where "tx_phase [wave_id v] [] w1 r w2" "w' = after P (GpioWaveDelete (wave_id v)) w2"
    "sent w1 = sent w" "rcvd w1 = rcvd w" "mself w1 = (mself w)\<lparr>buf := load_request request (buf (mself w))\<rparr>"
    "tx_transfer P v request timeout w1 = Some (r, w2)"
proof -
  let ?w0 = "set_buf (load_request request (buf (mself w))) w"
  from assms(1,3) have "bindR (mdb_wave_create P (tx_pin (mself w)) (tx_frame request (buf (mself w)))) (\<lambda>v.
       with_drop (tx_transfer P v request timeout) (wave_drop P v)) ?w0 = Some (r, w')"
    by (simp add: gpio_mdb_tx_runs)
  then show ?thesis
  proof (cases rule: bindR_cases)
    case (Ok v w1)
    note q = mdb_wave_create_quiet [OF Ok(1)]
    from Ok(2) obtain w2 x where t: "tx_transfer P v request timeout w1 = Some (r, w2)"
      and d: "wave_drop P v w2 = Some (x, w')" by (rule with_drop_cases)
    have e: "response w1 = []" using q assms(2) by simp
    have "w' = after P (GpioWaveDelete (wave_id v)) w2"
      using d by (auto simp: wave_drop_def run_simps)
    from Wave [OF tx_transfer_phase [OF t e] this _ _ _ t] q show ?thesis by simp
  next
    case (Err e)
    from mdb_wave_create_quiet [OF Err(1)] errsD [OF errs_mdb_wave_create Err(1)] Err(2) assms(2)
    show ?thesis by (intro No_Wave) simp_all
  next
    case (Panic p)
    from panicsD [OF panics_mdb_wave_create [where Q = "\<lambda>_. False"] Panic(1)] show ?thesis ..
  qed
qed

lemma tx_phaseD:
  assumes "tx_phase pre seen w r w'"
  shows "\<exists>xs s. rcvd w' = rcvd w @ xs \<and> sent w' = sent w @ s
    \<and> tx_trace pre r (mself w) (response w') (words_of (seen @ xs)) s"
  using assms by (simp add: tx_phase_def)

lemma tx_trace_outcome:
  assumes "gpio_mdb_tx P request cap timeout w = Some (r, w')" and "response w = []"
    and args: "tx_args_ok request cap"
  shows "\<exists>xs s. rcvd w' = rcvd w @ xs \<and> sent w' = sent w @ s
    \<and> (s = [] \<and> \<not> settled r \<or> (\<exists>v. tx_trace [v] r (mself w) (response w') (words_of xs) s))"
proof (cases rule: tx_cases [OF assms])
  case 1
  then show ?thesis by auto
next
  case (2 v w1 w2)
  from tx_phaseD [OF 2(1)] 2(2-5) show ?thesis by (auto simp: sent_after rcvd_after)
qed

end

lemma tx_settled_args:
  "gpio_mdb_tx P request cap timeout w = Some (r, w') \<Longrightarrow> settled r \<Longrightarrow> tx_args_ok request cap"
  by (rule ccontr) (auto simp: gpio_mdb_tx_rejects)

section \<open>The frame of a request\<close>

lemma length_tx_frame: "2 * length request + 1 < length b \<Longrightarrow> length (tx_frame request b) = 2 * length request + 2"
  by (simp add: tx_frame_def WORD_SIZE_def)

lemma tx_frame_words:
  assumes "2 * length request + 1 < length b"
  shows "words_of (tx_frame request b)
    = zip (request @ [checksum request]) (1 # map (\<lambda>k. b ! (2 * k + 1)) [1..<length request + 1])"
proof (rule nth_equalityI)
  show "length (words_of (tx_frame request b))
      = length (zip (request @ [checksum request]) (1 # map (\<lambda>k. b ! (2 * k + 1)) [1..<length request + 1]))"
    using assms by (auto simp: length_words_of length_tx_frame Suc_le_eq)
next
  fix k
  assume "k < length (words_of (tx_frame request b))"
  then have k: "k \<le> length request" using assms by (simp add: length_words_of length_tx_frame)
  then have "words_of (tx_frame request b) ! k
      = (load_request request b ! (2 * k), load_request request b ! (2 * k + 1))"
    using assms by (subst nth_words_of) (simp_all add: tx_frame_def WORD_SIZE_def)
  also have "\<dots> = ((request @ [checksum request]) ! k, if k = 0 then 1 else b ! (2 * k + 1))"
    using assms k by (simp only: load_request_byte load_request_flag [of b request k])
  finally show "words_of (tx_frame request b) ! k
      = zip (request @ [checksum request]) (1 # map (\<lambda>k. b ! (2 * k + 1)) [1..<length request + 1]) ! k"
    using k by (auto simp: nth_Cons' simp del: upt_Suc)
qed

text \<open>The indices that \<open>tx\<close> writes and slices are inside the buffer.\<close>

lemma tx_indices:
  assumes "tx_args_ok request cap" and "length b = BUF_SIZE"
  shows "2 * length request + 1 < length b"
  using assms by (simp add: tx_args_ok_def mdb_consts)

section \<open>The balance of waves\<close>

lemma adds_gpio_mdb_tx: "adds live_waves (gpio_mdb_tx P request cap timeout) 0 0"
proof (rule addsI)
  fix w :: "('a, 'b) mdb_world_scheme" and r w'
  assume run: "gpio_mdb_tx P request cap timeout w = Some (r, w')"
  show "live_waves w' = live_waves w + (case r of Ok _ \<Rightarrow> 0 | _ \<Rightarrow> 0)"
  proof (cases "tx_args_ok request cap")
    case True
    have drop: "adds live_waves (with_drop (tx_transfer P v request timeout) (wave_drop P v)) (- 1) (- 1)" for v
      using adds_with_drop [OF adds_keeps [OF keeps_tx_transfer [OF tx_blind_obs(1)]] adds_wave_drop] by force
    have "adds live_waves (bindR (mdb_wave_create P pin s) (\<lambda>v.
        with_drop (tx_transfer P v request timeout) (wave_drop P v))) 0 0" for pin s
      by (rule adds_bindR [OF adds_mdb_wave_create drop]) simp_all
    from addsD [OF this run [unfolded gpio_mdb_tx_runs [OF True]]] show ?thesis
      by (simp split: outcome.splits)
  qed (use run in \<open>auto simp: gpio_mdb_tx_rejects\<close>)
qed

section \<open>The only panic\<close>

definition tx_panic :: "panic \<Rightarrow> bool" where
  "tx_panic p \<longleftrightarrow> p = Arith_Overflow"

lemma tx_panic_simps [simp]: "tx_panic Arith_Overflow" "\<not> tx_panic Index_Out_Of_Bounds"
  by (simp_all add: tx_panic_def)

lemma panics_tx_answer: "panics (tx_answer P small e) tx_panic"
  unfolding tx_answer_def by (intro panics_intros) simp_all

context serial_reader
begin

lemma panics_tx_receive:
  assumes "tx_receive P io dl small w = Some (Panic p, w')"
  shows "p = Arith_Overflow"
  using assms unfolding tx_receive_def
proof (cases rule: bindR_cases)
  case (Ok n w1)
  note wt = wait_receive_waited [OF Ok(1)]
  then have n: "n \<le> length (buf (mself w1))" "even n" by (auto simp: waited_def)
  from Ok(2) show ?thesis
  proof (cases rule: bindR_cases)
    case (Ok dl2 w2)
    note w2 = tick_add_cases(1) [OF Ok(1)]
    have rest: "panics (bindR (tx_answer P small e) (\<lambda>_. tx_debug P io)) tx_panic" for e
      unfolding tx_debug_def by (intro panics_intros panics_tx_answer)
    from Ok(2) show ?thesis
    proof (cases rule: bindR_cases)
      case (Ok e w3)
      from panicsD [OF rest Ok(2)] show ?thesis by (simp add: tx_panic_def)
    next
      case (Panic q)
      from receive_loop_received [OF Panic(1)] n w2 show ?thesis by (auto simp: received_def)
    qed simp
  next
    case (Panic q)
    with tick_add_cases(2) [OF Panic(1)] show ?thesis by auto
  qed simp
next
  case (Panic q)
  from wait_receive_waited [OF Panic(1)] show ?thesis by (simp add: waited_def)
qed simp

lemma panics_tx_transfer:
  assumes "tx_transfer P v request timeout w = Some (Panic p, w')"
  shows "p = Arith_Overflow"
proof -
  have times: "panics (tx_times P request timeout) tx_panic"
    unfolding tx_times_def by (intro panics_intros) simp_all
  have send: "panics (mdb_wave_send_wait P v' dl step err) tx_panic" for v' dl step err
    by (rule panics_mdb_wave_send_wait)
  have "panics (tx_receive P io dl small) tx_panic" for io dl small
    by (rule panicsI) (auto simp: tx_panic_def dest: panics_tx_receive)
  then have "panics (tx_transfer P v request timeout) tx_panic"
    unfolding tx_transfer_times by (intro panics_intros times send)
  from panicsD [OF this assms] show ?thesis by (simp add: tx_panic_def)
qed

end

text \<open>When a deadline does not fit in 32 bits, \<open>tx\<close> panics before it sends anything.\<close>

lemma tx_overflow:
  assumes args: "tx_args_ok request cap"
    and made: "mdb_wave_create P (tx_pin (mself w)) (tx_frame request (buf (mself w)))
      (set_buf (load_request request (buf (mself w))) w) = Some (Ok v, w1)"
    and "duration_micros timeout < 2 ^ 32 - 1"
    and "unat (rc_of P GpioTick w1) + duration_micros timeout \<ge> 2 ^ 32"
  shows "gpio_mdb_tx P request cap timeout w
    = Some (Panic Arith_Overflow, after P (GpioWaveDelete (wave_id v)) (after P GpioTick w1))"
proof -
  have "unat (of_nat (duration_micros timeout) :: u32) = duration_micros timeout"
    using assms(3) by (simp add: unat_of_nat take_bit_nat_eq_self)
  then have times: "tx_times P request timeout w1 = Some (Panic Arith_Overflow, after P GpioTick w1)"
    using assms(3,4) by (simp add: tx_times_def bindR_def duration_as_micros32_eq run_simps)
  have "gpio_mdb_tx P request cap timeout w = with_drop (tx_transfer P v request timeout) (wave_drop P v) w1"
    unfolding gpio_mdb_tx_runs [OF args] by (rule bindR_step, rule made, rule refl)
  also have "\<dots> = Some (Panic Arith_Overflow, after P (GpioWaveDelete (wave_id v)) (after P GpioTick w1))"
    by (rule with_drop_run [of _ _ _ "after P GpioTick w1"])
      (simp_all add: tx_transfer_times bindR_run(3) [of "tx_times P request timeout"] times wave_drop_def run_simps)
  finally show ?thesis .
qed

text \<open>What a panic of \<open>tx\<close> says.\<close>

lemma tx_panic_cause:
  assumes "serial_reader P" and "gpio_mdb_tx P request cap timeout w = Some (Panic p, w')" and "response w = []"
  shows "if tx_args_ok request cap then p = Arith_Overflow else p = Assert_Failed \<and> w' = w"
proof (cases "tx_args_ok request cap")
  case True
  have "p = Arith_Overflow"
    by (rule serial_reader.tx_cases [OF assms(1,2,3) True])
      (auto dest: serial_reader.panics_tx_transfer [OF assms(1)])
  with True show ?thesis by simp
qed (use assms(2) in \<open>auto simp: gpio_mdb_tx_rejects\<close>)

end
