(* ===== verification/Bus_Sim.thy ===== *)
theory Bus_Sim
  imports Mdb_Transaction
begin

text \<open>
  A scripted bus: a device with a clock, a counter of waves, and a list of bursts of 9-bit
  words that the serial port is going to deliver, one burst a read. The witnesses and the
  liveness property run the driver on it.
\<close>

section \<open>The device\<close>

record sim =
  clock :: nat
  next_wave :: u32
  script :: "bus_word list list"

text \<open>The tick is the clock, in microseconds since the start, cut to 32 bits.\<close>

definition sim_tick :: "sim \<Rightarrow> u32" where
  "sim_tick d = of_nat (clock d)"

lemma sim_tick_simps [simp]:
  "sim_tick (d\<lparr>script := s\<rparr>) = sim_tick d" "sim_tick (d\<lparr>next_wave := v\<rparr>) = sim_tick d"
  "sim_tick (d\<lparr>clock := clock d + unat n\<rparr>) = sim_tick d + n"
  by (simp_all add: sim_tick_def)

text \<open>A read takes at most 40 words; what is left of a burst is the next one.\<close>

definition sim_read :: "nat \<Rightarrow> sim \<Rightarrow> u32 \<times> u8 list \<times> sim" where
  "sim_read n d = (case script d of
       [] \<Rightarrow> (0, [], d)
     | ws # rest \<Rightarrow> (let k = min 40 (n div 2) in
         (of_nat (2 * length (take k ws)), wire_bytes (take k ws),
          d\<lparr>script := (if drop k ws = [] then rest else drop k ws # rest)\<rparr>)))"

fun sim_call :: "gpio_call \<Rightarrow> sim \<Rightarrow> u32 \<times> u8 list \<times> sim" where
  "sim_call GpioTick d = (sim_tick d, [], d)"
| "sim_call (GpioDelay n) d = (n, [], d\<lparr>clock := clock d + unat n\<rparr>)"
| "sim_call (GpioSerialRead _ n) d = sim_read n d"
| "sim_call GpioWaveCreate d = (next_wave d mod 512, [], d\<lparr>next_wave := next_wave d + 1\<rparr>)"
| "sim_call _ d = (0, [], d)"

definition sim_pigpio :: "sim pigpio" where
  "sim_pigpio = linux_pigpio sim_call"

lemma sim_pigpio_simps [simp]:
  "pg_call sim_pigpio = sim_call" "PI_WAVE_MODE_ONE_SHOT_SYNC sim_pigpio = 2"
  "PI_INPUT sim_pigpio = 0" "PI_OUTPUT sim_pigpio = 1"
  by (simp_all add: sim_pigpio_def)

lemma length_wire_bytes [simp]: "length (wire_bytes ws) = 2 * length ws"
  by (induction ws) (auto simp: wire_bytes_def)

lemma sim_read_count:
  assumes "sim_read n d = (rc, bs, d')"
  shows "unat rc = length bs \<and> length bs \<le> n \<and> even (length bs) \<and> \<not> is_neg rc"
proof (cases "script d")
  case Nil
  with assms show ?thesis by (auto simp: sim_read_def)
next
  case (Cons ws rest)
  let ?k = "min 40 (n div 2)"
  have bs: "rc = of_nat (2 * length (take ?k ws))" "bs = wire_bytes (take ?k ws)"
    using assms Cons by (auto simp: sim_read_def Let_def)
  have "length (take ?k ws) \<le> 40" and "2 * length (take ?k ws) \<le> n" by auto
  then show ?thesis
    unfolding bs is_neg_def
    by (simp add: unat_of_nat sint_uint signed_take_bit_int_eq_self_iff uint_nat take_bit_nat_eq_self
        take_bit_int_eq_self signed_take_bit_int_eq_self del: of_nat_mult length_take)
qed

interpretation sim_reader: serial_reader sim_pigpio
  by unfold_locales (use sim_read_count in fastforce)+

section \<open>The driver on it\<close>

lemma rc_of_sim [simp]: "rc_of sim_pigpio c w = fst (sim_call c (dev w))"
  by (simp add: rc_of_def)

lemma dev_after_sim [simp]: "dev (after sim_pigpio c w) = snd (snd (sim_call c (dev w)))"
  by (simp add: dev_after)

lemma set_buf_dev_sim [simp]: "dev (w\<lparr>response := r\<rparr>) = dev w" "debug_on (w\<lparr>response := r\<rparr>) = debug_on w"
  by simp_all

lemma sim_send_wait:
  "\<exists>w'. mdb_wave_send_wait sim_pigpio v deadline step err w = Some (Ok (), w')
     \<and> dev w' = (dev w)\<lparr>clock := clock (dev w) + unat step\<rparr>"
  by (simp add: mdb_wave_send_wait_def wave_send_def send_wait_round_def io_q_def map_err_def bindR_def
      check_ffi_run wave_tx_busy_run tick_since_run ffi_rc_run loopR_run ret_def)

lemma sim_read_burst:
  assumes "script d = ws # rest" and "length ws \<le> 40" and "ws \<noteq> []"
  shows "sim_read 80 d = (of_nat (2 * length ws), wire_bytes ws, d\<lparr>script := rest\<rparr>)"
  using assms by (simp add: sim_read_def Let_def)

text \<open>A script the driver can take: every burst has a word, and at most as many as the buffer holds.\<close>

definition bursts_ok :: "bus_word list list \<Rightarrow> bool" where
  "bursts_ok wss \<longleftrightarrow> (\<forall>ws \<in> set wss. ws \<noteq> [] \<and> length ws \<le> 40)"

lemma bursts_ok_Cons [simp]: "bursts_ok (ws # wss) \<longleftrightarrow> ws \<noteq> [] \<and> length ws \<le> 40 \<and> bursts_ok wss"
  by (auto simp: bursts_ok_def)

lemma unat_burst: "length ws \<le> 40 \<Longrightarrow> unat (of_nat (2 * length ws) :: u32) = 2 * length ws"
  by (simp add: unat_of_nat take_bit_nat_eq_self del: of_nat_mult)

lemma is_neg_burst: "length ws \<le> 40 \<Longrightarrow> \<not> is_neg (of_nat (2 * length ws))"
  unfolding is_neg_def
  by (simp add: sint_uint signed_take_bit_int_eq_self_iff uint_nat take_bit_nat_eq_self
      take_bit_int_eq_self signed_take_bit_int_eq_self unat_of_nat del: of_nat_mult)

lemma sim_wait_receive:
  assumes "script (dev w) = ws # rest" and "ws \<noteq> []" and "length ws \<le> 40" and "length (buf (mself w)) = 80"
  shows "\<exists>w'. wait_receive sim_pigpio deadline w = Some (Ok (2 * length ws), w')
     \<and> dev w' = (dev w)\<lparr>script := rest\<rparr> \<and> mself w' = (mself w)\<lparr>buf := fill (wire_bytes ws) (buf (mself w))\<rparr>
     \<and> response w' = response w \<and> debug_on w' = debug_on w"
proof -
  let ?c = "GpioSerialRead (ucast (rx_pin (mself w))) 80"
  have "wait_receive_round sim_pigpio deadline () w = Some (Ok (Break (2 * length ws)),
      set_buf (fill (wire_bytes ws) (buf (mself w))) (after sim_pigpio ?c w))"
    using assms unat_burst [OF assms(3)] is_neg_burst [OF assms(3)]
    by (simp add: wait_receive_round_def bindR_def serial_read_run read_call_def sim_read_burst ret_def
        bytes_of_def del: of_nat_mult)
  then show ?thesis
    using assms by (simp add: wait_receive_def loopR_run sim_read_burst)
qed

text \<open>
  What is left of a script when the block is complete, given the words \<open>seen\<close> already: the
  bursts after the one with the end byte, whose rest is lost.
\<close>

fun unread :: "bus_word list \<Rightarrow> bus_word list list \<Rightarrow> bus_word list list" where
  "unread seen [] = []"
| "unread seen (ws # wss) = (if parse_block seen = None then unread (seen @ ws) wss else ws # wss)"

lemma unread_skip: "parse_block xs = None \<Longrightarrow> unread (xs @ ys) wss = unread ys wss"
  by (induction wss arbitrary: ys) (auto simp: parse_block_append)

lemma bursts_ok_unread: "bursts_ok wss \<Longrightarrow> bursts_ok (unread seen wss)"
  by (induction seen wss rule: unread.induct) auto

text \<open>However the block is cut into bursts, the loop \<open>'receive\<close> reaches its end byte.\<close>

lemma sim_receive_loop:
  assumes "script (dev w) = wss" and "bursts_ok wss" and "length (buf (mself w)) = 80"
    and "n \<le> 80" and "even n"
    and "parse_block (words_of (take n (buf (mself w))) @ concat wss) = Some (d, e)"
  shows "\<exists>w'. loopR (receive_round sim_pigpio dl) n w = Some (Ok e, w') \<and> clock (dev w') = clock (dev w)
     \<and> script (dev w') = unread (words_of (take n (buf (mself w)))) wss
     \<and> length (buf (mself w')) = 80 \<and> response w' = response w @ d"
  using assms
proof (induction wss arbitrary: w n d)
  case Nil
  then have "parse_block (words_of (take n (buf (mself w)))) = Some (d, e)" by simp
  from receive_round_break [OF _ \<open>even n\<close> this] Nil show ?case by (simp add: loopR_run)
next
  case (Cons ws wss)
  let ?b = "buf (mself w)"
  show ?case
  proof (cases "parse_block (words_of (take n ?b))")
    case (Some p)
    with Cons.prems have "p = (d, e)" by (simp add: parse_block_append)
    with Some have "parse_block (words_of (take n ?b)) = Some (d, e)" by simp
    from receive_round_break [OF _ \<open>even n\<close> this] Cons.prems Some show ?thesis by (simp add: loopR_run)
  next
    case None
    let ?w = "w\<lparr>response := response w @ map fst (words_of (take n ?b))\<rparr>"
    obtain w1 where w1: "wait_receive sim_pigpio dl ?w = Some (Ok (2 * length ws), w1)"
      "dev w1 = (dev w)\<lparr>script := wss\<rparr>" "mself w1 = (mself w)\<lparr>buf := fill (wire_bytes ws) ?b\<rparr>"
      "response w1 = response ?w"
      using sim_wait_receive [of ?w ws wss dl] Cons.prems by auto
    have round: "receive_round sim_pigpio dl n w = Some (Ok (Continue (2 * length ws)), w1)"
      using receive_round_next [of n w sim_pigpio dl] None Cons.prems w1(1) by (simp add: bindR_def ret_def)
    have chunk: "take (2 * length ws) (buf (mself w1)) = wire_bytes ws"
      using Cons.prems w1(3) by (simp add: take_fill)
    obtain d' where "parse_block (words_of (take (2 * length ws) (buf (mself w1))) @ concat wss) = Some (d', e)"
      and "d = map fst (words_of (take n ?b)) @ d'"
      using Cons.prems(6) None chunk by (auto simp: parse_block_append [of _ "ws @ concat wss"])
    then have "\<exists>w'. loopR (receive_round sim_pigpio dl) (2 * length ws) w1 = Some (Ok e, w')
        \<and> clock (dev w') = clock (dev w1)
        \<and> script (dev w') = unread (words_of (take (2 * length ws) (buf (mself w1)))) wss
        \<and> length (buf (mself w')) = 80 \<and> response w' = response w1 @ d'"
      using Cons.prems w1 by (intro Cons.IH [where d = d']) simp_all
    with round w1 chunk None \<open>d = _\<close> show ?thesis by (auto simp: loopR_run unread_skip)
  qed
qed

lemma sim_answer:
  assumes "unat (sim_tick (dev w)) + unat small < 2 ^ 32"
  shows "\<exists>w'. tx_answer sim_pigpio small e w = Some (settle (response w, e), w')
     \<and> script (dev w') = script (dev w) \<and> clock (dev w') \<le> clock (dev w) + unat (wait_step (mself w))"
proof (cases "response w = []")
  case True
  then show ?thesis by (simp add: tx_answer_empty)
next
  case False
  let ?w1 = "after sim_pigpio GpioTick w"
  have ack: "\<exists>w'. mdb_wave_send_wait sim_pigpio v dl (wait_step (mself w)) err ?w1 = Some (Ok (), w')
      \<and> script (dev w') = script (dev w) \<and> clock (dev w') \<le> clock (dev w) + unat (wait_step (mself w))" for v dl err
    using sim_send_wait [of v dl "wait_step (mself w)" err ?w1] by auto
  show ?thesis
  proof (cases "e = checksum (response w)")
    case True
    with False assms ack show ?thesis by (simp add: tx_answer_data Let_def settle_def)
  next
    case bad: False
    obtain w2 where "mdb_wave_send_wait sim_pigpio (wave_nak (mself w)) (sim_tick (dev w) + small)
        (wait_step (mself w)) ''send NAK timeout'' ?w1 = Some (Ok (), w2)"
      "script (dev w2) = script (dev w)" "clock (dev w2) \<le> clock (dev w) + unat (wait_step (mself w))"
      using ack by blast
    with False bad assms show ?thesis
      by (simp add: tx_answer_data Let_def settle_def bindR_run fail_run)
  qed
qed

lemma sim_debug:
  "\<exists>w'. tx_debug sim_pigpio t w = Some (Ok (), w') \<and> dev w' = dev w \<and> mself w' = mself w \<and> response w' = response w"
  by (cases "debug_on w") (simp_all add: tx_debug_def run_simps bindR_def)

text \<open>Where a phase leaves the bus and the driver: the script is \<open>wss\<close>, at most \<open>n\<close> microseconds later.\<close>

definition sim_left :: "(sim, 'z) mdb_world_scheme \<Rightarrow> bus_word list list \<Rightarrow> nat \<Rightarrow> (sim, 'z) mdb_world_scheme \<Rightarrow> bool" where
  "sim_left w wss n w' \<longleftrightarrow> script (dev w') = wss \<and> clock (dev w') \<le> clock (dev w) + n
     \<and> length (buf (mself w')) = length (buf (mself w))"

text \<open>No part of a transaction changes the step of the driver's waits.\<close>

lemma quiet_wait_step [simp]: "quiet P (\<lambda>w. wait_step (mself w)) c"
  by (simp add: quiet_def)

lemma tx_blind_wait_step: "tx_blind P (\<lambda>w. wait_step (mself w))"
  by (simp add: tx_blind_def blind_def)

lemmas wait_step_blind = tx_blindD [OF tx_blind_wait_step] tx_blind_wait_step

lemma keeps_receive_loop_step: "keeps (\<lambda>w. wait_step (mself w)) (loopR (receive_round P dl) n)"
  unfolding receive_round_def wait_receive_def wait_receive_round_def serial_read_def
  by (intro keeps_scan_words [OF tx_blind_wait_step] keeps_intros) (simp_all add: wait_step_blind)

lemma keeps_tx_step: "keeps (\<lambda>w. wait_step (mself w)) (gpio_mdb_tx P request cap timeout)"
  unfolding gpio_mdb_tx_def Let_def mdb_wave_create_def
  by (intro keeps_intros) (simp_all add: wait_step_blind)

lemma sim_tx_receive:
  assumes script: "script (dev w) = wss" "bursts_ok wss" "parse_block (concat wss) = Some (d, e)"
    and "length (buf (mself w)) = 80" and "response w = []"
    and time: "unat (sim_tick (dev w)) + 125800 < 2 ^ 32" and small: "unat small \<le> 10000"
  shows "\<exists>w'. tx_receive sim_pigpio io dl small w = Some (settle (d, e), w') \<and> response w' = d
     \<and> sim_left w (unread [] wss) (unat (wait_step (mself w))) w'"
proof -
  from script obtain ws rest where wss: "wss = ws # rest" by (cases wss) auto
  obtain w1 where w1: "wait_receive sim_pigpio dl w = Some (Ok (2 * length ws), w1)"
      "dev w1 = (dev w)\<lparr>script := rest\<rparr>" "mself w1 = (mself w)\<lparr>buf := fill (wire_bytes ws) (buf (mself w))\<rparr>"
      "response w1 = []"
    using sim_wait_receive [of w ws rest dl] assms wss by auto
  let ?w2 = "after sim_pigpio GpioTick w1"
  have tick: "bindR (tick_since sim_pigpio 0) (\<lambda>t. add32 t TIMEOUT_RECEIVE_US) w1
      = Some (Ok (sim_tick (dev w) + TIMEOUT_RECEIVE_US), ?w2)"
    using time w1(2) by (subst tick_add_run(1)) (simp_all add: TIMEOUT_RECEIVE_US_val)
  have chunk: "take (2 * length ws) (buf (mself ?w2)) = wire_bytes ws"
    using w1 assms wss by (simp add: take_fill)
  then have "\<exists>w3. loopR (receive_round sim_pigpio (sim_tick (dev w) + TIMEOUT_RECEIVE_US)) (2 * length ws) ?w2 = Some (Ok e, w3)
      \<and> clock (dev w3) = clock (dev ?w2) \<and> script (dev w3) = unread (words_of (take (2 * length ws) (buf (mself ?w2)))) rest
      \<and> length (buf (mself w3)) = 80 \<and> response w3 = response ?w2 @ d"
    using script w1 assms wss by (intro sim_receive_loop [where d = d]) simp_all
  then obtain w3 where w3: "loopR (receive_round sim_pigpio (sim_tick (dev w) + TIMEOUT_RECEIVE_US)) (2 * length ws) ?w2
      = Some (Ok e, w3)" "clock (dev w3) = clock (dev w)" "script (dev w3) = unread [] wss" "length (buf (mself w3)) = 80" "response w3 = d"
    using w1 chunk wss by auto
  have step: "wait_step (mself w3) = wait_step (mself w)"
    using keepsD [OF keeps_receive_loop_step w3(1)] w1(3) by simp
  obtain w4 where w4: "tx_answer sim_pigpio small e w3 = Some (settle (d, e), w4)"
    "script (dev w4) = unread [] wss" "clock (dev w4) \<le> clock (dev w) + unat (wait_step (mself w))"
    using sim_answer [of w3 small e] time small w3 step by (auto simp: sim_tick_def)
  then have w4r: "response w4 = d" "sim_left w (unread [] wss) (unat (wait_step (mself w))) w4"
    using tx_answer_keeps(2,3) [OF w4(1)] w3 assms by (simp_all add: sim_left_def)
  obtain w5 where "tx_debug sim_pigpio io w4 = Some (Ok (), w5)"
    and w5r: "response w5 = d" "sim_left w (unread [] wss) (unat (wait_step (mself w))) w5"
    using sim_debug [of io w4] w4r by (auto simp: sim_left_def)
  with w4(1) have "bindR (tx_answer sim_pigpio small e) (\<lambda>_. tx_debug sim_pigpio io) w3 = Some (settle (d, e), w5)
      \<or> bindR (tx_answer sim_pigpio small e) (\<lambda>_. tx_debug sim_pigpio io) w3 = Some (settle (d, e), w4)"
    by (cases "settle (d, e)") (simp_all add: bindR_def)
  moreover have "tx_receive sim_pigpio io dl small w = bindR (tx_answer sim_pigpio small e) (\<lambda>_. tx_debug sim_pigpio io) w3"
    unfolding tx_receive_def
    by (rule bindR_step, rule w1(1), rule bindR_step, rule tick, rule bindR_step, rule w3(1), rule refl)
  ultimately show ?thesis using w4r w5r by auto
qed

text \<open>The whole transaction: the clock must not wrap before the deadlines computed from it.\<close>

definition sim_time_ok :: "u32 \<Rightarrow> u32 \<Rightarrow> duration \<Rightarrow> bool" where
  "sim_time_ok t step timeout \<longleftrightarrow> duration_micros timeout < 2 ^ 32 - 1
     \<and> unat t + duration_micros timeout < 2 ^ 32 \<and> unat t + unat step + 125800 < 2 ^ 32"

lemma sim_tx_transfer:
  assumes script: "script (dev w) = wss" "bursts_ok wss" "parse_block (concat wss) = Some (d, e)"
    and "length (buf (mself w)) = 80" and "response w = []"
    and time: "sim_time_ok (sim_tick (dev w)) (wait_step (mself w)) timeout" and len: "length request < 40"
  shows "\<exists>w'. tx_transfer sim_pigpio v request timeout w = Some (settle (d, e), w') \<and> response w' = d
     \<and> sim_left w (unread [] wss) (2 * unat (wait_step (mself w))) w'"
proof -
  let ?t = "sim_tick (dev w)" and ?us = "of_nat (duration_micros timeout) :: u32"
  let ?small = "min ?us TIMEOUT_SMALL_US" and ?w1 = "after sim_pigpio GpioTick w"
  let ?dl = "?t + TIMEOUT_CHAR_US * of_nat (length request)"
  have us: "unat ?us = duration_micros timeout"
    using time by (simp add: sim_time_ok_def unat_of_nat take_bit_nat_eq_self)
  have n: "unat (of_nat (length request) :: u32) = length request"
    using len by (simp add: unat_of_nat take_bit_nat_eq_self)
  then have m: "unat (TIMEOUT_CHAR_US * of_nat (length request)) = 3145 * length request"
    using len by (subst unat_mul_less) (simp_all add: TIMEOUT_CHAR_US_val)
  have times: "tx_times sim_pigpio request timeout w = Some (Ok (?small, ?t, ?t + ?us, ?dl), ?w1)"
    using time len us n m
    by (simp add: tx_times_def bindR_def duration_as_micros32_eq run_simps sim_time_ok_def TIMEOUT_CHAR_US_val)
  obtain w2 where w2: "mdb_wave_send_wait sim_pigpio v ?dl (wait_step (mself w)) ''send request timeout'' ?w1
      = Some (Ok (), w2)" "dev w2 = (dev w)\<lparr>clock := clock (dev w) + unat (wait_step (mself w))\<rparr>"
    using sim_send_wait [of v ?dl "wait_step (mself w)" "''send request timeout''" ?w1] by auto
  have "unat (?t + wait_step (mself w)) = unat ?t + unat (wait_step (mself w))"
    using time by (intro unat_add_less) (simp add: sim_time_ok_def)
  moreover have "unat ?small \<le> 10000"
    by (simp add: min_def word_le_nat_alt TIMEOUT_SMALL_US_def)
  ultimately have "\<exists>w'. tx_receive sim_pigpio ?t (?t + ?us) ?small w2 = Some (settle (d, e), w')
      \<and> response w' = d \<and> sim_left w2 (unread [] wss) (unat (wait_step (mself w2))) w'"
    using assms w2(2) send_wait_keeps [OF w2(1)]
    by (intro sim_tx_receive [where wss = wss]) (simp_all add: sim_time_ok_def)
  moreover have "tx_transfer sim_pigpio v request timeout w = tx_receive sim_pigpio ?t (?t + ?us) ?small w2"
    unfolding tx_transfer_times
    by (rule bindR_step, rule times, simp only: prod.case, rule bindR_step, rule gets_run,
        rule bindR_step, simp add: w2(1), rule refl)
  moreover have "sim_left w wss' (2 * unat (wait_step (mself w))) w'"
    if "sim_left w2 wss' (unat (wait_step (mself w2))) w'" for wss' w'
    using that w2(2) send_wait_keeps [OF w2(1)] by (simp add: sim_left_def)
  ultimately show ?thesis by auto
qed

lemma sim_wave_create:
  "\<exists>v w'. mdb_wave_create sim_pigpio pin s w = Some (Ok v, w') \<and> clock (dev w') = clock (dev w)
     \<and> script (dev w') = script (dev w)"
proof -
  have "\<not> is_neg (x mod 512)" for x :: u32
  proof (rule not_is_neg)
    have "unat (x mod 512) < 512" by (simp add: unat_mod)
    then show "unat (x mod 512) < 2 ^ 31" by simp
  qed
  then show ?thesis
    by (simp add: mdb_wave_create_def new_serial_def io_q_def map_err_def bindR_def check_ffi_run ret_def)
qed

lemma sim_wave_create_tick:
  "\<exists>v w'. mdb_wave_create sim_pigpio pin s w = Some (Ok v, w') \<and> sim_tick (dev w') = sim_tick (dev w)"
  using sim_wave_create [of pin s w] by (auto simp: sim_tick_def)

lemma sim_tx:
  assumes args: "tx_args_ok request cap"
    and script: "script (dev w) = wss" "bursts_ok wss" "parse_block (concat wss) = Some (d, e)"
    and "length (buf (mself w)) = BUF_SIZE" and "response w = []"
    and time: "sim_time_ok (sim_tick (dev w)) (wait_step (mself w)) timeout"
  shows "\<exists>w'. gpio_mdb_tx sim_pigpio request cap timeout w = Some (settle (d, e), w') \<and> response w' = d
     \<and> sim_left w (unread [] wss) (2 * unat (wait_step (mself w))) w'"
proof -
  let ?w0 = "set_buf (load_request request (buf (mself w))) w"
  obtain v w1 where w1: "mdb_wave_create sim_pigpio (tx_pin (mself w)) (tx_frame request (buf (mself w))) ?w0
      = Some (Ok v, w1)" "clock (dev w1) = clock (dev w)" "script (dev w1) = wss"
    using sim_wave_create [of "tx_pin (mself w)" "tx_frame request (buf (mself w))" ?w0] script by auto
  note q = mdb_wave_create_quiet [OF w1(1)]
  have "\<exists>w'. tx_transfer sim_pigpio v request timeout w1 = Some (settle (d, e), w') \<and> response w' = d
      \<and> sim_left w1 (unread [] wss) (2 * unat (wait_step (mself w1))) w'"
    using assms w1 q by (intro sim_tx_transfer) (simp_all add: mdb_consts tx_args_ok_def sim_tick_def)
  then obtain w2 where w2: "tx_transfer sim_pigpio v request timeout w1 = Some (settle (d, e), w2)" "response w2 = d"
    and left: "sim_left w (unread [] wss) (2 * unat (wait_step (mself w))) w2"
    using w1 q by (auto simp: sim_left_def)
  have "gpio_mdb_tx sim_pigpio request cap timeout w
      = with_drop (tx_transfer sim_pigpio v request timeout) (wave_drop sim_pigpio v) w1"
    unfolding gpio_mdb_tx_runs [OF args] by (rule bindR_step, rule w1(1), rule refl)
  also have "\<dots> = Some (settle (d, e), after sim_pigpio (GpioWaveDelete (wave_id v)) w2)"
    by (rule with_drop_run, rule w2(1)) (simp add: wave_drop_def run_simps)
  finally show ?thesis using w2(2) left by (simp add: sim_left_def)
qed

lemma sim_tx_settles:
  assumes "tx_args_ok request cap" and "script (dev w) = wss" and "bursts_ok wss"
    and "parse_block (concat wss) = Some (d, e)" and "length (buf (mself w)) = BUF_SIZE" and "response w = []"
    and "sim_time_ok (sim_tick (dev w)) (wait_step (mself w)) timeout"
  shows "\<exists>w'. gpio_mdb_tx sim_pigpio request cap timeout w = Some (settle (d, e), w') \<and> response w' = d"
  using sim_tx [OF assms] by blast

section \<open>A bench\<close>

text \<open>A driver as \<open>GpioMdb::new\<close> makes it, and the world around a transaction.\<close>

definition sim_mdb :: gpio_mdb where
  "sim_mdb = \<lparr>rx_pin = 15, tx_pin = 14, wave_ack = Wave 1, wave_nak = Wave 2, wait_step = 101,
     buf = replicate 80 0\<rparr>"

definition sim_world :: "nat \<Rightarrow> bus_word list list \<Rightarrow> sim mdb_world" where
  "sim_world t wss = \<lparr>dev = \<lparr>clock = t, next_wave = 3, script = wss\<rparr>, ffi_log = [], wait_step_var = None,
     stack_junk = (\<lambda>_. 0), debug_on = False, mself = sim_mdb, response = []\<rparr>"

lemma sim_world_simps [simp]:
  "dev (sim_world t wss) = \<lparr>clock = t, next_wave = 3, script = wss\<rparr>" "ffi_log (sim_world t wss) = []"
  "mself (sim_world t wss) = sim_mdb" "response (sim_world t wss) = []" "debug_on (sim_world t wss) = False"
  "sent (sim_world t wss) = []" "rcvd (sim_world t wss) = []" "live_waves (sim_world t wss) = 0"
  "frames (sim_world t wss) = []"
  by (simp_all add: sim_world_def sent_def rcvd_def live_waves_def frames_def)

lemma sim_mdb_simps [simp]:
  "buf sim_mdb = replicate 80 0" "wait_step sim_mdb = 101" "wave_ack sim_mdb = Wave 1" "wave_nak sim_mdb = Wave 2"
  "tx_pin sim_mdb = 14" "rx_pin sim_mdb = 15"
  by (simp_all add: sim_mdb_def)

end
