(* ===== verification/Tx_Properties.thy ===== *)
theory Tx_Properties
  imports Bus_Sim
begin

text \<open>
  The properties of \<open>GpioMdb::tx\<close>: what its result says about the peripheral, which waves it
  sends, the frame of the request, its balance of waves, its panics, and success on a bus
  that answers.
\<close>

section \<open>A transaction for the witnesses\<close>

definition bench_timeout :: duration where
  "bench_timeout = from_millis 300"

lemma bench_timeout_micros: "duration_micros bench_timeout = 300000"
  by (simp add: bench_timeout_def duration_from_millis)

text \<open>A poll answered by two data bytes, cut into two bursts.\<close>

definition bench_script :: "bus_word list list" where
  "bench_script = [[(0x11, 0)], [(0x22, 0), (0x33, 1)]]"

lemma bench_run:
  "\<exists>w'. gpio_mdb_tx sim_pigpio [0x0b] 40 bench_timeout (sim_world 0 bench_script) = Some (Ok (), w')
     \<and> response w' = [0x11, 0x22]"
proof -
  have "\<exists>w'. gpio_mdb_tx sim_pigpio [0x0b] 40 bench_timeout (sim_world 0 bench_script)
      = Some (settle ([0x11, 0x22], 0x33), w') \<and> response w' = [0x11, 0x22]"
    by (rule sim_tx_settles [where wss = bench_script])
      (simp_all add: tx_args_ok_def bursts_ok_def mdb_consts sim_time_ok_def sim_tick_def bench_timeout_micros bench_script_def)
  then show ?thesis by (simp add: settle_def checksum_def)
qed

text \<open>The same poll a few microseconds before the tick wraps.\<close>

lemma unat_late: "unat (4294967290 :: u32) = 4294967290"
  by simp

lemma late_wave:
  "\<exists>v w1. mdb_wave_create sim_pigpio (tx_pin (mself (sim_world 4294967290 bench_script)))
      (tx_frame [0x0b] (buf (mself (sim_world 4294967290 bench_script))))
      (set_buf (load_request [0x0b] (buf (mself (sim_world 4294967290 bench_script)))) (sim_world 4294967290 bench_script))
    = Some (Ok v, w1) \<and> unat (rc_of sim_pigpio GpioTick w1) = 4294967290"
proof -
  let ?w = "set_buf (load_request [0x0b] (buf (mself (sim_world 4294967290 bench_script)))) (sim_world 4294967290 bench_script)"
  have "sim_tick (dev ?w) = 4294967290" by (simp add: sim_tick_def)
  then show ?thesis using sim_wave_create_tick [of _ _ ?w] by (metis rc_of_sim sim_call.simps(1) fst_conv unat_late)
qed


lemma tx_trace_settled:
  "tx_trace [v] r m resp ws s \<Longrightarrow> settled r \<Longrightarrow> \<exists>d e. parse_block ws = Some (d, e) \<and> r = settle (d, e)
     \<and> resp = d \<and> s = v # (if d = [] then [] else [wave_id (reply_wave m d e)])"
  by (simp add: tx_trace_def)

lemma tx_trace_discipline:
  assumes "tx_trace [v] r m resp ws s"
  shows "s = [] \<or> s = [v] \<or> (\<exists>d e. parse_block ws = Some (d, e) \<and> d \<noteq> []
    \<and> s = [v, wave_id (if e = checksum d then wave_ack m else wave_nak m)])"
  using assms by (cases "settled r") (auto simp: tx_trace_def reply_wave_def split: if_splits)

section \<open>Properties\<close>

text \<open>
  C1: when \<open>tx\<close> succeeds or reports an error of the MDB protocol, the bytes it read from the
  serial port form a complete block; the result is the verdict on that block, the response
  vector holds exactly its data bytes, and the waves sent are the request and, after data,
  one reply.
\<close>

theorem tx_settles:
  assumes "serial_reader P" and "gpio_mdb_tx P request cap timeout w = Some (r, w')"
    and "response w = []" and "settled r"
  shows "\<exists>v xs d e. rcvd w' = rcvd w @ xs \<and> parse_block (words_of xs) = Some (d, e)
    \<and> r = settle (d, e) \<and> response w' = d
    \<and> sent w' = sent w @ v # (if d = [] then [] else [wave_id (reply_wave (mself w) d e)])"
proof -
  from serial_reader.tx_trace_outcome [OF assms(1-3) tx_settled_args [OF assms(2,4)]] assms(4)
  obtain xs s v where "rcvd w' = rcvd w @ xs" and "sent w' = sent w @ s"
    and "tx_trace [v] r (mself w) (response w') (words_of xs) s" by blast
  with assms(4) show ?thesis by (fastforce dest: tx_trace_settled)
qed

theorem tx_settles_witness:
  "\<exists>w'. gpio_mdb_tx sim_pigpio [0x0b] 40 bench_timeout (sim_world 0 bench_script) = Some (Ok (), w')
    \<and> (\<exists>v xs d e. rcvd w' = rcvd (sim_world 0 bench_script) @ xs \<and> parse_block (words_of xs) = Some (d, e)
      \<and> Ok () = settle (d, e) \<and> response w' = d \<and> sent w' = sent (sim_world 0 bench_script)
          @ v # (if d = [] then [] else [wave_id (reply_wave (mself (sim_world 0 bench_script)) d e)]))"
proof -
  obtain w' where run: "gpio_mdb_tx sim_pigpio [0x0b] 40 bench_timeout (sim_world 0 bench_script) = Some (Ok (), w')"
    using bench_run by blast
  from tx_settles [OF sim_reader.serial_reader_axioms this] run show ?thesis
    by (intro exI [of _ w'] conjI) (simp_all only: sim_world_simps settled_simps)
qed

text \<open>
  C4: the reply discipline of the bus, whatever way \<open>tx\<close> ends: it sends nothing, or the
  request alone, or the request and one reply; a reply is sent only after a complete block
  with data, and it is ACK exactly if the checksum of that block is right.
\<close>

theorem tx_reply_discipline:
  assumes "serial_reader P" and "gpio_mdb_tx P request cap timeout w = Some (r, w')" and "response w = []"
  shows "\<exists>xs s. rcvd w' = rcvd w @ xs \<and> sent w' = sent w @ s \<and> (s = [] \<or> (\<exists>v. s = [v]
    \<or> (\<exists>d e. parse_block (words_of xs) = Some (d, e) \<and> d \<noteq> []
        \<and> s = [v, wave_id (if e = checksum d then wave_ack (mself w) else wave_nak (mself w))])))"
proof (cases "tx_args_ok request cap")
  case True
  from serial_reader.tx_trace_outcome [OF assms True] obtain xs s where
    "rcvd w' = rcvd w @ xs" "sent w' = sent w @ s"
    "s = [] \<or> (\<exists>v. tx_trace [v] r (mself w) (response w') (words_of xs) s)" by blast
  then show ?thesis using tx_trace_discipline by metis
next
  case False
  with assms(2) show ?thesis by (auto simp: gpio_mdb_tx_rejects)
qed

theorem tx_reply_discipline_witness:
  "\<exists>w'. gpio_mdb_tx sim_pigpio [0x0b] 40 bench_timeout (sim_world 0 bench_script) = Some (Ok (), w')
    \<and> (\<exists>xs s. rcvd w' = rcvd (sim_world 0 bench_script) @ xs \<and> sent w' = sent (sim_world 0 bench_script) @ s
      \<and> (s = [] \<or> (\<exists>v. s = [v] \<or> (\<exists>d e. parse_block (words_of xs) = Some (d, e) \<and> d \<noteq> []
        \<and> s = [v, wave_id (if e = checksum d then wave_ack (mself (sim_world 0 bench_script))
            else wave_nak (mself (sim_world 0 bench_script)))]))))"
proof -
  obtain w' where run: "gpio_mdb_tx sim_pigpio [0x0b] 40 bench_timeout (sim_world 0 bench_script) = Some (Ok (), w')"
    using bench_run by blast
  from tx_reply_discipline [OF sim_reader.serial_reader_axioms this] run show ?thesis
    by (intro exI [of _ w'] conjI) (simp_all only: sim_world_simps)
qed



text \<open>
  C5: the frame of a request. Either the library refuses the wave, or it is given exactly
  one, on the transmit pin: the bytes of the request and their checksum, the ninth bit set on
  the first word; the ninth bit of every other word is the byte the buffer held there before.
\<close>

theorem tx_frame_on_wire:
  assumes "gpio_mdb_tx P request cap timeout w = Some (r, w')" and args: "tx_args_ok request cap"
    and len: "length (buf (mself w)) = BUF_SIZE"
  shows "(frames w' = frames w \<and> \<not> settled r) \<or> (\<exists>bs. frames w' = frames w @ [(ucast (tx_pin (mself w)), bs)]
    \<and> words_of bs = zip (request @ [checksum request])
        (1 # map (\<lambda>k. buf (mself w) ! (2 * k + 1)) [1..<length request + 1]))"
proof -
  let ?b = "buf (mself w)" and ?w0 = "set_buf (load_request request (buf (mself w))) w"
  have words: "words_of (tx_frame request ?b)
      = zip (request @ [checksum request]) (1 # map (\<lambda>k. ?b ! (2 * k + 1)) [1..<length request + 1])"
    by (rule tx_frame_words) (use args len tx_indices in blast)
  have keep: "keeps frames (with_drop (tx_transfer P v request timeout) (wave_drop P v))"
    for v by (intro keeps_with_drop keeps_tx_transfer tx_blind_obs keeps_wave_drop quiet_frames) simp
  from assms(1) have "bindR (mdb_wave_create P (tx_pin (mself w)) (tx_frame request ?b)) (\<lambda>v.
      with_drop (tx_transfer P v request timeout) (wave_drop P v)) ?w0 = Some (r, w')"
    by (simp add: gpio_mdb_tx_runs [OF args])
  then show ?thesis
  proof (cases rule: bindR_cases)
    case (Ok v w1)
    with mdb_wave_create_frames [OF Ok(1)] keepsD [OF keep Ok(2)] words show ?thesis by auto
  next
    case (Err e)
    with mdb_wave_create_frames [OF Err(1)] errsD [OF errs_mdb_wave_create Err(1)] words show ?thesis by auto
  next
    case (Panic p)
    with mdb_wave_create_frames [OF Panic(1)] words show ?thesis by auto
  qed
qed

theorem tx_frame_on_wire_witness:
  "\<exists>w'. gpio_mdb_tx sim_pigpio [0x0b] 40 bench_timeout (sim_world 0 bench_script) = Some (Ok (), w')
    \<and> ((frames w' = frames (sim_world 0 bench_script) \<and> \<not> settled (Ok ()))
     \<or> (\<exists>bs. frames w' = frames (sim_world 0 bench_script) @ [(ucast (tx_pin (mself (sim_world 0 bench_script))), bs)]
        \<and> words_of bs = zip ([0x0b] @ [checksum [0x0b]])
           (1 # map (\<lambda>k. buf (mself (sim_world 0 bench_script)) ! (2 * k + 1)) [1..<length [0x0b :: u8] + 1])))"
proof -
  obtain w' where run: "gpio_mdb_tx sim_pigpio [0x0b] 40 bench_timeout (sim_world 0 bench_script) = Some (Ok (), w')"
    using bench_run by blast
  from run tx_frame_on_wire [OF run] show ?thesis
    by (intro exI [of _ w'] conjI) (simp_all only: tx_args_ok_def mdb_consts sim_world_simps sim_mdb_simps
        length_replicate, simp)
qed

text \<open>
  C6: \<open>tx\<close> gives back every wave it makes, also when it times out, when a foreign call
  fails and when it panics.
\<close>

theorem tx_wave_balance:
  assumes "gpio_mdb_tx P request cap timeout w = Some (r, w')"
  shows "live_waves w' = live_waves w"
  using addsD [OF adds_gpio_mdb_tx assms] by (simp split: outcome.splits)

theorem tx_wave_balance_witness:
  "\<exists>w'. gpio_mdb_tx sim_pigpio [0x0b] 40 bench_timeout (sim_world 0 bench_script) = Some (Ok (), w')
    \<and> live_waves w' = live_waves (sim_world 0 bench_script)"
  using bench_run tx_wave_balance [where w = "sim_world 0 bench_script"] by blast



text \<open>
  C8: the deadlines are computed with checked arithmetic on the 32-bit microsecond tick: when
  the tick is within \<open>timeout\<close> of its wrap, \<open>tx\<close> panics after it made the wave of the
  request and before anything is sent. The tick wraps every 71.6 minutes.
\<close>

theorem tx_panics_before_wrap:
  assumes "tx_args_ok request cap"
    and "mdb_wave_create P (tx_pin (mself w)) (tx_frame request (buf (mself w)))
      (set_buf (load_request request (buf (mself w))) w) = Some (Ok v, w1)"
    and "duration_micros timeout < 2 ^ 32 - 1"
    and "unat (rc_of P GpioTick w1) + duration_micros timeout \<ge> 2 ^ 32"
  shows "\<exists>w'. gpio_mdb_tx P request cap timeout w = Some (Panic Arith_Overflow, w') \<and> sent w' = sent w"
  unfolding tx_overflow [OF assms] using mdb_wave_create_quiet [OF assms(2)] by simp

theorem tx_panics_before_wrap_witness:
  "\<exists>w'. gpio_mdb_tx sim_pigpio [0x0b] 40 bench_timeout (sim_world 4294967290 bench_script) = Some (Panic Arith_Overflow, w')
    \<and> sent w' = sent (sim_world 4294967290 bench_script)"
proof -
  obtain v w1 where "mdb_wave_create sim_pigpio (tx_pin (mself (sim_world 4294967290 bench_script)))
      (tx_frame [0x0b] (buf (mself (sim_world 4294967290 bench_script))))
      (set_buf (load_request [0x0b] (buf (mself (sim_world 4294967290 bench_script)))) (sim_world 4294967290 bench_script))
    = Some (Ok v, w1)" and "unat (rc_of sim_pigpio GpioTick w1) = 4294967290" using late_wave by blast
  from tx_panics_before_wrap [OF _ this(1)] this(2) show ?thesis
    by (simp add: bench_timeout_micros tx_args_ok_def mdb_consts del: rc_of_sim)
qed



end
