(* ===== verification/Mdb_Progress.thy ===== *)
theory Mdb_Progress
  imports Bus_Sim
begin

text \<open>
  Termination of the driver's polling loops. Each of them leaves when a poll succeeds or when
  the 32-bit tick has passed a deadline; both need a clock that advances and that cannot jump
  over the values between the deadline and the wrap.
\<close>

section \<open>Polling against a wrapping clock\<close>

lemma mod_add_no_wrap: "(a :: nat) mod m + k < m \<Longrightarrow> (a + k) mod m = a mod m + k"
  by (metis mod_add_left_eq mod_less)

text \<open>
  Every round that goes on has looked at the clock \<open>T\<close> modulo \<open>M\<close>, at a moment \<open>n1\<close>, and
  found it not past \<open>D\<close>; \<open>A\<close> and \<open>B\<close> bound the time before and after that moment.
\<close>

lemma polling_returns:
  fixes T :: "'s \<Rightarrow> nat"
  assumes runs: "\<And>c s. Q s \<Longrightarrow> body c s \<noteq> None"
    and keep: "\<And>c s c' s'. Q s \<Longrightarrow> body c s = Some (Ok (Continue c'), s') \<Longrightarrow> Q s'"
    and go: "\<And>c s c' s'. Q s \<Longrightarrow> body c s = Some (Ok (Continue c'), s') \<Longrightarrow>
      \<exists>n1. T s + a \<le> n1 \<and> n1 \<le> T s + A \<and> n1 mod M \<le> D \<and> n1 + b \<le> T s' \<and> T s' \<le> n1 + B"
    and "0 < a + b" and "D + A + B < M" and "Q s"
  shows "\<exists>r s'. loopR body c s = Some (r, s')"
proof -
  have late: "\<exists>r s'. loopR body c s = Some (r, s')" if "Q s" and "T s mod M \<le> D + B" for c s
  proof (rule loopR_returns [where I = "\<lambda>_ s. Q s \<and> T s mod M \<le> D + B" and \<mu> = "\<lambda>_ s. M - T s mod M"])
    show "Q s \<and> T s mod M \<le> D + B" using that ..
    fix c s
    assume I: "Q s \<and> T s mod M \<le> D + B"
    then show "body c s \<noteq> None" using runs by blast
    fix c' s'
    assume step: "body c s = Some (Ok (Continue c'), s')"
    from I go [OF _ step] obtain n1 where n1: "T s + a \<le> n1" "n1 \<le> T s + A" "n1 mod M \<le> D"
      "n1 + b \<le> T s'" "T s' \<le> n1 + B" by blast
    define j k where "j = n1 - T s" and "k = T s' - n1"
    then have j: "n1 = T s + j" "a \<le> j" "j \<le> A" and k: "T s' = n1 + k" "b \<le> k" "k \<le> B"
      using n1 by linarith+
    have v1: "n1 mod M = T s mod M + j"
      unfolding j(1) by (rule mod_add_no_wrap) (use I j(3) \<open>D + A + B < M\<close> in linarith)
    have v2: "T s' mod M = n1 mod M + k"
      unfolding k(1) by (rule mod_add_no_wrap) (use n1(3) k(3) \<open>D + A + B < M\<close> in linarith)
    have "T s' mod M \<le> D + B" using v2 n1(3) k(3) by linarith
    moreover from this have "M - T s' mod M < M - T s mod M"
      using v1 v2 j(2) k(2) \<open>0 < a + b\<close> \<open>D + A + B < M\<close> by linarith
    ultimately show "(Q s' \<and> T s' mod M \<le> D + B) \<and> M - T s' mod M < M - T s mod M"
      using I keep [OF _ step] by blast
  qed
  obtain r s' where first: "body c s = Some (r, s')" using runs [OF \<open>Q s\<close>] by fastforce
  show ?thesis
  proof (cases r)
    case (Ok x)
    show ?thesis
    proof (cases x)
      case (Continue c')
      with Ok first have step: "body c s = Some (Ok (Continue c'), s')" by simp
      from go [OF \<open>Q s\<close> step] obtain n1 where n1: "n1 mod M \<le> D" "n1 + b \<le> T s'" "T s' \<le> n1 + B" by blast
      define k where "k = T s' - n1"
      then have k: "T s' = n1 + k" "k \<le> B" using n1 by linarith+
      have "T s' mod M = n1 mod M + k"
        unfolding k(1) by (rule mod_add_no_wrap) (use n1(1) k(2) \<open>D + A + B < M\<close> in linarith)
      with n1(1) k(2) have "T s' mod M \<le> D + B" by linarith
      from late [OF keep [OF \<open>Q s\<close> step] this] step show ?thesis by (simp add: loopR_run)
    qed (use first Ok in \<open>simp add: loopR_run\<close>)
  qed (use first in \<open>simp_all add: loopR_run\<close>)
qed

section \<open>Devices with a clock\<close>

text \<open>
  What \<open>pigpio\<close> documents of time: \<open>gpioTick\<close> counts microseconds and wraps at 32 bits,
  \<open>gpioDelay\<close> takes at least what it is asked for; no call takes more than \<open>J\<close>
  microseconds beyond that.
\<close>

locale ticking =
  fixes P :: "'d pigpio" and now :: "'d \<Rightarrow> nat" and J :: nat
  assumes tick_now: "fst (pg_call P GpioTick d) = of_nat (now d)"
    and call_time: "now d \<le> now (snd (snd (pg_call P c d)))"
    and call_cost: "now (snd (snd (pg_call P c d))) \<le> now d + (case c of GpioDelay n \<Rightarrow> unat n + J | _ \<Rightarrow> J)"
    and delay_time: "now d + unat n \<le> now (snd (snd (pg_call P (GpioDelay n) d)))"
begin

abbreviation time :: "('d, 'z) world_scheme \<Rightarrow> nat" where
  "time w \<equiv> now (dev w)"

lemma time_after:
  "time w \<le> time (after P c w)"
  "time (after P c w) \<le> time w + (case c of GpioDelay n \<Rightarrow> unat n + J | _ \<Rightarrow> J)"
  "time w + unat n \<le> time (after P (GpioDelay n) w)"
  using call_time call_cost delay_time by (simp_all add: dev_after)

lemma rc_tick: "rc_of P GpioTick w = of_nat (time w)"
  by (simp add: rc_of_def tick_now)

lemma unat_of_nat32: "unat (of_nat n :: u32) = n mod 2 ^ 32"
  by (simp add: unat_of_nat take_bit_eq_mod)

lemma wait_receive_round_time:
  assumes "wait_receive_round P dl c w = Some (Ok (Continue c'), w')"
  shows "\<exists>n1. time w \<le> n1 \<and> n1 \<le> time w + J \<and> n1 mod 2 ^ 32 \<le> unat dl
    \<and> n1 + unat (wait_step (mself w)) \<le> time w' \<and> time w' \<le> n1 + (unat (wait_step (mself w)) + 2 * J)"
    and "wait_step (mself w') = wait_step (mself w)"
proof -
  let ?w1 = "set_buf (fill (bytes_of P (read_call w) w) (buf (mself w))) (after P (read_call w) w)"
  let ?w2 = "after P GpioTick ?w1" and ?step = "wait_step (mself w)"
  have w': "w' = after P (GpioDelay ?step) ?w2" and "\<not> of_nat (time ?w1) > dl"
    using assms by (auto simp: wait_receive_round_def bindR_def serial_read_run run_simps ret_def fail_def
        rc_tick split: if_splits)
  then have n1: "time ?w1 mod 2 ^ 32 \<le> unat dl"
    by (simp add: word_less_nat_alt unat_of_nat32 del: unat_of_nat of_nat_mod)
  have "time w \<le> time ?w1" "time ?w1 \<le> time w + J"
    using time_after(1,2) [where c = "read_call w" and w = w] by (simp_all add: read_call_def)
  moreover have "time ?w1 \<le> time ?w2" "time ?w2 \<le> time ?w1 + J"
    using time_after(1,2) [where c = GpioTick and w = ?w1] by simp_all
  moreover have "time ?w2 + unat ?step \<le> time w'" "time w' \<le> time ?w2 + (unat ?step + J)"
    using time_after(3) [where n = ?step and w = ?w2] time_after(2) [where c = "GpioDelay ?step" and w = ?w2] w'
    by simp_all
  ultimately show "\<exists>n1. time w \<le> n1 \<and> n1 \<le> time w + J \<and> n1 mod 2 ^ 32 \<le> unat dl
      \<and> n1 + unat ?step \<le> time w' \<and> time w' \<le> n1 + (unat ?step + 2 * J)"
    using n1 by (intro exI [of _ "time ?w1"]) auto
  show "wait_step (mself w') = wait_step (mself w)" using w' by simp
qed

lemma wait_receive_returns:
  assumes "0 < unat (wait_step (mself w))" and "unat dl + unat (wait_step (mself w)) + 3 * J < 2 ^ 32"
  shows "\<exists>r w'. wait_receive P dl w = Some (r, w')"
  unfolding wait_receive_def
proof (rule polling_returns [where T = time and M = "2 ^ 32" and D = "unat dl" and a = 0 and A = J
      and b = "unat (wait_step (mself w))" and B = "unat (wait_step (mself w)) + 2 * J"
      and Q = "\<lambda>v. wait_step (mself v) = wait_step (mself w)"])
  show "wait_receive_round P dl c v \<noteq> None" for c v
    by (simp add: wait_receive_round_def bindR_def serial_read_run run_simps ret_def fail_def)
  show "\<exists>n1. time v + 0 \<le> n1 \<and> n1 \<le> time v + J \<and> n1 mod 2 ^ 32 \<le> unat dl
      \<and> n1 + unat (wait_step (mself w)) \<le> time v' \<and> time v' \<le> n1 + (unat (wait_step (mself w)) + 2 * J)"
    if "wait_step (mself v) = wait_step (mself w)"
      and "wait_receive_round P dl c v = Some (Ok (Continue c'), v')" for c v c' v'
    using wait_receive_round_time(1) [OF that(2)] that(1) by simp
  show "wait_step (mself v') = wait_step (mself w)"
    if "wait_step (mself v) = wait_step (mself w)"
      and "wait_receive_round P dl c v = Some (Ok (Continue c'), v')" for c v c' v'
    using wait_receive_round_time(2) [OF that(2)] that(1) by simp
qed (use assms in simp_all)

text \<open>The same for the transmission: the clock is read relative to \<open>start\<close>.\<close>

lemma elapsed_mod: "unat (of_nat n - (start :: u32)) = (n + (2 ^ 32 - unat start)) mod 2 ^ 32"
proof -
  have "of_nat n - start = (of_nat (n + (2 ^ 32 - unat start)) :: u32)"
    using unat_less_2p32 [of start] by (simp add: of_nat_diff del: unat_less_2p32)
  then show ?thesis by (simp only: unat_of_nat32)
qed

lemma send_wait_round_time:
  assumes "send_wait_round P start dl step err c w = Some (Ok (Continue c'), w')"
  shows "\<exists>n1. time w + unat step \<le> n1 \<and> n1 \<le> time w + (unat step + 2 * J)
    \<and> (n1 + (2 ^ 32 - unat start)) mod 2 ^ 32 \<le> unat dl \<and> n1 \<le> time w' \<and> time w' \<le> n1 + J"
proof -
  let ?w1 = "after P (GpioDelay step) w"
  let ?w2 = "after P GpioWaveTxBusy ?w1"
  have w': "w' = after P GpioTick ?w2" and "\<not> of_nat (time ?w2) - start > dl"
    using assms by (auto simp: send_wait_round_def bindR_def wave_tx_busy_run run_simps io_q_def map_err_def
        ret_def fail_def rc_tick split: if_splits)
  then have n1: "(time ?w2 + (2 ^ 32 - unat start)) mod 2 ^ 32 \<le> unat dl"
    by (simp only: word_less_nat_alt elapsed_mod not_less)
  have "time w + unat step \<le> time ?w1" "time ?w1 \<le> time w + (unat step + J)"
    using time_after(3) [where n = step and w = w] time_after(2) [where c = "GpioDelay step" and w = w] by simp_all
  moreover have "time ?w1 \<le> time ?w2" "time ?w2 \<le> time ?w1 + J"
    using time_after(1,2) [where c = GpioWaveTxBusy and w = ?w1] by simp_all
  moreover have "time ?w2 \<le> time w'" "time w' \<le> time ?w2 + J"
    using time_after(1,2) [where c = GpioTick and w = ?w2] w' by simp_all
  ultimately show ?thesis using n1 by (intro exI [of _ "time ?w2"]) linarith
qed

lemma send_wait_loop_returns:
  assumes "0 < unat step" and "unat dl + unat step + 3 * J < 2 ^ 32"
  shows "\<exists>r w'. loopR (send_wait_round P start dl step err) c w = Some (r, w')"
proof (rule polling_returns [where T = "\<lambda>w. time w + (2 ^ 32 - unat start)" and M = "2 ^ 32" and D = "unat dl"
      and a = "unat step" and A = "unat step + 2 * J" and b = 0 and B = J and Q = "\<lambda>_. True"])
  show "send_wait_round P start dl step err c v \<noteq> None" for c v
    by (simp add: send_wait_round_def bindR_def wave_tx_busy_run run_simps io_q_def map_err_def ret_def fail_def)
  show "\<exists>n1. time v + (2 ^ 32 - unat start) + unat step \<le> n1
      \<and> n1 \<le> time v + (2 ^ 32 - unat start) + (unat step + 2 * J) \<and> n1 mod 2 ^ 32 \<le> unat dl
      \<and> n1 + 0 \<le> time v' + (2 ^ 32 - unat start) \<and> time v' + (2 ^ 32 - unat start) \<le> n1 + J"
    if round: "send_wait_round P start dl step err c v = Some (Ok (Continue c'), v')" for c v c' v'
  proof -
    from send_wait_round_time [OF round] obtain n1 where
      "time v + unat step \<le> n1 \<and> n1 \<le> time v + (unat step + 2 * J)
       \<and> (n1 + (2 ^ 32 - unat start)) mod 2 ^ 32 \<le> unat dl \<and> n1 \<le> time v' \<and> time v' \<le> n1 + J" by blast
    then show ?thesis by (intro exI [of _ "n1 + (2 ^ 32 - unat start)"]) linarith
  qed
qed (use assms in simp_all)

lemma send_wait_returns:
  assumes "0 < unat step" and "unat dl + unat step + 3 * J < 2 ^ 32"
  shows "\<exists>r w'. mdb_wave_send_wait P v dl step err w = Some (r, w')"
proof -
  let ?w1 = "after P GpioTick w"
  let ?send = "io_q (wave_send P v (PI_WAVE_MODE_ONE_SHOT_SYNC P)) :: (('d, 'z) world_scheme, error, unit) prog"
  have send: "returns ?send" by (intro returns_intros)
  have rest: "returns (bindR (loopR (send_wait_round P t dl step err) ()) (\<lambda>_.
      bindR (io_q (check_ffi P GpioWaveTxStop)) (\<lambda>_. ret ())) :: (('d, 'z) world_scheme, error, unit) prog)" for t
  proof (intro returns_intros)
    show "returns (loopR (send_wait_round P t dl step err) ())"
      using send_wait_loop_returns [OF assms, where start = t and c = "()"] by (auto simp: returns_def)
  qed
  have "returns (mdb_wave_send_wait P v dl step err :: (('d, 'z) world_scheme, error, unit) prog)"
    unfolding mdb_wave_send_wait_def
    by (rule returns_bindR, rule returns_wave_ops, rule returns_bindR, rule send, rule rest)
  then show ?thesis by (rule returnsD)
qed

end

text \<open>The scripted bus keeps time exactly.\<close>

interpretation sim_clock: ticking sim_pigpio clock 0
proof
  fix d :: sim and c n
  show "fst (pg_call sim_pigpio GpioTick d) = word_of_nat (clock d)" by (simp add: sim_tick_def)
  show "clock d \<le> clock (snd (snd (pg_call sim_pigpio c d)))"
    by (cases c) (auto simp: sim_read_def Let_def split: list.split)
  show "clock (snd (snd (pg_call sim_pigpio c d))) \<le> clock d + (case c of GpioDelay n \<Rightarrow> unat n + 0 | _ \<Rightarrow> 0)"
    by (cases c) (auto simp: sim_read_def Let_def split: list.split)
  show "clock d + unat n \<le> clock (snd (snd (pg_call sim_pigpio (GpioDelay n) d)))" by simp
qed

lemma returns_scan_words: "returns (scan_words i n)"
  by (induction i n rule: scan_words.induct)
    (subst scan_words.simps, auto intro!: returns_intros simp: buf_at_def push_response_def)

lemma keeps_scan_words_dev: "keeps (\<lambda>w. (dev w, wait_step (mself w))) (scan_words i n)"
  by (induction i n rule: scan_words.induct)
    (subst scan_words.simps, auto intro!: keeps_intros simp: buf_at_def push_response_def)

section \<open>A peripheral that stops\<close>

text \<open>
  The loop \<open>'receive\<close> looks at its deadline only when a read comes back empty, so it needs a
  peripheral that has finitely much to say.
\<close>

locale finite_feed = ticking P now J
  for P :: "'d pigpio" and now :: "'d \<Rightarrow> nat" and J :: nat +
  fixes pending :: "'d \<Rightarrow> nat"
  assumes read_pending: "pg_call P (GpioSerialRead pin n) d = (rc, bs, d') \<Longrightarrow> 0 < unat rc \<Longrightarrow> pending d' < pending d"
    and keep_pending: "pending (snd (snd (pg_call P c d))) \<le> pending d"
begin

lemma pending_after: "pending (dev (after P c w)) \<le> pending (dev w)"
  using keep_pending by (simp add: dev_after)

lemma wait_receive_pending:
  assumes "wait_receive P dl w = Some (Ok n, w')"
  shows "pending (dev w') < pending (dev w) \<and> wait_step (mself w') = wait_step (mself w)"
proof -
  have "case r of Ok n \<Rightarrow> pending (dev w') < pending (dev w) \<and> wait_step (mself w') = wait_step (mself w) | _ \<Rightarrow> True"
    if "wait_receive P dl w = Some (r, w')" for r w w'
    using that unfolding wait_receive_def
  proof (induction rule: loopR_induct)
    case (Break c w n w')
    then have rc: "0 < unat (rc_of P (read_call w) w)"
      and w': "w' = set_buf (fill (bytes_of P (read_call w) w) (buf (mself w))) (after P (read_call w) w)"
      by (auto simp: wait_receive_round_def bindR_def serial_read_run run_simps ret_def fail_def split: if_splits)
    have "pending (dev (after P (read_call w) w)) < pending (dev w)"
      using rc read_pending [where rc = "fst x" and bs = "fst (snd x)" and d' = "snd (snd x)" for x] unfolding read_call_def rc_of_def dev_after by simp
    then show ?case by (simp add: w')
  next
    case (Continue c w c' w1 r w')
    from Continue(1) have w1: "w1 = after P (GpioDelay (wait_step (mself w))) (after P GpioTick
        (set_buf (fill (bytes_of P (read_call w) w) (buf (mself w))) (after P (read_call w) w)))"
      by (auto simp: wait_receive_round_def bindR_def serial_read_run run_simps ret_def fail_def split: if_splits)
    have "pending (dev w1) \<le> pending (dev w)"
      unfolding w1 using pending_after by (metis (no_types, lifting) order_trans set_buf_simps(4))
    with Continue(2) w1 show ?case by (auto split: outcome.splits)
  qed simp_all
  from this [OF assms] show ?thesis by simp
qed

lemma receive_loop_returns:
  assumes "0 < unat (wait_step (mself w))" and "unat dl + unat (wait_step (mself w)) + 3 * J < 2 ^ 32"
  shows "\<exists>r w'. loopR (receive_round P dl) n w = Some (r, w')"
proof (rule loopR_returns [where I = "\<lambda>_ v. wait_step (mself v) = wait_step (mself w)" and \<mu> = "\<lambda>_ v. pending (dev v)"])
  have wait: "\<exists>r v'. wait_receive P dl v = Some (r, v')" if "wait_step (mself v) = wait_step (mself w)" for v
    using wait_receive_returns [of v dl] assms that by simp
  show "receive_round P dl n v \<noteq> None" if "wait_step (mself v) = wait_step (mself w)" for n v
  proof -
    from returnsD [OF returns_scan_words, of 0 n v]
    obtain r v1 where s: "scan_words 0 n v = Some (r, v1)" by auto
    have "wait_step (mself v1) = wait_step (mself w)" using keepsD [OF keeps_scan_words_dev s] that by simp
    from wait [OF this] obtain q v2 where w: "wait_receive P dl v1 = Some (q, v2)" by blast
    have "bindR (wait_receive P dl) (\<lambda>n. ret (Continue n)) v1 \<noteq> (None :: ((error, (nat, u8) flow) outcome \<times> _) option)"
      using w by (cases q) (simp_all add: bindR_def ret_def)
    then show ?thesis
      using s by (cases r) (simp_all add: receive_round_def bindR_run ret_def split: option.split)
  qed
  show "wait_step (mself v') = wait_step (mself w) \<and> pending (dev v') < pending (dev v)"
    if I: "wait_step (mself v) = wait_step (mself w)" and round: "receive_round P dl n v = Some (Ok (Continue n'), v')"
    for n v n' v'
  proof -
    from round obtain x v1 where s: "scan_words 0 n v = Some (Ok x, v1)"
      and k: "(case x of None \<Rightarrow> bindR (wait_receive P dl) (\<lambda>n. ret (Continue n)) | Some e \<Rightarrow> ret (Break e)) v1
        = Some (Ok (Continue n'), v')"
      unfolding receive_round_def by (rule bindR_OkD)
    from k have "bindR (wait_receive P dl) (\<lambda>n. ret (Continue n)) v1 = Some (Ok (Continue n' :: (nat, u8) flow), v')"
      by (cases x) (simp_all add: ret_def)
    then have "wait_receive P dl v1 = Some (Ok n', v')" by (auto simp: ret_def elim: bindR_OkD)
    from wait_receive_pending [OF this] keepsD [OF keeps_scan_words_dev s] I show ?thesis by simp
  qed
qed simp

end

interpretation sim_feed: finite_feed sim_pigpio clock 0 "\<lambda>d. sum_list (map length (script d))"
proof
  fix d d' :: sim and pin n rc bs and c
  show "sum_list (map length (script d')) < sum_list (map length (script d))"
    if "pg_call sim_pigpio (GpioSerialRead pin n) d = (rc, bs, d')" and "0 < unat rc"
  proof (cases "script d")
    case (Cons ws rest)
    have "length (take (min 40 (n div 2)) ws) \<noteq> 0"
      by (rule notI) (use that Cons in \<open>simp add: sim_read_def Let_def\<close>)
    then have "min 40 (n div 2) \<noteq> 0" and "ws \<noteq> []" by auto
    then show ?thesis using that Cons by (auto simp: sim_read_def Let_def split: if_splits)
  qed (use that in \<open>simp add: sim_read_def\<close>)
  show "sum_list (map length (script (snd (snd (pg_call sim_pigpio c d))))) \<le> sum_list (map length (script d))"
    by (cases c) (auto simp: sim_read_def Let_def split: list.split)
qed

end
