(* ===== verification/Tx_Termination.thy ===== *)
theory Tx_Termination
  imports Mdb_Progress
begin

text \<open>
  A whole transaction returns: how the state moves while \<open>tx\<close> runs, how long its parts take on
  a device with a clock, and the bound that puts every deadline before the wrap of the tick.
\<close>

section \<open>How the state moves\<close>

text \<open>While \<open>tx\<close> runs the world changes only by foreign calls, and by writes to the buffer and the response.\<close>

inductive drives :: "'d pigpio \<Rightarrow> ('d, 'z) mdb_world_scheme \<Rightarrow> ('d, 'z) mdb_world_scheme \<Rightarrow> bool" for P where
  call: "drives P w (after P c w)"
| buffer: "drives P w (set_buf b w)"
| answer: "drives P w (w\<lparr>response := r\<rparr>)"

inductive_cases drives_elim: "drives P w w'"

definition runs :: "'d pigpio \<Rightarrow> (('d, 'z) mdb_world_scheme, 'x, 'a) prog \<Rightarrow> bool" where
  "runs P m \<longleftrightarrow> (\<forall>w r w'. m w = Some (r, w') \<longrightarrow> (drives P)\<^sup>*\<^sup>* w w')"

named_theorems runs_intros \<open>rules for runs\<close>

lemma runsI: "(\<And>w r w'. m w = Some (r, w') \<Longrightarrow> (drives P)\<^sup>*\<^sup>* w w') \<Longrightarrow> runs P m"
  by (simp add: runs_def)

lemma runsD: "runs P m \<Longrightarrow> m w = Some (r, w') \<Longrightarrow> (drives P)\<^sup>*\<^sup>* w w'"
  by (simp add: runs_def)

lemma runs_basic [runs_intros]:
  "runs P (ret a)" "runs P (fail e)" "runs P (panic p)" "runs P (gets g)" "runs P (add32 x y)" "runs P (mul32 x y)"
  by (auto simp: runs_def prog_defs add32_def mul32_def split: if_splits)

lemma runs_bindR [runs_intros]:
  assumes "runs P m" and "\<And>a. runs P (k a)"
  shows "runs P (bindR m k)"
  by (rule runsI, erule bindR_cases)
    (blast intro: rtranclp_trans runsD [OF assms(1)] runsD [OF assms(2)])+

lemma runs_map_err [runs_intros]: "runs P m \<Longrightarrow> runs P (map_err h m)"
  by (auto simp: runs_def map_err_def split: option.splits prod.splits)

lemma runs_io_q [runs_intros]: "runs P m \<Longrightarrow> runs P (io_q m)"
  unfolding io_q_def by (rule runs_map_err)

lemma runs_if [runs_intros]: "(c \<Longrightarrow> runs P m) \<Longrightarrow> (\<not> c \<Longrightarrow> runs P k) \<Longrightarrow> runs P (if c then m else k)"
  by simp

lemma runs_option [runs_intros]: "runs P m \<Longrightarrow> (\<And>a. runs P (k a)) \<Longrightarrow> runs P (case x of None \<Rightarrow> m | Some a \<Rightarrow> k a)"
  by (cases x) simp_all

lemma runs_loopR [runs_intros]:
  assumes "\<And>c. runs P (body c)"
  shows "runs P (loopR body c)"
proof (rule runsI)
  fix w r w'
  assume "loopR body c w = Some (r, w')"
  then show "(drives P)\<^sup>*\<^sup>* w w'"
    by (induction rule: loopR_induct) (blast intro: rtranclp_trans runsD [OF assms])+
qed

lemma runs_ffi [runs_intros]: "runs P (ffi P c)" "runs P (ffi_rc P c)"
  by (auto simp: runs_def run_simps intro: drives.call)

lemma runs_check [runs_intros]: "runs P (check rc)"
  unfolding check_def by (intro runs_intros)

lemma runs_wrapper [runs_intros]:
  "runs P (check_ffi P c)" "runs P (wave_tx_busy P)" "runs P (tick_since P start)" "runs P (wave_send P v mode)"
  "runs P (new_serial P pin baud db sb k s)"
  unfolding check_ffi_def wave_tx_busy_def tick_since_def wave_send_def new_serial_def by (intro runs_intros)+

lemma runs_updates [runs_intros]:
  "runs P (modify (set_buf b))" "runs P (push_response v)"
  by (auto simp: runs_def push_response_def modify_def intro: drives.buffer drives.answer)

lemma runs_scan_words [runs_intros]: "runs P (scan_words i n)"
proof (induction i n rule: scan_words.induct)
  case (1 i n)
  then show ?case by (subst scan_words.simps) (auto intro!: runs_intros simp: buf_at_def)
qed

lemma runs_wait_receive [runs_intros]: "runs P (wait_receive P dl)"
  unfolding wait_receive_def wait_receive_round_def serial_read_def by (intro runs_intros)

lemma runs_send_wait [runs_intros]: "runs P (mdb_wave_send_wait P v dl step err)"
  unfolding mdb_wave_send_wait_def send_wait_round_def by (intro runs_intros)

lemma runs_wave_create [runs_intros]: "runs P (mdb_wave_create P pin s)"
  unfolding mdb_wave_create_def by (intro runs_intros)

lemma runs_receive [runs_intros]: "runs P (receive_round P dl n)"
  unfolding receive_round_def by (intro runs_intros)

text \<open>What such moves keep.\<close>

lemma drives_step: "(drives P)\<^sup>*\<^sup>* w w' \<Longrightarrow> wait_step (mself w') = wait_step (mself w)"
  by (induction rule: rtranclp_induct) (auto elim!: drives_elim simp: set_buf_def after_def split: prod.splits)

section \<open>How long the parts take\<close>

context ticking
begin

lemma drives_time: "(drives P)\<^sup>*\<^sup>* w w' \<Longrightarrow> time w \<le> time w'"
  by (induction rule: rtranclp_induct)
    (auto elim!: drives_elim simp: set_buf_def intro: order_trans time_after(1))

text \<open>\<open>takes k m\<close>: at most \<open>k\<close> microseconds pass while \<open>m\<close> runs.\<close>

definition takes :: "nat \<Rightarrow> (('d, 'z) world_scheme, 'x, 'a) prog \<Rightarrow> bool" where
  "takes k m \<longleftrightarrow> (\<forall>w r w'. m w = Some (r, w') \<longrightarrow> time w' \<le> time w + k)"

lemma takesI: "(\<And>w r w'. m w = Some (r, w') \<Longrightarrow> time w' \<le> time w + k) \<Longrightarrow> takes k m"
  by (simp add: takes_def)

lemma takesD: "takes k m \<Longrightarrow> m w = Some (r, w') \<Longrightarrow> time w' \<le> time w + k"
  by (simp add: takes_def)

lemma takes_mono: "takes k m \<Longrightarrow> k \<le> l \<Longrightarrow> takes l m"
  unfolding takes_def by (meson add_left_mono order_trans)

lemma takes_bindR: "takes k m \<Longrightarrow> (\<And>a. takes l (f a)) \<Longrightarrow> takes (k + l) (bindR m f)"
  unfolding takes_def by (fastforce elim!: bindR_cases)

lemma takes_then: "takes k m \<Longrightarrow> (\<And>a. takes 0 (f a)) \<Longrightarrow> takes k (bindR m f)"
  using takes_bindR [of k m 0 f] by simp

lemma takes_0: "takes 0 (ret a)" "takes 0 (fail e)" "takes 0 (check rc)" "takes 0 (add32 x y)" "takes 0 (mul32 x y)"
  "takes 0 (gets g)"
  by (auto simp: takes_def prog_defs check_def add32_def mul32_def split: if_splits)

lemma takes_io_q: "takes k m \<Longrightarrow> takes k (io_q m)"
  unfolding io_q_def by (auto simp: takes_def map_err_def split: option.splits prod.splits)

lemma takes_delay: "takes (unat n + J) (ffi_rc P (GpioDelay n))"
  using time_after(2) [where c = "GpioDelay n"] by (auto simp: takes_def run_simps)

lemma takes_call: "(\<And>n. c \<noteq> GpioDelay n) \<Longrightarrow> takes J (ffi_rc P c)"
proof (rule takesI)
  fix w w' :: "('d, 'z) world_scheme" and r
  assume c: "\<And>n. c \<noteq> GpioDelay n" and run: "ffi_rc P c w = Some (r, w')"
  have "time (after P c w) \<le> time w + J"
    using time_after(2) [where c = c and w = w] c by (cases c) auto
  with run show "time w' \<le> time w + J" by (simp add: run_simps)
qed

lemma takes_check_ffi: "(\<And>n. c \<noteq> GpioDelay n) \<Longrightarrow> takes J (check_ffi P c)"
  unfolding check_ffi_def by (intro takes_then takes_call takes_0)

lemma takes_tick: "takes J (tick_since P start)"
  unfolding tick_since_def by (intro takes_then takes_call takes_0) simp

lemma takes_wave_create: "takes (3 * J) (mdb_wave_create P pin s)"
proof -
  have "takes (J + (J + J)) (new_serial P p baud db sb k s)" for p baud db sb k
    unfolding new_serial_def by (intro takes_bindR takes_then takes_check_ffi takes_0) simp_all
  then show ?thesis
    unfolding mdb_wave_create_def by (intro takes_io_q) (simp add: numeral_3_eq_3 add.assoc)
qed

lemma takes_send_round: "takes (unat step + 3 * J) (send_wait_round P start dl step err c)"
proof -
  have busy: "takes J (io_q (wave_tx_busy P))"
    unfolding wave_tx_busy_def by (intro takes_io_q takes_then takes_check_ffi takes_0) simp
  have rest: "takes J (if \<not> b then ret (Break ()) else bindR (tick_since P start) (\<lambda>tot.
      if tot > dl then fail (Msg err) else ret (Continue ())))" for b
    by (auto intro!: takes_then takes_tick takes_0 takes_mono [OF takes_0(1)])
  have "takes (unat step + J + (J + J)) (send_wait_round P start dl step err c)"
    unfolding send_wait_round_def by (intro takes_bindR takes_delay busy rest)
  then show ?thesis by (simp add: numeral_3_eq_3 ac_simps)
qed

text \<open>The transmission: a round that goes on has seen no more than the deadline elapse.\<close>

lemma elapsed:
  assumes "t \<le> n" and "n < t + M"
  shows "(n + (M - t mod M)) mod M = n - (t :: nat)"
proof -
  have "0 < M" using assms by simp
  define q r where "q = t div M" and "r = t mod M"
  then have "t = q * M + r" and "r < M" using \<open>0 < M\<close> by simp_all
  with assms(1) have "n + (M - r) = (n - t) + (q * M + M)" by linarith
  also have "\<dots> = (n - t) + (q + 1) * M" by simp
  finally have "(n + (M - r)) mod M = (n - t) mod M" by (simp only: mod_mult_self1)
  with assms(2) \<open>0 < M\<close> show ?thesis by (simp add: r_def)
qed

lemma send_loop_time:
  assumes "loopR (send_wait_round P (of_nat t0) dl step err) c w = Some (r, w')"
    and "t0 \<le> time w" and "time w \<le> t0 + unat dl + 2 * J" and "unat dl + unat step + 4 * J < 2 ^ 32"
  shows "time w' \<le> t0 + unat dl + unat step + 5 * J"
  using assms(1-3)
proof (induction rule: loopR_induct)
  case (Continue c w c' w1 r w')
  from send_wait_round_time [OF Continue(1)] obtain n1 where n1: "time w + unat step \<le> n1"
    "n1 \<le> time w + (unat step + 2 * J)" "n1 \<le> time w1" "time w1 \<le> n1 + J"
    "(n1 + (2 ^ 32 - unat (of_nat t0 :: u32))) mod 2 ^ 32 \<le> unat dl" by blast
  have "t0 \<le> n1" and "n1 < t0 + 2 ^ 32" using n1 Continue(3,4) assms(4) by linarith+
  from elapsed [OF this] n1(5) have "n1 - t0 \<le> unat dl" by (simp only: unat_of_nat32)
  with n1 \<open>t0 \<le> n1\<close> have "t0 \<le> time w1" and "time w1 \<le> t0 + unat dl + 2 * J" by linarith+
  from Continue(2) [OF this] show ?case .
qed (use takesD [OF takes_send_round] in fastforce)+

lemma send_wait_time:
  fixes w :: "('d, 'z) mdb_world_scheme"
  assumes "mdb_wave_send_wait P v dl step err w = Some (r, w')" and "unat dl + unat step + 4 * J < 2 ^ 32"
  shows "time w' \<le> time w + unat dl + unat step + 6 * J"
proof -
  let ?w1 = "after P GpioTick w"
  let ?loop = "loopR (send_wait_round P (of_nat (time w)) dl step err) ()"
  have t1: "time w \<le> time ?w1" "time ?w1 \<le> time w + J"
    using time_after(1,2) [where c = GpioTick and w = w] by simp_all
  have send: "takes J (io_q (wave_send P v (PI_WAVE_MODE_ONE_SHOT_SYNC P)))"
    unfolding wave_send_def by (intro takes_io_q takes_then takes_check_ffi takes_0) simp
  have stop: "takes J (bindR (io_q (check_ffi P GpioWaveTxStop)) (\<lambda>_. ret ()))"
    by (intro takes_then takes_io_q takes_check_ffi takes_0) simp
  have "bindR (io_q (wave_send P v (PI_WAVE_MODE_ONE_SHOT_SYNC P))) (\<lambda>_. bindR ?loop (\<lambda>_.
      bindR (io_q (check_ffi P GpioWaveTxStop)) (\<lambda>_. ret ()))) ?w1 = Some (r, w')"
    using assms(1) by (simp add: mdb_wave_send_wait_def bindR_run(1) [OF tick_since_run] rc_tick)
  then show ?thesis
  proof (cases rule: bindR_cases)
    case (Ok u w2)
    from takesD [OF send Ok(1)] t1 have t2: "time w2 \<le> time w + unat dl + 2 * J" by linarith
    have "runs P (io_q (wave_send P v (PI_WAVE_MODE_ONE_SHOT_SYNC P)) :: (('d, 'z) mdb_world_scheme, _, _) prog)"
      by (intro runs_intros)
    from drives_time [OF runsD [OF this Ok(1)]] t1 have "time w \<le> time w2" by linarith
    note loop = send_loop_time [OF _ this t2 assms(2)]
    from Ok(2) show ?thesis
    proof (cases rule: bindR_cases)
      case (Ok x w3)
      from loop [OF Ok(1)] takesD [OF stop Ok(2)] show ?thesis by linarith
    next
      case (Err e)
      from loop [OF Err(1)] show ?thesis by linarith
    next
      case (Panic p)
      from loop [OF Panic(1)] show ?thesis by linarith
    qed
  next
    case (Err e)
    from takesD [OF send Err(1)] t1 show ?thesis by linarith
  next
    case (Panic p)
    from takesD [OF send Panic(1)] t1 show ?thesis by linarith
  qed
qed

text \<open>The wait for an answer: \<open>K\<close> is past the deadline and past the start.\<close>

lemma wait_round_left:
  assumes "wait_receive_round P dl c w = Some (r, w')" and "\<And>c'. r \<noteq> Ok (Continue c')"
  shows "time w' \<le> time w + 2 * J"
proof -
  let ?w1 = "set_buf (fill (bytes_of P (read_call w) w) (buf (mself w))) (after P (read_call w) w)"
  have "w' = ?w1 \<or> w' = after P GpioTick ?w1"
    using assms by (auto simp: wait_receive_round_def bindR_def serial_read_run run_simps ret_def fail_def split: if_splits)
  moreover have "time ?w1 \<le> time w + J"
    using time_after(2) [where c = "read_call w" and w = w] by (simp add: read_call_def)
  moreover have "time (after P GpioTick ?w1) \<le> time ?w1 + J"
    using time_after(2) [where c = GpioTick and w = ?w1] by simp
  ultimately show ?thesis by auto
qed

lemma wait_receive_time:
  assumes "wait_receive P dl w = Some (r, w')" and "time w \<le> K"
    and "unat dl + unat (wait_step (mself w)) + 2 * J \<le> K" and "K + J < 2 ^ 32"
  shows "time w' \<le> K + 2 * J"
  using assms(1-3) unfolding wait_receive_def
proof (induction rule: loopR_induct)
  case (Continue c w c' w1 r w')
  from wait_receive_round_time(1) [OF Continue(1)] obtain n1 where n1: "time w \<le> n1" "n1 \<le> time w + J"
    "n1 mod 2 ^ 32 \<le> unat dl" "time w1 \<le> n1 + (unat (wait_step (mself w)) + 2 * J)" by blast
  have "n1 mod 2 ^ 32 = n1" using n1(2) Continue(3) assms(4) by simp
  with n1 Continue(4) have "time w1 \<le> K" by linarith
  with Continue wait_receive_round_time(2) [OF Continue(1)] show ?case by simp
qed (auto dest!: wait_round_left)

lemma receive_round_time:
  assumes "receive_round P dl n w = Some (r, w')" and "time w \<le> K"
    and "unat dl + unat (wait_step (mself w)) + 2 * J \<le> K" and "K + J < 2 ^ 32"
  shows "time w' \<le> K + 2 * J"
  using assms(1) unfolding receive_round_def
proof (cases rule: bindR_cases)
  case (Ok x w0)
  have w0: "dev w0 = dev w" "wait_step (mself w0) = wait_step (mself w)"
    using keepsD [OF keeps_scan_words_dev Ok(1)] by simp_all
  show ?thesis
  proof (cases x)
    case None
    have "time w' \<le> K + 2 * J" if "wait_receive P dl w0 = Some (q, w')" for q
      by (rule wait_receive_time [OF that]) (use assms w0 in simp_all)
    then show ?thesis using Ok(2) None by (auto simp: ret_def elim: bindR_cases)
  qed (use Ok(2) w0 assms(2) in \<open>auto simp: ret_def\<close>)
qed (use keepsD [OF keeps_scan_words_dev] assms(2) in fastforce)+

end

context finite_feed
begin

lemma drives_pending: "(drives P)\<^sup>*\<^sup>* w w' \<Longrightarrow> pending (dev w') \<le> pending (dev w)"
  by (induction rule: rtranclp_induct)
    (auto elim!: drives_elim simp: set_buf_def intro: order_trans [OF pending_after])

text \<open>The loop \<open>'receive\<close>: each read that is not empty postpones its end by two calls.\<close>

lemma receive_loop_time:
  assumes "loopR (receive_round P dl) n w = Some (r, w')" and "time w \<le> K"
    and "unat dl + unat (wait_step (mself w)) + 2 * J \<le> K" and "K + 2 * J * pending (dev w) + J < 2 ^ 32"
  shows "time w' \<le> K + 2 * J * pending (dev w) + 2 * J"
  using assms
proof (induction arbitrary: K rule: loopR_induct)
  case (Continue n w n' w1 r w')
  from Continue(1) obtain x w0 where s: "scan_words 0 n w = Some (Ok x, w0)"
    and k: "(case x of None \<Rightarrow> bindR (wait_receive P dl) (\<lambda>n. ret (Continue n)) | Some e \<Rightarrow> ret (Break e)) w0
      = Some (Ok (Continue n'), w1)"
    unfolding receive_round_def by (rule bindR_OkD)
  from k have "bindR (wait_receive P dl) (\<lambda>n. ret (Continue n)) w0 = Some (Ok (Continue n' :: (nat, u8) flow), w1)"
    by (cases x) (simp_all add: ret_def)
  then have w: "wait_receive P dl w0 = Some (Ok n', w1)" by (auto simp: ret_def elim: bindR_OkD)
  have w0: "dev w0 = dev w" "wait_step (mself w0) = wait_step (mself w)"
    using keepsD [OF keeps_scan_words_dev s] by simp_all
  note p = wait_receive_pending [OF w]
  have "time w1 \<le> K + 2 * J"
    by (rule wait_receive_time [OF w]) (use Continue(3-5) w0 in simp_all)
  moreover obtain k where "pending (dev w) = pending (dev w1) + 1 + k"
    using p w0 less_iff_Suc_add by auto
  then have "K + 2 * J + 2 * J * pending (dev w1) \<le> K + 2 * J * pending (dev w)"
    by (simp add: algebra_simps)
  ultimately show ?case
    using Continue(2) [of "K + 2 * J"] Continue(4,5) p w0 by fastforce
qed (fastforce dest: receive_round_time)+

section \<open>A transaction\<close>

lemma bindR_gives:
  assumes "\<exists>r s'. m s = Some (r, s')" and "\<And>a s'. m s = Some (Ok a, s') \<Longrightarrow> \<exists>r s''. k a s' = Some (r, s'')"
  shows "\<exists>r s'. bindR m k s = Some (r, s')"
proof -
  obtain r s' where m: "m s = Some (r, s')" using assms(1) by blast
  then show ?thesis using assms(2) by (cases r) (simp_all add: bindR_def)
qed

lemma add32_le: "add32 x y w = Some (Ok z, w') \<Longrightarrow> unat z \<le> unat x + unat y \<and> w' = w"
  by (auto simp: add32_def ret_def panic_def unat_word_ariths split: if_splits)

lemma mul32_le: "mul32 x y w = Some (Ok z, w') \<Longrightarrow> unat z \<le> unat x * unat y \<and> w' = w"
  by (auto simp: mul32_def ret_def panic_def unat_word_ariths split: if_splits)

text \<open>A deadline set from a reading of the tick.\<close>

lemma tick_add_time:
  assumes "bindR (tick_since P 0) (\<lambda>t. add32 t k) w = Some (Ok dl, w')"
  shows "unat dl \<le> time w + unat k \<and> w' = after P GpioTick w"
  using assms
  by (auto simp: bindR_def tick_since_run rc_tick unat_of_nat32 dest!: add32_le intro: order_trans)

lemma returns_tick_add: "\<exists>r w'. bindR (tick_since P 0) (\<lambda>t. add32 t k) w = Some (r, w')"
  by (intro returnsD [of "bindR (tick_since P 0) (\<lambda>t. add32 t k)"] returns_intros)

lemma tx_times_time:
  assumes "tx_times P request timeout w = Some (Ok (small, start, rdl, sdl), w')"
  shows "w' = after P GpioTick w" and "unat small \<le> 10000" and "unat rdl \<le> time w + duration_micros timeout"
    and "unat sdl \<le> time w + 3145 * length request"
proof -
  let ?T = "of_nat (duration_micros timeout) :: u32"
  have T: "unat ?T \<le> duration_micros timeout" by (simp only: unat_of_nat32) (rule mod_less_eq_dividend)
  have start: "unat (of_nat (time w) :: u32) \<le> time w" by (simp only: unat_of_nat32) (rule mod_less_eq_dividend)
  have len: "unat (of_nat (length request) :: u32) \<le> length request" by (simp only: unat_of_nat32) (rule mod_less_eq_dividend)
  let ?w1 = "after P GpioTick w"
  from assms obtain t s1 where t: "duration_as_micros32 timeout w = Some (Ok t, s1)"
    and k1: "bindR (tick_since P 0) (\<lambda>io. bindR (add32 io t) (\<lambda>rdl.
      bindR (bindR (mul32 TIMEOUT_CHAR_US (of_nat (length request))) (add32 io)) (\<lambda>sdl.
      ret (min t TIMEOUT_SMALL_US, io, rdl, sdl)))) s1 = Some (Ok (small, start, rdl, sdl) :: (error, u32 \<times> u32 \<times> u32 \<times> u32) outcome, w')"
    unfolding tx_times_def by (rule bindR_OkD)
  from t have t: "t = ?T" "s1 = w" by (auto simp: duration_as_micros32_eq split: if_splits)
  from k1 obtain s2 s3 k where r: "add32 (of_nat (time w)) ?T ?w1 = Some (Ok rdl :: (error, u32) outcome, s2)"
    and m: "mul32 TIMEOUT_CHAR_US (of_nat (length request)) s2 = Some (Ok k :: (error, u32) outcome, s3)"
    and d: "add32 (of_nat (time w)) k s3 = Some (Ok sdl :: (error, u32) outcome, w')" and small: "small = min ?T TIMEOUT_SMALL_US"
    unfolding t bindR_run(1) [OF tick_since_run] rc_tick diff_zero
    by (auto simp: ret_def elim!: bindR_OkD)
  have w': "w' = ?w1" using add32_le [OF r] mul32_le [OF m] add32_le [OF d] by simp
  show "w' = ?w1" by (rule w')
  show "unat small \<le> 10000"
    by (simp add: small TIMEOUT_SMALL_US_def min_def word_le_nat_alt)
  show "unat rdl \<le> time w + duration_micros timeout"
    using add32_le [OF r] start T by linarith
  have "unat k \<le> 3145 * length request"
    using mul32_le [OF m] len by (simp add: TIMEOUT_CHAR_US_val)
  with add32_le [OF d] start show "unat sdl \<le> time w + 3145 * length request" by linarith
qed

lemma tx_answer_returns:
  assumes "0 < unat (wait_step (mself w))" and "unat small \<le> 10000"
    and "time w + 10000 + unat (wait_step (mself w)) + 3 * J < 2 ^ 32"
  shows "\<exists>r w'. tx_answer P small e w = Some (r, w')"
proof (cases "response w = []")
  case True
  then show ?thesis by (simp add: tx_answer_def bindR_gets ret_run fail_run)
next
  case False
  have send: "\<exists>r w''. mdb_wave_send_wait P v dl (wait_step (mself w)) err w' = Some (r, w'')"
    if "bindR (tick_since P 0) (\<lambda>t. add32 t small) w = Some (Ok dl :: (error, u32) outcome, w')" for v dl err w'
    using tick_add_time [OF that] assms by (intro send_wait_returns) auto
  from False show ?thesis
    by (auto simp: tx_answer_def bindR_gets Let_def fail_run intro!: bindR_gives returns_tick_add send)
qed

end

context finite_feed
begin

lemma tx_receive_returns:
  fixes w :: "('d, 'z) mdb_world_scheme"
  defines "S \<equiv> unat (wait_step (mself w))"
  assumes "0 < S" and "time w \<le> X" and "unat rdl + S + 2 * J \<le> X" and "unat small \<le> 10000"
    and "X + 2 * S + 9 * J + 2 * J * pending (dev w) + 135800 < 2 ^ 32"
  shows "\<exists>r w'. tx_receive P io rdl small w = Some (r, w')"
  unfolding tx_receive_def
proof (rule bindR_gives)
  show "\<exists>r w'. wait_receive P rdl w = Some (r, w')"
    using assms by (intro wait_receive_returns) simp_all
  fix n w1
  assume r1: "wait_receive P rdl w = Some (Ok n, w1)"
  have step1: "wait_step (mself w1) = wait_step (mself w)" and pend1: "pending (dev w1) \<le> pending (dev w)"
    using wait_receive_pending [OF r1] by simp_all
  have time1: "time w1 \<le> X + 2 * J" by (rule wait_receive_time [OF r1]) (use assms in simp_all)
  show "\<exists>r w'. bindR (bindR (tick_since P 0) (\<lambda>t. add32 t TIMEOUT_RECEIVE_US)) (\<lambda>dl.
      bindR (loopR (receive_round P dl) n) (\<lambda>e. bindR (tx_answer P small e) (\<lambda>_. tx_debug P io))) w1 = Some (r, w')"
  proof (rule bindR_gives [OF returns_tick_add])
    fix dl w2
    assume r2: "bindR (tick_since P 0) (\<lambda>t. add32 t TIMEOUT_RECEIVE_US) w1 = Some (Ok dl :: (error, u32) outcome, w2)"
    from tick_add_time [OF r2] have dl: "unat dl \<le> time w1 + 125800" and w2: "w2 = after P GpioTick w1"
      by (simp_all add: TIMEOUT_RECEIVE_US_val)
    have time2: "time w2 \<le> time w1 + J"
      using time_after(2) [where c = GpioTick and w = w1] w2 by simp
    have pend2: "pending (dev w2) \<le> pending (dev w)" using pending_after [of GpioTick w1] pend1 w2 by simp
    have step2: "wait_step (mself w2) = wait_step (mself w)" using step1 w2 by (simp add: after_def split: prod.splits)
    have S2: "unat (wait_step (mself w2)) = S" by (simp add: step2 S_def)
    let ?K = "X + S + 4 * J + 125800"
    have K: "2 * J * pending (dev w2) \<le> 2 * J * pending (dev w)" using pend2 by simp
    show "\<exists>r w'. bindR (loopR (receive_round P dl) n) (\<lambda>e. bindR (tx_answer P small e) (\<lambda>_. tx_debug P io)) w2 = Some (r, w')"
    proof (rule bindR_gives)
      show "\<exists>r w'. loopR (receive_round P dl) n w2 = Some (r, w')"
        using assms dl time1 step2 by (intro receive_loop_returns) simp_all
      fix e w3
      assume r3: "loopR (receive_round P dl) n w2 = Some (Ok e, w3)"
      have "time w3 \<le> ?K + 2 * J * pending (dev w2) + 2 * J"
        by (rule receive_loop_time [OF r3]) (use assms(3-6) dl time1 time2 S2 K in linarith)+
      moreover have "runs P (loopR (receive_round P dl) n)" by (intro runs_intros)
      from drives_step [OF runsD [OF this r3]] S2 have "unat (wait_step (mself w3)) = S" by simp
      ultimately have "\<exists>r w'. tx_answer P small e w3 = Some (r, w')"
        using assms(2,5,6) K by (intro tx_answer_returns) linarith+
      then show "\<exists>r w'. bindR (tx_answer P small e) (\<lambda>_. tx_debug P io) w3 = Some (r, w')"
        by (rule bindR_gives) (simp add: tx_debug_def bindR_def gets_run ret_def tick_since_run)
    qed
  qed
qed

lemma tx_transfer_returns:
  fixes w :: "('d, 'z) mdb_world_scheme"
  defines "S \<equiv> unat (wait_step (mself w))"
  assumes "0 < S" and "2 * time w + 3145 * length request + duration_micros timeout + 3 * S
      + 16 * J + 2 * J * pending (dev w) + 135800 < 2 ^ 32"
  shows "\<exists>r w'. tx_transfer P v request timeout w = Some (r, w')"
  unfolding tx_transfer_times
proof (rule bindR_gives)
  show "\<exists>r w'. tx_times P request timeout w = Some (r, w')"
    by (rule returnsD) (unfold tx_times_def, intro returns_intros)
  fix x w1
  assume "tx_times P request timeout w = Some (Ok x, w1)"
  moreover obtain small io rdl sdl where x: "x = (small, io, rdl, sdl)" by (cases x)
  ultimately have "tx_times P request timeout w = Some (Ok (small, io, rdl, sdl), w1)" by simp
  note t = tx_times_time [OF this]
  have time1: "time w1 \<le> time w + J" using time_after(2) [where c = GpioTick and w = w] t(1) by simp
  have step1: "wait_step (mself w1) = wait_step (mself w)" using t(1) by (simp add: after_def split: prod.splits)
  have pend1: "pending (dev w1) \<le> pending (dev w)" using pending_after [of GpioTick w] t(1) by simp
  let ?send = "mdb_wave_send_wait P v sdl (wait_step (mself w)) ''send request timeout''"
  have "\<exists>r w'. bindR ?send (\<lambda>_. tx_receive P io rdl small) w1 = Some (r, w')"
  proof (rule bindR_gives)
    show "\<exists>r w'. ?send w1 = Some (r, w')" using assms t by (intro send_wait_returns) simp_all
    fix u w2
    assume r: "?send w1 = Some (Ok u, w2)"
    have time2: "time w2 \<le> time w1 + unat sdl + S + 6 * J"
      using send_wait_time [OF r] assms t by simp
    have "runs P (mdb_wave_send_wait P v sdl (wait_step (mself w)) ''send request timeout'')" by (intro runs_intros)
    note d = runsD [OF this r]
    have S2: "unat (wait_step (mself w2)) = S" using drives_step [OF d] step1 by (simp add: S_def)
    have "2 * J * pending (dev w2) \<le> 2 * J * pending (dev w)" using drives_pending [OF d] pend1 by simp
    then show "\<exists>r w'. tx_receive P io rdl small w2 = Some (r, w')"
      by (intro tx_receive_returns [where X = "2 * time w + 3145 * length request + duration_micros timeout + S + 7 * J"])
        (use assms(2,3) t(2-4) time1 time2 S2 in linarith)+
  qed
  with step1 show "\<exists>r w'. (case x of (small, start, receive_deadline, send_deadline) \<Rightarrow>
      bindR (gets (\<lambda>w. wait_step (mself w))) (\<lambda>step.
      bindR (mdb_wave_send_wait P v send_deadline step ''send request timeout'') (\<lambda>_.
      tx_receive P start receive_deadline small))) w1 = Some (r, w')"
    by (simp add: x bindR_gets)
qed

text \<open>\<open>tx\<close> itself starts three calls earlier, with the wave of its request.\<close>

lemma tx_returns:
  fixes w :: "('d, 'z) mdb_world_scheme"
  assumes "0 < unat (wait_step (mself w))" and "2 * time w + 3145 * length request + duration_micros timeout
     + 3 * unat (wait_step (mself w)) + 22 * J + 2 * J * pending (dev w) + 135800 < 2 ^ 32"
  shows "\<exists>r w'. gpio_mdb_tx P request cap timeout w = Some (r, w')"
proof (cases "tx_args_ok request cap")
  case True
  let ?b = "load_request request (buf (mself w))"
  let ?w0 = "set_buf ?b w"
  have "\<exists>r w'. bindR (mdb_wave_create P (tx_pin (mself w)) (tx_frame request (buf (mself w)))) (\<lambda>v.
      with_drop (tx_transfer P v request timeout) (wave_drop P v)) ?w0 = Some (r, w')"
  proof (rule bindR_gives)
    show "\<exists>r w'. mdb_wave_create P (tx_pin (mself w)) (tx_frame request (buf (mself w))) ?w0 = Some (r, w')"
      by (rule returnsD [OF returns_mdb_wave_create])
    fix v w1
    assume r: "mdb_wave_create P (tx_pin (mself w)) (tx_frame request (buf (mself w))) ?w0 = Some (Ok v, w1)"
    have d: "(drives P)\<^sup>*\<^sup>* ?w0 w1" by (rule runsD [OF runs_wave_create r])
    have "time w1 \<le> time w + 3 * J" using takesD [OF takes_wave_create r] by simp
    moreover have step: "wait_step (mself w1) = wait_step (mself w)" using drives_step [OF d] by (simp add: set_buf_def)
    moreover have "2 * J * pending (dev w1) \<le> 2 * J * pending (dev w)" using drives_pending [OF d] by simp
    ultimately have "2 * time w1 + 3145 * length request + duration_micros timeout + 3 * unat (wait_step (mself w1))
        + 16 * J + 2 * J * pending (dev w1) + 135800 < 2 ^ 32"
      using assms(2) unfolding step by linarith
    then obtain r w2 where "tx_transfer P v request timeout w1 = Some (r, w2)"
      using tx_transfer_returns [of w1 request timeout v] assms(1) step by auto
    moreover obtain q w3 where "wave_drop P v w2 = Some (q, w3)" using returnsD [OF returns_wave_ops(4)] by blast
    ultimately show "\<exists>r w'. with_drop (tx_transfer P v request timeout) (wave_drop P v) w1 = Some (r, w')"
      by (auto simp: with_drop_def)
  qed
  then show ?thesis by (simp add: gpio_mdb_tx_runs [OF True])
qed (simp add: gpio_mdb_tx_rejects)

end

text \<open>
  C19: a transaction returns on every device whose clock advances and whose peripheral has
  finitely much to say, if the wait step is positive and the tick is in the first half of its
  period, less a margin: the factor two is the price of the transmission deadline, which the
  code compares with the time elapsed although it is a point in time.
\<close>

theorem tx_terminates:
  assumes "finite_feed P now J pending" and "0 < unat (wait_step (mself w))"
    and "2 * now (dev w) + 3145 * length request + duration_micros timeout
      + 3 * unat (wait_step (mself w)) + 22 * J + 2 * J * pending (dev w) + 135800 < 2 ^ 32"
  shows "\<exists>r w'. gpio_mdb_tx P request cap timeout w = Some (r, w')"
  by (rule finite_feed.tx_returns [OF assms])

theorem tx_terminates_witness:
  "\<exists>r w'. gpio_mdb_tx sim_pigpio [0x0b] 40 (from_millis 300) (sim_world 0 [answer_frame [1, 2]]) = Some (r, w')"
  by (rule tx_terminates [OF sim_feed.finite_feed_axioms]) (simp_all add: duration_from_millis)

end
