(* ===== verification/C_Types.thy ===== *)
theory C_Types
  imports Prelude
begin

text \<open>
  The types of the foreign interface and their layout in memory: what \<open>#[repr(C)]\<close> means.
  \<open>size_of\<close>, \<open>align_of\<close> and \<open>offset_of\<close> are computed from an \<open>abi\<close>, the sizes and alignments
  of the scalars; the locale \<open>good_abi\<close> states what a layout needs of it, and is interpreted
  on the ABI of the target of the generated bindings, 32-bit ARM Linux.
\<close>

section \<open>Types\<close>

text \<open>The scalars of Rust and the aliases of \<open>std::os::raw\<close>.\<close>

datatype scalar =
    I8 | I16 | I32 | I64 | U8 | U16 | U32 | U64 | Usize | F64
  | C_char | C_schar | C_uchar | C_short | C_ushort | C_int | C_uint | C_long | C_ulong
  | C_longlong | C_ulonglong

text \<open>
  A pointer names its target (types refer to each other through pointers); a nullable
  callback, \<open>Option<unsafe extern "C" fn(..)>\<close>, is a pointer too.
\<close>

datatype pointer = Const string | Mut string

datatype ctype =
    Scalar scalar
  | Ptr pointer
  | Fn_Ptr "(string \<times> ctype) list" "ctype option"
  | Array ctype nat
  | Struct "(string \<times> ctype) list"
  | Union "(string \<times> ctype) list"

type_synonym fields = "(string \<times> ctype) list"

lemma size_field [termination_simp]:
  "f \<in> set fs \<Longrightarrow> size (snd f) < Suc (size_list (size_prod (\<lambda>_. 0) size) fs)"
  by (induction fs) auto

section \<open>Layout\<close>

record abi =
  sc_size :: "scalar \<Rightarrow> nat"
  sc_align :: "scalar \<Rightarrow> nat"
  ptr_size :: nat
  ptr_align :: nat

definition round_up :: "nat \<Rightarrow> nat \<Rightarrow> nat" where
  "round_up a n = (n + (a - 1)) div a * a"

fun align_of :: "abi \<Rightarrow> ctype \<Rightarrow> nat" where
  "align_of A (Scalar s) = sc_align A s"
| "align_of A (Ptr _) = ptr_align A"
| "align_of A (Fn_Ptr _ _) = ptr_align A"
| "align_of A (Array t _) = align_of A t"
| "align_of A (Struct fs) = foldr max (map (\<lambda>f. align_of A (snd f)) fs) 1"
| "align_of A (Union fs) = foldr max (map (\<lambda>f. align_of A (snd f)) fs) 1"

text \<open>
  The offsets of a struct from a list of sizes and alignments: each field at the next
  multiple of its alignment, and the first byte after the last one.
\<close>

fun place :: "nat \<Rightarrow> (nat \<times> nat) list \<Rightarrow> nat list" where
  "place n [] = []"
| "place n ((s, a) # xs) = round_up a n # place (round_up a n + s) xs"

fun place_end :: "nat \<Rightarrow> (nat \<times> nat) list \<Rightarrow> nat" where
  "place_end n [] = n"
| "place_end n ((s, a) # xs) = place_end (round_up a n + s) xs"

fun size_of :: "abi \<Rightarrow> ctype \<Rightarrow> nat" where
  "size_of A (Scalar s) = sc_size A s"
| "size_of A (Ptr _) = ptr_size A"
| "size_of A (Fn_Ptr _ _) = ptr_size A"
| "size_of A (Array t n) = n * size_of A t"
| "size_of A (Struct fs) = round_up (align_of A (Struct fs))
     (place_end 0 (map (\<lambda>f. (size_of A (snd f), align_of A (snd f))) fs))"
| "size_of A (Union fs) = round_up (align_of A (Union fs))
     (foldr max (map (\<lambda>f. size_of A (snd f)) fs) 0)"

definition shape :: "abi \<Rightarrow> fields \<Rightarrow> (nat \<times> nat) list" where
  "shape A fs = map (\<lambda>f. (size_of A (snd f), align_of A (snd f))) fs"

definition offsets :: "abi \<Rightarrow> fields \<Rightarrow> nat list" where
  "offsets A fs = place 0 (shape A fs)"

fun offset_of :: "abi \<Rightarrow> ctype \<Rightarrow> string \<Rightarrow> nat option" where
  "offset_of A (Struct fs) f = map_of (zip (map fst fs) (offsets A fs)) f"
| "offset_of A (Union fs) f = (if f \<in> set (map fst fs) then Some 0 else None)"
| "offset_of A _ f = None"

section \<open>Layout tests\<close>

text \<open>
  The assertions of a function \<open>bindgen_test_layout_T\<close>: the size, the alignment (not every
  test asserts it) and the offsets of the fields.
\<close>

record layout_test =
  lt_type :: ctype
  lt_size :: nat
  lt_align :: "nat option"
  lt_offsets :: "(string \<times> nat) list"

definition passes :: "abi \<Rightarrow> layout_test \<Rightarrow> bool" where
  "passes A t \<longleftrightarrow> size_of A (lt_type t) = lt_size t
     \<and> (case lt_align t of None \<Rightarrow> True | Some a \<Rightarrow> align_of A (lt_type t) = a)
     \<and> list_all (\<lambda>(f, k). offset_of A (lt_type t) f = Some k) (lt_offsets t)"

section \<open>Rounding and placing\<close>

lemma round_up_dvd [simp]: "a dvd round_up a n"
  by (simp add: round_up_def)

lemma round_up_ge: "0 < a \<Longrightarrow> n \<le> round_up a n"
proof -
  assume a: "0 < a"
  have "(n + (a - 1)) div a * a + (n + (a - 1)) mod a = n + (a - 1)" by (rule div_mult_mod_eq)
  moreover have "(n + (a - 1)) mod a \<le> a - 1" using a by (simp add: less_Suc_eq_le [symmetric])
  ultimately show ?thesis unfolding round_up_def by linarith
qed

lemma length_place [simp]: "length (place n xs) = length xs"
  by (induction n xs rule: place.induct) simp_all

lemma place_dvd: "i < length xs \<Longrightarrow> snd (xs ! i) dvd place n xs ! i"
  by (induction n xs arbitrary: i rule: place.induct) (auto simp: nth_Cons split: nat.split)

definition aligned :: "(nat \<times> nat) list \<Rightarrow> bool" where
  "aligned xs \<longleftrightarrow> (\<forall>x \<in> set xs. 0 < snd x)"

lemma aligned_Cons [simp]: "aligned (x # xs) \<longleftrightarrow> 0 < snd x \<and> aligned xs"
  by (simp add: aligned_def)

lemma place_ge: "aligned xs \<Longrightarrow> i < length xs \<Longrightarrow> n \<le> place n xs ! i"
proof (induction n xs arbitrary: i rule: place.induct)
  case (2 n s a xs)
  have "n \<le> round_up a n" using 2(2) by (simp add: round_up_ge)
  with 2 show ?case by (cases i) (auto intro: order_trans [OF _ 2(1)])
qed simp

lemma place_end_ge: "aligned xs \<Longrightarrow> n \<le> place_end n xs"
proof (induction n xs rule: place_end.induct)
  case (2 n s a xs)
  have "n \<le> round_up a n" using 2(2) by (simp add: round_up_ge)
  with 2 show ?case by simp
qed simp

text \<open>Fields do not overlap, and stay before the end.\<close>

lemma place_disjoint:
  "aligned xs \<Longrightarrow> i < j \<Longrightarrow> j < length xs \<Longrightarrow> place n xs ! i + fst (xs ! i) \<le> place n xs ! j"
proof (induction n xs arbitrary: i j rule: place.induct)
  case (2 n s a xs)
  then obtain k where k: "j = Suc k" by (cases j) auto
  show ?case
  proof (cases i)
    case 0
    with 2 k show ?thesis by (simp add: place_ge)
  next
    case (Suc l)
    with 2 k show ?thesis by simp
  qed
qed simp

lemma place_inside:
  "aligned xs \<Longrightarrow> i < length xs \<Longrightarrow> place n xs ! i + fst (xs ! i) \<le> place_end n xs"
  by (induction n xs arbitrary: i rule: place.induct) (auto simp: nth_Cons place_end_ge split: nat.split)

section \<open>Sound layouts\<close>

definition power_of_two :: "nat \<Rightarrow> bool" where
  "power_of_two a \<longleftrightarrow> (\<exists>k. a = 2 ^ k)"

lemma power_of_two_pos: "power_of_two a \<Longrightarrow> 0 < a"
  by (auto simp: power_of_two_def)

lemma power_of_two_max: "power_of_two a \<Longrightarrow> power_of_two b \<Longrightarrow> power_of_two (max a b)"
  by (simp add: max_def)

lemma power_of_two_dvd: "power_of_two a \<Longrightarrow> power_of_two b \<Longrightarrow> a \<le> b \<Longrightarrow> a dvd b"
  by (auto simp: power_of_two_def le_imp_power_dvd)

lemma power_of_two_one: "power_of_two (Suc 0)"
  unfolding power_of_two_def by (rule exI [of _ 0]) simp

lemma power_of_two_foldr:
  "(\<And>a. a \<in> set xs \<Longrightarrow> power_of_two a) \<Longrightarrow> power_of_two (foldr max xs 1)"
  by (induction xs) (simp_all add: power_of_two_max power_of_two_one)

lemma foldr_max_ge: "x \<in> set xs \<Longrightarrow> (x :: nat) \<le> foldr max xs d"
  by (induction xs) auto

text \<open>What a layout needs of an ABI.\<close>

locale good_abi =
  fixes A :: abi
  assumes sc_align_power: "power_of_two (sc_align A s)"
    and ptr_align_power: "power_of_two (ptr_align A)"
    and sc_align_size: "sc_align A s dvd sc_size A s"
    and ptr_align_size: "ptr_align A dvd ptr_size A"
begin

lemma align_power: "power_of_two (align_of A t)"
proof (induction t)
  case (Struct fs)
  have "power_of_two (foldr max (map (\<lambda>f. align_of A (snd f)) fs) 1)"
    by (rule power_of_two_foldr) (use Struct in auto)
  then show ?case by simp
next
  case (Union fs)
  have "power_of_two (foldr max (map (\<lambda>f. align_of A (snd f)) fs) 1)"
    by (rule power_of_two_foldr) (use Union in auto)
  then show ?case by simp
qed (simp_all add: sc_align_power ptr_align_power)

lemma align_pos [simp]: "0 < align_of A t"
  using align_power by (rule power_of_two_pos)

lemma align_size: "align_of A t dvd size_of A t"
proof (induction t)
  case (Array t n)
  then show ?case by simp
qed (simp_all add: sc_align_size ptr_align_size del: align_of.simps(5,6))

lemma align_field:
  assumes "f \<in> set fs"
  shows "align_of A (snd f) dvd align_of A (Struct fs)" and "align_of A (snd f) dvd align_of A (Union fs)"
proof -
  have "align_of A (snd f) \<le> align_of A (Struct fs)"
    using assms by (auto intro!: foldr_max_ge simp del: foldr_map)
  then show "align_of A (snd f) dvd align_of A (Struct fs)"
    by (rule power_of_two_dvd [OF align_power align_power])
  then show "align_of A (snd f) dvd align_of A (Union fs)" by simp
qed

lemma aligned_shape [simp]: "aligned (shape A fs)"
  by (auto simp: aligned_def shape_def)

text \<open>
  Every field of a struct lies at a multiple of its alignment, after the fields before it and
  inside the struct, wherever the struct itself is placed as its alignment asks.
\<close>

lemma struct_field:
  assumes "i < length fs" and "align_of A (Struct fs) dvd base"
  shows "align_of A (snd (fs ! i)) dvd base + offsets A fs ! i"
    and "offsets A fs ! i + size_of A (snd (fs ! i)) \<le> size_of A (Struct fs)"
    and "j < i \<Longrightarrow> offsets A fs ! j + size_of A (snd (fs ! j)) \<le> offsets A fs ! i"
proof -
  have "align_of A (snd (fs ! i)) dvd base"
    using align_field(1) [OF nth_mem [OF assms(1)]] assms(2) by (rule dvd_trans)
  moreover have "align_of A (snd (fs ! i)) dvd offsets A fs ! i"
    using place_dvd [of i "shape A fs" 0] assms(1) by (simp add: offsets_def shape_def)
  ultimately show "align_of A (snd (fs ! i)) dvd base + offsets A fs ! i" by simp
  have "offsets A fs ! i + size_of A (snd (fs ! i)) \<le> place_end 0 (shape A fs)"
    using place_inside [OF aligned_shape, of i fs 0] assms(1) by (simp add: offsets_def shape_def)
  also have "\<dots> \<le> size_of A (Struct fs)"
    by (simp add: shape_def round_up_ge del: align_of.simps)
  finally show "offsets A fs ! i + size_of A (snd (fs ! i)) \<le> size_of A (Struct fs)" .
  show "j < i \<Longrightarrow> offsets A fs ! j + size_of A (snd (fs ! j)) \<le> offsets A fs ! i"
    using place_disjoint [OF aligned_shape, of j i fs 0] assms(1) by (simp add: offsets_def shape_def)
qed

lemma union_field:
  assumes "f \<in> set fs"
  shows "size_of A (snd f) \<le> size_of A (Union fs)"
proof -
  have "size_of A (snd f) \<le> foldr max (map (\<lambda>f. size_of A (snd f)) fs) 0"
    using assms by (auto intro!: foldr_max_ge simp del: foldr_map)
  also have "\<dots> \<le> size_of A (Union fs)" by (simp add: round_up_ge del: align_of.simps foldr_map)
  finally show ?thesis .
qed

end

section \<open>32-bit ARM Linux\<close>

text \<open>The types behind the aliases of \<open>std::os::raw\<close> there: \<open>char\<close> is unsigned, \<open>long\<close> has 32 bits.\<close>

fun resolve :: "scalar \<Rightarrow> scalar" where
  "resolve C_char = U8"
| "resolve C_schar = I8"
| "resolve C_uchar = U8"
| "resolve C_short = I16"
| "resolve C_ushort = U16"
| "resolve C_int = I32"
| "resolve C_uint = U32"
| "resolve C_long = I32"
| "resolve C_ulong = U32"
| "resolve C_longlong = I64"
| "resolve C_ulonglong = U64"
| "resolve s = s"

fun scalar_bytes :: "scalar \<Rightarrow> nat" where
  "scalar_bytes I8 = 1" | "scalar_bytes U8 = 1"
| "scalar_bytes I16 = 2" | "scalar_bytes U16 = 2"
| "scalar_bytes I64 = 8" | "scalar_bytes U64 = 8" | "scalar_bytes F64 = 8"
| "scalar_bytes _ = 4"

text \<open>The EABI aligns every scalar to its size.\<close>

definition arm_eabi :: abi where
  "arm_eabi = \<lparr>sc_size = (\<lambda>s. scalar_bytes (resolve s)), sc_align = (\<lambda>s. scalar_bytes (resolve s)),
     ptr_size = 4, ptr_align = 4\<rparr>"

lemma power_of_two_values: "power_of_two 1" "power_of_two 2" "power_of_two 4" "power_of_two 8"
  unfolding power_of_two_def by (rule exI [of _ 0], simp, rule exI [of _ 1], simp, rule exI [of _ 2], simp,
    rule exI [of _ 3], simp)

lemma power_of_two_bytes: "power_of_two (scalar_bytes s)"
  using power_of_two_values by (cases s) simp_all

interpretation arm: good_abi arm_eabi
  by unfold_locales (simp_all add: arm_eabi_def power_of_two_bytes power_of_two_values)

end
