(* ===== verification/Pigpio_Constants.thy ===== *)
theory Pigpio_Constants
  imports C_Types
begin

text \<open>
  The constants of \<open>hardware/pigpio-sys/src/bindings-arm-linux.rs\<close>, in its order: name, Rust type
  and value; for a byte string its name, the length of its array type and its bytes.
\<close>

definition libc_consts :: "(string \<times> scalar \<times> int) list" where
  "libc_consts = [
     (''_STDINT_H'', U32, 1), (''_FEATURES_H'', U32, 1), (''_DEFAULT_SOURCE'', U32, 1),
     (''__USE_ISOC11'', U32, 1), (''__USE_ISOC99'', U32, 1), (''__USE_ISOC95'', U32, 1),
     (''__USE_POSIX_IMPLICITLY'', U32, 1), (''_POSIX_SOURCE'', U32, 1),
     (''_POSIX_C_SOURCE'', U32, 200809), (''__USE_POSIX'', U32, 1), (''__USE_POSIX2'', U32, 1),
     (''__USE_POSIX199309'', U32, 1), (''__USE_POSIX199506'', U32, 1), (''__USE_XOPEN2K'', U32, 1),
     (''__USE_XOPEN2K8'', U32, 1), (''_ATFILE_SOURCE'', U32, 1), (''__USE_MISC'', U32, 1),
     (''__USE_ATFILE'', U32, 1), (''__USE_FORTIFY_LEVEL'', U32, 0), (''_STDC_PREDEF_H'', U32, 1),
     (''__STDC_IEC_559__'', U32, 1), (''__STDC_IEC_559_COMPLEX__'', U32, 1),
     (''__STDC_ISO_10646__'', U32, 201605), (''__STDC_NO_THREADS__'', U32, 1),
     (''__GNU_LIBRARY__'', U32, 6), (''__GLIBC__'', U32, 2), (''__GLIBC_MINOR__'', U32, 24),
     (''_SYS_CDEFS_H'', U32, 1), (''__WORDSIZE'', U32, 32), (''_BITS_WCHAR_H'', U32, 1),
     (''INT8_MIN'', I32, - 128), (''INT16_MIN'', I32, - 32768), (''INT32_MIN'', I32, - 2147483648),
     (''INT8_MAX'', U32, 127), (''INT16_MAX'', U32, 32767), (''INT32_MAX'', U32, 2147483647),
     (''UINT8_MAX'', U32, 255), (''UINT16_MAX'', U32, 65535), (''UINT32_MAX'', U32, 4294967295),
     (''INT_LEAST8_MIN'', I32, - 128), (''INT_LEAST16_MIN'', I32, - 32768),
     (''INT_LEAST32_MIN'', I32, - 2147483648), (''INT_LEAST8_MAX'', U32, 127),
     (''INT_LEAST16_MAX'', U32, 32767), (''INT_LEAST32_MAX'', U32, 2147483647),
     (''UINT_LEAST8_MAX'', U32, 255), (''UINT_LEAST16_MAX'', U32, 65535),
     (''UINT_LEAST32_MAX'', U32, 4294967295), (''INT_FAST8_MIN'', I32, - 128),
     (''INT_FAST16_MIN'', I32, - 2147483648), (''INT_FAST32_MIN'', I32, - 2147483648),
     (''INT_FAST8_MAX'', U32, 127), (''INT_FAST16_MAX'', U32, 2147483647),
     (''INT_FAST32_MAX'', U32, 2147483647), (''UINT_FAST8_MAX'', U32, 255),
     (''UINT_FAST16_MAX'', U32, 4294967295), (''UINT_FAST32_MAX'', U32, 4294967295),
     (''INTPTR_MIN'', I32, - 2147483648), (''INTPTR_MAX'', U32, 2147483647),
     (''UINTPTR_MAX'', U32, 4294967295), (''PTRDIFF_MIN'', I32, - 2147483648),
     (''PTRDIFF_MAX'', U32, 2147483647), (''SIG_ATOMIC_MIN'', I32, - 2147483648),
     (''SIG_ATOMIC_MAX'', U32, 2147483647), (''SIZE_MAX'', U32, 4294967295), (''WINT_MIN'', U32, 0),
     (''WINT_MAX'', U32, 4294967295), (''_PTHREAD_H'', U32, 1), (''_ENDIAN_H'', U32, 1),
     (''__LITTLE_ENDIAN'', U32, 1234), (''__BIG_ENDIAN'', U32, 4321), (''__PDP_ENDIAN'', U32, 3412),
     (''__BYTE_ORDER'', U32, 1234), (''__FLOAT_WORD_ORDER'', U32, 1234), (''LITTLE_ENDIAN'', U32, 1234),
     (''BIG_ENDIAN'', U32, 4321), (''PDP_ENDIAN'', U32, 3412), (''BYTE_ORDER'', U32, 1234),
     (''_BITS_BYTESWAP_H'', U32, 1), (''_BITS_TYPES_H'', U32, 1), (''_BITS_TYPESIZES_H'', U32, 1),
     (''__FD_SETSIZE'', U32, 1024), (''_SCHED_H'', U32, 1), (''__time_t_defined'', U32, 1),
     (''__timespec_defined'', U32, 1), (''SCHED_OTHER'', U32, 0), (''SCHED_FIFO'', U32, 1),
     (''SCHED_RR'', U32, 2), (''__defined_schedparam'', U32, 1), (''__CPU_SETSIZE'', U32, 1024),
     (''_TIME_H'', U32, 1), (''_BITS_TIME_H'', U32, 1), (''CLOCK_REALTIME'', U32, 0),
     (''CLOCK_MONOTONIC'', U32, 1), (''CLOCK_PROCESS_CPUTIME_ID'', U32, 2),
     (''CLOCK_THREAD_CPUTIME_ID'', U32, 3), (''CLOCK_MONOTONIC_RAW'', U32, 4),
     (''CLOCK_REALTIME_COARSE'', U32, 5), (''CLOCK_MONOTONIC_COARSE'', U32, 6),
     (''CLOCK_BOOTTIME'', U32, 7), (''CLOCK_REALTIME_ALARM'', U32, 8),
     (''CLOCK_BOOTTIME_ALARM'', U32, 9), (''CLOCK_TAI'', U32, 11), (''TIMER_ABSTIME'', U32, 1),
     (''__clock_t_defined'', U32, 1), (''__clockid_t_defined'', U32, 1),
     (''__timer_t_defined'', U32, 1), (''TIME_UTC'', U32, 1), (''_XLOCALE_H'', U32, 1),
     (''_BITS_PTHREADTYPES_H'', U32, 1), (''__SIZEOF_PTHREAD_ATTR_T'', U32, 36),
     (''__SIZEOF_PTHREAD_MUTEX_T'', U32, 24), (''__SIZEOF_PTHREAD_MUTEXATTR_T'', U32, 4),
     (''__SIZEOF_PTHREAD_COND_T'', U32, 48), (''__SIZEOF_PTHREAD_COND_COMPAT_T'', U32, 12),
     (''__SIZEOF_PTHREAD_CONDATTR_T'', U32, 4), (''__SIZEOF_PTHREAD_RWLOCK_T'', U32, 32),
     (''__SIZEOF_PTHREAD_RWLOCKATTR_T'', U32, 8), (''__SIZEOF_PTHREAD_BARRIER_T'', U32, 20),
     (''__SIZEOF_PTHREAD_BARRIERATTR_T'', U32, 4), (''__have_pthread_attr_t'', U32, 1),
     (''__PTHREAD_SPINS'', U32, 0), (''__PTHREAD_RWLOCK_ELISION_EXTRA'', U32, 0),
     (''_BITS_SETJMP_H'', U32, 1), (''PTHREAD_ONCE_INIT'', U32, 0),
     (''PTHREAD_BARRIER_SERIAL_THREAD'', I32, - 1)]"

definition pi_version :: "(string \<times> scalar \<times> int) list" where
  "pi_version = [
     (''PIGPIO_VERSION'', U32, 67)]"

definition pi_paths :: "(string \<times> nat \<times> string) list" where
  "pi_paths = [
     (''PI_INPFIFO'', 12, ''/dev/pigpio'' @ [CHR 0x00]),
     (''PI_OUTFIFO'', 12, ''/dev/pigout'' @ [CHR 0x00]),
     (''PI_ERRFIFO'', 12, ''/dev/pigerr'' @ [CHR 0x00]),
     (''PI_ENVPORT'', 12, ''PIGPIO_PORT'' @ [CHR 0x00]),
     (''PI_ENVADDR'', 12, ''PIGPIO_ADDR'' @ [CHR 0x00]),
     (''PI_LOCKFILE'', 20, ''/var/run/pigpio.pid'' @ [CHR 0x00]),
     (''PI_I2C_COMBINED'', 44, ''/sys/module/i2c_bcm2708/parameters/combined'' @ [CHR 0x00])]"

definition pi_limits :: "(string \<times> scalar \<times> int) list" where
  "pi_limits = [
     (''WAVE_FLAG_READ'', U32, 1), (''WAVE_FLAG_TICK'', U32, 2), (''BSC_FIFO_SIZE'', U32, 512),
     (''PI_MIN_GPIO'', U32, 0), (''PI_MAX_GPIO'', U32, 53), (''PI_MAX_USER_GPIO'', U32, 31),
     (''PI_OFF'', U32, 0), (''PI_ON'', U32, 1), (''PI_CLEAR'', U32, 0), (''PI_SET'', U32, 1),
     (''PI_LOW'', U32, 0), (''PI_HIGH'', U32, 1), (''PI_TIMEOUT'', U32, 2), (''PI_INPUT'', U32, 0),
     (''PI_OUTPUT'', U32, 1), (''PI_ALT0'', U32, 4), (''PI_ALT1'', U32, 5), (''PI_ALT2'', U32, 6),
     (''PI_ALT3'', U32, 7), (''PI_ALT4'', U32, 3), (''PI_ALT5'', U32, 2), (''PI_PUD_OFF'', U32, 0),
     (''PI_PUD_DOWN'', U32, 1), (''PI_PUD_UP'', U32, 2), (''PI_DEFAULT_DUTYCYCLE_RANGE'', U32, 255),
     (''PI_MIN_DUTYCYCLE_RANGE'', U32, 25), (''PI_MAX_DUTYCYCLE_RANGE'', U32, 40000),
     (''PI_SERVO_OFF'', U32, 0), (''PI_MIN_SERVO_PULSEWIDTH'', U32, 500),
     (''PI_MAX_SERVO_PULSEWIDTH'', U32, 2500), (''PI_HW_PWM_MIN_FREQ'', U32, 1),
     (''PI_HW_PWM_MAX_FREQ'', U32, 125000000), (''PI_HW_PWM_RANGE'', U32, 1000000),
     (''PI_HW_CLK_MIN_FREQ'', U32, 4689), (''PI_HW_CLK_MAX_FREQ'', U32, 250000000),
     (''PI_NOTIFY_SLOTS'', U32, 32), (''PI_NTFY_FLAGS_EVENT'', U32, 128),
     (''PI_NTFY_FLAGS_ALIVE'', U32, 64), (''PI_NTFY_FLAGS_WDOG'', U32, 32),
     (''PI_WAVE_BLOCKS'', U32, 4), (''PI_WAVE_MAX_PULSES'', U32, 12000),
     (''PI_WAVE_MAX_CHARS'', U32, 1200), (''PI_BB_I2C_MIN_BAUD'', U32, 50),
     (''PI_BB_I2C_MAX_BAUD'', U32, 500000), (''PI_BB_SPI_MIN_BAUD'', U32, 50),
     (''PI_BB_SPI_MAX_BAUD'', U32, 250000), (''PI_BB_SER_MIN_BAUD'', U32, 50),
     (''PI_BB_SER_MAX_BAUD'', U32, 250000), (''PI_BB_SER_NORMAL'', U32, 0),
     (''PI_BB_SER_INVERT'', U32, 1), (''PI_WAVE_MIN_BAUD'', U32, 50),
     (''PI_WAVE_MAX_BAUD'', U32, 1000000), (''PI_SPI_MIN_BAUD'', U32, 32000),
     (''PI_SPI_MAX_BAUD'', U32, 125000000), (''PI_MIN_WAVE_DATABITS'', U32, 1),
     (''PI_MAX_WAVE_DATABITS'', U32, 32), (''PI_MIN_WAVE_HALFSTOPBITS'', U32, 2),
     (''PI_MAX_WAVE_HALFSTOPBITS'', U32, 8), (''PI_WAVE_MAX_MICROS'', U32, 1800000000),
     (''PI_MAX_WAVES'', U32, 250), (''PI_MAX_WAVE_CYCLES'', U32, 65535),
     (''PI_MAX_WAVE_DELAY'', U32, 65535)]"

definition pi_modes :: "(string \<times> scalar \<times> int) list" where
  "pi_modes = [
     (''PI_WAVE_COUNT_PAGES'', U32, 10), (''PI_WAVE_MODE_ONE_SHOT'', U32, 0),
     (''PI_WAVE_MODE_REPEAT'', U32, 1), (''PI_WAVE_MODE_ONE_SHOT_SYNC'', U32, 2),
     (''PI_WAVE_MODE_REPEAT_SYNC'', U32, 3), (''PI_WAVE_NOT_FOUND'', U32, 9998),
     (''PI_NO_TX_WAVE'', U32, 9999), (''PI_FILE_SLOTS'', U32, 16), (''PI_I2C_SLOTS'', U32, 64),
     (''PI_SPI_SLOTS'', U32, 32), (''PI_SER_SLOTS'', U32, 16), (''PI_MAX_I2C_ADDR'', U32, 127),
     (''PI_NUM_AUX_SPI_CHANNEL'', U32, 3), (''PI_NUM_STD_SPI_CHANNEL'', U32, 2),
     (''PI_MAX_I2C_DEVICE_COUNT'', U32, 65536), (''PI_MAX_SPI_DEVICE_COUNT'', U32, 65536),
     (''PI_I2C_RDRW_IOCTL_MAX_MSGS'', U32, 42), (''PI_I2C_M_WR'', U32, 0), (''PI_I2C_M_RD'', U32, 1),
     (''PI_I2C_M_TEN'', U32, 16), (''PI_I2C_M_RECV_LEN'', U32, 1024),
     (''PI_I2C_M_NO_RD_ACK'', U32, 2048), (''PI_I2C_M_IGNORE_NAK'', U32, 4096),
     (''PI_I2C_M_REV_DIR_ADDR'', U32, 8192), (''PI_I2C_M_NOSTART'', U32, 16384),
     (''PI_I2C_END'', U32, 0), (''PI_I2C_ESC'', U32, 1), (''PI_I2C_START'', U32, 2),
     (''PI_I2C_COMBINED_ON'', U32, 2), (''PI_I2C_STOP'', U32, 3), (''PI_I2C_COMBINED_OFF'', U32, 3),
     (''PI_I2C_ADDR'', U32, 4), (''PI_I2C_FLAGS'', U32, 5), (''PI_I2C_READ'', U32, 6),
     (''PI_I2C_WRITE'', U32, 7)]"

definition bsc_consts :: "(string \<times> scalar \<times> int) list" where
  "bsc_consts = [
     (''BSC_DR'', U32, 0), (''BSC_RSR'', U32, 1), (''BSC_SLV'', U32, 2), (''BSC_CR'', U32, 3),
     (''BSC_FR'', U32, 4), (''BSC_IFLS'', U32, 5), (''BSC_IMSC'', U32, 6), (''BSC_RIS'', U32, 7),
     (''BSC_MIS'', U32, 8), (''BSC_ICR'', U32, 9), (''BSC_DMACR'', U32, 10), (''BSC_TDR'', U32, 11),
     (''BSC_GPUSTAT'', U32, 12), (''BSC_HCTRL'', U32, 13), (''BSC_DEBUG_I2C'', U32, 14),
     (''BSC_DEBUG_SPI'', U32, 15), (''BSC_CR_TESTFIFO'', U32, 2048), (''BSC_CR_RXE'', U32, 512),
     (''BSC_CR_TXE'', U32, 256), (''BSC_CR_BRK'', U32, 128), (''BSC_CR_CPOL'', U32, 16),
     (''BSC_CR_CPHA'', U32, 8), (''BSC_CR_I2C'', U32, 4), (''BSC_CR_SPI'', U32, 2),
     (''BSC_CR_EN'', U32, 1), (''BSC_FR_RXBUSY'', U32, 32), (''BSC_FR_TXFE'', U32, 16),
     (''BSC_FR_RXFF'', U32, 8), (''BSC_FR_TXFF'', U32, 4), (''BSC_FR_RXFE'', U32, 2),
     (''BSC_FR_TXBUSY'', U32, 1), (''BSC_SDA_MOSI'', U32, 18), (''BSC_SCL_SCLK'', U32, 19),
     (''BSC_MISO'', U32, 20), (''BSC_CE_N'', U32, 21)]"

definition pi_settings :: "(string \<times> scalar \<times> int) list" where
  "pi_settings = [
     (''PI_MAX_BUSY_DELAY'', U32, 100), (''PI_MIN_WDOG_TIMEOUT'', U32, 0),
     (''PI_MAX_WDOG_TIMEOUT'', U32, 60000), (''PI_MIN_TIMER'', U32, 0), (''PI_MAX_TIMER'', U32, 9),
     (''PI_MIN_MS'', U32, 10), (''PI_MAX_MS'', U32, 60000), (''PI_MAX_SCRIPTS'', U32, 32),
     (''PI_MAX_SCRIPT_TAGS'', U32, 50), (''PI_MAX_SCRIPT_VARS'', U32, 150),
     (''PI_MAX_SCRIPT_PARAMS'', U32, 10), (''PI_SCRIPT_INITING'', U32, 0),
     (''PI_SCRIPT_HALTED'', U32, 1), (''PI_SCRIPT_RUNNING'', U32, 2), (''PI_SCRIPT_WAITING'', U32, 3),
     (''PI_SCRIPT_FAILED'', U32, 4), (''PI_MIN_SIGNUM'', U32, 0), (''PI_MAX_SIGNUM'', U32, 63),
     (''PI_TIME_RELATIVE'', U32, 0), (''PI_TIME_ABSOLUTE'', U32, 1),
     (''PI_MAX_MICS_DELAY'', U32, 1000000), (''PI_MAX_MILS_DELAY'', U32, 60000),
     (''PI_BUF_MILLIS_MIN'', U32, 100), (''PI_BUF_MILLIS_MAX'', U32, 10000), (''PI_CLOCK_PWM'', U32, 0),
     (''PI_CLOCK_PCM'', U32, 1), (''PI_MIN_DMA_CHANNEL'', U32, 0), (''PI_MAX_DMA_CHANNEL'', U32, 14),
     (''PI_MIN_SOCKET_PORT'', U32, 1024), (''PI_MAX_SOCKET_PORT'', U32, 32000),
     (''PI_DISABLE_FIFO_IF'', U32, 1), (''PI_DISABLE_SOCK_IF'', U32, 2),
     (''PI_LOCALHOST_SOCK_IF'', U32, 4), (''PI_DISABLE_ALERT'', U32, 8),
     (''PI_MEM_ALLOC_AUTO'', U32, 0), (''PI_MEM_ALLOC_PAGEMAP'', U32, 1),
     (''PI_MEM_ALLOC_MAILBOX'', U32, 2), (''PI_MAX_STEADY'', U32, 300000),
     (''PI_MAX_ACTIVE'', U32, 1000000), (''PI_CFG_DBG_LEVEL'', U32, 0), (''PI_CFG_ALERT_FREQ'', U32, 4),
     (''PI_CFG_RT_PRIORITY'', U32, 256), (''PI_CFG_STATS'', U32, 512),
     (''PI_CFG_NOSIGHANDLER'', U32, 1024), (''PI_CFG_ILLEGAL_VAL'', U32, 2048),
     (''RISING_EDGE'', U32, 0), (''FALLING_EDGE'', U32, 1), (''EITHER_EDGE'', U32, 2),
     (''PI_MAX_PAD'', U32, 2), (''PI_MIN_PAD_STRENGTH'', U32, 1), (''PI_MAX_PAD_STRENGTH'', U32, 16),
     (''PI_FILE_NONE'', U32, 0), (''PI_FILE_MIN'', U32, 1), (''PI_FILE_READ'', U32, 1),
     (''PI_FILE_WRITE'', U32, 2), (''PI_FILE_RW'', U32, 3), (''PI_FILE_APPEND'', U32, 4),
     (''PI_FILE_CREATE'', U32, 8), (''PI_FILE_TRUNC'', U32, 16), (''PI_FILE_MAX'', U32, 31),
     (''PI_FROM_START'', U32, 0), (''PI_FROM_CURRENT'', U32, 1), (''PI_FROM_END'', U32, 2),
     (''MAX_CONNECT_ADDRESSES'', U32, 256), (''PI_MAX_EVENT'', U32, 31), (''PI_EVENT_BSC'', U32, 31)]"

definition pi_commands :: "(string \<times> scalar \<times> int) list" where
  "pi_commands = [
     (''PI_CMD_MODES'', U32, 0), (''PI_CMD_MODEG'', U32, 1), (''PI_CMD_PUD'', U32, 2),
     (''PI_CMD_READ'', U32, 3), (''PI_CMD_WRITE'', U32, 4), (''PI_CMD_PWM'', U32, 5),
     (''PI_CMD_PRS'', U32, 6), (''PI_CMD_PFS'', U32, 7), (''PI_CMD_SERVO'', U32, 8),
     (''PI_CMD_WDOG'', U32, 9), (''PI_CMD_BR1'', U32, 10), (''PI_CMD_BR2'', U32, 11),
     (''PI_CMD_BC1'', U32, 12), (''PI_CMD_BC2'', U32, 13), (''PI_CMD_BS1'', U32, 14),
     (''PI_CMD_BS2'', U32, 15), (''PI_CMD_TICK'', U32, 16), (''PI_CMD_HWVER'', U32, 17),
     (''PI_CMD_NO'', U32, 18), (''PI_CMD_NB'', U32, 19), (''PI_CMD_NP'', U32, 20),
     (''PI_CMD_NC'', U32, 21), (''PI_CMD_PRG'', U32, 22), (''PI_CMD_PFG'', U32, 23),
     (''PI_CMD_PRRG'', U32, 24), (''PI_CMD_HELP'', U32, 25), (''PI_CMD_PIGPV'', U32, 26),
     (''PI_CMD_WVCLR'', U32, 27), (''PI_CMD_WVAG'', U32, 28), (''PI_CMD_WVAS'', U32, 29),
     (''PI_CMD_WVGO'', U32, 30), (''PI_CMD_WVGOR'', U32, 31), (''PI_CMD_WVBSY'', U32, 32),
     (''PI_CMD_WVHLT'', U32, 33), (''PI_CMD_WVSM'', U32, 34), (''PI_CMD_WVSP'', U32, 35),
     (''PI_CMD_WVSC'', U32, 36), (''PI_CMD_TRIG'', U32, 37), (''PI_CMD_PROC'', U32, 38),
     (''PI_CMD_PROCD'', U32, 39), (''PI_CMD_PROCR'', U32, 40), (''PI_CMD_PROCS'', U32, 41),
     (''PI_CMD_SLRO'', U32, 42), (''PI_CMD_SLR'', U32, 43), (''PI_CMD_SLRC'', U32, 44),
     (''PI_CMD_PROCP'', U32, 45), (''PI_CMD_MICS'', U32, 46), (''PI_CMD_MILS'', U32, 47),
     (''PI_CMD_PARSE'', U32, 48), (''PI_CMD_WVCRE'', U32, 49), (''PI_CMD_WVDEL'', U32, 50),
     (''PI_CMD_WVTX'', U32, 51), (''PI_CMD_WVTXR'', U32, 52), (''PI_CMD_WVNEW'', U32, 53),
     (''PI_CMD_I2CO'', U32, 54), (''PI_CMD_I2CC'', U32, 55), (''PI_CMD_I2CRD'', U32, 56),
     (''PI_CMD_I2CWD'', U32, 57), (''PI_CMD_I2CWQ'', U32, 58), (''PI_CMD_I2CRS'', U32, 59),
     (''PI_CMD_I2CWS'', U32, 60), (''PI_CMD_I2CRB'', U32, 61), (''PI_CMD_I2CWB'', U32, 62),
     (''PI_CMD_I2CRW'', U32, 63), (''PI_CMD_I2CWW'', U32, 64), (''PI_CMD_I2CRK'', U32, 65),
     (''PI_CMD_I2CWK'', U32, 66), (''PI_CMD_I2CRI'', U32, 67), (''PI_CMD_I2CWI'', U32, 68),
     (''PI_CMD_I2CPC'', U32, 69), (''PI_CMD_I2CPK'', U32, 70), (''PI_CMD_SPIO'', U32, 71),
     (''PI_CMD_SPIC'', U32, 72), (''PI_CMD_SPIR'', U32, 73), (''PI_CMD_SPIW'', U32, 74),
     (''PI_CMD_SPIX'', U32, 75), (''PI_CMD_SERO'', U32, 76), (''PI_CMD_SERC'', U32, 77),
     (''PI_CMD_SERRB'', U32, 78), (''PI_CMD_SERWB'', U32, 79), (''PI_CMD_SERR'', U32, 80),
     (''PI_CMD_SERW'', U32, 81), (''PI_CMD_SERDA'', U32, 82), (''PI_CMD_GDC'', U32, 83),
     (''PI_CMD_GPW'', U32, 84), (''PI_CMD_HC'', U32, 85), (''PI_CMD_HP'', U32, 86),
     (''PI_CMD_CF1'', U32, 87), (''PI_CMD_CF2'', U32, 88), (''PI_CMD_BI2CC'', U32, 89),
     (''PI_CMD_BI2CO'', U32, 90), (''PI_CMD_BI2CZ'', U32, 91), (''PI_CMD_I2CZ'', U32, 92),
     (''PI_CMD_WVCHA'', U32, 93), (''PI_CMD_SLRI'', U32, 94), (''PI_CMD_CGI'', U32, 95),
     (''PI_CMD_CSI'', U32, 96), (''PI_CMD_FG'', U32, 97), (''PI_CMD_FN'', U32, 98),
     (''PI_CMD_NOIB'', U32, 99), (''PI_CMD_WVTXM'', U32, 100), (''PI_CMD_WVTAT'', U32, 101),
     (''PI_CMD_PADS'', U32, 102), (''PI_CMD_PADG'', U32, 103), (''PI_CMD_FO'', U32, 104),
     (''PI_CMD_FC'', U32, 105), (''PI_CMD_FR'', U32, 106), (''PI_CMD_FW'', U32, 107),
     (''PI_CMD_FS'', U32, 108), (''PI_CMD_FL'', U32, 109), (''PI_CMD_SHELL'', U32, 110),
     (''PI_CMD_BSPIC'', U32, 111), (''PI_CMD_BSPIO'', U32, 112), (''PI_CMD_BSPIX'', U32, 113),
     (''PI_CMD_BSCX'', U32, 114), (''PI_CMD_EVM'', U32, 115), (''PI_CMD_EVT'', U32, 116),
     (''PI_CMD_PROCU'', U32, 117)]"

definition pi_script_commands :: "(string \<times> scalar \<times> int) list" where
  "pi_script_commands = [
     (''PI_CMD_SCRIPT'', U32, 800), (''PI_CMD_ADD'', U32, 800), (''PI_CMD_AND'', U32, 801),
     (''PI_CMD_CALL'', U32, 802), (''PI_CMD_CMDR'', U32, 803), (''PI_CMD_CMDW'', U32, 804),
     (''PI_CMD_CMP'', U32, 805), (''PI_CMD_DCR'', U32, 806), (''PI_CMD_DCRA'', U32, 807),
     (''PI_CMD_DIV'', U32, 808), (''PI_CMD_HALT'', U32, 809), (''PI_CMD_INR'', U32, 810),
     (''PI_CMD_INRA'', U32, 811), (''PI_CMD_JM'', U32, 812), (''PI_CMD_JMP'', U32, 813),
     (''PI_CMD_JNZ'', U32, 814), (''PI_CMD_JP'', U32, 815), (''PI_CMD_JZ'', U32, 816),
     (''PI_CMD_TAG'', U32, 817), (''PI_CMD_LD'', U32, 818), (''PI_CMD_LDA'', U32, 819),
     (''PI_CMD_LDAB'', U32, 820), (''PI_CMD_MLT'', U32, 821), (''PI_CMD_MOD'', U32, 822),
     (''PI_CMD_NOP'', U32, 823), (''PI_CMD_OR'', U32, 824), (''PI_CMD_POP'', U32, 825),
     (''PI_CMD_POPA'', U32, 826), (''PI_CMD_PUSH'', U32, 827), (''PI_CMD_PUSHA'', U32, 828),
     (''PI_CMD_RET'', U32, 829), (''PI_CMD_RL'', U32, 830), (''PI_CMD_RLA'', U32, 831),
     (''PI_CMD_RR'', U32, 832), (''PI_CMD_RRA'', U32, 833), (''PI_CMD_STA'', U32, 834),
     (''PI_CMD_STAB'', U32, 835), (''PI_CMD_SUB'', U32, 836), (''PI_CMD_SYS'', U32, 837),
     (''PI_CMD_WAIT'', U32, 838), (''PI_CMD_X'', U32, 839), (''PI_CMD_XA'', U32, 840),
     (''PI_CMD_XOR'', U32, 841), (''PI_CMD_EVTWT'', U32, 842)]"

definition pi_errors :: "(string \<times> scalar \<times> int) list" where
  "pi_errors = [
     (''PI_INIT_FAILED'', I32, - 1), (''PI_BAD_USER_GPIO'', I32, - 2), (''PI_BAD_GPIO'', I32, - 3),
     (''PI_BAD_MODE'', I32, - 4), (''PI_BAD_LEVEL'', I32, - 5), (''PI_BAD_PUD'', I32, - 6),
     (''PI_BAD_PULSEWIDTH'', I32, - 7), (''PI_BAD_DUTYCYCLE'', I32, - 8), (''PI_BAD_TIMER'', I32, - 9),
     (''PI_BAD_MS'', I32, - 10), (''PI_BAD_TIMETYPE'', I32, - 11), (''PI_BAD_SECONDS'', I32, - 12),
     (''PI_BAD_MICROS'', I32, - 13), (''PI_TIMER_FAILED'', I32, - 14),
     (''PI_BAD_WDOG_TIMEOUT'', I32, - 15), (''PI_NO_ALERT_FUNC'', I32, - 16),
     (''PI_BAD_CLK_PERIPH'', I32, - 17), (''PI_BAD_CLK_SOURCE'', I32, - 18),
     (''PI_BAD_CLK_MICROS'', I32, - 19), (''PI_BAD_BUF_MILLIS'', I32, - 20),
     (''PI_BAD_DUTYRANGE'', I32, - 21), (''PI_BAD_DUTY_RANGE'', I32, - 21),
     (''PI_BAD_SIGNUM'', I32, - 22), (''PI_BAD_PATHNAME'', I32, - 23), (''PI_NO_HANDLE'', I32, - 24),
     (''PI_BAD_HANDLE'', I32, - 25), (''PI_BAD_IF_FLAGS'', I32, - 26), (''PI_BAD_CHANNEL'', I32, - 27),
     (''PI_BAD_PRIM_CHANNEL'', I32, - 27), (''PI_BAD_SOCKET_PORT'', I32, - 28),
     (''PI_BAD_FIFO_COMMAND'', I32, - 29), (''PI_BAD_SECO_CHANNEL'', I32, - 30),
     (''PI_NOT_INITIALISED'', I32, - 31), (''PI_INITIALISED'', I32, - 32),
     (''PI_BAD_WAVE_MODE'', I32, - 33), (''PI_BAD_CFG_INTERNAL'', I32, - 34),
     (''PI_BAD_WAVE_BAUD'', I32, - 35), (''PI_TOO_MANY_PULSES'', I32, - 36),
     (''PI_TOO_MANY_CHARS'', I32, - 37), (''PI_NOT_SERIAL_GPIO'', I32, - 38),
     (''PI_BAD_SERIAL_STRUC'', I32, - 39), (''PI_BAD_SERIAL_BUF'', I32, - 40),
     (''PI_NOT_PERMITTED'', I32, - 41), (''PI_SOME_PERMITTED'', I32, - 42),
     (''PI_BAD_WVSC_COMMND'', I32, - 43), (''PI_BAD_WVSM_COMMND'', I32, - 44),
     (''PI_BAD_WVSP_COMMND'', I32, - 45), (''PI_BAD_PULSELEN'', I32, - 46),
     (''PI_BAD_SCRIPT'', I32, - 47), (''PI_BAD_SCRIPT_ID'', I32, - 48),
     (''PI_BAD_SER_OFFSET'', I32, - 49), (''PI_GPIO_IN_USE'', I32, - 50),
     (''PI_BAD_SERIAL_COUNT'', I32, - 51), (''PI_BAD_PARAM_NUM'', I32, - 52),
     (''PI_DUP_TAG'', I32, - 53), (''PI_TOO_MANY_TAGS'', I32, - 54), (''PI_BAD_SCRIPT_CMD'', I32, - 55),
     (''PI_BAD_VAR_NUM'', I32, - 56), (''PI_NO_SCRIPT_ROOM'', I32, - 57), (''PI_NO_MEMORY'', I32, - 58),
     (''PI_SOCK_READ_FAILED'', I32, - 59), (''PI_SOCK_WRIT_FAILED'', I32, - 60),
     (''PI_TOO_MANY_PARAM'', I32, - 61), (''PI_NOT_HALTED'', I32, - 62),
     (''PI_SCRIPT_NOT_READY'', I32, - 62), (''PI_BAD_TAG'', I32, - 63),
     (''PI_BAD_MICS_DELAY'', I32, - 64), (''PI_BAD_MILS_DELAY'', I32, - 65),
     (''PI_BAD_WAVE_ID'', I32, - 66), (''PI_TOO_MANY_CBS'', I32, - 67),
     (''PI_TOO_MANY_OOL'', I32, - 68), (''PI_EMPTY_WAVEFORM'', I32, - 69),
     (''PI_NO_WAVEFORM_ID'', I32, - 70), (''PI_I2C_OPEN_FAILED'', I32, - 71),
     (''PI_SER_OPEN_FAILED'', I32, - 72), (''PI_SPI_OPEN_FAILED'', I32, - 73),
     (''PI_BAD_I2C_BUS'', I32, - 74), (''PI_BAD_I2C_ADDR'', I32, - 75),
     (''PI_BAD_SPI_CHANNEL'', I32, - 76), (''PI_BAD_FLAGS'', I32, - 77),
     (''PI_BAD_SPI_SPEED'', I32, - 78), (''PI_BAD_SER_DEVICE'', I32, - 79),
     (''PI_BAD_SER_SPEED'', I32, - 80), (''PI_BAD_PARAM'', I32, - 81),
     (''PI_I2C_WRITE_FAILED'', I32, - 82), (''PI_I2C_READ_FAILED'', I32, - 83),
     (''PI_BAD_SPI_COUNT'', I32, - 84), (''PI_SER_WRITE_FAILED'', I32, - 85),
     (''PI_SER_READ_FAILED'', I32, - 86), (''PI_SER_READ_NO_DATA'', I32, - 87),
     (''PI_UNKNOWN_COMMAND'', I32, - 88), (''PI_SPI_XFER_FAILED'', I32, - 89),
     (''PI_BAD_POINTER'', I32, - 90), (''PI_NO_AUX_SPI'', I32, - 91), (''PI_NOT_PWM_GPIO'', I32, - 92),
     (''PI_NOT_SERVO_GPIO'', I32, - 93), (''PI_NOT_HCLK_GPIO'', I32, - 94),
     (''PI_NOT_HPWM_GPIO'', I32, - 95), (''PI_BAD_HPWM_FREQ'', I32, - 96),
     (''PI_BAD_HPWM_DUTY'', I32, - 97), (''PI_BAD_HCLK_FREQ'', I32, - 98),
     (''PI_BAD_HCLK_PASS'', I32, - 99), (''PI_HPWM_ILLEGAL'', I32, - 100),
     (''PI_BAD_DATABITS'', I32, - 101), (''PI_BAD_STOPBITS'', I32, - 102),
     (''PI_MSG_TOOBIG'', I32, - 103), (''PI_BAD_MALLOC_MODE'', I32, - 104),
     (''PI_TOO_MANY_SEGS'', I32, - 105), (''PI_BAD_I2C_SEG'', I32, - 106),
     (''PI_BAD_SMBUS_CMD'', I32, - 107), (''PI_NOT_I2C_GPIO'', I32, - 108),
     (''PI_BAD_I2C_WLEN'', I32, - 109), (''PI_BAD_I2C_RLEN'', I32, - 110),
     (''PI_BAD_I2C_CMD'', I32, - 111), (''PI_BAD_I2C_BAUD'', I32, - 112),
     (''PI_CHAIN_LOOP_CNT'', I32, - 113), (''PI_BAD_CHAIN_LOOP'', I32, - 114),
     (''PI_CHAIN_COUNTER'', I32, - 115), (''PI_BAD_CHAIN_CMD'', I32, - 116),
     (''PI_BAD_CHAIN_DELAY'', I32, - 117), (''PI_CHAIN_NESTING'', I32, - 118),
     (''PI_CHAIN_TOO_BIG'', I32, - 119), (''PI_DEPRECATED'', I32, - 120),
     (''PI_BAD_SER_INVERT'', I32, - 121), (''PI_BAD_EDGE'', I32, - 122),
     (''PI_BAD_ISR_INIT'', I32, - 123), (''PI_BAD_FOREVER'', I32, - 124),
     (''PI_BAD_FILTER'', I32, - 125), (''PI_BAD_PAD'', I32, - 126), (''PI_BAD_STRENGTH'', I32, - 127),
     (''PI_FIL_OPEN_FAILED'', I32, - 128), (''PI_BAD_FILE_MODE'', I32, - 129),
     (''PI_BAD_FILE_FLAG'', I32, - 130), (''PI_BAD_FILE_READ'', I32, - 131),
     (''PI_BAD_FILE_WRITE'', I32, - 132), (''PI_FILE_NOT_ROPEN'', I32, - 133),
     (''PI_FILE_NOT_WOPEN'', I32, - 134), (''PI_BAD_FILE_SEEK'', I32, - 135),
     (''PI_NO_FILE_MATCH'', I32, - 136), (''PI_NO_FILE_ACCESS'', I32, - 137),
     (''PI_FILE_IS_A_DIR'', I32, - 138), (''PI_BAD_SHELL_STATUS'', I32, - 139),
     (''PI_BAD_SCRIPT_NAME'', I32, - 140), (''PI_BAD_SPI_BAUD'', I32, - 141),
     (''PI_NOT_SPI_GPIO'', I32, - 142), (''PI_BAD_EVENT_ID'', I32, - 143),
     (''PI_CMD_INTERRUPTED'', I32, - 144)]"

definition pi_custom_errors :: "(string \<times> scalar \<times> int) list" where
  "pi_custom_errors = [
     (''PI_PIGIF_ERR_0'', I32, - 2000), (''PI_PIGIF_ERR_99'', I32, - 2099),
     (''PI_CUSTOM_ERR_0'', I32, - 3000), (''PI_CUSTOM_ERR_999'', I32, - 3999)]"

definition pi_defaults :: "(string \<times> scalar \<times> int) list" where
  "pi_defaults = [
     (''PI_DEFAULT_BUFFER_MILLIS'', U32, 120), (''PI_DEFAULT_CLK_MICROS'', U32, 5),
     (''PI_DEFAULT_CLK_PERIPHERAL'', U32, 1), (''PI_DEFAULT_IF_FLAGS'', U32, 0),
     (''PI_DEFAULT_FOREGROUND'', U32, 0), (''PI_DEFAULT_DMA_CHANNEL'', U32, 14),
     (''PI_DEFAULT_DMA_PRIMARY_CHANNEL'', U32, 14), (''PI_DEFAULT_DMA_SECONDARY_CHANNEL'', U32, 6),
     (''PI_DEFAULT_SOCKET_PORT'', U32, 8888)]"

definition pi_default_strings :: "(string \<times> nat \<times> string) list" where
  "pi_default_strings = [
     (''PI_DEFAULT_SOCKET_PORT_STR'', 5, ''8888'' @ [CHR 0x00]),
     (''PI_DEFAULT_SOCKET_ADDR_STR'', 10, ''127.0.0.1'' @ [CHR 0x00])]"

definition pi_default_masks :: "(string \<times> scalar \<times> int) list" where
  "pi_default_masks = [
     (''PI_DEFAULT_UPDATE_MASK_UNKNOWN'', U32, 268435452),
     (''PI_DEFAULT_UPDATE_MASK_B1'', U32, 65523603), (''PI_DEFAULT_UPDATE_MASK_A_B2'', U32, 4224176028),
     (''PI_DEFAULT_UPDATE_MASK_APLUS_BPLUS'', U64, 141046994436092),
     (''PI_DEFAULT_UPDATE_MASK_ZERO'', U64, 140737756790780),
     (''PI_DEFAULT_UPDATE_MASK_PI2B'', U64, 141046994436092),
     (''PI_DEFAULT_UPDATE_MASK_PI3B'', U32, 268435452),
     (''PI_DEFAULT_UPDATE_MASK_COMPUTE'', U64, 281474976710655),
     (''PI_DEFAULT_MEM_ALLOC_MODE'', U32, 0), (''PI_DEFAULT_CFG_INTERNALS'', U32, 0)]"

definition all_constants :: "(string \<times> scalar \<times> int) list" where
  "all_constants = libc_consts @ pi_version @ pi_limits @ pi_modes @ bsc_consts @ pi_settings @ pi_commands @ pi_script_commands @ pi_errors @ pi_custom_errors @ pi_defaults @ pi_default_masks"

definition all_strings :: "(string \<times> nat \<times> string) list" where
  "all_strings = pi_paths @ pi_default_strings"

text \<open>The value of a name in a group.\<close>

definition const_in :: "(string \<times> scalar \<times> int) list \<Rightarrow> string \<Rightarrow> int option" where
  "const_in cs n = map_option snd (map_of cs n)"

lemmas constant_defs = libc_consts_def pi_version_def pi_limits_def pi_modes_def
  bsc_consts_def pi_settings_def pi_commands_def pi_script_commands_def pi_errors_def
  pi_custom_errors_def pi_defaults_def pi_default_masks_def

end
