(* ===== verification/Pigpio_Types.thy ===== *)
theory Pigpio_Types
  imports C_Types
begin

text \<open>
  The types of \<open>hardware/pigpio-sys/src/bindings-arm-linux.rs\<close> that have a layout test, with the
  tests: \<open>ty_T\<close> is the type \<open>T\<close> (a struct, a union or an alias, its fields in order), \<open>lt_T\<close> the
  assertions of the function \<open>bindgen_test_layout_T\<close>.
\<close>

section \<open>Types of the C library that the header includes\<close>

definition ty___fsid_t :: ctype where
  "ty___fsid_t = Struct [
     (''__val'', Array (Scalar C_int) 2)]"

definition lt___fsid_t :: layout_test where
  "lt___fsid_t = \<lparr>lt_type = ty___fsid_t,
     lt_size = 8, lt_align = Some 4,
     lt_offsets = [(''__val'', 0)]\<rparr>"

definition ty___time_t :: ctype where
  "ty___time_t = Scalar C_long"

definition ty___syscall_slong_t :: ctype where
  "ty___syscall_slong_t = Scalar C_long"

definition ty_timespec :: ctype where
  "ty_timespec = Struct [
     (''tv_sec'', ty___time_t), (''tv_nsec'', ty___syscall_slong_t)]"

definition lt_timespec :: layout_test where
  "lt_timespec = \<lparr>lt_type = ty_timespec,
     lt_size = 8, lt_align = Some 4,
     lt_offsets = [(''tv_sec'', 0), (''tv_nsec'', 4)]\<rparr>"

definition ty_sched_param :: ctype where
  "ty_sched_param = Struct [
     (''__sched_priority'', Scalar C_int)]"

definition lt_sched_param :: layout_test where
  "lt_sched_param = \<lparr>lt_type = ty_sched_param,
     lt_size = 4, lt_align = Some 4,
     lt_offsets = [(''__sched_priority'', 0)]\<rparr>"

definition ty___sched_param :: ctype where
  "ty___sched_param = Struct [
     (''__sched_priority'', Scalar C_int)]"

definition lt___sched_param :: layout_test where
  "lt___sched_param = \<lparr>lt_type = ty___sched_param,
     lt_size = 4, lt_align = Some 4,
     lt_offsets = [(''__sched_priority'', 0)]\<rparr>"

definition ty___cpu_mask :: ctype where
  "ty___cpu_mask = Scalar C_ulong"

definition ty_cpu_set_t :: ctype where
  "ty_cpu_set_t = Struct [
     (''__bits'', Array ty___cpu_mask 32)]"

definition lt_cpu_set_t :: layout_test where
  "lt_cpu_set_t = \<lparr>lt_type = ty_cpu_set_t,
     lt_size = 128, lt_align = Some 4,
     lt_offsets = [(''__bits'', 0)]\<rparr>"

definition ty_tm :: ctype where
  "ty_tm = Struct [
     (''tm_sec'', Scalar C_int), (''tm_min'', Scalar C_int), (''tm_hour'', Scalar C_int),
     (''tm_mday'', Scalar C_int), (''tm_mon'', Scalar C_int), (''tm_year'', Scalar C_int),
     (''tm_wday'', Scalar C_int), (''tm_yday'', Scalar C_int), (''tm_isdst'', Scalar C_int),
     (''tm_gmtoff'', Scalar C_long), (''tm_zone'', Ptr (Const ''c_char''))]"

definition lt_tm :: layout_test where
  "lt_tm = \<lparr>lt_type = ty_tm,
     lt_size = 44, lt_align = Some 4,
     lt_offsets = [(''tm_sec'', 0), (''tm_min'', 4), (''tm_hour'', 8), (''tm_mday'', 12), (''tm_mon'', 16),
       (''tm_year'', 20), (''tm_wday'', 24), (''tm_yday'', 28), (''tm_isdst'', 32), (''tm_gmtoff'', 36),
       (''tm_zone'', 40)]\<rparr>"

definition ty_itimerspec :: ctype where
  "ty_itimerspec = Struct [
     (''it_interval'', ty_timespec), (''it_value'', ty_timespec)]"

definition lt_itimerspec :: layout_test where
  "lt_itimerspec = \<lparr>lt_type = ty_itimerspec,
     lt_size = 16, lt_align = Some 4,
     lt_offsets = [(''it_interval'', 0), (''it_value'', 8)]\<rparr>"

definition ty___locale_struct :: ctype where
  "ty___locale_struct = Struct [
     (''__locales'', Array (Ptr (Mut ''__locale_data'')) 13), (''__ctype_b'', Ptr (Const ''c_ushort'')),
     (''__ctype_tolower'', Ptr (Const ''c_int'')), (''__ctype_toupper'', Ptr (Const ''c_int'')),
     (''__names'', Array (Ptr (Const ''c_char'')) 13)]"

definition lt___locale_struct :: layout_test where
  "lt___locale_struct = \<lparr>lt_type = ty___locale_struct,
     lt_size = 116, lt_align = Some 4,
     lt_offsets = [(''__locales'', 0), (''__ctype_b'', 52), (''__ctype_tolower'', 56), (''__ctype_toupper'', 60),
       (''__names'', 64)]\<rparr>"

definition ty_pthread_attr_t :: ctype where
  "ty_pthread_attr_t = Union [
     (''__size'', Array (Scalar C_char) 36), (''__align'', Scalar C_long),
     (''_bindgen_union_align'', Array (Scalar U32) 9)]"

definition lt_pthread_attr_t :: layout_test where
  "lt_pthread_attr_t = \<lparr>lt_type = ty_pthread_attr_t,
     lt_size = 36, lt_align = Some 4,
     lt_offsets = [(''__size'', 0), (''__align'', 0)]\<rparr>"

definition ty___pthread_internal_slist :: ctype where
  "ty___pthread_internal_slist = Struct [
     (''__next'', Ptr (Mut ''__pthread_internal_slist''))]"

definition lt___pthread_internal_slist :: layout_test where
  "lt___pthread_internal_slist = \<lparr>lt_type = ty___pthread_internal_slist,
     lt_size = 4, lt_align = Some 4,
     lt_offsets = [(''__next'', 0)]\<rparr>"

definition ty___pthread_slist_t :: ctype where
  "ty___pthread_slist_t = ty___pthread_internal_slist"

definition ty_pthread_mutex_t___pthread_mutex_s__bindgen_ty_1 :: ctype where
  "ty_pthread_mutex_t___pthread_mutex_s__bindgen_ty_1 = Union [
     (''__spins'', Scalar C_int), (''__list'', ty___pthread_slist_t),
     (''_bindgen_union_align'', Scalar U32)]"

definition lt_pthread_mutex_t___pthread_mutex_s__bindgen_ty_1 :: layout_test where
  "lt_pthread_mutex_t___pthread_mutex_s__bindgen_ty_1 = \<lparr>lt_type = ty_pthread_mutex_t___pthread_mutex_s__bindgen_ty_1,
     lt_size = 4, lt_align = Some 4,
     lt_offsets = [(''__spins'', 0), (''__list'', 0)]\<rparr>"

definition ty_pthread_mutex_t___pthread_mutex_s :: ctype where
  "ty_pthread_mutex_t___pthread_mutex_s = Struct [
     (''__lock'', Scalar C_int), (''__count'', Scalar C_uint), (''__owner'', Scalar C_int),
     (''__kind'', Scalar C_int), (''__nusers'', Scalar C_uint),
     (''__bindgen_anon_1'', ty_pthread_mutex_t___pthread_mutex_s__bindgen_ty_1)]"

definition lt_pthread_mutex_t___pthread_mutex_s :: layout_test where
  "lt_pthread_mutex_t___pthread_mutex_s = \<lparr>lt_type = ty_pthread_mutex_t___pthread_mutex_s,
     lt_size = 24, lt_align = Some 4,
     lt_offsets = [(''__lock'', 0), (''__count'', 4), (''__owner'', 8), (''__kind'', 12), (''__nusers'', 16)]\<rparr>"

definition ty_pthread_mutex_t :: ctype where
  "ty_pthread_mutex_t = Union [
     (''__data'', ty_pthread_mutex_t___pthread_mutex_s), (''__size'', Array (Scalar C_char) 24),
     (''__align'', Scalar C_long), (''_bindgen_union_align'', Array (Scalar U32) 6)]"

definition lt_pthread_mutex_t :: layout_test where
  "lt_pthread_mutex_t = \<lparr>lt_type = ty_pthread_mutex_t,
     lt_size = 24, lt_align = Some 4,
     lt_offsets = [(''__data'', 0), (''__size'', 0), (''__align'', 0)]\<rparr>"

definition ty_pthread_mutexattr_t :: ctype where
  "ty_pthread_mutexattr_t = Union [
     (''__size'', Array (Scalar C_char) 4), (''__align'', Scalar C_long),
     (''_bindgen_union_align'', Scalar U32)]"

definition lt_pthread_mutexattr_t :: layout_test where
  "lt_pthread_mutexattr_t = \<lparr>lt_type = ty_pthread_mutexattr_t,
     lt_size = 4, lt_align = Some 4,
     lt_offsets = [(''__size'', 0), (''__align'', 0)]\<rparr>"

definition ty_pthread_cond_t__bindgen_ty_1 :: ctype where
  "ty_pthread_cond_t__bindgen_ty_1 = Struct [
     (''__lock'', Scalar C_int), (''__futex'', Scalar C_uint), (''__total_seq'', Scalar C_ulonglong),
     (''__wakeup_seq'', Scalar C_ulonglong), (''__woken_seq'', Scalar C_ulonglong),
     (''__mutex'', Ptr (Mut ''c_void'')), (''__nwaiters'', Scalar C_uint),
     (''__broadcast_seq'', Scalar C_uint), (''__bindgen_padding_0'', Scalar U32)]"

definition lt_pthread_cond_t__bindgen_ty_1 :: layout_test where
  "lt_pthread_cond_t__bindgen_ty_1 = \<lparr>lt_type = ty_pthread_cond_t__bindgen_ty_1,
     lt_size = 48, lt_align = None,
     lt_offsets = [(''__lock'', 0), (''__futex'', 4), (''__total_seq'', 8), (''__wakeup_seq'', 16),
       (''__woken_seq'', 24), (''__mutex'', 32), (''__nwaiters'', 36), (''__broadcast_seq'', 40)]\<rparr>"

definition ty_pthread_cond_t :: ctype where
  "ty_pthread_cond_t = Union [
     (''__data'', ty_pthread_cond_t__bindgen_ty_1), (''__size'', Array (Scalar C_char) 48),
     (''__align'', Scalar C_longlong), (''_bindgen_union_align'', Array (Scalar U64) 6)]"

definition lt_pthread_cond_t :: layout_test where
  "lt_pthread_cond_t = \<lparr>lt_type = ty_pthread_cond_t,
     lt_size = 48, lt_align = None,
     lt_offsets = [(''__data'', 0), (''__size'', 0), (''__align'', 0)]\<rparr>"

definition ty_pthread_condattr_t :: ctype where
  "ty_pthread_condattr_t = Union [
     (''__size'', Array (Scalar C_char) 4), (''__align'', Scalar C_long),
     (''_bindgen_union_align'', Scalar U32)]"

definition lt_pthread_condattr_t :: layout_test where
  "lt_pthread_condattr_t = \<lparr>lt_type = ty_pthread_condattr_t,
     lt_size = 4, lt_align = Some 4,
     lt_offsets = [(''__size'', 0), (''__align'', 0)]\<rparr>"

definition ty_pthread_rwlock_t__bindgen_ty_1 :: ctype where
  "ty_pthread_rwlock_t__bindgen_ty_1 = Struct [
     (''__lock'', Scalar C_int), (''__nr_readers'', Scalar C_uint),
     (''__readers_wakeup'', Scalar C_uint), (''__writer_wakeup'', Scalar C_uint),
     (''__nr_readers_queued'', Scalar C_uint), (''__nr_writers_queued'', Scalar C_uint),
     (''__flags'', Scalar C_uchar), (''__shared'', Scalar C_uchar), (''__pad1'', Scalar C_uchar),
     (''__pad2'', Scalar C_uchar), (''__writer'', Scalar C_int)]"

definition lt_pthread_rwlock_t__bindgen_ty_1 :: layout_test where
  "lt_pthread_rwlock_t__bindgen_ty_1 = \<lparr>lt_type = ty_pthread_rwlock_t__bindgen_ty_1,
     lt_size = 32, lt_align = Some 4,
     lt_offsets = [(''__lock'', 0), (''__nr_readers'', 4), (''__readers_wakeup'', 8), (''__writer_wakeup'', 12),
       (''__nr_readers_queued'', 16), (''__nr_writers_queued'', 20), (''__flags'', 24),
       (''__shared'', 25), (''__pad1'', 26), (''__pad2'', 27), (''__writer'', 28)]\<rparr>"

definition ty_pthread_rwlock_t :: ctype where
  "ty_pthread_rwlock_t = Union [
     (''__data'', ty_pthread_rwlock_t__bindgen_ty_1), (''__size'', Array (Scalar C_char) 32),
     (''__align'', Scalar C_long), (''_bindgen_union_align'', Array (Scalar U32) 8)]"

definition lt_pthread_rwlock_t :: layout_test where
  "lt_pthread_rwlock_t = \<lparr>lt_type = ty_pthread_rwlock_t,
     lt_size = 32, lt_align = Some 4,
     lt_offsets = [(''__data'', 0), (''__size'', 0), (''__align'', 0)]\<rparr>"

definition ty_pthread_rwlockattr_t :: ctype where
  "ty_pthread_rwlockattr_t = Union [
     (''__size'', Array (Scalar C_char) 8), (''__align'', Scalar C_long),
     (''_bindgen_union_align'', Array (Scalar U32) 2)]"

definition lt_pthread_rwlockattr_t :: layout_test where
  "lt_pthread_rwlockattr_t = \<lparr>lt_type = ty_pthread_rwlockattr_t,
     lt_size = 8, lt_align = Some 4,
     lt_offsets = [(''__size'', 0), (''__align'', 0)]\<rparr>"

definition ty_pthread_barrier_t :: ctype where
  "ty_pthread_barrier_t = Union [
     (''__size'', Array (Scalar C_char) 20), (''__align'', Scalar C_long),
     (''_bindgen_union_align'', Array (Scalar U32) 5)]"

definition lt_pthread_barrier_t :: layout_test where
  "lt_pthread_barrier_t = \<lparr>lt_type = ty_pthread_barrier_t,
     lt_size = 20, lt_align = Some 4,
     lt_offsets = [(''__size'', 0), (''__align'', 0)]\<rparr>"

definition ty_pthread_barrierattr_t :: ctype where
  "ty_pthread_barrierattr_t = Union [
     (''__size'', Array (Scalar C_char) 4), (''__align'', Scalar C_int),
     (''_bindgen_union_align'', Scalar U32)]"

definition lt_pthread_barrierattr_t :: layout_test where
  "lt_pthread_barrierattr_t = \<lparr>lt_type = ty_pthread_barrierattr_t,
     lt_size = 4, lt_align = Some 4,
     lt_offsets = [(''__size'', 0), (''__align'', 0)]\<rparr>"

definition ty__pthread_cleanup_buffer :: ctype where
  "ty__pthread_cleanup_buffer = Struct [
     (''__routine'', Fn_Ptr [(''arg1'', Ptr (Mut ''c_void''))] None), (''__arg'', Ptr (Mut ''c_void'')),
     (''__canceltype'', Scalar C_int), (''__prev'', Ptr (Mut ''_pthread_cleanup_buffer''))]"

definition lt__pthread_cleanup_buffer :: layout_test where
  "lt__pthread_cleanup_buffer = \<lparr>lt_type = ty__pthread_cleanup_buffer,
     lt_size = 16, lt_align = Some 4,
     lt_offsets = [(''__routine'', 0), (''__arg'', 4), (''__canceltype'', 8), (''__prev'', 12)]\<rparr>"

definition ty___jmp_buf :: ctype where
  "ty___jmp_buf = Array (Scalar C_int) 64"

definition ty___pthread_unwind_buf_t__bindgen_ty_1 :: ctype where
  "ty___pthread_unwind_buf_t__bindgen_ty_1 = Struct [
     (''__cancel_jmp_buf'', ty___jmp_buf), (''__mask_was_saved'', Scalar C_int),
     (''__bindgen_padding_0'', Scalar U32)]"

definition lt___pthread_unwind_buf_t__bindgen_ty_1 :: layout_test where
  "lt___pthread_unwind_buf_t__bindgen_ty_1 = \<lparr>lt_type = ty___pthread_unwind_buf_t__bindgen_ty_1,
     lt_size = 264, lt_align = None,
     lt_offsets = [(''__cancel_jmp_buf'', 0), (''__mask_was_saved'', 256)]\<rparr>"

definition ty___pthread_unwind_buf_t :: ctype where
  "ty___pthread_unwind_buf_t = Struct [
     (''__cancel_jmp_buf'', Array ty___pthread_unwind_buf_t__bindgen_ty_1 1),
     (''__pad'', Array (Ptr (Mut ''c_void'')) 4)]"

definition lt___pthread_unwind_buf_t :: layout_test where
  "lt___pthread_unwind_buf_t = \<lparr>lt_type = ty___pthread_unwind_buf_t,
     lt_size = 280, lt_align = None,
     lt_offsets = [(''__cancel_jmp_buf'', 0), (''__pad'', 264)]\<rparr>"

definition ty___pthread_cleanup_frame :: ctype where
  "ty___pthread_cleanup_frame = Struct [
     (''__cancel_routine'', Fn_Ptr [(''arg1'', Ptr (Mut ''c_void''))] None),
     (''__cancel_arg'', Ptr (Mut ''c_void'')), (''__do_it'', Scalar C_int),
     (''__cancel_type'', Scalar C_int)]"

definition lt___pthread_cleanup_frame :: layout_test where
  "lt___pthread_cleanup_frame = \<lparr>lt_type = ty___pthread_cleanup_frame,
     lt_size = 16, lt_align = Some 4,
     lt_offsets = [(''__cancel_routine'', 0), (''__cancel_arg'', 4), (''__do_it'', 8), (''__cancel_type'', 12)]\<rparr>"

section \<open>Types of pigpio\<close>

definition ty_gpioHeader_t :: ctype where
  "ty_gpioHeader_t = Struct [
     (''func'', Scalar U16), (''size'', Scalar U16)]"

definition lt_gpioHeader_t :: layout_test where
  "lt_gpioHeader_t = \<lparr>lt_type = ty_gpioHeader_t,
     lt_size = 4, lt_align = Some 2,
     lt_offsets = [(''func'', 0), (''size'', 2)]\<rparr>"

definition ty_gpioExtent_t :: ctype where
  "ty_gpioExtent_t = Struct [
     (''size'', Scalar Usize), (''ptr'', Ptr (Mut ''c_void'')), (''data'', Scalar U32)]"

definition lt_gpioExtent_t :: layout_test where
  "lt_gpioExtent_t = \<lparr>lt_type = ty_gpioExtent_t,
     lt_size = 12, lt_align = Some 4,
     lt_offsets = [(''size'', 0), (''ptr'', 4), (''data'', 8)]\<rparr>"

definition ty_gpioSample_t :: ctype where
  "ty_gpioSample_t = Struct [
     (''tick'', Scalar U32), (''level'', Scalar U32)]"

definition lt_gpioSample_t :: layout_test where
  "lt_gpioSample_t = \<lparr>lt_type = ty_gpioSample_t,
     lt_size = 8, lt_align = Some 4,
     lt_offsets = [(''tick'', 0), (''level'', 4)]\<rparr>"

definition ty_gpioReport_t :: ctype where
  "ty_gpioReport_t = Struct [
     (''seqno'', Scalar U16), (''flags'', Scalar U16), (''tick'', Scalar U32), (''level'', Scalar U32)]"

definition lt_gpioReport_t :: layout_test where
  "lt_gpioReport_t = \<lparr>lt_type = ty_gpioReport_t,
     lt_size = 12, lt_align = Some 4,
     lt_offsets = [(''seqno'', 0), (''flags'', 2), (''tick'', 4), (''level'', 8)]\<rparr>"

definition ty_gpioPulse_t :: ctype where
  "ty_gpioPulse_t = Struct [
     (''gpioOn'', Scalar U32), (''gpioOff'', Scalar U32), (''usDelay'', Scalar U32)]"

definition lt_gpioPulse_t :: layout_test where
  "lt_gpioPulse_t = \<lparr>lt_type = ty_gpioPulse_t,
     lt_size = 12, lt_align = Some 4,
     lt_offsets = [(''gpioOn'', 0), (''gpioOff'', 4), (''usDelay'', 8)]\<rparr>"

definition ty_rawWave_t :: ctype where
  "ty_rawWave_t = Struct [
     (''gpioOn'', Scalar U32), (''gpioOff'', Scalar U32), (''usDelay'', Scalar U32),
     (''flags'', Scalar U32)]"

definition lt_rawWave_t :: layout_test where
  "lt_rawWave_t = \<lparr>lt_type = ty_rawWave_t,
     lt_size = 16, lt_align = Some 4,
     lt_offsets = [(''gpioOn'', 0), (''gpioOff'', 4), (''usDelay'', 8), (''flags'', 12)]\<rparr>"

definition ty_rawWaveInfo_t :: ctype where
  "ty_rawWaveInfo_t = Struct [
     (''botCB'', Scalar U16), (''topCB'', Scalar U16), (''botOOL'', Scalar U16),
     (''topOOL'', Scalar U16), (''deleted'', Scalar U16), (''numCB'', Scalar U16),
     (''numBOOL'', Scalar U16), (''numTOOL'', Scalar U16)]"

definition lt_rawWaveInfo_t :: layout_test where
  "lt_rawWaveInfo_t = \<lparr>lt_type = ty_rawWaveInfo_t,
     lt_size = 16, lt_align = Some 2,
     lt_offsets = [(''botCB'', 0), (''topCB'', 2), (''botOOL'', 4), (''topOOL'', 6), (''deleted'', 8),
       (''numCB'', 10), (''numBOOL'', 12), (''numTOOL'', 14)]\<rparr>"

definition ty_rawSPI_t :: ctype where
  "ty_rawSPI_t = Struct [
     (''clk'', Scalar C_int), (''mosi'', Scalar C_int), (''miso'', Scalar C_int),
     (''ss_pol'', Scalar C_int), (''ss_us'', Scalar C_int), (''clk_pol'', Scalar C_int),
     (''clk_pha'', Scalar C_int), (''clk_us'', Scalar C_int)]"

definition lt_rawSPI_t :: layout_test where
  "lt_rawSPI_t = \<lparr>lt_type = ty_rawSPI_t,
     lt_size = 32, lt_align = Some 4,
     lt_offsets = [(''clk'', 0), (''mosi'', 4), (''miso'', 8), (''ss_pol'', 12), (''ss_us'', 16), (''clk_pol'', 20),
       (''clk_pha'', 24), (''clk_us'', 28)]\<rparr>"

definition ty_rawCbs_t :: ctype where
  "ty_rawCbs_t = Struct [
     (''info'', Scalar U32), (''src'', Scalar U32), (''dst'', Scalar U32), (''length'', Scalar U32),
     (''stride'', Scalar U32), (''next'', Scalar U32), (''pad'', Array (Scalar U32) 2)]"

definition lt_rawCbs_t :: layout_test where
  "lt_rawCbs_t = \<lparr>lt_type = ty_rawCbs_t,
     lt_size = 32, lt_align = Some 4,
     lt_offsets = [(''info'', 0), (''src'', 4), (''dst'', 8), (''length'', 12), (''stride'', 16), (''next'', 20),
       (''pad'', 24)]\<rparr>"

definition ty_pi_i2c_msg_t :: ctype where
  "ty_pi_i2c_msg_t = Struct [
     (''addr'', Scalar U16), (''flags'', Scalar U16), (''len'', Scalar U16),
     (''buf'', Ptr (Mut ''u8''))]"

definition lt_pi_i2c_msg_t :: layout_test where
  "lt_pi_i2c_msg_t = \<lparr>lt_type = ty_pi_i2c_msg_t,
     lt_size = 12, lt_align = Some 4,
     lt_offsets = [(''addr'', 0), (''flags'', 2), (''len'', 4), (''buf'', 8)]\<rparr>"

definition ty_bsc_xfer_t :: ctype where
  "ty_bsc_xfer_t = Struct [
     (''control'', Scalar U32), (''rxCnt'', Scalar C_int), (''rxBuf'', Array (Scalar C_char) 512),
     (''txCnt'', Scalar C_int), (''txBuf'', Array (Scalar C_char) 512)]"

definition lt_bsc_xfer_t :: layout_test where
  "lt_bsc_xfer_t = \<lparr>lt_type = ty_bsc_xfer_t,
     lt_size = 1036, lt_align = Some 4,
     lt_offsets = [(''control'', 0), (''rxCnt'', 4), (''rxBuf'', 8), (''txCnt'', 520), (''txBuf'', 524)]\<rparr>"

section \<open>All the tests\<close>

definition libc_tests :: "layout_test list" where
  "libc_tests = [
     lt___fsid_t, lt_timespec, lt_sched_param, lt___sched_param, lt_cpu_set_t, lt_tm, lt_itimerspec,
     lt___locale_struct, lt_pthread_attr_t, lt___pthread_internal_slist, lt_pthread_mutex_t,
     lt_pthread_mutex_t___pthread_mutex_s, lt_pthread_mutex_t___pthread_mutex_s__bindgen_ty_1,
     lt_pthread_mutexattr_t, lt_pthread_cond_t, lt_pthread_cond_t__bindgen_ty_1, lt_pthread_condattr_t,
     lt_pthread_rwlock_t, lt_pthread_rwlock_t__bindgen_ty_1, lt_pthread_rwlockattr_t,
     lt_pthread_barrier_t, lt_pthread_barrierattr_t, lt__pthread_cleanup_buffer,
     lt___pthread_unwind_buf_t, lt___pthread_unwind_buf_t__bindgen_ty_1, lt___pthread_cleanup_frame]"

definition pigpio_tests :: "layout_test list" where
  "pigpio_tests = [
     lt_gpioHeader_t, lt_gpioExtent_t, lt_gpioSample_t, lt_gpioReport_t, lt_gpioPulse_t, lt_rawWave_t,
     lt_rawWaveInfo_t, lt_rawSPI_t, lt_rawCbs_t, lt_pi_i2c_msg_t, lt_bsc_xfer_t]"

lemmas type_defs = ty___fsid_t_def ty___time_t_def ty___syscall_slong_t_def ty_timespec_def
  ty_sched_param_def ty___sched_param_def ty___cpu_mask_def ty_cpu_set_t_def ty_tm_def
  ty_itimerspec_def ty___locale_struct_def ty_pthread_attr_t_def ty___pthread_internal_slist_def
  ty___pthread_slist_t_def ty_pthread_mutex_t___pthread_mutex_s__bindgen_ty_1_def
  ty_pthread_mutex_t___pthread_mutex_s_def ty_pthread_mutex_t_def ty_pthread_mutexattr_t_def
  ty_pthread_cond_t__bindgen_ty_1_def ty_pthread_cond_t_def ty_pthread_condattr_t_def
  ty_pthread_rwlock_t__bindgen_ty_1_def ty_pthread_rwlock_t_def ty_pthread_rwlockattr_t_def
  ty_pthread_barrier_t_def ty_pthread_barrierattr_t_def ty__pthread_cleanup_buffer_def
  ty___jmp_buf_def ty___pthread_unwind_buf_t__bindgen_ty_1_def ty___pthread_unwind_buf_t_def
  ty___pthread_cleanup_frame_def ty_gpioHeader_t_def ty_gpioExtent_t_def ty_gpioSample_t_def
  ty_gpioReport_t_def ty_gpioPulse_t_def ty_rawWave_t_def ty_rawWaveInfo_t_def ty_rawSPI_t_def
  ty_rawCbs_t_def ty_pi_i2c_msg_t_def ty_bsc_xfer_t_def

lemmas test_defs = lt___fsid_t_def lt_timespec_def lt_sched_param_def lt___sched_param_def
  lt_cpu_set_t_def lt_tm_def lt_itimerspec_def lt___locale_struct_def lt_pthread_attr_t_def
  lt___pthread_internal_slist_def lt_pthread_mutex_t_def lt_pthread_mutex_t___pthread_mutex_s_def
  lt_pthread_mutex_t___pthread_mutex_s__bindgen_ty_1_def lt_pthread_mutexattr_t_def
  lt_pthread_cond_t_def lt_pthread_cond_t__bindgen_ty_1_def lt_pthread_condattr_t_def
  lt_pthread_rwlock_t_def lt_pthread_rwlock_t__bindgen_ty_1_def lt_pthread_rwlockattr_t_def
  lt_pthread_barrier_t_def lt_pthread_barrierattr_t_def lt__pthread_cleanup_buffer_def
  lt___pthread_unwind_buf_t_def lt___pthread_unwind_buf_t__bindgen_ty_1_def
  lt___pthread_cleanup_frame_def lt_gpioHeader_t_def lt_gpioExtent_t_def lt_gpioSample_t_def
  lt_gpioReport_t_def lt_gpioPulse_t_def lt_rawWave_t_def lt_rawWaveInfo_t_def lt_rawSPI_t_def
  lt_rawCbs_t_def lt_pi_i2c_msg_t_def lt_bsc_xfer_t_def

end
