(* ===== verification/Pigpio_Functions.thy ===== *)
theory Pigpio_Functions
  imports Pigpio_Types
begin

text \<open>
  The functions of pigpio that \<open>hardware/pigpio-sys/src/bindings-arm-linux.rs\<close> declares in its
  \<open>extern "C"\<close> blocks, in its order, with the types of their callbacks.
\<close>

datatype fn_sig = Fn (fs_name: string) (fs_params: "(string \<times> ctype) list") (fs_result: "ctype option")

section \<open>Callbacks\<close>

definition ty_gpioAlertFunc_t :: ctype where
  "ty_gpioAlertFunc_t = Fn_Ptr [
     (''gpio'', Scalar C_int), (''level'', Scalar C_int), (''tick'', Scalar U32)] None"

definition ty_gpioAlertFuncEx_t :: ctype where
  "ty_gpioAlertFuncEx_t = Fn_Ptr [
     (''gpio'', Scalar C_int), (''level'', Scalar C_int), (''tick'', Scalar U32),
     (''userdata'', Ptr (Mut ''c_void''))] None"

definition ty_gpioISRFunc_t :: ctype where
  "ty_gpioISRFunc_t = Fn_Ptr [
     (''gpio'', Scalar C_int), (''level'', Scalar C_int), (''tick'', Scalar U32)] None"

definition ty_gpioISRFuncEx_t :: ctype where
  "ty_gpioISRFuncEx_t = Fn_Ptr [
     (''gpio'', Scalar C_int), (''level'', Scalar C_int), (''tick'', Scalar U32),
     (''userdata'', Ptr (Mut ''c_void''))] None"

definition ty_gpioGetSamplesFunc_t :: ctype where
  "ty_gpioGetSamplesFunc_t = Fn_Ptr [
     (''samples'', Ptr (Const ''gpioSample_t'')), (''numSamples'', Scalar C_int)] None"

definition ty_gpioGetSamplesFuncEx_t :: ctype where
  "ty_gpioGetSamplesFuncEx_t = Fn_Ptr [
     (''samples'', Ptr (Const ''gpioSample_t'')), (''numSamples'', Scalar C_int),
     (''userdata'', Ptr (Mut ''c_void''))] None"

definition ty_gpioTimerFunc_t :: ctype where
  "ty_gpioTimerFunc_t = Fn_Ptr [] None"

definition ty_gpioTimerFuncEx_t :: ctype where
  "ty_gpioTimerFuncEx_t = Fn_Ptr [(''userdata'', Ptr (Mut ''c_void''))] None"

definition ty_gpioThreadFunc_t :: ctype where
  "ty_gpioThreadFunc_t = Fn_Ptr [(''arg1'', Ptr (Mut ''c_void''))] (Some (Ptr (Mut ''c_void'')))"

definition ty_gpioSignalFunc_t :: ctype where
  "ty_gpioSignalFunc_t = Fn_Ptr [(''signum'', Scalar C_int)] None"

definition ty_gpioSignalFuncEx_t :: ctype where
  "ty_gpioSignalFuncEx_t = Fn_Ptr [(''signum'', Scalar C_int), (''userdata'', Ptr (Mut ''c_void''))] None"

definition ty_eventFunc_t :: ctype where
  "ty_eventFunc_t = Fn_Ptr [(''event'', Scalar C_int), (''tick'', Scalar U32)] None"

definition ty_eventFuncEx_t :: ctype where
  "ty_eventFuncEx_t = Fn_Ptr [
     (''event'', Scalar C_int), (''tick'', Scalar U32), (''userdata'', Ptr (Mut ''c_void''))] None"

section \<open>Functions\<close>

definition gpio_fns :: "fn_sig list" where
  "gpio_fns = [
     Fn ''gpioInitialise'' [] (Some (Scalar C_int)),
     Fn ''gpioTerminate'' [] None,
     Fn ''gpioSetMode'' [(''gpio'', Scalar C_uint), (''mode'', Scalar C_uint)] (Some (Scalar C_int)),
     Fn ''gpioGetMode'' [(''gpio'', Scalar C_uint)] (Some (Scalar C_int)),
     Fn ''gpioSetPullUpDown''
       [(''gpio'', Scalar C_uint), (''pud'', Scalar C_uint)] (Some (Scalar C_int)),
     Fn ''gpioRead'' [(''gpio'', Scalar C_uint)] (Some (Scalar C_int)),
     Fn ''gpioWrite'' [(''gpio'', Scalar C_uint), (''level'', Scalar C_uint)] (Some (Scalar C_int)),
     Fn ''gpioPWM''
       [(''user_gpio'', Scalar C_uint), (''dutycycle'', Scalar C_uint)] (Some (Scalar C_int)),
     Fn ''gpioGetPWMdutycycle'' [(''user_gpio'', Scalar C_uint)] (Some (Scalar C_int)),
     Fn ''gpioSetPWMrange''
       [(''user_gpio'', Scalar C_uint), (''range'', Scalar C_uint)] (Some (Scalar C_int)),
     Fn ''gpioGetPWMrange'' [(''user_gpio'', Scalar C_uint)] (Some (Scalar C_int)),
     Fn ''gpioGetPWMrealRange'' [(''user_gpio'', Scalar C_uint)] (Some (Scalar C_int)),
     Fn ''gpioSetPWMfrequency''
       [(''user_gpio'', Scalar C_uint), (''frequency'', Scalar C_uint)] (Some (Scalar C_int)),
     Fn ''gpioGetPWMfrequency'' [(''user_gpio'', Scalar C_uint)] (Some (Scalar C_int)),
     Fn ''gpioServo''
       [(''user_gpio'', Scalar C_uint), (''pulsewidth'', Scalar C_uint)] (Some (Scalar C_int)),
     Fn ''gpioGetServoPulsewidth'' [(''user_gpio'', Scalar C_uint)] (Some (Scalar C_int)),
     Fn ''gpioSetAlertFunc''
       [(''user_gpio'', Scalar C_uint), (''f'', ty_gpioAlertFunc_t)] (Some (Scalar C_int)),
     Fn ''gpioSetAlertFuncEx'' [(''user_gpio'', Scalar C_uint), (''f'', ty_gpioAlertFuncEx_t),
       (''userdata'', Ptr (Mut ''c_void''))] (Some (Scalar C_int)),
     Fn ''gpioSetISRFunc''
       [(''gpio'', Scalar C_uint), (''edge'', Scalar C_uint), (''timeout'', Scalar C_int),
       (''f'', ty_gpioISRFunc_t)] (Some (Scalar C_int)),
     Fn ''gpioSetISRFuncEx''
       [(''gpio'', Scalar C_uint), (''edge'', Scalar C_uint), (''timeout'', Scalar C_int),
       (''f'', ty_gpioISRFuncEx_t), (''userdata'', Ptr (Mut ''c_void''))] (Some (Scalar C_int)),
     Fn ''gpioNotifyOpen'' [] (Some (Scalar C_int)),
     Fn ''gpioNotifyOpenWithSize'' [(''bufSize'', Scalar C_int)] (Some (Scalar C_int)),
     Fn ''gpioNotifyBegin''
       [(''handle'', Scalar C_uint), (''bits'', Scalar U32)] (Some (Scalar C_int)),
     Fn ''gpioNotifyPause'' [(''handle'', Scalar C_uint)] (Some (Scalar C_int)),
     Fn ''gpioNotifyClose'' [(''handle'', Scalar C_uint)] (Some (Scalar C_int))]"

definition wave_fns :: "fn_sig list" where
  "wave_fns = [
     Fn ''gpioWaveClear'' [] (Some (Scalar C_int)),
     Fn ''gpioWaveAddNew'' [] (Some (Scalar C_int)),
     Fn ''gpioWaveAddGeneric''
       [(''numPulses'', Scalar C_uint), (''pulses'', Ptr (Mut ''gpioPulse_t''))] (Some (Scalar C_int)),
     Fn ''gpioWaveAddSerial''
       [(''user_gpio'', Scalar C_uint), (''baud'', Scalar C_uint),
       (''data_bits'', Scalar C_uint), (''stop_bits'', Scalar C_uint),
       (''offset'', Scalar C_uint), (''numBytes'', Scalar C_uint),
       (''str'', Ptr (Mut ''c_char''))] (Some (Scalar C_int)),
     Fn ''gpioWaveCreate'' [] (Some (Scalar C_int)),
     Fn ''gpioWaveDelete'' [(''wave_id'', Scalar C_uint)] (Some (Scalar C_int)),
     Fn ''gpioWaveTxSend''
       [(''wave_id'', Scalar C_uint), (''wave_mode'', Scalar C_uint)] (Some (Scalar C_int)),
     Fn ''gpioWaveChain''
       [(''buf'', Ptr (Mut ''c_char'')), (''bufSize'', Scalar C_uint)] (Some (Scalar C_int)),
     Fn ''gpioWaveTxAt'' [] (Some (Scalar C_int)),
     Fn ''gpioWaveTxBusy'' [] (Some (Scalar C_int)),
     Fn ''gpioWaveTxStop'' [] (Some (Scalar C_int)),
     Fn ''gpioWaveGetMicros'' [] (Some (Scalar C_int)),
     Fn ''gpioWaveGetHighMicros'' [] (Some (Scalar C_int)),
     Fn ''gpioWaveGetMaxMicros'' [] (Some (Scalar C_int)),
     Fn ''gpioWaveGetPulses'' [] (Some (Scalar C_int)),
     Fn ''gpioWaveGetHighPulses'' [] (Some (Scalar C_int)),
     Fn ''gpioWaveGetMaxPulses'' [] (Some (Scalar C_int)),
     Fn ''gpioWaveGetCbs'' [] (Some (Scalar C_int)),
     Fn ''gpioWaveGetHighCbs'' [] (Some (Scalar C_int)),
     Fn ''gpioWaveGetMaxCbs'' [] (Some (Scalar C_int)),
     Fn ''gpioSerialReadOpen''
       [(''user_gpio'', Scalar C_uint), (''baud'', Scalar C_uint),
       (''data_bits'', Scalar C_uint)] (Some (Scalar C_int)),
     Fn ''gpioSerialReadInvert''
       [(''user_gpio'', Scalar C_uint), (''invert'', Scalar C_uint)] (Some (Scalar C_int)),
     Fn ''gpioSerialRead'' [(''user_gpio'', Scalar C_uint), (''buf'', Ptr (Mut ''c_void'')),
       (''bufSize'', Scalar Usize)] (Some (Scalar C_int)),
     Fn ''gpioSerialReadClose'' [(''user_gpio'', Scalar C_uint)] (Some (Scalar C_int))]"

definition i2c_fns :: "fn_sig list" where
  "i2c_fns = [
     Fn ''i2cOpen''
       [(''i2cBus'', Scalar C_uint), (''i2cAddr'', Scalar C_uint),
       (''i2cFlags'', Scalar C_uint)] (Some (Scalar C_int)),
     Fn ''i2cClose'' [(''handle'', Scalar C_uint)] (Some (Scalar C_int)),
     Fn ''i2cWriteQuick''
       [(''handle'', Scalar C_uint), (''bit'', Scalar C_uint)] (Some (Scalar C_int)),
     Fn ''i2cWriteByte''
       [(''handle'', Scalar C_uint), (''bVal'', Scalar C_uint)] (Some (Scalar C_int)),
     Fn ''i2cReadByte'' [(''handle'', Scalar C_uint)] (Some (Scalar C_int)),
     Fn ''i2cWriteByteData''
       [(''handle'', Scalar C_uint), (''i2cReg'', Scalar C_uint),
       (''bVal'', Scalar C_uint)] (Some (Scalar C_int)),
     Fn ''i2cWriteWordData''
       [(''handle'', Scalar C_uint), (''i2cReg'', Scalar C_uint),
       (''wVal'', Scalar C_uint)] (Some (Scalar C_int)),
     Fn ''i2cReadByteData''
       [(''handle'', Scalar C_uint), (''i2cReg'', Scalar C_uint)] (Some (Scalar C_int)),
     Fn ''i2cReadWordData''
       [(''handle'', Scalar C_uint), (''i2cReg'', Scalar C_uint)] (Some (Scalar C_int)),
     Fn ''i2cProcessCall''
       [(''handle'', Scalar C_uint), (''i2cReg'', Scalar C_uint),
       (''wVal'', Scalar C_uint)] (Some (Scalar C_int)),
     Fn ''i2cWriteBlockData''
       [(''handle'', Scalar C_uint), (''i2cReg'', Scalar C_uint),
       (''buf'', Ptr (Mut ''c_char'')), (''count'', Scalar C_uint)] (Some (Scalar C_int)),
     Fn ''i2cReadBlockData''
       [(''handle'', Scalar C_uint), (''i2cReg'', Scalar C_uint),
       (''buf'', Ptr (Mut ''c_char''))] (Some (Scalar C_int)),
     Fn ''i2cBlockProcessCall''
       [(''handle'', Scalar C_uint), (''i2cReg'', Scalar C_uint),
       (''buf'', Ptr (Mut ''c_char'')), (''count'', Scalar C_uint)] (Some (Scalar C_int)),
     Fn ''i2cReadI2CBlockData''
       [(''handle'', Scalar C_uint), (''i2cReg'', Scalar C_uint),
       (''buf'', Ptr (Mut ''c_char'')), (''count'', Scalar C_uint)] (Some (Scalar C_int)),
     Fn ''i2cWriteI2CBlockData''
       [(''handle'', Scalar C_uint), (''i2cReg'', Scalar C_uint),
       (''buf'', Ptr (Mut ''c_char'')), (''count'', Scalar C_uint)] (Some (Scalar C_int)),
     Fn ''i2cReadDevice''
       [(''handle'', Scalar C_uint), (''buf'', Ptr (Mut ''c_char'')),
       (''count'', Scalar C_uint)] (Some (Scalar C_int)),
     Fn ''i2cWriteDevice''
       [(''handle'', Scalar C_uint), (''buf'', Ptr (Mut ''c_char'')),
       (''count'', Scalar C_uint)] (Some (Scalar C_int)),
     Fn ''i2cSwitchCombined'' [(''setting'', Scalar C_int)] None,
     Fn ''i2cSegments'' [(''handle'', Scalar C_uint), (''segs'', Ptr (Mut ''pi_i2c_msg_t'')),
       (''numSegs'', Scalar C_uint)] (Some (Scalar C_int)),
     Fn ''i2cZip''
       [(''handle'', Scalar C_uint), (''inBuf'', Ptr (Mut ''c_char'')),
       (''inLen'', Scalar C_uint), (''outBuf'', Ptr (Mut ''c_char'')),
       (''outLen'', Scalar C_uint)] (Some (Scalar C_int))]"

definition bus_fns :: "fn_sig list" where
  "bus_fns = [
     Fn ''bbI2COpen''
       [(''SDA'', Scalar C_uint), (''SCL'', Scalar C_uint), (''baud'', Scalar C_uint)] (Some (Scalar C_int)),
     Fn ''bbI2CClose'' [(''SDA'', Scalar C_uint)] (Some (Scalar C_int)),
     Fn ''bbI2CZip''
       [(''SDA'', Scalar C_uint), (''inBuf'', Ptr (Mut ''c_char'')),
       (''inLen'', Scalar C_uint), (''outBuf'', Ptr (Mut ''c_char'')),
       (''outLen'', Scalar C_uint)] (Some (Scalar C_int)),
     Fn ''bscXfer'' [(''bsc_xfer'', Ptr (Mut ''bsc_xfer_t''))] (Some (Scalar C_int)),
     Fn ''bbSPIOpen'' [(''CS'', Scalar C_uint), (''MISO'', Scalar C_uint), (''MOSI'', Scalar C_uint),
       (''SCLK'', Scalar C_uint), (''baud'', Scalar C_uint), (''spiFlags'', Scalar C_uint)] (Some (Scalar C_int)),
     Fn ''bbSPIClose'' [(''CS'', Scalar C_uint)] (Some (Scalar C_int)),
     Fn ''bbSPIXfer'' [(''CS'', Scalar C_uint), (''inBuf'', Ptr (Mut ''c_char'')),
       (''outBuf'', Ptr (Mut ''c_char'')), (''count'', Scalar C_uint)] (Some (Scalar C_int)),
     Fn ''spiOpen''
       [(''spiChan'', Scalar C_uint), (''baud'', Scalar C_uint),
       (''spiFlags'', Scalar C_uint)] (Some (Scalar C_int)),
     Fn ''spiClose'' [(''handle'', Scalar C_uint)] (Some (Scalar C_int)),
     Fn ''spiRead''
       [(''handle'', Scalar C_uint), (''buf'', Ptr (Mut ''c_char'')),
       (''count'', Scalar C_uint)] (Some (Scalar C_int)),
     Fn ''spiWrite''
       [(''handle'', Scalar C_uint), (''buf'', Ptr (Mut ''c_char'')),
       (''count'', Scalar C_uint)] (Some (Scalar C_int)),
     Fn ''spiXfer'' [(''handle'', Scalar C_uint), (''txBuf'', Ptr (Mut ''c_char'')),
       (''rxBuf'', Ptr (Mut ''c_char'')), (''count'', Scalar C_uint)] (Some (Scalar C_int)),
     Fn ''serOpen'' [(''sertty'', Ptr (Mut ''c_char'')), (''baud'', Scalar C_uint),
       (''serFlags'', Scalar C_uint)] (Some (Scalar C_int)),
     Fn ''serClose'' [(''handle'', Scalar C_uint)] (Some (Scalar C_int)),
     Fn ''serWriteByte''
       [(''handle'', Scalar C_uint), (''bVal'', Scalar C_uint)] (Some (Scalar C_int)),
     Fn ''serReadByte'' [(''handle'', Scalar C_uint)] (Some (Scalar C_int)),
     Fn ''serWrite''
       [(''handle'', Scalar C_uint), (''buf'', Ptr (Mut ''c_char'')),
       (''count'', Scalar C_uint)] (Some (Scalar C_int)),
     Fn ''serRead''
       [(''handle'', Scalar C_uint), (''buf'', Ptr (Mut ''c_char'')),
       (''count'', Scalar C_uint)] (Some (Scalar C_int)),
     Fn ''serDataAvailable'' [(''handle'', Scalar C_uint)] (Some (Scalar C_int))]"

definition event_fns :: "fn_sig list" where
  "event_fns = [
     Fn ''gpioTrigger''
       [(''user_gpio'', Scalar C_uint), (''pulseLen'', Scalar C_uint),
       (''level'', Scalar C_uint)] (Some (Scalar C_int)),
     Fn ''gpioSetWatchdog''
       [(''user_gpio'', Scalar C_uint), (''timeout'', Scalar C_uint)] (Some (Scalar C_int)),
     Fn ''gpioNoiseFilter''
       [(''user_gpio'', Scalar C_uint), (''steady'', Scalar C_uint),
       (''active'', Scalar C_uint)] (Some (Scalar C_int)),
     Fn ''gpioGlitchFilter''
       [(''user_gpio'', Scalar C_uint), (''steady'', Scalar C_uint)] (Some (Scalar C_int)),
     Fn ''gpioSetGetSamplesFunc''
       [(''f'', ty_gpioGetSamplesFunc_t), (''bits'', Scalar U32)] (Some (Scalar C_int)),
     Fn ''gpioSetGetSamplesFuncEx'' [(''f'', ty_gpioGetSamplesFuncEx_t), (''bits'', Scalar U32),
       (''userdata'', Ptr (Mut ''c_void''))] (Some (Scalar C_int)),
     Fn ''gpioSetTimerFunc''
       [(''timer'', Scalar C_uint), (''millis'', Scalar C_uint),
       (''f'', ty_gpioTimerFunc_t)] (Some (Scalar C_int)),
     Fn ''gpioSetTimerFuncEx''
       [(''timer'', Scalar C_uint), (''millis'', Scalar C_uint),
       (''f'', ty_gpioTimerFuncEx_t), (''userdata'', Ptr (Mut ''c_void''))] (Some (Scalar C_int)),
     Fn ''gpioStartThread''
       [(''f'', ty_gpioThreadFunc_t), (''userdata'', Ptr (Mut ''c_void''))] (Some (Ptr (Mut ''pthread_t''))),
     Fn ''gpioStopThread'' [(''pth'', Ptr (Mut ''pthread_t''))] None,
     Fn ''gpioStoreScript'' [(''script'', Ptr (Mut ''c_char''))] (Some (Scalar C_int)),
     Fn ''gpioRunScript'' [(''script_id'', Scalar C_uint), (''numPar'', Scalar C_uint),
       (''param'', Ptr (Mut ''u32''))] (Some (Scalar C_int)),
     Fn ''gpioUpdateScript'' [(''script_id'', Scalar C_uint), (''numPar'', Scalar C_uint),
       (''param'', Ptr (Mut ''u32''))] (Some (Scalar C_int)),
     Fn ''gpioScriptStatus''
       [(''script_id'', Scalar C_uint), (''param'', Ptr (Mut ''u32''))] (Some (Scalar C_int)),
     Fn ''gpioStopScript'' [(''script_id'', Scalar C_uint)] (Some (Scalar C_int)),
     Fn ''gpioDeleteScript'' [(''script_id'', Scalar C_uint)] (Some (Scalar C_int)),
     Fn ''gpioSetSignalFunc''
       [(''signum'', Scalar C_uint), (''f'', ty_gpioSignalFunc_t)] (Some (Scalar C_int)),
     Fn ''gpioSetSignalFuncEx'' [(''signum'', Scalar C_uint), (''f'', ty_gpioSignalFuncEx_t),
       (''userdata'', Ptr (Mut ''c_void''))] (Some (Scalar C_int))]"

definition misc_fns :: "fn_sig list" where
  "misc_fns = [
     Fn ''gpioRead_Bits_0_31'' [] (Some (Scalar U32)),
     Fn ''gpioRead_Bits_32_53'' [] (Some (Scalar U32)),
     Fn ''gpioWrite_Bits_0_31_Clear'' [(''bits'', Scalar U32)] (Some (Scalar C_int)),
     Fn ''gpioWrite_Bits_32_53_Clear'' [(''bits'', Scalar U32)] (Some (Scalar C_int)),
     Fn ''gpioWrite_Bits_0_31_Set'' [(''bits'', Scalar U32)] (Some (Scalar C_int)),
     Fn ''gpioWrite_Bits_32_53_Set'' [(''bits'', Scalar U32)] (Some (Scalar C_int)),
     Fn ''gpioHardwareClock''
       [(''gpio'', Scalar C_uint), (''clkfreq'', Scalar C_uint)] (Some (Scalar C_int)),
     Fn ''gpioHardwarePWM''
       [(''gpio'', Scalar C_uint), (''PWMfreq'', Scalar C_uint),
       (''PWMduty'', Scalar C_uint)] (Some (Scalar C_int)),
     Fn ''gpioTime'' [(''timetype'', Scalar C_uint), (''seconds'', Ptr (Mut ''c_int'')),
       (''micros'', Ptr (Mut ''c_int''))] (Some (Scalar C_int)),
     Fn ''gpioSleep''
       [(''timetype'', Scalar C_uint), (''seconds'', Scalar C_int),
       (''micros'', Scalar C_int)] (Some (Scalar C_int)),
     Fn ''gpioDelay'' [(''micros'', Scalar U32)] (Some (Scalar U32)),
     Fn ''gpioTick'' [] (Some (Scalar U32)),
     Fn ''gpioHardwareRevision'' [] (Some (Scalar C_uint)),
     Fn ''gpioVersion'' [] (Some (Scalar C_uint)),
     Fn ''gpioGetPad'' [(''pad'', Scalar C_uint)] (Some (Scalar C_int)),
     Fn ''gpioSetPad''
       [(''pad'', Scalar C_uint), (''padStrength'', Scalar C_uint)] (Some (Scalar C_int)),
     Fn ''eventMonitor'' [(''handle'', Scalar C_uint), (''bits'', Scalar U32)] (Some (Scalar C_int)),
     Fn ''eventSetFunc'' [(''event'', Scalar C_uint), (''f'', ty_eventFunc_t)] (Some (Scalar C_int)),
     Fn ''eventSetFuncEx'' [(''event'', Scalar C_uint), (''f'', ty_eventFuncEx_t),
       (''userdata'', Ptr (Mut ''c_void''))] (Some (Scalar C_int)),
     Fn ''eventTrigger'' [(''event'', Scalar C_uint)] (Some (Scalar C_int))]"

definition file_fns :: "fn_sig list" where
  "file_fns = [
     Fn ''shell''
       [(''scriptName'', Ptr (Mut ''c_char'')), (''scriptString'', Ptr (Mut ''c_char''))] (Some (Scalar C_int)),
     Fn ''fileOpen''
       [(''file'', Ptr (Mut ''c_char'')), (''mode'', Scalar C_uint)] (Some (Scalar C_int)),
     Fn ''fileClose'' [(''handle'', Scalar C_uint)] (Some (Scalar C_int)),
     Fn ''fileWrite''
       [(''handle'', Scalar C_uint), (''buf'', Ptr (Mut ''c_char'')),
       (''count'', Scalar C_uint)] (Some (Scalar C_int)),
     Fn ''fileRead''
       [(''handle'', Scalar C_uint), (''buf'', Ptr (Mut ''c_char'')),
       (''count'', Scalar C_uint)] (Some (Scalar C_int)),
     Fn ''fileSeek''
       [(''handle'', Scalar C_uint), (''seekOffset'', Scalar I32),
       (''seekFrom'', Scalar C_int)] (Some (Scalar C_int)),
     Fn ''fileList'' [(''fpat'', Ptr (Mut ''c_char'')), (''buf'', Ptr (Mut ''c_char'')),
       (''count'', Scalar C_uint)] (Some (Scalar C_int))]"

definition cfg_fns :: "fn_sig list" where
  "cfg_fns = [
     Fn ''gpioCfgBufferSize'' [(''cfgMillis'', Scalar C_uint)] (Some (Scalar C_int)),
     Fn ''gpioCfgClock'' [(''cfgMicros'', Scalar C_uint), (''cfgPeripheral'', Scalar C_uint),
       (''cfgSource'', Scalar C_uint)] (Some (Scalar C_int)),
     Fn ''gpioCfgDMAchannel'' [(''DMAchannel'', Scalar C_uint)] (Some (Scalar C_int)),
     Fn ''gpioCfgDMAchannels''
       [(''primaryChannel'', Scalar C_uint), (''secondaryChannel'', Scalar C_uint)] (Some (Scalar C_int)),
     Fn ''gpioCfgPermissions'' [(''updateMask'', Scalar U64)] (Some (Scalar C_int)),
     Fn ''gpioCfgSocketPort'' [(''port'', Scalar C_uint)] (Some (Scalar C_int)),
     Fn ''gpioCfgInterfaces'' [(''ifFlags'', Scalar C_uint)] (Some (Scalar C_int)),
     Fn ''gpioCfgMemAlloc'' [(''memAllocMode'', Scalar C_uint)] (Some (Scalar C_int)),
     Fn ''gpioCfgNetAddr''
       [(''numSockAddr'', Scalar C_int), (''sockAddr'', Ptr (Mut ''u32''))] (Some (Scalar C_int)),
     Fn ''gpioCfgInternals''
       [(''cfgWhat'', Scalar C_uint), (''cfgVal'', Scalar C_uint)] (Some (Scalar C_int)),
     Fn ''gpioCfgGetInternals'' [] (Some (Scalar U32)),
     Fn ''gpioCfgSetInternals'' [(''cfgVal'', Scalar U32)] (Some (Scalar C_int)),
     Fn ''gpioCustom1''
       [(''arg1'', Scalar C_uint), (''arg2'', Scalar C_uint),
       (''argx'', Ptr (Mut ''c_char'')), (''argc'', Scalar C_uint)] (Some (Scalar C_int)),
     Fn ''gpioCustom2''
       [(''arg1'', Scalar C_uint), (''argx'', Ptr (Mut ''c_char'')),
       (''argc'', Scalar C_uint), (''retBuf'', Ptr (Mut ''c_char'')),
       (''retMax'', Scalar C_uint)] (Some (Scalar C_int))]"

definition raw_fns :: "fn_sig list" where
  "raw_fns = [
     Fn ''rawWaveAddSPI''
       [(''spi'', Ptr (Mut ''rawSPI_t'')), (''offset'', Scalar C_uint),
       (''spiSS'', Scalar C_uint), (''buf'', Ptr (Mut ''c_char'')),
       (''spiTxBits'', Scalar C_uint), (''spiBitFirst'', Scalar C_uint),
       (''spiBitLast'', Scalar C_uint), (''spiBits'', Scalar C_uint)] (Some (Scalar C_int)),
     Fn ''rawWaveAddGeneric''
       [(''numPulses'', Scalar C_uint), (''pulses'', Ptr (Mut ''rawWave_t''))] (Some (Scalar C_int)),
     Fn ''rawWaveCB'' [] (Some (Scalar C_uint)),
     Fn ''rawWaveCBAdr'' [(''cbNum'', Scalar C_int)] (Some (Ptr (Mut ''rawCbs_t''))),
     Fn ''rawWaveGetOOL'' [(''pos'', Scalar C_int)] (Some (Scalar U32)),
     Fn ''rawWaveSetOOL'' [(''pos'', Scalar C_int), (''lVal'', Scalar U32)] None,
     Fn ''rawWaveGetOut'' [(''pos'', Scalar C_int)] (Some (Scalar U32)),
     Fn ''rawWaveSetOut'' [(''pos'', Scalar C_int), (''lVal'', Scalar U32)] None,
     Fn ''rawWaveGetIn'' [(''pos'', Scalar C_int)] (Some (Scalar U32)),
     Fn ''rawWaveSetIn'' [(''pos'', Scalar C_int), (''lVal'', Scalar U32)] None,
     Fn ''rawWaveInfo'' [(''wave_id'', Scalar C_int)] (Some (ty_rawWaveInfo_t)),
     Fn ''getBitInBytes''
       [(''bitPos'', Scalar C_int), (''buf'', Ptr (Mut ''c_char'')),
       (''numBits'', Scalar C_int)] (Some (Scalar C_int)),
     Fn ''putBitInBytes''
       [(''bitPos'', Scalar C_int), (''buf'', Ptr (Mut ''c_char'')),
       (''bit'', Scalar C_int)] None,
     Fn ''time_time'' [] (Some (Scalar F64)),
     Fn ''time_sleep'' [(''seconds'', Scalar F64)] None,
     Fn ''rawDumpWave'' [] None,
     Fn ''rawDumpScript'' [(''script_id'', Scalar C_uint)] None]"

definition pigpio_fns :: "fn_sig list" where
  "pigpio_fns = gpio_fns @ wave_fns @ i2c_fns @ bus_fns @ event_fns @ misc_fns @ file_fns @ cfg_fns @ raw_fns"

lemmas callback_defs = ty_gpioAlertFunc_t_def ty_gpioAlertFuncEx_t_def ty_gpioISRFunc_t_def
  ty_gpioISRFuncEx_t_def ty_gpioGetSamplesFunc_t_def ty_gpioGetSamplesFuncEx_t_def
  ty_gpioTimerFunc_t_def ty_gpioTimerFuncEx_t_def ty_gpioThreadFunc_t_def ty_gpioSignalFunc_t_def
  ty_gpioSignalFuncEx_t_def ty_eventFunc_t_def ty_eventFuncEx_t_def

lemmas fn_defs = gpio_fns_def wave_fns_def i2c_fns_def bus_fns_def event_fns_def
  misc_fns_def file_fns_def cfg_fns_def raw_fns_def

end
