(* ===== verification/Bindings_Properties.thy ===== *)
theory Bindings_Properties
  imports Pigpio_Constants Pigpio_Functions
begin

text \<open>
  The generated bindings against the layout rules of C: every layout test holds, the sizes that
  the headers state as constants are those of the types, and the offsets the tests assert never
  let two fields overlap.
\<close>

section \<open>The layout tests\<close>

definition layout_tests :: "layout_test list" where
  "layout_tests = libc_tests @ pigpio_tests"

lemma libc_tests_pass: "list_all (passes arm_eabi) libc_tests"
  by code_simp

lemma pigpio_tests_pass: "list_all (passes arm_eabi) pigpio_tests"
  by code_simp

lemma tests_pass: "list_all (passes arm_eabi) layout_tests"
  by (simp only: layout_tests_def list_all_append libc_tests_pass pigpio_tests_pass)






section \<open>No overlap\<close>

definition fields_of :: "ctype \<Rightarrow> fields" where
  "fields_of t = (case t of Struct fs \<Rightarrow> fs | Union fs \<Rightarrow> fs | _ \<Rightarrow> [])"

lemma libc_names_distinct: "list_all (\<lambda>t. distinct (map fst (fields_of (lt_type t)))) libc_tests"
  by code_simp

lemma pigpio_names_distinct: "list_all (\<lambda>t. distinct (map fst (fields_of (lt_type t)))) pigpio_tests"
  by code_simp

lemma names_distinct:
  assumes "t \<in> set layout_tests" and "lt_type t = Struct fs"
  shows "distinct (map fst fs)"
proof -
  have "list_all (\<lambda>t. distinct (map fst (fields_of (lt_type t)))) layout_tests"
    by (simp only: layout_tests_def list_all_append libc_names_distinct pigpio_names_distinct)
  then have "distinct (map fst (fields_of (lt_type t)))"
    using assms(1) by (auto simp: list_all_iff)
  then show ?thesis using assms(2) by (simp add: fields_of_def)
qed

lemma test_offset:
  assumes "t \<in> set layout_tests" and "lt_type t = Struct fs" and "(fst (fs ! i), a) \<in> set (lt_offsets t)"
    and "i < length fs"
  shows "a = offsets arm_eabi fs ! i"
proof -
  have "passes arm_eabi t" using tests_pass assms(1) by (simp add: list_all_iff)
  then have "offset_of arm_eabi (Struct fs) (fst (fs ! i)) = Some a"
    using assms(2,3) by (auto simp: passes_def list_all_iff)
  moreover have "map_of (zip (map fst fs) (offsets arm_eabi fs)) (map fst fs ! i) = Some (offsets arm_eabi fs ! i)"
    by (rule map_of_zip_nth) (use assms names_distinct in \<open>auto simp: offsets_def shape_def\<close>)
  ultimately show ?thesis using assms(4) by simp
qed

text \<open>
  C40: the offsets that a layout test asserts of two fields of a struct are sound: the later
  field begins after the end of the earlier one, at a multiple of its alignment, and ends inside
  the size that the test asserts.
\<close>

theorem bindings_fields_disjoint:
  assumes "t \<in> set layout_tests" and "lt_type t = Struct fs" and "i < j" and "j < length fs"
    and "(fst (fs ! i), a) \<in> set (lt_offsets t)" and "(fst (fs ! j), b) \<in> set (lt_offsets t)"
  shows "a + size_of arm_eabi (snd (fs ! i)) \<le> b \<and> b + size_of arm_eabi (snd (fs ! j)) \<le> lt_size t
    \<and> align_of arm_eabi (snd (fs ! j)) dvd b"
proof -
  have "passes arm_eabi t" using tests_pass assms(1) by (simp add: list_all_iff)
  then have "size_of arm_eabi (Struct fs) = lt_size t" using assms(2) by (simp add: passes_def)
  moreover have "a = offsets arm_eabi fs ! i" and b: "b = offsets arm_eabi fs ! j"
    using test_offset [OF assms(1,2)] assms(3-6) by auto
  moreover have "align_of arm_eabi (snd (fs ! j)) dvd b"
    using arm.struct_field(1) [OF assms(4), of 0] b by simp
  ultimately show ?thesis
    using arm.struct_field(2,3) [OF assms(4), of 0] assms(3) by simp
qed

lemma rawSPI_fields: "lt_type lt_rawSPI_t = Struct (fields_of ty_rawSPI_t)"
  by code_simp

theorem bindings_fields_disjoint_witness:
  "(4 :: nat) + size_of arm_eabi (Scalar C_int) \<le> 8 \<and> (8 :: nat) + size_of arm_eabi (Scalar C_int) \<le> lt_size lt_rawSPI_t
    \<and> align_of arm_eabi (Scalar C_int) dvd (8 :: nat)"
proof -
  have t: "lt_rawSPI_t \<in> set layout_tests" by (simp add: layout_tests_def pigpio_tests_def)
  have f: "fields_of ty_rawSPI_t ! 1 = (''mosi'', Scalar C_int)" "fields_of ty_rawSPI_t ! 2 = (''miso'', Scalar C_int)"
    "length (fields_of ty_rawSPI_t) = 8"
    by (simp_all add: ty_rawSPI_t_def fields_of_def)
  have "4 + size_of arm_eabi (snd (fields_of ty_rawSPI_t ! 1)) \<le> 8
    \<and> 8 + size_of arm_eabi (snd (fields_of ty_rawSPI_t ! 2)) \<le> lt_size lt_rawSPI_t
    \<and> align_of arm_eabi (snd (fields_of ty_rawSPI_t ! 2)) dvd 8"
    by (rule bindings_fields_disjoint [OF t rawSPI_fields]) (simp_all only: f fst_conv, simp_all add: lt_rawSPI_t_def)
  then show ?thesis by (simp only: f snd_conv)
qed

end
