(* ===== verification/Foreign_Calls.thy ===== *)
theory Foreign_Calls
  imports Pigpio_Constants Pigpio_Functions Pigpio_Mock
begin

text \<open>
  The calls of the wrapper against the two modules it can be linked with: the bindings
  (\<open>pigpio-sys\<close>) and the mock (\<open>pigpio-rust/src/mock.rs\<close>). Each call is typed as its call
  site writes it, and checked against the signature that the module declares.
\<close>

section \<open>Types of the calls\<close>








section \<open>The functions of the mock\<close>









end
