(* ===== verification/Iodin_Proto.thy ===== *)
theory Iodin_Proto
  imports Iodin_Error
begin

text \<open>
  The messages of \<open>protobuf/iodin.proto\<close>. Their Rust code is generated at build time and
  the crate \<open>protobuf\<close> that encodes them is not in the repository, so the coding is the
  parameter \<open>C\<close>: functions on an input and an output stream of unknown types.
\<close>

datatype command = Cmd_INVALID | MDB_OPEN | MDB_RESET | MDB_TX | STOP

record request =
  rq_version :: u32
  rq_command :: command
  rq_timeout :: u32
  rq_arg_uint :: u32
  rq_arg_bytes :: "u8 list"

datatype status = St_INVALID | St_OK | ERR_INPUT | ERR_INTERNAL | ERR_CHECKSUM | ERR_TIMEOUT | ERR_HARDWARE

record response_msg =
  rs_version :: u32
  rs_status :: status
  rs_error :: string
  rs_data_bytes :: "u8 list"

text \<open>\<open>Request::new()\<close> and \<open>Response::new()\<close>: the proto3 defaults.\<close>

definition new_request :: request where
  "new_request = \<lparr>rq_version = 0, rq_command = Cmd_INVALID, rq_timeout = 0, rq_arg_uint = 0,
     rq_arg_bytes = []\<rparr>"

definition new_response :: response_msg where
  "new_response = \<lparr>rs_version = 0, rs_status = St_INVALID, rs_error = '''', rs_data_bytes = []\<rparr>"

record ('i, 'o) codec =
  cd_read_fixed32 :: "'i \<Rightarrow> (proto_error + u32) \<times> 'i"
  cd_push_limit :: "u64 \<Rightarrow> 'i \<Rightarrow> (proto_error + u64) \<times> 'i"
  cd_merge_from :: "request \<Rightarrow> 'i \<Rightarrow> (proto_error + unit) \<times> request \<times> 'i"
  cd_pop_limit :: "u64 \<Rightarrow> 'i \<Rightarrow> 'i"
  cd_compute_size :: "response_msg \<Rightarrow> u32"
  cd_write_fixed32 :: "u32 \<Rightarrow> 'o \<Rightarrow> (proto_error + unit) \<times> 'o"
  cd_write_to :: "response_msg \<Rightarrow> 'o \<Rightarrow> (proto_error + unit) \<times> 'o"
  cd_flush :: "'o \<Rightarrow> (proto_error + unit) \<times> 'o"

end
