(* ===== verification/Server.thy ===== *)
theory Server
  imports Mdb Iodin_Proto
begin

text \<open>
  The daemon's request loop, \<open>cmd/iodin/src/server.rs\<close>. The handler \<open>exec\<close> uses four
  operations of the driver (its constructor, its destructor, \<open>bus_reset\<close> and \<open>tx\<close>); they
  are the record \<open>driver\<close>, and \<open>gpio_driver\<close> gives it the operations of \<open>GpioMdb\<close>.
\<close>

unbundle bit_operations_syntax

section \<open>The driver the server calls\<close>

record ('s, 'm) driver =
  drv_new :: "u16 \<Rightarrow> u16 \<Rightarrow> ('s, error, 'm) prog"
  drv_drop :: "'m \<Rightarrow> ('s, error, unit) prog"
  drv_bus_reset :: "'m \<Rightarrow> duration \<Rightarrow> ('s, error, unit) prog"
  drv_tx :: "'m \<Rightarrow> u8 list \<Rightarrow> u8 list \<Rightarrow> nat \<Rightarrow> duration \<Rightarrow> ('s, error, (error + unit) \<times> 'm \<times> u8 list) prog"

text \<open>
  \<open>m.tx(request, &mut response, timeout)\<close>: the driver and the response vector are
  borrowed for the call and keep what it wrote, also when it fails.
\<close>

definition lend ::
  "('d mdb_world, error, unit) prog \<Rightarrow> gpio_mdb \<Rightarrow> u8 list
     \<Rightarrow> (('d, 'z) world_scheme, error, (error + unit) \<times> gpio_mdb \<times> u8 list) prog" where
  "lend p m vec = (\<lambda>w.
     case p \<lparr>dev = dev w, ffi_log = ffi_log w, wait_step_var = wait_step_var w,
             stack_junk = stack_junk w, debug_on = debug_on w, mself = m, response = vec\<rparr> of
       None \<Rightarrow> None
     | Some (r, t) \<Rightarrow>
         Some ((case r of
                  Ok u \<Rightarrow> Ok (Inr u, mself t, response t)
                | Err e \<Rightarrow> Ok (Inl e, mself t, response t)
                | Panic q \<Rightarrow> Panic q),
               w\<lparr>dev := dev t, ffi_log := ffi_log t\<rparr>))"

definition gpio_driver :: "'d pigpio \<Rightarrow> (('d, 'z) world_scheme, gpio_mdb) driver" where
  "gpio_driver P = \<lparr>
     drv_new = gpio_mdb_new P,
     drv_drop = gpio_mdb_drop P,
     drv_bus_reset = bus_reset P,
     drv_tx = (\<lambda>m request vec cap timeout. lend (gpio_mdb_tx P request cap timeout) m vec)\<rparr>"

section \<open>State\<close>

definition MDB_TIMEOUT :: duration where
  "MDB_TIMEOUT = from_millis 300"

record 'm server =
  mdb :: "'m option"
  mock :: bool
  running :: bool

text \<open>The world with the server and the response message that \<open>exec\<close> is given.\<close>

record ('d, 'm) server_world = "'d world" +
  srv :: "'m server"
  resp :: response_msg

definition set_resp :: "status \<Rightarrow> string \<Rightarrow> ('d, 'm, 'z) server_world_scheme \<Rightarrow> ('d, 'm, 'z) server_world_scheme" where
  "set_resp st e w = w\<lparr>resp := (resp w)\<lparr>rs_status := st, rs_error := e\<rparr>\<rparr>"

definition set_ok :: "('d, 'm, 'z) server_world_scheme \<Rightarrow> ('d, 'm, 'z) server_world_scheme" where
  "set_ok w = w\<lparr>resp := (resp w)\<lparr>rs_status := St_OK\<rparr>\<rparr>"

definition set_mdb :: "'m option \<Rightarrow> ('d, 'm, 'z) server_world_scheme \<Rightarrow> ('d, 'm, 'z) server_world_scheme" where
  "set_mdb x w = w\<lparr>srv := (srv w)\<lparr>mdb := x\<rparr>\<rparr>"

definition set_running :: "bool \<Rightarrow> ('d, 'm, 'z) server_world_scheme \<Rightarrow> ('d, 'm, 'z) server_world_scheme" where
  "set_running b w = w\<lparr>srv := (srv w)\<lparr>running := b\<rparr>\<rparr>"

definition append_data :: "u8 list \<Rightarrow> ('d, 'm, 'z) server_world_scheme \<Rightarrow> ('d, 'm, 'z) server_world_scheme" where
  "append_data bs w = w\<lparr>resp := (resp w)\<lparr>rs_data_bytes := rs_data_bytes (resp w) @ bs\<rparr>\<rparr>"

definition server_new :: "'d pigpio \<Rightarrow> bool \<Rightarrow> (('d, 'z) world_scheme, error, 'm server) prog" where
  "server_new P is_mock =
     bindR (if \<not> is_mock then io_q (init P (PI_DISABLE_FIFO_IF P OR PI_DISABLE_SOCK_IF P)) else ret ()) (\<lambda>_.
     ret \<lparr>mdb = None, mock = is_mock, running = False\<rparr>)"

section \<open>exec\<close>

definition reject :: "string \<Rightarrow> (('d, 'm, 'z) server_world_scheme, error, unit) prog" where
  "reject msg = andthen (modify (set_resp ERR_INPUT msg)) (fail (Msg msg))"

definition hardware_failed :: "error \<Rightarrow> (('d, 'm, 'z) server_world_scheme, error, unit) prog" where
  "hardware_failed e = andthen (modify (set_resp ERR_HARDWARE (error_to_string e))) (fail e)"

text \<open>\<open>self.mdb = None\<close>\<close>

definition drop_mdb ::
  "(('d, 'm, 'z) server_world_scheme, 'm) driver \<Rightarrow> (('d, 'm, 'z) server_world_scheme, error, unit) prog" where
  "drop_mdb D = bindR (gets (\<lambda>w. mdb (srv w))) (\<lambda>x.
     andthen (case x of None \<Rightarrow> ret () | Some m \<Rightarrow> drv_drop D m) (modify (set_mdb None)))"

definition exec_open ::
  "(('d, 'm, 'z) server_world_scheme, 'm) driver \<Rightarrow> request \<Rightarrow> (('d, 'm, 'z) server_world_scheme, error, unit) prog" where
  "exec_open D request =
     andthen (drop_mdb D)
     (if length (rq_arg_bytes request) \<noteq> 2 then reject ''invalid arg_bytes''
      else bindR (attempt (drv_new D (ucast (rq_arg_bytes request ! 0)) (ucast (rq_arg_bytes request ! 1)))) (\<lambda>r.
        case r of
          Inr m \<Rightarrow> andthen (modify (set_mdb (Some m))) (modify set_ok)
        | Inl e \<Rightarrow> hardware_failed e))"

definition exec_reset ::
  "(('d, 'm, 'z) server_world_scheme, 'm) driver \<Rightarrow> request \<Rightarrow> (('d, 'm, 'z) server_world_scheme, error, unit) prog" where
  "exec_reset D request =
     bindR (gets (\<lambda>w. mdb (srv w))) (\<lambda>x. case x of
       None \<Rightarrow> reject ''must mdb_open''
     | Some m \<Rightarrow>
         bindR (attempt (drv_bus_reset D m (from_millis (ucast (rq_arg_uint request))))) (\<lambda>r.
         case r of Inl e \<Rightarrow> hardware_failed e | Inr _ \<Rightarrow> modify set_ok))"

definition exec_tx ::
  "(('d, 'm, 'z) server_world_scheme, 'm) driver \<Rightarrow> request \<Rightarrow> (('d, 'm, 'z) server_world_scheme, error, unit) prog" where
  "exec_tx D request =
     bindR (gets srv) (\<lambda>s. case mdb s of
       None \<Rightarrow> reject ''must mdb_open''
     | Some m \<Rightarrow>
         if mock s then
           andthen (modify set_ok) (modify (append_data (rq_arg_bytes request)))
         else
           bindR (drv_tx D m (rq_arg_bytes request) [] BLOCK_MAX_LENGTH MDB_TIMEOUT) (\<lambda>(r, m', vec).
           andthen (modify (set_mdb (Some m')))
           (case r of
              Inl e \<Rightarrow> hardware_failed e
            | Inr _ \<Rightarrow> andthen (modify set_ok) (modify (append_data vec)))))"

text \<open>The arms that fall out of the \<open>match\<close> reach the \<open>assert_ne!\<close>.\<close>

definition exec_end :: "(('d, 'm, 'z) server_world_scheme, error, unit) prog" where
  "exec_end = bindR (gets (\<lambda>w. rs_status (resp w))) (\<lambda>st. assert_that (st \<noteq> St_INVALID))"

definition exec ::
  "(('d, 'm, 'z) server_world_scheme, 'm) driver \<Rightarrow> request \<Rightarrow> (('d, 'm, 'z) server_world_scheme, error, unit) prog" where
  "exec D request = (case rq_command request of
       Cmd_INVALID \<Rightarrow> reject ''invalid command''
     | STOP \<Rightarrow> andthen (modify (set_running False)) (modify set_ok)
     | MDB_OPEN \<Rightarrow> andthen (exec_open D request) exec_end
     | MDB_RESET \<Rightarrow> andthen (exec_reset D request) exec_end
     | MDB_TX \<Rightarrow> andthen (exec_tx D request) exec_end)"

section \<open>run\<close>

record ('d, 'm, 'i, 'o) run_world = "('d, 'm) server_world" +
  ins :: 'i
  outs :: 'o

definition in_op ::
  "('i \<Rightarrow> (proto_error + 'a) \<times> 'i) \<Rightarrow> (('d, 'm, 'i, 'o, 'z) run_world_scheme, error, 'a) prog" where
  "in_op f = (\<lambda>w. case f (ins w) of
       (Inl e, i) \<Rightarrow> Some (Err (Protobuf e), w\<lparr>ins := i\<rparr>)
     | (Inr a, i) \<Rightarrow> Some (Ok a, w\<lparr>ins := i\<rparr>))"

definition out_op ::
  "('o \<Rightarrow> (proto_error + unit) \<times> 'o) \<Rightarrow> (('d, 'm, 'i, 'o, 'z) run_world_scheme, error, unit) prog" where
  "out_op f = (\<lambda>w. case f (outs w) of
       (Inl e, b) \<Rightarrow> Some (Err (Protobuf e), w\<lparr>outs := b\<rparr>)
     | (Inr u, b) \<Rightarrow> Some (Ok u, w\<lparr>outs := b\<rparr>))"

definition merge_request ::
  "('i, 'o) codec \<Rightarrow> (('d, 'm, 'i, 'o, 'z) run_world_scheme, error, (proto_error + unit) \<times> request) prog" where
  "merge_request C = (\<lambda>w. case cd_merge_from C new_request (ins w) of
       (r, q, i) \<Rightarrow> Some (Ok (r, q), w\<lparr>ins := i\<rparr>))"

text \<open>The \<open>match request.merge_from(&mut is)\<close>; a failed \<open>exec\<close> is only logged.\<close>

definition handle_request ::
  "(('d, 'm, 'i, 'o, 'z) run_world_scheme, 'm) driver \<Rightarrow> (proto_error + unit) \<Rightarrow> request
     \<Rightarrow> (('d, 'm, 'i, 'o, 'z) run_world_scheme, error, unit) prog" where
  "handle_request D r request = (case r of
       Inl e \<Rightarrow> modify (set_resp ERR_INPUT (proto_text e))
     | Inr _ \<Rightarrow> bindR (attempt (exec D request) :: (_, error, error + unit) prog) (\<lambda>_. ret ()))"

definition write_response ::
  "('i, 'o) codec \<Rightarrow> (('d, 'm, 'i, 'o, 'z) run_world_scheme, error, unit) prog" where
  "write_response C =
     bindR (gets resp) (\<lambda>rs.
     andthen (out_op (cd_write_fixed32 C (cd_compute_size C rs)))
     (andthen (out_op (cd_write_to C rs))
     (out_op (cd_flush C))))"

definition serve_one ::
  "('i, 'o) codec \<Rightarrow> (('d, 'm, 'i, 'o, 'z) run_world_scheme, 'm) driver
     \<Rightarrow> (('d, 'm, 'i, 'o, 'z) run_world_scheme, error, unit) prog" where
  "serve_one C D =
     andthen (modify (\<lambda>w. w\<lparr>resp := new_response\<rparr>))
     (bindR (in_op (cd_read_fixed32 C)) (\<lambda>msglen.
     bindR (in_op (cd_push_limit C (ucast msglen))) (\<lambda>old_limit.
     bindR (merge_request C) (\<lambda>(r, request).
     andthen (handle_request D r request)
     (andthen (modify (\<lambda>w. w\<lparr>ins := cd_pop_limit C old_limit (ins w)\<rparr>))
     (write_response C))))))"

text \<open>One round of \<open>while self.running\<close>.\<close>

definition run_round ::
  "('i, 'o) codec \<Rightarrow> (('d, 'm, 'i, 'o, 'z) run_world_scheme, 'm) driver \<Rightarrow> unit
     \<Rightarrow> (('d, 'm, 'i, 'o, 'z) run_world_scheme, error, (unit, unit) flow) prog" where
  "run_round C D _ =
     bindR (gets (\<lambda>w. running (srv w))) (\<lambda>r.
     if r then andthen (serve_one C D) (ret (Continue ())) else ret (Break ()))"

definition server_run ::
  "('i, 'o) codec \<Rightarrow> (('d, 'm, 'i, 'o, 'z) run_world_scheme, 'm) driver
     \<Rightarrow> (('d, 'm, 'i, 'o, 'z) run_world_scheme, error, unit) prog" where
  "server_run C D = andthen (modify (set_running True)) (loopR (run_round C D) ())"

text \<open>The destructor of \<open>Server\<close> drops the driver it holds.\<close>

definition server_drop ::
  "(('d, 'm, 'z) server_world_scheme, 'm) driver \<Rightarrow> (('d, 'm, 'z) server_world_scheme, error, unit) prog" where
  "server_drop D = drop_mdb D"

end
