(* ===== verification/Server_Laws.thy ===== *)
theory Server_Laws
  imports Server Mdb_Transaction
begin

text \<open>
  The interface between the server and its driver: what \<open>exec\<close> relies on of the four
  operations it calls, as the locale \<open>mdb_driver\<close>, and its interpretation on the operations of
  \<open>GpioMdb\<close>. The lemmas on \<open>exec\<close> are proved once, from the laws.
\<close>

section \<open>The contract\<close>

text \<open>
  No operation touches the server or the response message; the destructor always succeeds; a
  driver owns two waves from its constructor to its destructor; \<open>bus_reset\<close> does not panic,
  and the constructor panics only for a wait step that is not a number.
\<close>

locale mdb_driver =
  fixes D :: "(('d, 'm, 'z) server_world_scheme, 'm) driver"
  assumes new_frame: "keeps world.more (drv_new D rx tx)"
    and drop_frame: "keeps world.more (drv_drop D m)"
    and reset_frame: "keeps world.more (drv_bus_reset D m d)"
    and tx_frame: "keeps world.more (drv_tx D m request vec cap d)"
    and drop_ok: "drv_drop D m w = Some (r, w') \<Longrightarrow> r = Ok ()"
    and tx_value: "errs (drv_tx D m request vec cap d) (\<lambda>_. False)"
    and new_waves: "adds live_waves (drv_new D rx tx) 2 0"
    and drop_waves: "adds live_waves (drv_drop D m) (-2) (-2)"
    and reset_waves: "adds live_waves (drv_bus_reset D m d) 0 0"
    and tx_waves: "adds live_waves (drv_tx D m request vec cap d) 0 0"
    and new_panics: "panics (drv_new D rx tx) (\<lambda>p. p = Expect_Failed)"
    and reset_panics: "panics (drv_bus_reset D m d) (\<lambda>_. False)"

section \<open>\<open>GpioMdb\<close> keeps it\<close>

lemma lend_run:
  assumes "p \<lparr>dev = dev w, ffi_log = ffi_log w, wait_step_var = wait_step_var w,
             stack_junk = stack_junk w, debug_on = debug_on w, mself = m, response = vec\<rparr> = Some (r, t)"
  shows "lend p m vec w = Some (case r of
       Ok u \<Rightarrow> Ok (Inr u, mself t, response t) | Err e \<Rightarrow> Ok (Inl e, mself t, response t) | Panic q \<Rightarrow> Panic q,
     w\<lparr>dev := dev t, ffi_log := ffi_log t\<rparr>)"
  using assms by (simp add: lend_def)

lemma lend_cases:
  assumes "lend p m vec w = Some (r, w')"
  obtains r0 t where "p \<lparr>dev = dev w, ffi_log = ffi_log w, wait_step_var = wait_step_var w,
             stack_junk = stack_junk w, debug_on = debug_on w, mself = m, response = vec\<rparr> = Some (r0, t)"
    and "w' = w\<lparr>dev := dev t, ffi_log := ffi_log t\<rparr>"
    and "r = (case r0 of Ok u \<Rightarrow> Ok (Inr u, mself t, response t)
       | Err e \<Rightarrow> Ok (Inl e, mself t, response t) | Panic q \<Rightarrow> Panic q)"
  using assms by (auto simp: lend_def split: option.splits prod.splits)

lemma keeps_lend: "keeps world.more (lend p m vec)"
  by (rule keepsI) (auto elim!: lend_cases)

lemma errs_lend: "errs (lend p m vec) E"
  by (rule errsI) (auto elim!: lend_cases split: outcome.splits)

lemma adds_lend: "adds live_waves p 0 0 \<Longrightarrow> adds live_waves (lend p m vec) 0 0"
  by (rule addsI) (auto elim!: lend_cases dest!: addsD simp: live_waves_def split: outcome.splits)

interpretation gpio: mdb_driver "gpio_driver P" for P :: "'d pigpio"
proof
  fix rx tx m request vec cap d and w w' and r
  show "keeps world.more (drv_new (gpio_driver P) rx tx)"
    by (simp add: gpio_driver_def keeps_gpio_mdb_new_more)
  show "keeps world.more (drv_drop (gpio_driver P) m)"
    by (simp add: gpio_driver_def keeps_gpio_mdb_drop_more)
  show "keeps world.more (drv_bus_reset (gpio_driver P) m d)"
    by (simp add: gpio_driver_def keeps_bus_reset)
  show "keeps world.more (drv_tx (gpio_driver P) m request vec cap d)"
    by (simp add: gpio_driver_def keeps_lend)
  show "r = Ok ()" if "drv_drop (gpio_driver P) m w = Some (r, w')"
    using that by (simp add: gpio_driver_def gpio_mdb_drop_Ok)
  show "errs (drv_tx (gpio_driver P) m request vec cap d) (\<lambda>_. False)"
    by (simp add: gpio_driver_def errs_lend)
  show "adds live_waves (drv_new (gpio_driver P) rx tx) 2 0"
    by (simp add: gpio_driver_def adds_gpio_mdb_new)
  show "adds live_waves (drv_drop (gpio_driver P) m) (-2) (-2)"
    by (simp add: gpio_driver_def adds_gpio_mdb_drop)
  show "adds live_waves (drv_bus_reset (gpio_driver P) m d) 0 0"
    by (simp add: gpio_driver_def adds_keeps keeps_bus_reset)
  show "adds live_waves (drv_tx (gpio_driver P) m request vec cap d) 0 0"
    by (simp add: gpio_driver_def adds_lend adds_gpio_mdb_tx)
  show "panics (drv_new (gpio_driver P) rx tx) (\<lambda>p. p = Expect_Failed)"
    by (simp add: gpio_driver_def panics_gpio_mdb_new)
  show "panics (drv_bus_reset (gpio_driver P) m d) (\<lambda>_. False)"
    by (simp add: gpio_driver_def panics_bus_reset)
qed

section \<open>The abstract server\<close>

text \<open>
  What a client sees of \<open>exec\<close>: whether a driver is open and whether the loop goes on. Which
  requests fail on the hardware is up to the bus.
\<close>

record phase =
  opened :: bool
  active :: bool

definition phase_of :: "'m server \<Rightarrow> phase" where
  "phase_of s = \<lparr>opened = (mdb s \<noteq> None), active = running s\<rparr>"

inductive exec_step :: "bool \<Rightarrow> phase \<Rightarrow> request \<Rightarrow> status \<Rightarrow> phase \<Rightarrow> bool" for is_mock where
  invalid: "rq_command q = Cmd_INVALID \<Longrightarrow> exec_step is_mock p q ERR_INPUT p"
| stop: "rq_command q = STOP \<Longrightarrow> exec_step is_mock p q St_OK (p\<lparr>active := False\<rparr>)"
| open_args: "rq_command q = MDB_OPEN \<Longrightarrow> length (rq_arg_bytes q) \<noteq> 2 \<Longrightarrow>
    exec_step is_mock p q ERR_INPUT (p\<lparr>opened := False\<rparr>)"
| open_ok: "rq_command q = MDB_OPEN \<Longrightarrow> length (rq_arg_bytes q) = 2 \<Longrightarrow>
    exec_step is_mock p q St_OK (p\<lparr>opened := True\<rparr>)"
| open_failed: "rq_command q = MDB_OPEN \<Longrightarrow> length (rq_arg_bytes q) = 2 \<Longrightarrow>
    exec_step is_mock p q ERR_HARDWARE (p\<lparr>opened := False\<rparr>)"
| closed: "rq_command q \<in> {MDB_RESET, MDB_TX} \<Longrightarrow> \<not> opened p \<Longrightarrow> exec_step is_mock p q ERR_INPUT p"
| bus_ok: "rq_command q \<in> {MDB_RESET, MDB_TX} \<Longrightarrow> opened p \<Longrightarrow> exec_step is_mock p q St_OK p"
| bus_failed: "rq_command q \<in> {MDB_RESET, MDB_TX} \<Longrightarrow> opened p \<Longrightarrow> \<not> (is_mock \<and> rq_command q = MDB_TX) \<Longrightarrow>
    exec_step is_mock p q ERR_HARDWARE p"

inductive_cases exec_step_elim: "exec_step is_mock p q st p'"

section \<open>Every branch of exec\<close>

lemma more_srv: "world.more w' = world.more w \<Longrightarrow> srv w' = srv w \<and> resp w' = resp w"
  by (cases w; cases w') simp

lemma set_world_simps [simp]:
  "srv (set_resp st e w) = srv w" "resp (set_resp st e w) = (resp w)\<lparr>rs_status := st, rs_error := e\<rparr>"
  "srv (set_ok w) = srv w" "resp (set_ok w) = (resp w)\<lparr>rs_status := St_OK\<rparr>"
  "srv (set_mdb x w) = (srv w)\<lparr>mdb := x\<rparr>" "resp (set_mdb x w) = resp w"
  "srv (set_running b w) = (srv w)\<lparr>running := b\<rparr>" "resp (set_running b w) = resp w"
  "srv (append_data bs w) = srv w"
  "resp (append_data bs w) = (resp w)\<lparr>rs_data_bytes := rs_data_bytes (resp w) @ bs\<rparr>"
  by (simp_all add: set_resp_def set_ok_def set_mdb_def set_running_def append_data_def)

lemma phase_of_simps [simp]:
  "opened (phase_of s) \<longleftrightarrow> mdb s \<noteq> None" "active (phase_of s) = running s"
  "phase_of (s\<lparr>mdb := None\<rparr>) = (phase_of s)\<lparr>opened := False\<rparr>"
  "phase_of (s\<lparr>mdb := Some m\<rparr>) = (phase_of s)\<lparr>opened := True\<rparr>"
  "phase_of (s\<lparr>running := b\<rparr>) = (phase_of s)\<lparr>active := b\<rparr>"
  by (simp_all add: phase_of_def)

lemma phase_open: "mdb s = Some m \<Longrightarrow> (phase_of s)\<lparr>opened := True\<rparr> = phase_of s"
  by (simp add: phase_of_def)

text \<open>
  What one request does, given how \<open>exec\<close> ends: the message agrees with the result, the
  state moves by the abstract machine, and the server stays the mock or the real one.
\<close>

definition handled ::
  "request \<Rightarrow> ('d, 'm, 'z) server_world_scheme \<Rightarrow> (error, unit) outcome \<Rightarrow> ('d, 'm, 'z) server_world_scheme \<Rightarrow> bool" where
  "handled q w r w' \<longleftrightarrow> mock (srv w') = mock (srv w) \<and> (case r of
       Ok _ \<Rightarrow> rs_status (resp w') = St_OK \<and> rs_error (resp w') = rs_error (resp w)
         \<and> exec_step (mock (srv w)) (phase_of (srv w)) q St_OK (phase_of (srv w'))
     | Err e \<Rightarrow> rs_status (resp w') \<in> {ERR_INPUT, ERR_HARDWARE} \<and> rs_error (resp w') = error_to_string e
         \<and> rs_data_bytes (resp w') = rs_data_bytes (resp w)
         \<and> exec_step (mock (srv w)) (phase_of (srv w)) q (rs_status (resp w')) (phase_of (srv w'))
     | Panic _ \<Rightarrow> True)"

lemma reject_run:
  "reject msg w = Some (Err (Msg msg), set_resp ERR_INPUT msg w)"
  by (simp add: reject_def run_simps)

lemma hardware_failed_run:
  "hardware_failed e w = Some (Err e, set_resp ERR_HARDWARE (error_to_string e) w)"
  by (simp add: hardware_failed_def run_simps)

lemma exec_end_run:
  "exec_end w = Some (if rs_status (resp w) = St_INVALID then Panic Assert_Failed else Ok (), w)"
  by (simp add: exec_end_def bindR_def gets_def assert_that_def ret_def panic_def)

lemma bind_attempt_cases:
  assumes "bindR (attempt m) k s = Some (r, s')"
  obtains (Ok) a s1 where "m s = Some (Ok a, s1)" "k (Inr a) s1 = Some (r, s')"
  | (Err) e s1 where "m s = Some (Err e, s1)" "k (Inl e) s1 = Some (r, s')"
  | (Panic) p where "m s = Some (Panic p, s')" "r = Panic p"
  using assms by (auto simp: bindR_def attempt_def split: option.splits prod.splits outcome.splits)

text \<open>The two ends of a handler that reached the bus.\<close>

lemma failed_end_run:
  "bindR (hardware_failed e) (\<lambda>_. exec_end) w = Some (Err e, set_resp ERR_HARDWARE (error_to_string e) w)"
  by (simp add: hardware_failed_run bindR_def)

lemma rejected_end_run:
  "bindR (reject msg) (\<lambda>_. exec_end) w = Some (Err (Msg msg), set_resp ERR_INPUT msg w)"
  by (simp add: reject_run bindR_def)

lemma handled_failed:
  assumes "srv w' = srv w" and "resp w' = resp w" and "mock (srv w) = mock (srv v)" and "resp w = resp v"
    and "exec_step (mock (srv v)) (phase_of (srv v)) q ERR_HARDWARE (phase_of (srv w))"
  shows "handled q v (Err e) (set_resp ERR_HARDWARE (error_to_string e) w')"
  using assms by (simp add: handled_def)

context mdb_driver
begin

lemma drop_mdb_run:
  assumes "drop_mdb D w = Some (r, w')"
  shows "r = Ok () \<and> srv w' = (srv w)\<lparr>mdb := None\<rparr> \<and> resp w' = resp w"
proof (cases "mdb (srv w)")
  case None
  with assms show ?thesis by (auto simp: drop_mdb_def run_simps bindR_def gets_def)
next
  case (Some m)
  from assms Some have "andthen (drv_drop D m) (modify (set_mdb None)) w = Some (r, w')"
    by (simp add: drop_mdb_def bindR_def gets_def)
  then show ?thesis
    unfolding andthen_def
  proof (cases rule: bindR_cases)
    case (Ok u w1)
    then show ?thesis by (auto simp: modify_def dest!: keepsD [OF drop_frame] more_srv)
  next
    case (Err e)
    with drop_ok [OF Err(1)] show ?thesis by simp
  next
    case (Panic p)
    with drop_ok [OF Panic(1)] show ?thesis by simp
  qed
qed

lemma exec_open_handled:
  assumes "andthen (exec_open D q) exec_end w = Some (r, w')" and "rq_command q = MDB_OPEN"
  shows "handled q w r w'"
  using assms(1) unfolding andthen_def exec_open_def bindR_assoc
proof (cases rule: bindR_cases)
  case (Ok u w1)
  note d = drop_mdb_run [OF Ok(1)]
  show ?thesis
  proof (cases "length (rq_arg_bytes q) = 2")
    case False
    with Ok(2) d assms(2) show ?thesis
      by (auto simp: rejected_end_run handled_def intro!: exec_step.open_args)
  next
    case True
    let ?new = "drv_new D (ucast (rq_arg_bytes q ! 0)) (ucast (rq_arg_bytes q ! 1))"
    have "bindR (attempt ?new) (\<lambda>x. bindR (case x of Inl e \<Rightarrow> hardware_failed e
        | Inr m \<Rightarrow> bindR (modify (set_mdb (Some m))) (\<lambda>_. modify set_ok)) (\<lambda>_. exec_end)) w1 = Some (r, w')"
      using Ok(2) True by (simp add: andthen_def bindR_assoc)
    then show ?thesis
    proof (cases rule: bind_attempt_cases)
      case (Ok m w2)
      from more_srv [OF keepsD [OF new_frame Ok(1)]] Ok(2) d True assms(2) show ?thesis
        by (auto simp: andthen_def bindR_def modify_def exec_end_run handled_def intro!: exec_step.open_ok)
    next
      case (Err e w2)
      note f = more_srv [OF keepsD [OF new_frame Err(1)]]
      from Err(2) have "r = outcome.Err e" and w': "w' = set_resp ERR_HARDWARE (error_to_string e) w2"
        by (simp_all add: failed_end_run)
      with f d True assms(2) show ?thesis
        by (auto simp: handled_def intro!: exec_step.open_failed)
    next
      case (Panic p)
      from more_srv [OF keepsD [OF new_frame Panic(1)]] Panic(2) d show ?thesis by (simp add: handled_def)
    qed
  qed
qed (auto dest: drop_mdb_run)

lemma exec_reset_handled:
  assumes "andthen (exec_reset D q) exec_end w = Some (r, w')" and "rq_command q = MDB_RESET"
  shows "handled q w r w'"
proof (cases "mdb (srv w)")
  case None
  with assms show ?thesis
    by (auto simp: exec_reset_def andthen_def bindR_assoc bindR_gets rejected_end_run handled_def
        intro!: exec_step.closed)
next
  case (Some m)
  let ?reset = "drv_bus_reset D m (from_millis (ucast (rq_arg_uint q)))"
  have "bindR (attempt ?reset) (\<lambda>x. bindR (case x of Inl e \<Rightarrow> hardware_failed e | Inr _ \<Rightarrow> modify set_ok)
      (\<lambda>_. exec_end)) w = Some (r, w')"
    using assms(1) Some by (simp add: exec_reset_def andthen_def bindR_assoc bindR_gets)
  then show ?thesis
  proof (cases rule: bind_attempt_cases)
    case (Ok u w2)
    from more_srv [OF keepsD [OF reset_frame Ok(1)]] Ok(2) Some assms(2) show ?thesis
      by (auto simp: bindR_def modify_def exec_end_run handled_def intro!: exec_step.bus_ok)
  next
    case (Err e w2)
    from more_srv [OF keepsD [OF reset_frame Err(1)]] Err(2) Some assms(2) show ?thesis
      by (auto simp: failed_end_run handled_def intro!: exec_step.bus_failed)
  next
    case (Panic p)
    from more_srv [OF keepsD [OF reset_frame Panic(1)]] Panic(2) show ?thesis by (simp add: handled_def)
  qed
qed

lemma exec_tx_handled:
  assumes "andthen (exec_tx D q) exec_end w = Some (r, w')" and "rq_command q = MDB_TX"
  shows "handled q w r w'"
proof (cases "mdb (srv w)")
  case None
  with assms show ?thesis
    by (auto simp: exec_tx_def andthen_def bindR_assoc bindR_gets rejected_end_run handled_def
        intro!: exec_step.closed)
next
  case (Some m)
  show ?thesis
  proof (cases "mock (srv w)")
    case True
    with assms Some show ?thesis
      by (auto simp: exec_tx_def andthen_def bindR_def gets_def modify_def exec_end_run handled_def
          intro!: exec_step.bus_ok)
  next
    case False
    let ?tx = "drv_tx D m (rq_arg_bytes q) [] BLOCK_MAX_LENGTH MDB_TIMEOUT"
    have "bindR ?tx (\<lambda>(x, m', vec). bindR (modify (set_mdb (Some m'))) (\<lambda>_.
        bindR (case x of Inl e \<Rightarrow> hardware_failed e | Inr _ \<Rightarrow> andthen (modify set_ok) (modify (append_data vec)))
        (\<lambda>_. exec_end))) w = Some (r, w')"
      using assms(1) Some False
      by (simp add: exec_tx_def andthen_def bindR_assoc bindR_gets case_prod_unfold)
    then show ?thesis
    proof (cases rule: bindR_cases)
      case (Ok a w2)
      obtain x m' vec where a: "a = (x, m', vec)" by (cases a)
      from more_srv [OF keepsD [OF tx_frame Ok(1)]] Ok(2) Some False assms(2) show ?thesis
        by (cases x) (auto simp: a andthen_def bindR_def modify_def exec_end_run hardware_failed_run handled_def phase_open
            intro!: exec_step.bus_ok exec_step.bus_failed)
    next
      case (Err e)
      from errsD [OF tx_value Err(1)] show ?thesis ..
    next
      case (Panic p)
      from more_srv [OF keepsD [OF tx_frame Panic(1)]] Panic(2) show ?thesis by (simp add: handled_def)
    qed
  qed
qed

lemma exec_handled:
  assumes "exec D q w = Some (r, w')"
  shows "handled q w r w'"
proof (cases "rq_command q")
  case Cmd_INVALID
  with assms show ?thesis
    by (auto simp: exec_def reject_run handled_def intro!: exec_step.invalid)
next
  case STOP
  with assms show ?thesis
    by (auto simp: exec_def andthen_def bindR_def modify_def handled_def intro!: exec_step.stop)
qed (use assms in \<open>auto simp: exec_def exec_open_handled exec_reset_handled exec_tx_handled\<close>)

end

section \<open>Waves held by the server\<close>

definition held_waves :: "'m server \<Rightarrow> int" where
  "held_waves s = (case mdb s of None \<Rightarrow> 0 | Some _ \<Rightarrow> 2)"

text \<open>The waves alive that no open driver accounts for.\<close>

definition wave_debt :: "('d, 'm, 'z) server_world_scheme \<Rightarrow> int" where
  "wave_debt w = live_waves w - held_waves (srv w)"

lemma held_waves_simps [simp]:
  "held_waves (s\<lparr>mdb := None\<rparr>) = 0" "held_waves (s\<lparr>mdb := Some m\<rparr>) = 2"
  "held_waves (s\<lparr>running := b\<rparr>) = held_waves s"
  by (simp_all add: held_waves_def)

lemma live_waves_set [simp]:
  "live_waves (set_resp st e w) = live_waves w" "live_waves (set_ok w) = live_waves w"
  "live_waves (set_mdb x w) = live_waves w" "live_waves (set_running b w) = live_waves w"
  "live_waves (append_data bs w) = live_waves w" "live_waves (w\<lparr>resp := rs\<rparr>) = live_waves w"
  "live_waves (w\<lparr>srv := s\<rparr>) = live_waves w"
  by (simp_all add: live_waves_def set_resp_def set_ok_def set_mdb_def set_running_def append_data_def)

lemma wave_debt_set [simp]:
  "wave_debt (set_resp st e w) = wave_debt w" "wave_debt (set_ok w) = wave_debt w"
  "wave_debt (set_running b w) = wave_debt w" "wave_debt (append_data bs w) = wave_debt w"
  "wave_debt (w\<lparr>resp := rs\<rparr>) = wave_debt w"
  by (simp_all add: wave_debt_def)

lemma keeps_debt_replies [keeps_intros]:
  "keeps wave_debt (reject msg)" "keeps wave_debt (hardware_failed e)" "keeps wave_debt exec_end"
  unfolding reject_def hardware_failed_def exec_end_def by (intro keeps_intros; simp)+

context mdb_driver
begin

lemma adds_debt:
  assumes "adds live_waves m n n" and "keeps world.more m" and "m w = Some (r, w')"
  shows "wave_debt w' = wave_debt w + n"
  using addsD [OF assms(1,3)] more_srv [OF keepsD [OF assms(2,3)]]
  by (simp add: wave_debt_def split: outcome.splits)

lemma drop_mdb_live:
  assumes "drop_mdb D w = Some (r, w')"
  shows "live_waves w' = live_waves w - held_waves (srv w)"
proof (cases "mdb (srv w)")
  case None
  with assms show ?thesis by (auto simp: drop_mdb_def bindR_gets run_simps held_waves_def)
next
  case (Some m)
  from assms Some have "bindR (drv_drop D m) (\<lambda>_. modify (set_mdb None)) w = Some (r, w')"
    by (simp add: drop_mdb_def bindR_gets andthen_def)
  then show ?thesis
  proof (cases rule: bindR_cases)
    case (Ok u w1)
    with addsD [OF drop_waves Ok(1)] Some show ?thesis by (auto simp: modify_def held_waves_def)
  next
    case (Err e)
    with drop_ok [OF Err(1)] show ?thesis by simp
  next
    case (Panic p)
    with drop_ok [OF Panic(1)] show ?thesis by simp
  qed
qed

lemma keeps_debt_reset: "keeps wave_debt (exec_reset D q)"
proof -
  have "keeps wave_debt (drv_bus_reset D m d)" for m d
    by (rule keepsI) (use adds_debt [OF reset_waves reset_frame] in simp)
  then show ?thesis unfolding exec_reset_def by (intro keeps_intros) simp_all
qed

lemma keeps_debt_tx: "keeps wave_debt (exec_tx D q)"
proof (rule keepsI)
  fix w r w'
  assume run: "exec_tx D q w = Some (r, w')"
  show "wave_debt w' = wave_debt w"
  proof (cases "mdb (srv w)")
    case None
    with run show ?thesis by (auto simp: exec_tx_def bindR_gets reject_run)
  next
    case (Some m)
    show ?thesis
    proof (cases "mock (srv w)")
      case True
      with run Some show ?thesis by (auto simp: exec_tx_def bindR_gets andthen_def bindR_modify modify_run)
    next
      case False
      let ?tx = "drv_tx D m (rq_arg_bytes q) [] BLOCK_MAX_LENGTH MDB_TIMEOUT"
      from run Some False have "bindR ?tx (\<lambda>(x, m', vec). andthen (modify (set_mdb (Some m')))
          (case x of Inl e \<Rightarrow> hardware_failed e | Inr _ \<Rightarrow> andthen (modify set_ok) (modify (append_data vec)))) w
        = Some (r, w')" by (simp add: exec_tx_def bindR_gets)
      then show ?thesis
      proof (cases rule: bindR_cases)
        case (Ok a w1)
        obtain x m' vec where a: "a = (x, m', vec)" by (cases a)
        have "wave_debt (set_mdb (Some m') w1) = wave_debt w"
          using adds_debt [OF tx_waves tx_frame Ok(1)] more_srv [OF keepsD [OF tx_frame Ok(1)]] Some
          by (simp add: wave_debt_def held_waves_def)
        with Ok(2) show ?thesis
          by (cases x) (auto simp: a andthen_def bindR_modify modify_run hardware_failed_run)
      qed (use adds_debt [OF tx_waves tx_frame] in auto)
    qed
  qed
qed

lemma keeps_debt_open: "keeps wave_debt (exec_open D q)"
proof (rule keepsI)
  fix w r w'
  assume "exec_open D q w = Some (r, w')"
  then show "wave_debt w' = wave_debt w"
    unfolding exec_open_def andthen_def
  proof (cases rule: bindR_cases)
    case (Ok u w1)
    note d = drop_mdb_run [OF Ok(1)] drop_mdb_live [OF Ok(1)]
    show ?thesis
    proof (cases "length (rq_arg_bytes q) = 2")
      case False
      with Ok(2) d show ?thesis by (auto simp: reject_run wave_debt_def)
    next
      case True
      let ?new = "drv_new D (ucast (rq_arg_bytes q ! 0)) (ucast (rq_arg_bytes q ! 1))"
      from Ok(2) True have "bindR (attempt ?new) (\<lambda>x. case x of Inl e \<Rightarrow> hardware_failed e
          | Inr m \<Rightarrow> bindR (modify (set_mdb (Some m))) (\<lambda>_. modify set_ok)) w1 = Some (r, w')" by simp
      then show ?thesis
      proof (cases rule: bind_attempt_cases)
        case (Ok m w2)
        with addsD [OF new_waves Ok(1)] more_srv [OF keepsD [OF new_frame Ok(1)]] d show ?thesis
          by (auto simp: bindR_modify modify_run wave_debt_def)
      next
        case (Err e w2)
        with addsD [OF new_waves Err(1)] more_srv [OF keepsD [OF new_frame Err(1)]] d show ?thesis
          by (auto simp: hardware_failed_run wave_debt_def)
      next
        case (Panic p)
        with addsD [OF new_waves Panic(1)] more_srv [OF keepsD [OF new_frame Panic(1)]] d show ?thesis
          by (auto simp: wave_debt_def)
      qed
    qed
  qed (auto dest: drop_mdb_run)
qed

lemma keeps_debt_exec: "keeps wave_debt (exec D q)"
  unfolding exec_def
  by (cases "rq_command q")
    (auto intro!: keeps_intros keeps_debt_open keeps_debt_reset keeps_debt_tx)

end

section \<open>What exec leaves alone\<close>

lemma keeps_more_server: "keeps world.more m \<Longrightarrow> keeps server_world.more m"
proof (rule keepsI)
  fix w r w'
  assume "keeps world.more m" and "m w = Some (r, w')"
  then have "world.more w' = world.more w" by (rule keepsD)
  then show "server_world.more w' = server_world.more w" by (cases w; cases w') simp
qed

lemma more_set [simp]:
  "server_world.more (set_resp st e w) = server_world.more w" "server_world.more (set_ok w) = server_world.more w"
  "server_world.more (set_mdb x w) = server_world.more w" "server_world.more (set_running b w) = server_world.more w"
  "server_world.more (append_data bs w) = server_world.more w"
  by (simp_all add: set_resp_def set_ok_def set_mdb_def set_running_def append_data_def)

context mdb_driver
begin

lemma keeps_exec_more: "keeps server_world.more (exec D q)"
  unfolding exec_def exec_open_def exec_reset_def exec_tx_def exec_end_def reject_def hardware_failed_def drop_mdb_def
  by (cases "rq_command q")
    (auto intro!: keeps_intros new_frame [THEN keeps_more_server] drop_frame [THEN keeps_more_server]
        reset_frame [THEN keeps_more_server] tx_frame [THEN keeps_more_server])

end

end
