(* ===== verification/Server_Run.thy ===== *)
theory Server_Run
  imports Server_Laws
begin

text \<open>
  The request loop as a whole: what is assumed of the coding of messages, and the refinement
  of \<open>run\<close> to a trace of the abstract server, one response a request.
\<close>

section \<open>The coding of messages\<close>

text \<open>
  What \<open>run\<close> relies on of the crate \<open>protobuf\<close>, on streams of well-formed frames: \<open>reqs\<close> are
  the requests still to be read from an input, \<open>resps\<close> the responses written to an output.
  Reading the length, merging under the limit and popping it consumes exactly one request; at
  the end of the input, reading the length fails; writing and flushing appends one response.
\<close>

definition codec_ok ::
  "('i, 'o) codec \<Rightarrow> ('i \<Rightarrow> request list) \<Rightarrow> ('o \<Rightarrow> response_msg list) \<Rightarrow> bool" where
  "codec_ok C reqs resps \<longleftrightarrow>
     (\<forall>i. reqs i = [] \<longrightarrow> (\<exists>e i'. cd_read_fixed32 C i = (Inl e, i')))
     \<and> (\<forall>i q qs. reqs i = q # qs \<longrightarrow> (\<exists>n i1 old i2 i3. cd_read_fixed32 C i = (Inr n, i1)
          \<and> cd_push_limit C (ucast n) i1 = (Inr old, i2) \<and> cd_merge_from C new_request i2 = (Inr (), q, i3)
          \<and> reqs (cd_pop_limit C old i3) = qs))
     \<and> (\<forall>rs b. \<exists>b1 b2 b3. cd_write_fixed32 C (cd_compute_size C rs) b = (Inr (), b1)
          \<and> cd_write_to C rs b1 = (Inr (), b2) \<and> cd_flush C b2 = (Inr (), b3) \<and> resps b3 = resps b @ [rs])"

lemma codec_eof:
  assumes "codec_ok C reqs resps" and "reqs i = []"
  obtains e i' where "cd_read_fixed32 C i = (Inl e, i')"
  using assms unfolding codec_ok_def by blast

lemma codec_read:
  assumes "codec_ok C reqs resps" and "reqs i = q # qs"
  obtains n i1 old i2 i3 where "cd_read_fixed32 C i = (Inr n, i1)" "cd_push_limit C (ucast n) i1 = (Inr old, i2)"
    "cd_merge_from C new_request i2 = (Inr (), q, i3)" "reqs (cd_pop_limit C old i3) = qs"
  using assms unfolding codec_ok_def by blast

lemma codec_write:
  assumes "codec_ok C reqs resps"
  obtains b1 b2 b3 where "cd_write_fixed32 C (cd_compute_size C rs) b = (Inr (), b1)"
    "cd_write_to C rs b1 = (Inr (), b2)" "cd_flush C b2 = (Inr (), b3)" "resps b3 = resps b @ [rs]"
  using assms unfolding codec_ok_def by blast

text \<open>The streams of the witnesses: a list of requests, a list of responses.\<close>

definition list_codec :: "(request list, response_msg list) codec" where
  "list_codec = \<lparr>
     cd_read_fixed32 = (\<lambda>i. (case i of [] \<Rightarrow> Inl (Proto_Unexpected_Eof ''unexpected EOF'') | _ \<Rightarrow> Inr 0, i)),
     cd_push_limit = (\<lambda>n i. (Inr 0, i)),
     cd_merge_from = (\<lambda>q i. case i of [] \<Rightarrow> (Inl (Proto_Other ''empty''), q, i) | q' # qs \<Rightarrow> (Inr (), q', qs)),
     cd_pop_limit = (\<lambda>_ i. i),
     cd_compute_size = (\<lambda>_. 0),
     cd_write_fixed32 = (\<lambda>_ b. (Inr (), b)),
     cd_write_to = (\<lambda>rs b. (Inr (), b @ [rs])),
     cd_flush = (\<lambda>b. (Inr (), b))\<rparr>"

lemma list_codec_ok: "codec_ok list_codec (\<lambda>i. i) (\<lambda>b. b)"
  by (simp add: codec_ok_def list_codec_def)

section \<open>Traces of the abstract server\<close>

text \<open>Requests are taken one after the other as long as the server is active.\<close>

inductive serve_trace :: "bool \<Rightarrow> phase \<Rightarrow> request list \<Rightarrow> status list \<Rightarrow> phase \<Rightarrow> bool" for is_mock where
  trace_nil: "serve_trace is_mock p [] [] p"
| trace_cons: "active p \<Longrightarrow> exec_step is_mock p q st p1 \<Longrightarrow> serve_trace is_mock p1 qs sts p2 \<Longrightarrow>
    serve_trace is_mock p (q # qs) (st # sts) p2"

inductive_simps serve_trace_Nil [simp]: "serve_trace is_mock p [] sts p'"
inductive_simps serve_trace_Cons: "serve_trace is_mock p (q # qs) sts p'"

lemma serve_trace_length: "serve_trace is_mock p qs sts p' \<Longrightarrow> length sts = length qs"
  by (induction rule: serve_trace.induct) simp_all

lemma exec_step_active: "exec_step is_mock p q st p' \<Longrightarrow> active p' \<longleftrightarrow> active p \<and> rq_command q \<noteq> STOP"
  by (induction rule: exec_step.induct) auto

lemma serve_trace_active:
  "serve_trace is_mock p qs sts p' \<Longrightarrow> active p' \<longleftrightarrow> active p \<and> (\<forall>q \<in> set qs. rq_command q \<noteq> STOP)"
  by (induction rule: serve_trace.induct) (auto simp: exec_step_active)

text \<open>A request is served on the bus only after a driver was opened, and not closed since.\<close>

lemma exec_step_bus_ok:
  "exec_step is_mock p q St_OK p' \<Longrightarrow> rq_command q \<in> {MDB_RESET, MDB_TX} \<Longrightarrow> opened p"
  by (cases rule: exec_step.cases) auto

lemma exec_step_opened:
  "exec_step is_mock p q st p' \<Longrightarrow> opened p' \<Longrightarrow> (rq_command q = MDB_OPEN \<and> st = St_OK) \<or> (rq_command q \<noteq> MDB_OPEN \<and> opened p)"
  by (cases rule: exec_step.cases) auto

lemma serve_trace_bus_ok:
  assumes "serve_trace is_mock p qs sts p'" and "i < length qs" and "rq_command (qs ! i) \<in> {MDB_RESET, MDB_TX}"
    and "sts ! i = St_OK"
  shows "(opened p \<and> (\<forall>l<i. rq_command (qs ! l) \<noteq> MDB_OPEN))
    \<or> (\<exists>j<i. rq_command (qs ! j) = MDB_OPEN \<and> sts ! j = St_OK \<and> (\<forall>l. j < l \<and> l < i \<longrightarrow> rq_command (qs ! l) \<noteq> MDB_OPEN))"
  using assms
proof (induction arbitrary: i rule: serve_trace.induct)
  case (trace_nil p)
  then show ?case by simp
next
  case (trace_cons p q st p1 qs sts p2)
  show ?case
  proof (cases i)
    case 0
    with trace_cons exec_step_bus_ok [of is_mock p q p1] show ?thesis by simp
  next
    case (Suc k)
    with trace_cons have "(opened p1 \<and> (\<forall>l<k. rq_command (qs ! l) \<noteq> MDB_OPEN))
      \<or> (\<exists>j<k. rq_command (qs ! j) = MDB_OPEN \<and> sts ! j = St_OK \<and> (\<forall>l. j < l \<and> l < k \<longrightarrow> rq_command (qs ! l) \<noteq> MDB_OPEN))"
      by auto
    then show ?thesis
    proof
      assume p1: "opened p1 \<and> (\<forall>l<k. rq_command (qs ! l) \<noteq> MDB_OPEN)"
      with exec_step_opened [OF trace_cons(2)] show ?thesis
        unfolding Suc by (auto simp: nth_Cons' less_Suc_eq_0_disj intro!: exI [of _ 0])
    next
      assume "\<exists>j<k. rq_command (qs ! j) = MDB_OPEN \<and> sts ! j = St_OK \<and> (\<forall>l. j < l \<and> l < k \<longrightarrow> rq_command (qs ! l) \<noteq> MDB_OPEN)"
      then obtain j where "j < k" "rq_command (qs ! j) = MDB_OPEN" "sts ! j = St_OK"
        "\<forall>l. j < l \<and> l < k \<longrightarrow> rq_command (qs ! l) \<noteq> MDB_OPEN" by blast
      then have "Suc j < i \<and> rq_command ((q # qs) ! Suc j) = MDB_OPEN \<and> (st # sts) ! Suc j = St_OK
          \<and> (\<forall>l. Suc j < l \<and> l < i \<longrightarrow> rq_command ((q # qs) ! l) \<noteq> MDB_OPEN)"
        unfolding Suc by (auto simp: nth_Cons split: nat.splits)
      then show ?thesis by blast
    qed
  qed
qed

section \<open>One request\<close>

lemma in_op_run:
  "f (ins w) = (Inl e, i) \<Longrightarrow> in_op f w = Some (Err (Protobuf e), w\<lparr>ins := i\<rparr>)"
  "f (ins w) = (Inr a, i) \<Longrightarrow> in_op f w = Some (Ok a, w\<lparr>ins := i\<rparr>)"
  by (simp_all add: in_op_def)

lemma out_op_run:
  "f (outs w) = (Inl e, b) \<Longrightarrow> out_op f w = Some (Err (Protobuf e), w\<lparr>outs := b\<rparr>)"
  "f (outs w) = (Inr u, b) \<Longrightarrow> out_op f w = Some (Ok u, w\<lparr>outs := b\<rparr>)"
  by (simp_all add: out_op_def)

lemma write_response_run:
  assumes "codec_ok C reqs resps"
  shows "\<exists>b. write_response C w = Some (Ok (), w\<lparr>outs := b\<rparr>) \<and> resps b = resps (outs w) @ [resp w]"
proof -
  obtain b1 b2 b3 where b: "cd_write_fixed32 C (cd_compute_size C (resp w)) (outs w) = (Inr (), b1)"
    "cd_write_to C (resp w) b1 = (Inr (), b2)" "cd_flush C b2 = (Inr (), b3)" "resps b3 = resps (outs w) @ [resp w]"
    by (rule codec_write [OF assms])
  then show ?thesis
    by (intro exI [of _ b3]) (simp add: write_response_def andthen_def bindR_def gets_run out_op_def)
qed

lemma more_run: "server_world.more w' = server_world.more w \<Longrightarrow> ins w' = ins w \<and> outs w' = outs w"
  by (cases w; cases w') simp

text \<open>The world in which \<open>exec\<close> is called, after the request was read.\<close>

lemma serve_one_run:
  assumes "codec_ok C reqs resps" and "reqs (ins w) = q # qs"
  obtains i old where "serve_one C D w = bindR (attempt (exec D q) :: (_, error, error + unit) prog) (\<lambda>_.
      andthen (modify (\<lambda>w. w\<lparr>ins := cd_pop_limit C old (ins w)\<rparr>)) (write_response C))
      (w\<lparr>resp := new_response, ins := i\<rparr>)"
    and "reqs (cd_pop_limit C old i) = qs"
proof -
  obtain n i1 old i2 i3 where r: "cd_read_fixed32 C (ins w) = (Inr n, i1)" "cd_push_limit C (ucast n) i1 = (Inr old, i2)"
    "cd_merge_from C new_request i2 = (Inr (), q, i3)" "reqs (cd_pop_limit C old i3) = qs"
    by (rule codec_read [OF assms])
  have "serve_one C D w = bindR (attempt (exec D q) :: (_, error, error + unit) prog) (\<lambda>_.
      andthen (modify (\<lambda>w. w\<lparr>ins := cd_pop_limit C old (ins w)\<rparr>)) (write_response C))
      (w\<lparr>resp := new_response, ins := i3\<rparr>)"
    unfolding serve_one_def andthen_def bindR_modify
    apply (rule bindR_step, rule in_op_run(2), simp add: r(1))
    apply (rule bindR_step, rule in_op_run(2), simp add: r(2))
    apply (rule bindR_step [where a = "(Inr (), q)" and s' = "w\<lparr>resp := new_response, ins := i3\<rparr>"])
     apply (simp add: merge_request_def r(3))
    apply (simp add: handle_request_def bindR_assoc)
    done
  with r(4) that show ?thesis by blast
qed

text \<open>How one round of the loop ends: with one response more, or with the panic of \<open>exec\<close>.\<close>

definition served ::
  "('i \<Rightarrow> request list) \<Rightarrow> ('o \<Rightarrow> response_msg list) \<Rightarrow> request \<Rightarrow> request list
     \<Rightarrow> ('d, 'm, 'i, 'o, 'z) run_world_scheme \<Rightarrow> (error, unit) outcome \<Rightarrow> ('d, 'm, 'i, 'o, 'z) run_world_scheme \<Rightarrow> bool" where
  "served reqs resps q qs w r w' \<longleftrightarrow> mock (srv w') = mock (srv w) \<and> (case r of
       Ok _ \<Rightarrow> reqs (ins w') = qs \<and> (\<exists>rs. resps (outs w') = resps (outs w) @ [rs]
         \<and> exec_step (mock (srv w)) (phase_of (srv w)) q (rs_status rs) (phase_of (srv w')))
     | Err _ \<Rightarrow> False
     | Panic _ \<Rightarrow> resps (outs w') = resps (outs w))"

lemma serve_one_served:
  assumes drv: "mdb_driver D" and codec: "codec_ok C reqs resps" and q: "reqs (ins w) = q # qs"
    and run: "serve_one C D w = Some (r, w')"
  shows "served reqs resps q qs w r w'"
proof -
  obtain i old where eq: "serve_one C D w = bindR (attempt (exec D q) :: (_, error, error + unit) prog) (\<lambda>_.
      andthen (modify (\<lambda>w. w\<lparr>ins := cd_pop_limit C old (ins w)\<rparr>)) (write_response C))
      (w\<lparr>resp := new_response, ins := i\<rparr>)"
    and i: "reqs (cd_pop_limit C old i) = qs" by (rule serve_one_run [OF codec q])
  let ?w0 = "w\<lparr>resp := new_response, ins := i\<rparr>"
  note handled = mdb_driver.exec_handled [OF drv] and more = keepsD [OF mdb_driver.keeps_exec_more [OF drv], THEN more_run]
  have finish: "served reqs resps q qs w r w'"
    if h: "handled q ?w0 r0 w1" and st: "\<forall>p. r0 \<noteq> Panic p" and m: "ins w1 = i \<and> outs w1 = outs w"
      and k: "andthen (modify (\<lambda>w. w\<lparr>ins := cd_pop_limit C old (ins w)\<rparr>)) (write_response C) w1 = Some (r, w')" for r0 w1
  proof -
    let ?w2 = "w1\<lparr>ins := cd_pop_limit C old (ins w1)\<rparr>"
    obtain b where "write_response C ?w2 = Some (Ok (), ?w2\<lparr>outs := b\<rparr>)" and "resps b = resps (outs ?w2) @ [resp ?w2]"
      using write_response_run [OF codec] by blast
    with k have "r = Ok ()" and "w' = ?w2\<lparr>outs := b\<rparr>" and "resps b = resps (outs w) @ [resp w1]"
      using m by (simp_all add: andthen_def bindR_modify)
    with h st m i show ?thesis by (cases r0) (auto simp: served_def handled_def)
  qed
  from run [unfolded eq] show ?thesis
  proof (cases rule: bind_attempt_cases)
    case (Ok a w1)
    from finish [OF handled [OF Ok(1)] _ _ Ok(2)] more [OF Ok(1)] show ?thesis by simp
  next
    case (Err e w1)
    from finish [OF handled [OF Err(1)] _ _ Err(2)] more [OF Err(1)] show ?thesis by simp
  next
    case (Panic p)
    from handled [OF Panic(1)] more [OF Panic(1)] Panic(2) show ?thesis by (simp add: served_def handled_def)
  qed
qed

lemma serve_one_eof:
  assumes "codec_ok C reqs resps" and "reqs (ins w) = []"
  shows "\<exists>e w'. serve_one C D w = Some (Err (Protobuf e), w') \<and> srv w' = srv w \<and> outs w' = outs w"
proof -
  obtain e i where "cd_read_fixed32 C (ins w) = (Inl e, i)" by (rule codec_eof [OF assms])
  then show ?thesis
    by (simp add: serve_one_def andthen_def bindR_def modify_run in_op_def)
qed

section \<open>The loop\<close>

definition run_post ::
  "('i \<Rightarrow> request list) \<Rightarrow> ('o \<Rightarrow> response_msg list)
     \<Rightarrow> ('d, 'm, 'i, 'o, 'z) run_world_scheme \<Rightarrow> (error, unit) outcome \<Rightarrow> ('d, 'm, 'i, 'o, 'z) run_world_scheme \<Rightarrow> bool" where
  "run_post reqs resps w r w' \<longleftrightarrow> (\<exists>front rest rsps p.
     reqs (ins w) = front @ rest \<and> resps (outs w') = resps (outs w) @ rsps
     \<and> serve_trace (mock (srv w)) (phase_of (srv w)) front (map rs_status rsps) p
     \<and> (case r of
          Ok _ \<Rightarrow> p = phase_of (srv w') \<and> \<not> active p
        | Err e \<Rightarrow> p = phase_of (srv w') \<and> active p \<and> rest = [] \<and> (\<exists>x. e = Protobuf x)
        | Panic _ \<Rightarrow> active p \<and> rest \<noteq> []))"

lemma run_post_first:
  assumes "resps (outs w') = resps (outs w)"
    and "case r of
          Ok _ \<Rightarrow> phase_of (srv w) = phase_of (srv w') \<and> \<not> running (srv w)
        | Err e \<Rightarrow> phase_of (srv w) = phase_of (srv w') \<and> running (srv w) \<and> reqs (ins w) = [] \<and> (\<exists>x. e = Protobuf x)
        | Panic _ \<Rightarrow> running (srv w) \<and> reqs (ins w) \<noteq> []"
  shows "run_post reqs resps w r w'"
  unfolding run_post_def
  by (rule exI [of _ "[]"], rule exI [of _ "reqs (ins w)"], rule exI [of _ "[]"], rule exI [of _ "phase_of (srv w)"])
    (use assms in \<open>auto split: outcome.splits\<close>)

lemma run_post_cons:
  assumes "served reqs resps q qs w (Ok u) w1" and "reqs (ins w) = q # qs" and "running (srv w)"
    and "run_post reqs resps w1 r w'"
  shows "run_post reqs resps w r w'"
proof -
  from assms(1) obtain rs where 1: "mock (srv w1) = mock (srv w)" "reqs (ins w1) = qs"
    "resps (outs w1) = resps (outs w) @ [rs]"
    "exec_step (mock (srv w)) (phase_of (srv w)) q (rs_status rs) (phase_of (srv w1))"
    by (auto simp: served_def)
  from assms(4) obtain front rest rsps p where 2: "reqs (ins w1) = front @ rest"
    "resps (outs w') = resps (outs w1) @ rsps"
    "serve_trace (mock (srv w1)) (phase_of (srv w1)) front (map rs_status rsps) p"
    "case r of
          Ok _ \<Rightarrow> p = phase_of (srv w') \<and> \<not> active p
        | Err e \<Rightarrow> p = phase_of (srv w') \<and> active p \<and> rest = [] \<and> (\<exists>x. e = Protobuf x)
        | Panic _ \<Rightarrow> active p \<and> rest \<noteq> []"
    by (auto simp: run_post_def)
  have "serve_trace (mock (srv w)) (phase_of (srv w)) (q # front) (map rs_status (rs # rsps)) p"
    using 1 2 assms(3) by (auto intro: trace_cons)
  moreover have "reqs (ins w) = (q # front) @ rest" and "resps (outs w') = resps (outs w) @ (rs # rsps)"
    using 1 2 assms(2) by simp_all
  ultimately show ?thesis using 2(4) unfolding run_post_def by blast
qed

lemma run_round_stop: "\<not> running (srv w) \<Longrightarrow> run_round C D c w = Some (Ok (Break ()), w)"
  by (simp add: run_round_def bindR_gets ret_run)

lemma run_round_go:
  assumes "run_round C D c w = Some (r, w')" and "running (srv w)"
  obtains (Ok) u where "serve_one C D w = Some (Ok u, w')" "r = Ok (Continue ())"
  | (Err) e where "serve_one C D w = Some (Err e, w')" "r = Err e"
  | (Panic) p where "serve_one C D w = Some (Panic p, w')" "r = Panic p"
proof -
  from assms have "bindR (serve_one C D) (\<lambda>_. ret (Continue ())) w = Some (r, w')"
    by (simp add: run_round_def bindR_gets andthen_def)
  then show ?thesis
    by (cases rule: bindR_cases) (auto simp: ret_def intro: that)
qed

lemma run_loop_post:
  assumes drv: "mdb_driver D" and codec: "codec_ok C reqs resps"
    and "loopR (run_round C D) () w = Some (r, w')"
  shows "run_post reqs resps w r w'"
  using assms(3)
proof (induction rule: loopR_induct)
  case (Break c w a w')
  show ?case
  proof (cases "running (srv w)")
    case True
    from Break True show ?thesis by (cases rule: run_round_go) auto
  next
    case False
    have "run_post reqs resps w (outcome.Ok ()) w" by (rule run_post_first) (use False in simp_all)
    with Break run_round_stop [OF False, of C D c] show ?thesis by simp
  qed
next
  case (Err c w e w')
  have run: "running (srv w)" using run_round_stop [of w C D c] Err by auto
  from Err run have one: "serve_one C D w = Some (outcome.Err e, w')" by (cases rule: run_round_go) auto
  show ?case
  proof (cases "reqs (ins w)")
    case Nil
    from serve_one_eof [OF codec Nil, of D] one run Nil show ?thesis
      by (intro run_post_first) auto
  next
    case (Cons q qs)
    from serve_one_served [OF drv codec Cons one] show ?thesis by (simp add: served_def)
  qed
next
  case (Panic c w x w')
  have run: "running (srv w)" using run_round_stop [of w C D c] Panic by auto
  from Panic run have one: "serve_one C D w = Some (outcome.Panic x, w')" by (cases rule: run_round_go) auto
  show ?case
  proof (cases "reqs (ins w)")
    case Nil
    from serve_one_eof [OF codec Nil, of D] one show ?thesis by auto
  next
    case (Cons q qs)
    from serve_one_served [OF drv codec Cons one] Cons run show ?thesis
      by (intro run_post_first) (auto simp: served_def)
  qed
next
  case (Continue c w c' w1 r w')
  have run: "running (srv w)" using run_round_stop [of w C D c] Continue(1) by auto
  from Continue(1) run have one: "serve_one C D w = Some (Ok (), w1)" by (cases rule: run_round_go) auto
  show ?case
  proof (cases "reqs (ins w)")
    case Nil
    from serve_one_eof [OF codec Nil, of D] one show ?thesis by auto
  next
    case (Cons q qs)
    from run_post_cons [OF serve_one_served [OF drv codec Cons one] Cons run Continue(2)] show ?thesis .
  qed
qed

lemma server_run_loop:
  "server_run C D w = loopR (run_round C D) () (set_running True w)"
  by (simp add: server_run_def andthen_def bindR_modify)

section \<open>Termination of the loop\<close>

lemma returns_in_op [returns_intros]: "returns (in_op f)"
  by (auto simp: returns_def in_op_def split: prod.splits sum.splits)

lemma returns_out_op [returns_intros]: "returns (out_op f)"
  by (auto simp: returns_def out_op_def split: prod.splits sum.splits)

lemma returns_merge [returns_intros]: "returns (merge_request C)"
  by (auto simp: returns_def merge_request_def split: prod.splits)

lemma returns_write_response [returns_intros]: "returns (write_response C)"
  unfolding write_response_def by (intro returns_intros)

lemma returns_prod [returns_intros]: "(\<And>a b. returns (m a b)) \<Longrightarrow> returns (case x of (a, b) \<Rightarrow> m a b)"
  by (cases x) simp

lemma returns_sum [returns_intros]:
  "(\<And>a. returns (m a)) \<Longrightarrow> (\<And>b. returns (k b)) \<Longrightarrow> returns (case x of Inl a \<Rightarrow> m a | Inr b \<Rightarrow> k b)"
  by (cases x) simp_all

lemma returns_serve_one:
  "(\<And>q. returns (exec D q)) \<Longrightarrow> returns (serve_one C D)"
  unfolding serve_one_def handle_request_def by (intro returns_intros) simp_all

text \<open>Each round takes one request off the input, so the loop ends, at the latest at its end.\<close>

lemma server_run_returns:
  assumes "mdb_driver D" and "codec_ok C reqs resps" and "\<And>q. returns (exec D q)"
  shows "\<exists>r w'. server_run C D w = Some (r, w')"
  unfolding server_run_loop
proof (rule loopR_returns [where I = "\<lambda>_ _. True" and \<mu> = "\<lambda>_ w. length (reqs (ins w))"])
  have "returns (run_round C D c)" for c
    unfolding run_round_def by (intro returns_intros returns_serve_one assms(3))
  then show "run_round C D c w \<noteq> None" for c w by (simp add: returns_def)
  fix c c' and w w' :: "('a, 'b, 'c, 'd, 'e) run_world_scheme"
  assume step: "run_round C D c w = Some (Ok (Continue c'), w')"
  have run: "running (srv w)" using run_round_stop [of w C D c] step by auto
  from step run have one: "serve_one C D w = Some (Ok (), w')" by (cases rule: run_round_go) auto
  show "True \<and> length (reqs (ins w')) < length (reqs (ins w))"
  proof (cases "reqs (ins w)")
    case Nil
    from serve_one_eof [OF assms(2) Nil, of D] one show ?thesis by auto
  next
    case (Cons q qs)
    from serve_one_served [OF assms(1,2) Cons one] Cons show ?thesis by (simp add: served_def)
  qed
qed simp

section \<open>Waves over the whole run\<close>

lemma wave_debt_streams [simp]:
  "wave_debt (w\<lparr>ins := i\<rparr>) = wave_debt w" "wave_debt (w\<lparr>outs := b\<rparr>) = wave_debt w"
  by (simp_all add: wave_debt_def live_waves_def)

lemma keeps_debt_in_op [keeps_intros]: "keeps wave_debt (in_op f)"
  by (auto simp: keeps_def in_op_def split: prod.splits sum.splits)

lemma keeps_debt_out_op [keeps_intros]: "keeps wave_debt (out_op f)"
  by (auto simp: keeps_def out_op_def split: prod.splits sum.splits)

lemma keeps_debt_merge [keeps_intros]: "keeps wave_debt (merge_request C)"
  by (auto simp: keeps_def merge_request_def split: prod.splits)

lemma keeps_debt_write [keeps_intros]: "keeps wave_debt (write_response C)"
  unfolding write_response_def by (intro keeps_intros)

lemma keeps_debt_serve_one: "mdb_driver D \<Longrightarrow> keeps wave_debt (serve_one C D)"
  unfolding serve_one_def handle_request_def
  by (intro keeps_intros mdb_driver.keeps_debt_exec) simp_all

lemma keeps_debt_run: "mdb_driver D \<Longrightarrow> keeps wave_debt (server_run C D)"
  unfolding server_run_def run_round_def
  by (intro keeps_intros keeps_debt_serve_one) simp_all

end
