(* ===== verification/Server_Properties.thy ===== *)
theory Server_Properties
  imports Server_Run Bus_Sim
begin

text \<open>
  The properties of \<open>server.rs\<close>: every branch of \<open>exec\<close>, its panics, the waves it holds, and
  the loop \<open>run\<close> as a trace of the abstract server.
\<close>

section \<open>A server for the witnesses\<close>

definition bench_server ::
  "'d \<Rightarrow> gpio_mdb option \<Rightarrow> request list \<Rightarrow> ('d, gpio_mdb, request list, response_msg list) run_world" where
  "bench_server d m qs = \<lparr>dev = d, ffi_log = [], wait_step_var = None, stack_junk = (\<lambda>_. 0), debug_on = False,
     srv = \<lparr>mdb = m, mock = False, running = False\<rparr>, resp = new_response, ins = qs, outs = []\<rparr>"

lemma bench_server_simps [simp]:
  "dev (bench_server d m qs) = d" "ffi_log (bench_server d m qs) = []"
  "srv (bench_server d m qs) = \<lparr>mdb = m, mock = False, running = False\<rparr>" "resp (bench_server d m qs) = new_response"
  "ins (bench_server d m qs) = qs" "outs (bench_server d m qs) = []" "live_waves (bench_server d m qs) = 0"
  by (simp_all add: bench_server_def live_waves_def)

definition stop_request :: request where
  "stop_request = new_request\<lparr>rq_command := STOP\<rparr>"

definition tx_request :: "u8 list \<Rightarrow> request" where
  "tx_request bs = new_request\<lparr>rq_command := MDB_TX, rq_arg_bytes := bs\<rparr>"

lemma request_simps [simp]:
  "rq_command stop_request = STOP" "rq_command (tx_request bs) = MDB_TX" "rq_arg_bytes (tx_request bs) = bs"
  "rq_command new_request = Cmd_INVALID"
  by (simp_all add: stop_request_def tx_request_def new_request_def)

lemma new_response_simps [simp]:
  "rs_status new_response = St_INVALID" "rs_error new_response = ''''" "rs_data_bytes new_response = []"
  by (simp_all add: new_response_def)

section \<open>exec\<close>
















lemma exec_tx_unchecked_run:
  assumes "mdb (srv w) = Some m" and "\<not> mock (srv w)" and "rq_command q = MDB_TX"
    and "rq_arg_bytes q = [] \<or> length (rq_arg_bytes q) \<ge> BLOCK_MAX_LENGTH"
  shows "exec (gpio_driver P) q w = Some (Panic Assert_Failed, w)"
proof -
  have "\<not> tx_args_ok (rq_arg_bytes q) BLOCK_MAX_LENGTH" using assms(4) by (auto simp: tx_args_ok_def)
  then have "drv_tx (gpio_driver P) m (rq_arg_bytes q) [] BLOCK_MAX_LENGTH MDB_TIMEOUT w = Some (Panic Assert_Failed, w)"
    by (simp add: gpio_driver_def lend_def gpio_mdb_tx_rejects)
  with assms(1-3) show ?thesis
    by (simp add: exec_def exec_tx_def andthen_def bindR_assoc bindR_gets bindR_run(3))
qed

text \<open>
  C27: the server hands the bytes of a client to \<open>tx\<close> unchecked: a transaction without bytes,
  or with 40 or more, on an open driver ends in the panic of an assertion.
\<close>

theorem exec_tx_unchecked:
  assumes "mdb (srv w) = Some m" and "\<not> mock (srv w)" and "rq_command q = MDB_TX"
    and "rq_arg_bytes q = [] \<or> length (rq_arg_bytes q) \<ge> BLOCK_MAX_LENGTH"
  shows "exec (gpio_driver P) q w = Some (Panic Assert_Failed, w)"
  by (rule exec_tx_unchecked_run [OF assms])

theorem exec_tx_unchecked_witness:
  "exec (gpio_driver mock_pigpio) (tx_request []) (bench_server () (Some sim_mdb) [])
    = Some (Panic Assert_Failed, bench_server () (Some sim_mdb) [])"
  by (rule exec_tx_unchecked [where m = sim_mdb]) simp_all

text \<open>
  In the mock server a transaction on an open driver is an echo: the response carries the
  bytes of the request, whatever the driver is; nothing is sent.
\<close>

lemma exec_mock_echo:
  assumes "mdb (srv w) = Some m" and "mock (srv w)" and "rq_command q = MDB_TX" and "rs_data_bytes (resp w) = []"
  shows "\<exists>w'. exec D q w = Some (Ok (), w') \<and> rs_status (resp w') = St_OK \<and> rs_data_bytes (resp w') = rq_arg_bytes q
    \<and> srv w' = srv w \<and> ffi_log w' = ffi_log w"
  using assms
  by (simp add: exec_def exec_tx_def andthen_def bindR_assoc bindR_gets bindR_modify exec_end_run append_data_def set_ok_def)

text \<open>
  C28: the server owns exactly the waves of its open driver: if that holds before \<open>exec\<close> it
  holds after, for every request and every outcome; opening a second driver drops the first.
\<close>

theorem exec_wave_invariant:
  assumes "exec (gpio_driver P) q w = Some (r, w')" and "live_waves w = (if mdb (srv w) = None then 0 else 2)"
  shows "live_waves w' = (if mdb (srv w') = None then 0 else 2)"
proof -
  have "held_waves s = (if mdb s = None then 0 else 2)" for s :: "gpio_mdb server"
    by (auto simp: held_waves_def split: option.split)
  with keepsD [OF gpio.keeps_debt_exec assms(1)] assms(2) show ?thesis by (simp add: wave_debt_def)
qed

theorem exec_wave_invariant_witness:
  "live_waves (set_resp ERR_INPUT ''invalid command'' (bench_server () None []))
    = (if mdb (srv (set_resp ERR_INPUT ''invalid command'' (bench_server () None []))) = None then 0 else 2)"
  by (rule exec_wave_invariant [where P = mock_pigpio and q = new_request and w = "bench_server () None []"])
    (simp_all add: exec_def reject_run)

section \<open>run\<close>

text \<open>
  C29: the refinement of \<open>run\<close>. On well-formed frames, whatever way it ends, \<open>run\<close> has taken a
  first part of the requests in order and written exactly one response to each; their statuses
  are a trace of the abstract server from the state at the start. It returns \<open>Ok\<close> exactly when
  the abstract server has become inactive, fails only at the end of the input, and panics only
  inside a further request.
\<close>

theorem server_run_refines:
  assumes "codec_ok C reqs resps" and "server_run C (gpio_driver P) w = Some (r, w')"
  shows "\<exists>front rest rsps p. reqs (ins w) = front @ rest \<and> resps (outs w') = resps (outs w) @ rsps
    \<and> serve_trace (mock (srv w)) ((phase_of (srv w))\<lparr>active := True\<rparr>) front (map rs_status rsps) p
    \<and> (case r of
         Ok _ \<Rightarrow> p = phase_of (srv w') \<and> \<not> active p
       | Err e \<Rightarrow> p = phase_of (srv w') \<and> active p \<and> rest = [] \<and> (\<exists>x. e = Protobuf x)
       | Panic _ \<Rightarrow> active p \<and> rest \<noteq> [])"
  using run_loop_post [OF gpio.mdb_driver_axioms assms(1) assms(2) [unfolded server_run_loop]]
  by (simp add: run_post_def set_running_def)

text \<open>The requests stop at the first STOP.\<close>

lemma run_stop_run:
  assumes "codec_ok C reqs resps" and "reqs (ins w) = q # qs" and "rq_command q = STOP"
  shows "\<exists>w'. server_run C D w = Some (Ok (), w') \<and> reqs (ins w') = qs
    \<and> resps (outs w') = resps (outs w) @ [new_response\<lparr>rs_status := St_OK\<rparr>] \<and> srv w' = (srv w)\<lparr>running := False\<rparr>"
proof -
  let ?w = "set_running True w"
  have "reqs (ins ?w) = q # qs" using assms(2) by (simp add: set_running_def)
  then obtain i old where eq: "serve_one C D ?w = bindR (attempt (exec D q) :: (_, error, error + unit) prog) (\<lambda>_.
      andthen (modify (\<lambda>w. w\<lparr>ins := cd_pop_limit C old (ins w)\<rparr>)) (write_response C))
      (?w\<lparr>resp := new_response, ins := i\<rparr>)"
    and i: "reqs (cd_pop_limit C old i) = qs" by (rule serve_one_run [OF assms(1)])
  let ?w1 = "(set_ok (set_running False (?w\<lparr>resp := new_response, ins := i\<rparr>)))\<lparr>ins := cd_pop_limit C old i\<rparr>"
  obtain b where b: "write_response C ?w1 = Some (Ok (), ?w1\<lparr>outs := b\<rparr>)" "resps b = resps (outs ?w1) @ [resp ?w1]"
    using write_response_run [OF assms(1)] by blast
  have "exec D q v = Some (Ok (), set_ok (set_running False v))" for v
    using assms(3) by (simp add: exec_def andthen_def bindR_modify modify_run)
  then have "serve_one C D ?w = write_response C ?w1"
    unfolding eq by (simp add: attempt_def bindR_def andthen_def modify_run set_ok_def set_running_def)
  with b have one: "serve_one C D ?w = Some (Ok (), ?w1\<lparr>outs := b\<rparr>)" by simp
  have "run_round C D () ?w = Some (Ok (Continue ()), ?w1\<lparr>outs := b\<rparr>)"
    by (simp add: run_round_def bindR_gets set_running_def andthen_def bindR_run(1) one [unfolded set_running_def] ret_run)
  moreover have "run_round C D () (?w1\<lparr>outs := b\<rparr>) = Some (Ok (Break ()), ?w1\<lparr>outs := b\<rparr>)"
    by (rule run_round_stop) (simp add: set_running_def set_ok_def)
  ultimately have "server_run C D w = Some (Ok (), ?w1\<lparr>outs := b\<rparr>)"
    by (simp add: server_run_loop loopR_run)
  then show ?thesis
    using b(2) i by (simp add: set_running_def set_ok_def)
qed

theorem server_run_refines_witness:
  "\<exists>w'. server_run list_codec (gpio_driver mock_pigpio) (bench_server () None [stop_request]) = Some (Ok (), w')
    \<and> (\<exists>front rest rsps p. [stop_request] = front @ rest \<and> outs w' = [] @ rsps
      \<and> serve_trace False \<lparr>opened = False, active = True\<rparr> front (map rs_status rsps) p
      \<and> p = phase_of (srv w') \<and> \<not> active p)"
proof -
  obtain w' where run: "server_run list_codec (gpio_driver mock_pigpio) (bench_server () None [stop_request]) = Some (Ok (), w')"
    using run_stop_run [OF list_codec_ok, of "bench_server () None [stop_request]" stop_request "[]"] by auto
  from run server_run_refines [OF list_codec_ok run] show ?thesis by (simp add: phase_of_def)
qed

text \<open>
  C30: a STOP that is next on the input ends the loop: \<open>run\<close> returns \<open>Ok\<close>, with one response
  of status OK, leaving the rest of the input unread and an open driver open.
\<close>

theorem server_run_stop:
  assumes "codec_ok C reqs resps" and "reqs (ins w) = q # qs" and "rq_command q = STOP"
  shows "\<exists>w'. server_run C D w = Some (Ok (), w') \<and> reqs (ins w') = qs
    \<and> resps (outs w') = resps (outs w) @ [new_response\<lparr>rs_status := St_OK\<rparr>] \<and> srv w' = (srv w)\<lparr>running := False\<rparr>"
  by (rule run_stop_run [OF assms])

theorem server_run_stop_witness:
  "\<exists>w'. server_run list_codec (gpio_driver mock_pigpio) (bench_server () None [stop_request, stop_request]) = Some (Ok (), w')
    \<and> ins w' = [stop_request]
    \<and> outs w' = outs (bench_server () None [stop_request, stop_request]) @ [new_response\<lparr>rs_status := St_OK\<rparr>]
    \<and> srv w' = (srv (bench_server () None [stop_request, stop_request]))\<lparr>running := False\<rparr>"
  by (rule server_run_stop [OF list_codec_ok, where q = stop_request]) simp_all

text \<open>
  C31: on an input without a request \<open>run\<close> fails with the error of the protocol buffer
  library, and writes nothing.
\<close>

theorem server_run_eof:
  assumes "codec_ok C reqs resps" and "reqs (ins w) = []"
  shows "\<exists>e w'. server_run C D w = Some (Err (Protobuf e), w') \<and> outs w' = outs w"
proof -
  have "reqs (ins (set_running True w)) = []" using assms(2) by (simp add: set_running_def)
  from serve_one_eof [OF assms(1) this, of D] obtain e w' where
    one: "serve_one C D (set_running True w) = Some (Err (Protobuf e), w')" "outs w' = outs (set_running True w)" by blast
  then have "run_round C D () (set_running True w) = Some (Err (Protobuf e), w')"
    by (simp add: run_round_def bindR_gets andthen_def bindR_run(2))
  with one(2) show ?thesis by (simp add: server_run_loop loopR_run set_running_def)
qed

theorem server_run_eof_witness:
  "\<exists>e w'. server_run list_codec (gpio_driver mock_pigpio) (bench_server () None []) = Some (Err (Protobuf e), w')
    \<and> outs w' = outs (bench_server () None [])"
  by (rule server_run_eof [OF list_codec_ok]) simp

text \<open>
  C32: in a session that begins without a driver, a reset or a transaction is answered OK only
  if a driver was opened successfully before, and no MDB_OPEN came in between.
\<close>

theorem bus_needs_open:
  assumes "codec_ok C reqs resps" and "server_run C (gpio_driver P) w = Some (r, w')" and "mdb (srv w) = None"
  shows "\<exists>rsps. resps (outs w') = resps (outs w) @ rsps \<and> (\<forall>i < length rsps.
    rq_command (reqs (ins w) ! i) \<in> {MDB_RESET, MDB_TX} \<and> rs_status (rsps ! i) = St_OK \<longrightarrow>
    (\<exists>j < i. rq_command (reqs (ins w) ! j) = MDB_OPEN \<and> rs_status (rsps ! j) = St_OK
       \<and> (\<forall>l. j < l \<and> l < i \<longrightarrow> rq_command (reqs (ins w) ! l) \<noteq> MDB_OPEN)))"
proof -
  from run_loop_post [OF gpio.mdb_driver_axioms assms(1) assms(2) [unfolded server_run_loop]]
  obtain front rest rsps p where qs: "reqs (ins w) = front @ rest" and rs: "resps (outs w') = resps (outs w) @ rsps"
    and trace: "serve_trace (mock (srv w)) (phase_of (srv (set_running True w))) front (map rs_status rsps) p"
    by (auto simp: run_post_def set_running_def)
  have len: "length rsps = length front" using serve_trace_length [OF trace] by simp
  have "\<not> opened (phase_of (srv (set_running True w)))" using assms(3) by simp
  with serve_trace_bus_ok [OF trace] len
  have before: "\<exists>j < i. rq_command (front ! j) = MDB_OPEN \<and> map rs_status rsps ! j = St_OK
      \<and> (\<forall>l. j < l \<and> l < i \<longrightarrow> rq_command (front ! l) \<noteq> MDB_OPEN)"
    if "i < length front" "rq_command (front ! i) \<in> {MDB_RESET, MDB_TX}" "map rs_status rsps ! i = St_OK" for i
    using that by blast
  have front: "reqs (ins w) ! i = front ! i" if "i < length rsps" for i
    using that len by (simp add: qs nth_append)
  show ?thesis
  proof (intro exI [of _ rsps] conjI allI impI)
    fix i
    assume i: "i < length rsps" and bus: "rq_command (reqs (ins w) ! i) \<in> {MDB_RESET, MDB_TX} \<and> rs_status (rsps ! i) = St_OK"
    with before [of i] len front [OF i] obtain j where j: "j < i" "rq_command (front ! j) = MDB_OPEN"
      "map rs_status rsps ! j = St_OK" "\<forall>l. j < l \<and> l < i \<longrightarrow> rq_command (front ! l) \<noteq> MDB_OPEN" by auto
    have "reqs (ins w) ! l = front ! l" if "l \<le> i" for l using front i that by simp
    with i j show "\<exists>j < i. rq_command (reqs (ins w) ! j) = MDB_OPEN \<and> rs_status (rsps ! j) = St_OK
        \<and> (\<forall>l. j < l \<and> l < i \<longrightarrow> rq_command (reqs (ins w) ! l) \<noteq> MDB_OPEN)"
      by (intro exI [of _ j]) simp
  qed (rule rs)
qed

theorem bus_needs_open_witness:
  "\<exists>w'. server_run list_codec (gpio_driver mock_pigpio) (bench_server () None [stop_request]) = Some (Ok (), w')
    \<and> (\<exists>rsps. outs w' = outs (bench_server () None [stop_request]) @ rsps \<and> (\<forall>i < length rsps.
      rq_command (ins (bench_server () None [stop_request]) ! i) \<in> {MDB_RESET, MDB_TX} \<and> rs_status (rsps ! i) = St_OK \<longrightarrow>
      (\<exists>j < i. rq_command (ins (bench_server () None [stop_request]) ! j) = MDB_OPEN \<and> rs_status (rsps ! j) = St_OK
       \<and> (\<forall>l. j < l \<and> l < i \<longrightarrow> rq_command (ins (bench_server () None [stop_request]) ! l) \<noteq> MDB_OPEN))))"
proof -
  obtain w' where run: "server_run list_codec (gpio_driver mock_pigpio) (bench_server () None [stop_request]) = Some (Ok (), w')"
    using run_stop_run [OF list_codec_ok, of "bench_server () None [stop_request]" stop_request "[]"] by auto
  have "mdb (srv (bench_server () None [stop_request])) = None" by simp
  from run bus_needs_open [OF list_codec_ok run this] show ?thesis by blast
qed

end
