(* ===== verification/Mdb_Properties.thy ===== *)
theory Mdb_Properties
  imports Mdb_Progress "HOL-Library.Sublist"
begin

text \<open>
  The other properties of \<open>mdb.rs\<close>: checksum and durations, the life of a driver, the reset
  pulse, the transmission loop, and the termination of the polling loops.
\<close>

section \<open>Pure functions\<close>




text \<open>
  C12: \<open>duration_as_micros32\<close> is exact: it returns the whole number of microseconds of the
  duration when that is below \<open>u32::MAX\<close>, and the overflow error otherwise, for every
  duration and without a panic; and \<open>Duration::from_millis(ms)\<close> has \<open>1000 ms\<close> of them.
\<close>

theorem duration_as_micros32_exact:
  "duration_as_micros32 d s =
     Some (if duration_micros d < 2 ^ 32 - 1 then Ok (of_nat (duration_micros d))
           else Err (Msg ''duration_as_micros32 overflow''), s)
   \<and> duration_micros (from_millis ms) = unat ms * 1000"
  by (simp add: duration_as_micros32_eq duration_from_millis)

section \<open>The life of a driver\<close>

lemma read_wait_step_run:
  "read_wait_step w = Some (case parse_u32 (case wait_step_var w of Some s \<Rightarrow> s | None \<Rightarrow> ''101'') of
     Some n \<Rightarrow> Ok n | None \<Rightarrow> Panic Expect_Failed, w)"
  by (simp add: read_wait_step_def bindR_def gets_def ret_def panic_def split: option.split)

lemma gpio_mdb_new_driver:
  assumes "gpio_mdb_new P rx tx w = Some (Ok m, w')"
  shows "rx_pin m = rx \<and> tx_pin m = tx \<and> length (buf m) = BUF_SIZE
    \<and> Some (wait_step m) = parse_u32 (case wait_step_var w of Some s \<Rightarrow> s | None \<Rightarrow> ''101'')"
  using assms unfolding gpio_mdb_new_def
  by (elim bindR_OkD) (auto simp: read_wait_step_run ret_def split: option.splits)

lemma gpio_mdb_new_panic:
  assumes "gpio_mdb_new P rx tx w = Some (Panic p, w')"
  shows "p = Expect_Failed \<and> w' = w \<and> parse_u32 (case wait_step_var w of Some s \<Rightarrow> s | None \<Rightarrow> ''101'') = None"
proof (cases "parse_u32 (case wait_step_var w of Some s \<Rightarrow> s | None \<Rightarrow> ''101'')")
  case None
  with assms show ?thesis by (simp add: gpio_mdb_new_def bindR_def read_wait_step_run)
next
  case (Some n)
  have "panics (bindR (io_q (check_ffi P (GpioSetMode (ucast rx) (PI_INPUT P)))) (\<lambda>_.
     bindR (io_q (check_ffi P (GpioSetMode (ucast tx) (PI_OUTPUT P)))) (\<lambda>_.
     bindR (io_q (check_ffi P (GpioSerialReadOpen (ucast rx) BAUD DATA_BITS))) (\<lambda>_.
     bindR (io_q (check_ffi P GpioWaveTxStop)) (\<lambda>_.
     bindR (mdb_wave_create P tx [RESPONSE_ACK, 0x00]) (\<lambda>ack.
     bindR (unless_moved (mdb_wave_create P tx [RESPONSE_NAK, 0x00]) (wave_drop P ack)) (\<lambda>nak.
     bindR (gets stack_junk) (\<lambda>junk.
     ret \<lparr>rx_pin = rx, tx_pin = tx, wave_ack = ack, wave_nak = nak, wait_step = n,
          buf = map junk [0..<BUF_SIZE]\<rparr>))))))) :: (('a, 'b) world_scheme, error, gpio_mdb) prog) (\<lambda>_. False)"
    by (intro panics_intros)
  moreover have "read_wait_step w = Some (Ok n, w)" using Some by (simp add: read_wait_step_run)
  ultimately show ?thesis using assms unfolding gpio_mdb_new_def by (auto simp: bindR_run(1) dest: panicsD)
qed

text \<open>
  C13: \<open>GpioMdb::new\<close> ends in one of three ways: it returns a driver with the given pins, the
  configured wait step and a buffer of the right size, holding two waves; or an error, holding
  none; or it panics before any foreign call, exactly when the environment variable is not a
  number.
\<close>

theorem gpio_mdb_new_outcome:
  "\<exists>r w'. gpio_mdb_new P rx tx w = Some (r, w') \<and> (case r of
     Ok m \<Rightarrow> live_waves w' = live_waves w + 2 \<and> rx_pin m = rx \<and> tx_pin m = tx \<and> length (buf m) = BUF_SIZE
       \<and> Some (wait_step m) = parse_u32 (case wait_step_var w of Some s \<Rightarrow> s | None \<Rightarrow> ''101'')
   | Err e \<Rightarrow> live_waves w' = live_waves w
   | Panic p \<Rightarrow> p = Expect_Failed \<and> w' = w
       \<and> parse_u32 (case wait_step_var w of Some s \<Rightarrow> s | None \<Rightarrow> ''101'') = None)"
proof -
  obtain r w' where run: "gpio_mdb_new P rx tx w = Some (r, w')"
    using returnsD [OF returns_driver_ops(1)] by blast
  note bal = addsD [OF adds_gpio_mdb_new run]
  show ?thesis
  proof (cases r)
    case (Ok m)
    with run bal gpio_mdb_new_driver [of P rx tx w m w'] show ?thesis by simp
  next
    case (Err e)
    with run bal show ?thesis by simp
  next
    case (Panic p)
    with run gpio_mdb_new_panic [of P rx tx w p w'] show ?thesis by simp
  qed
qed

text \<open>
  C14: the destructor of a driver always runs to its end, also when closing the port fails, and
  gives both waves back.
\<close>

theorem gpio_mdb_drop_outcome:
  "\<exists>w'. gpio_mdb_drop P m w = Some (Ok (), w') \<and> live_waves w' = live_waves w - 2"
proof -
  obtain r w' where run: "gpio_mdb_drop P m w = Some (r, w')"
    using returnsD [OF returns_driver_ops(3)] by blast
  with gpio_mdb_drop_Ok [OF run] addsD [OF adds_gpio_mdb_drop run] show ?thesis by simp
qed

text \<open>Serial ports opened and not closed again, read off the log.\<close>

definition port_delta :: "event \<Rightarrow> int" where
  "port_delta e = (case ev_call e of
       GpioSerialReadOpen _ _ _ \<Rightarrow> if is_neg (ev_rc e) then 0 else 1
     | GpioSerialReadClose _ \<Rightarrow> if is_neg (ev_rc e) then 0 else -1
     | _ \<Rightarrow> 0)"

definition open_ports :: "('d, 'z) world_scheme \<Rightarrow> int" where
  "open_ports w = sum_list (map port_delta (ffi_log w))"

lemma open_ports_after:
  "open_ports (after P c w) = open_ports w + port_delta \<lparr>ev_call = c, ev_rc = rc_of P c w, ev_bytes = bytes_of P c w\<rparr>"
  by (simp add: open_ports_def)

lemma quiet_open_ports [simp]:
  "(case c of GpioSerialReadOpen _ _ _ \<Rightarrow> False | GpioSerialReadClose _ \<Rightarrow> False | _ \<Rightarrow> True) \<Longrightarrow> quiet P open_ports c"
  by (cases c) (simp_all add: quiet_def open_ports_after port_delta_def)

lemma keeps_open_ports_create [keeps_intros]: "keeps open_ports (mdb_wave_create P pin s)"
  unfolding mdb_wave_create_def new_serial_def by (intro keeps_intros) simp_all

lemma io_q_check_run:
  "io_q (check_ffi P c) w = Some (if is_neg (rc_of P c w)
     then Err (Io_Error \<lparr>io_kind = Other, io_msg = ''pigpio err='' @ show_i32 (rc_of P c w)\<rparr>)
     else Ok (rc_of P c w), after P c w)"
  by (simp add: io_q_def map_err_def check_ffi_run)

text \<open>
  C15: the serial port has no owner before the driver exists: when \<open>GpioMdb::new\<close> fails after
  it opened the port, the port stays open.
\<close>

theorem gpio_mdb_new_failure_leaks_port:
  assumes run: "gpio_mdb_new P rx tx w = Some (Err e, w')"
    and late: "GpioWaveTxStop \<in> set (map ev_call (drop (length (ffi_log w)) (ffi_log w')))"
  shows "open_ports w' = open_ports w + 1"
proof -
  let ?c1 = "GpioSetMode (ucast rx) (PI_INPUT P)" and ?c2 = "GpioSetMode (ucast tx) (PI_OUTPUT P)"
    and ?c3 = "GpioSerialReadOpen (ucast rx) BAUD DATA_BITS"
  let ?w1 = "after P ?c1 w" let ?w2 = "after P ?c2 ?w1" let ?w3 = "after P ?c3 ?w2"
  let ?rest = "\<lambda>step. bindR (io_q (check_ffi P GpioWaveTxStop)) (\<lambda>_.
     bindR (mdb_wave_create P tx [RESPONSE_ACK, 0x00]) (\<lambda>ack.
     bindR (unless_moved (mdb_wave_create P tx [RESPONSE_NAK, 0x00]) (wave_drop P ack)) (\<lambda>nak.
     bindR (gets stack_junk) (\<lambda>junk.
     ret \<lparr>rx_pin = rx, tx_pin = tx, wave_ack = ack, wave_nak = nak, wait_step = step,
          buf = map junk [0..<BUF_SIZE]\<rparr> :: (('a, 'b) world_scheme, error, gpio_mdb) prog))))"
  have rest: "keeps open_ports (?rest step)" for step by (intro keeps_intros) simp_all
  have "\<not> is_neg (rc_of P ?c3 ?w2) \<and> (\<exists>step. ?rest step ?w3 = Some (Err e, w'))"
    using run late by (auto simp: gpio_mdb_new_def bindR_def [of read_wait_step] read_wait_step_run
        bindR_def [of "io_q (check_ffi P ?c1)"] bindR_def [of "io_q (check_ffi P ?c2)"]
        bindR_def [of "io_q (check_ffi P ?c3)"] io_q_check_run split: if_splits option.splits)
  then show ?thesis
    using keepsD [OF rest] by (auto simp: open_ports_after port_delta_def)
qed

definition no_waves :: "gpio_call \<Rightarrow> u32" where
  "no_waves c = (if c = GpioWaveCreate then - 1 else 0)"

lemma no_waves_run:
  "\<exists>e w'. gpio_mdb_new (steady no_waves) 15 14 (bench_world ()) = Some (Err e, w')
    \<and> GpioWaveTxStop \<in> set (map ev_call (drop (length (ffi_log (bench_world ()))) (ffi_log w')))"
proof -
  have parse: "parse_u32 ''101'' = Some 101"
    by (simp add: parse_u32_def digit_val_def Let_def)
  show ?thesis
    by (simp add: gpio_mdb_new_def bindR_def read_wait_step_run parse io_q_check_run no_waves_def
        mdb_wave_create_def new_serial_def io_q_def map_err_def check_ffi_run ret_def)
qed

theorem gpio_mdb_new_failure_leaks_port_witness:
  "\<exists>e w'. gpio_mdb_new (steady no_waves) 15 14 (bench_world ()) = Some (Err e, w')
    \<and> open_ports w' = open_ports (bench_world ()) + 1"
  using no_waves_run gpio_mdb_new_failure_leaks_port by blast

section \<open>The reset pulse\<close>

text \<open>
  C16: \<open>bus_reset\<close> makes at most three foreign calls, in the order high, delay, low: all three
  and none failed when it succeeds; an error comes from the duration, with no call made, from
  the first write, which is then the only call, or from the last; it never panics.
\<close>

theorem bus_reset_pulse:
  "\<exists>r w' ev. bus_reset P m d w = Some (r, w') \<and> ffi_log w' = ffi_log w @ ev
    \<and> prefix (map ev_call ev) [GpioWrite (ucast (tx_pin m)) 1, GpioDelay (of_nat (duration_micros d)), GpioWrite (ucast (tx_pin m)) 0]
    \<and> (case r of
         Ok _ \<Rightarrow> length ev = 3 \<and> duration_micros d < 2 ^ 32 - 1 \<and> \<not> is_neg (ev_rc (ev ! 0)) \<and> \<not> is_neg (ev_rc (ev ! 2))
       | Err e \<Rightarrow> if duration_micros d < 2 ^ 32 - 1 then length ev \<in> {1, 3} \<and> is_neg (ev_rc (last ev)) else ev = []
       | Panic _ \<Rightarrow> False)"
proof (cases "duration_micros d < 2 ^ 32 - 1")
  case True
  then show ?thesis
    by (auto simp: bus_reset_def bindR_def duration_as_micros32_eq io_q_check_run ffi_rc_run ret_def)
next
  case False
  then show ?thesis by (simp add: bus_reset_def bindR_def duration_as_micros32_eq)
qed

section \<open>The polling loops\<close>





text \<open>
  The loop \<open>'receive\<close> returns if, besides, the peripheral has finitely much to say.
\<close>

lemma receive_loop_terminates:
  assumes "finite_feed P now J pending" and "0 < unat (wait_step (mself w))"
    and "unat deadline + unat (wait_step (mself w)) + 3 * J < 2 ^ 32"
  shows "\<exists>r w'. loopR (receive_round P deadline) n w = Some (r, w')"
  by (rule finite_feed.receive_loop_returns [OF assms])






section \<open>The mock platform\<close>

definition mock_error :: error where
  "mock_error = Io_Error \<lparr>io_kind = Other, io_msg = ''pigpio err=-1''\<rparr>"

lemma show_minus_one: "show_i32 (- 1) = ''-1''"
  by code_simp

lemma rc_of_mock [simp]: "rc_of mock_pigpio c w = fst (mock_call c (dev w))"
  by (simp add: rc_of_def)

lemma mock_create: "\<exists>w'. mdb_wave_create mock_pigpio pin s w = Some (Ok (Wave 0), w')"
  by (simp add: mdb_wave_create_def new_serial_def io_q_def map_err_def bindR_def check_ffi_run ret_def)

text \<open>
  C22: on the platforms without the library a driver can be made, but has no bus: resetting
  the bus and every transaction the assertions allow fail with the error of the mock.
\<close>

theorem mock_platform_has_no_bus:
  assumes "tx_args_ok request cap" and "duration_micros d < 2 ^ 32 - 1"
  shows "(\<exists>w'. bus_reset mock_pigpio m d v = Some (Err mock_error, w'))
    \<and> (\<exists>w'. gpio_mdb_tx mock_pigpio request cap d w = Some (Err mock_error, w'))"
proof
  show "\<exists>w'. bus_reset mock_pigpio m d v = Some (Err mock_error, w')"
    using assms(2) by (simp add: bus_reset_def bindR_def duration_as_micros32_eq io_q_check_run show_minus_one mock_error_def)
  have n: "unat (of_nat (length request) :: u32) = length request" and l: "length request < 40"
    using assms(1) by (simp_all add: tx_args_ok_def mdb_consts unat_of_nat take_bit_nat_eq_self)
  then have "3145 * unat (of_nat (length request) :: u32) < 2 ^ 32" by simp
  then have times: "\<exists>a b c e w'. tx_times mock_pigpio request d w1 = Some (Ok (a, b, c, e), w')" for w1
    using assms(2) by (simp add: tx_times_def bindR_def duration_as_micros32_eq run_simps TIMEOUT_CHAR_US_val
        unat_of_nat take_bit_nat_eq_self)
  have transfer: "\<exists>w'. tx_transfer mock_pigpio u request d w1 = Some (Err mock_error, w')" for u w1
    using times [of w1]
    by (auto simp: tx_transfer_times bindR_def gets_def mdb_wave_send_wait_def wave_send_def tick_since_run
        io_q_def map_err_def check_ffi_run show_minus_one mock_error_def)
  obtain w1 where made: "mdb_wave_create mock_pigpio (tx_pin (mself w)) (tx_frame request (buf (mself w)))
      (set_buf (load_request request (buf (mself w))) w) = Some (Ok (Wave 0), w1)"
    using mock_create by blast
  obtain w2 where t: "tx_transfer mock_pigpio (Wave 0) request d w1 = Some (Err mock_error, w2)"
    using transfer by blast
  have "gpio_mdb_tx mock_pigpio request cap d w
      = with_drop (tx_transfer mock_pigpio (Wave 0) request d) (wave_drop mock_pigpio (Wave 0)) w1"
    unfolding gpio_mdb_tx_runs [OF assms(1)] by (rule bindR_step, rule made, rule refl)
  with t show "\<exists>w'. gpio_mdb_tx mock_pigpio request cap d w = Some (Err mock_error, w')"
    by (simp add: with_drop_def wave_drop_def run_simps)
qed

theorem mock_platform_has_no_bus_witness:
  "(\<exists>w'. bus_reset mock_pigpio sim_mdb (from_millis 100) (bench_world ()) = Some (Err mock_error, w'))
    \<and> (\<exists>w'. gpio_mdb_tx mock_pigpio [0x0b] 40 (from_millis 100) (sim_world 0 []) = Some (Err mock_error, w'))"
  by (rule mock_platform_has_no_bus) (simp_all add: tx_args_ok_def mdb_consts duration_from_millis)

end
