(* ===== verification/Iodin_Main.thy ===== *)
theory Iodin_Main
  imports Server
begin

text \<open>
  \<open>cmd/iodin/src/main.rs\<close>: \<open>run\<close> makes the server, lets it serve standard input and output,
  and drops it at the end of the statement; \<open>main\<close> turns the result into the exit status
  (101 is the one Rust gives a process whose main thread panicked).
\<close>

definition main_run ::
  "('i, 'o) codec \<Rightarrow> 'd pigpio \<Rightarrow> (('d, gpio_mdb, 'i, 'o, 'z) run_world_scheme, error, unit) prog" where
  "main_run C P =
     bindR (server_new P False) (\<lambda>s.
     andthen (modify (\<lambda>w. w\<lparr>srv := s\<rparr>))
     (with_drop (server_run C (gpio_driver P)) (server_drop (gpio_driver P))))"

definition exit_status :: "(error, unit) outcome \<Rightarrow> nat" where
  "exit_status r = (case r of Ok _ \<Rightarrow> 0 | Err _ \<Rightarrow> 1 | Panic _ \<Rightarrow> 101)"

definition main ::
  "('i, 'o) codec \<Rightarrow> 'd pigpio \<Rightarrow> ('d, gpio_mdb, 'i, 'o, 'z) run_world_scheme
     \<Rightarrow> (nat \<times> ('d, gpio_mdb, 'i, 'o, 'z) run_world_scheme) option" where
  "main C P w = map_option (\<lambda>(r, w'). (exit_status r, w'))
     (main_run C P (w\<lparr>debug_on := True\<rparr>))"

end
