(* ===== verification/Daemon_Properties.thy ===== *)
theory Daemon_Properties
  imports Server_Properties Mdb_Properties Iodin_Main
begin

text \<open>
  The properties of the daemon as a process: its loop returns, a request that cannot be
  decoded, its exit status, and the waves it leaves behind.
\<close>

section \<open>The loop returns\<close>

lemma returns_lend: "returns p \<Longrightarrow> returns (lend p m vec)"
  by (auto simp: returns_def lend_def simp del: not_None_eq split: option.splits prod.splits)

lemma returns_gpio_exec:
  fixes P :: "'d pigpio"
  assumes "\<And>request. returns (gpio_mdb_tx P request BLOCK_MAX_LENGTH MDB_TIMEOUT :: ('d mdb_world, error, unit) prog)"
  shows "returns (exec (gpio_driver P) q)"
proof -
  have ops: "returns (drv_new (gpio_driver P) rx tx)" "returns (drv_drop (gpio_driver P) m)"
    "returns (drv_bus_reset (gpio_driver P) m d)" for rx tx m d
    by (simp_all add: gpio_driver_def returns_driver_ops)
  have tx: "returns (drv_tx (gpio_driver P) m request vec BLOCK_MAX_LENGTH MDB_TIMEOUT)" for m request vec
    by (simp add: gpio_driver_def returns_lend assms)
  show ?thesis
    unfolding exec_def exec_open_def exec_reset_def exec_tx_def exec_end_def reject_def hardware_failed_def drop_mdb_def
    by (cases "rq_command q") (auto intro!: returns_intros ops tx)
qed

lemma mock_send_fails:
  "\<exists>w'. mdb_wave_send_wait mock_pigpio v dl step err w = Some (Err mock_error, w')"
  by (simp add: mdb_wave_send_wait_def wave_send_def bindR_def tick_since_run io_q_def map_err_def check_ffi_run
      show_minus_one mock_error_def)

lemma mock_send_then:
  "\<exists>w'. bindR (mdb_wave_send_wait mock_pigpio v dl step err) k w = Some (Err mock_error, w')"
  using mock_send_fails [of v dl step err w] by (auto simp: bindR_def)

lemma returns_mock_tx: "returns (gpio_mdb_tx mock_pigpio request cap d)"
proof -
  have times: "returns (tx_times mock_pigpio request d)"
    unfolding tx_times_def by (intro returns_intros)
  have send: "returns (bindR (mdb_wave_send_wait mock_pigpio v dl step err) k)" for v dl step err k
    by (rule returnsI) (use mock_send_then in blast)
  have transfer: "returns (tx_transfer mock_pigpio v request d)" for v
    unfolding tx_transfer_times
    by (rule returns_bindR, rule times, (rule returns_prod)+, rule returns_bindR, rule returns_basic, rule send)
  show ?thesis
    unfolding gpio_mdb_tx_def Let_def by (intro returns_intros transfer)
qed

text \<open>
  C33: \<open>run\<close> returns on every input of well-formed frames, if the transactions of the driver
  do: each round takes a request, and the end of the input is an error.
\<close>

theorem server_run_terminates:
  fixes P :: "'d pigpio"
  assumes "codec_ok C reqs resps"
    and "\<And>request. returns (gpio_mdb_tx P request BLOCK_MAX_LENGTH MDB_TIMEOUT :: ('d mdb_world, error, unit) prog)"
  shows "\<exists>r w'. server_run C (gpio_driver P) w = Some (r, w')"
  by (rule server_run_returns [OF gpio.mdb_driver_axioms assms(1) returns_gpio_exec]) (rule assms(2))

theorem server_run_terminates_witness:
  "\<exists>r w'. server_run list_codec (gpio_driver mock_pigpio) (bench_server () None [tx_request [1], stop_request]) = Some (r, w')"
  by (rule server_run_terminates [OF list_codec_ok]) (rule returns_mock_tx)

section \<open>A request that cannot be decoded\<close>

text \<open>
  C34: when the message of a frame cannot be decoded, the loop answers ERR_INPUT with the text
  of the decoder and goes on, with server and bus untouched; the input is then where the
  decoder stopped, with the limit lifted: the rest of the message is not skipped.
\<close>

theorem undecodable_request:
  assumes "cd_read_fixed32 C (ins w) = (Inr n, i1)" and "cd_push_limit C (ucast n) i1 = (Inr old, i2)"
    and "cd_merge_from C new_request i2 = (Inl e, q, i3)"
    and "rs = new_response\<lparr>rs_status := ERR_INPUT, rs_error := proto_text e\<rparr>"
    and "cd_write_fixed32 C (cd_compute_size C rs) (outs w) = (Inr (), b1)"
    and "cd_write_to C rs b1 = (Inr (), b2)" and "cd_flush C b2 = (Inr (), b3)"
  shows "\<exists>w'. serve_one C D w = Some (Ok (), w') \<and> ins w' = cd_pop_limit C old i3 \<and> outs w' = b3
    \<and> srv w' = srv w \<and> ffi_log w' = ffi_log w"
  using assms
  by (simp add: serve_one_def andthen_def bindR_def modify_run in_op_def merge_request_def handle_request_def
      write_response_def gets_run out_op_def set_resp_def)

definition deaf_codec :: "(request list, response_msg list) codec" where
  "deaf_codec = list_codec\<lparr>cd_merge_from := \<lambda>q i. (Inl (Proto_Other ''bad''), q, i)\<rparr>"

theorem undecodable_request_witness:
  "\<exists>w'. serve_one deaf_codec (gpio_driver mock_pigpio) (bench_server () None [stop_request]) = Some (Ok (), w')
    \<and> ins w' = [stop_request] \<and> outs w' = [new_response\<lparr>rs_status := ERR_INPUT, rs_error := ''bad''\<rparr>]
    \<and> srv w' = srv (bench_server () None [stop_request]) \<and> ffi_log w' = ffi_log (bench_server () None [stop_request])"
proof -
  have "\<exists>w'. serve_one deaf_codec (gpio_driver mock_pigpio) (bench_server () None [stop_request]) = Some (Ok (), w')
    \<and> ins w' = cd_pop_limit deaf_codec 0 [stop_request]
    \<and> outs w' = [new_response\<lparr>rs_status := ERR_INPUT, rs_error := proto_text (Proto_Other ''bad'')\<rparr>]
    \<and> srv w' = srv (bench_server () None [stop_request]) \<and> ffi_log w' = ffi_log (bench_server () None [stop_request])"
    by (rule undecodable_request [where n = 0 and e = "Proto_Other ''bad''"]) (simp_all add: deaf_codec_def list_codec_def)
  then show ?thesis by (simp add: deaf_codec_def list_codec_def)
qed

section \<open>The process\<close>

lemma keeps_server_new:
  "keeps live_waves (server_new P is_mock)" "keeps world.more (server_new P is_mock)"
  unfolding server_new_def by (intro keeps_intros; simp)+

lemma server_new_value: "server_new P is_mock w = Some (Ok s, w') \<Longrightarrow> mdb s = None \<and> running s = False \<and> mock s = is_mock"
  by (auto simp: server_new_def ret_def elim!: bindR_OkD split: if_splits)

lemma panics_server_new: "panics (server_new P is_mock) (\<lambda>_. False)"
  unfolding server_new_def by (intro panics_intros)

text \<open>Inversion of \<open>run\<close> of \<open>main.rs\<close>: the server was not made, or it ran and was dropped.\<close>

lemma main_run_cases:
  fixes w w' :: "('d, gpio_mdb, 'i, 'o, 'z) run_world_scheme"
  assumes "main_run C P w = Some (r, w')"
  obtains (Init) e where "r = Err e" "ins w' = ins w" "outs w' = outs w" "live_waves w' = live_waves w"
  | (Run) s and w1 w2 :: "('d, gpio_mdb, 'i, 'o, 'z) run_world_scheme" where "mdb s = None" "mock s = False" "ins w1 = ins w" "outs w1 = outs w" "live_waves w1 = live_waves w"
    "srv w1 = s" "server_run C (gpio_driver P) w1 = Some (r, w2)" "live_waves w' = live_waves w2 - held_waves (srv w2)"
    "ins w' = ins w2" "outs w' = outs w2"
proof -
  from assms show ?thesis
    unfolding main_run_def
  proof (cases rule: bindR_cases)
    case (Ok s w0)
    note m = more_run [OF keepsD [OF keeps_more_server [OF keeps_server_new(2)] Ok(1)]]
      keepsD [OF keeps_server_new(1) Ok(1)] server_new_value [OF Ok(1)]
    from Ok(2) have "with_drop (server_run C (gpio_driver P)) (server_drop (gpio_driver P)) (w0\<lparr>srv := s\<rparr>) = Some (r, w')"
      by (simp add: andthen_def bindR_modify)
    then obtain w2 q where run: "server_run C (gpio_driver P) (w0\<lparr>srv := s\<rparr>) = Some (r, w2)"
      and drop: "drop_mdb (gpio_driver P) w2 = Some (q, w')" by (auto simp: server_drop_def elim: with_drop_cases)
    have "keeps server_world.more (drop_mdb (gpio_driver P) :: (('d, gpio_mdb, 'i, 'o, 'z) run_world_scheme, error, unit) prog)"
      unfolding drop_mdb_def by (intro keeps_intros gpio.drop_frame [THEN keeps_more_server]) simp_all
    from more_run [OF keepsD [OF this drop]] gpio.drop_mdb_live [OF drop] m run show ?thesis
      by (intro Run [of s "w0\<lparr>srv := s\<rparr>" w2]) simp_all
  next
    case (Err e)
    with more_run [OF keepsD [OF keeps_more_server [OF keeps_server_new(2)] Err(1)]] keepsD [OF keeps_server_new(1) Err(1)]
    show ?thesis by (intro Init) simp_all
  next
    case (Panic p)
    from panicsD [OF panics_server_new Panic(1)] show ?thesis ..
  qed
qed

lemma main_cases:
  fixes w w' :: "('d, gpio_mdb, 'i, 'o, 'z) run_world_scheme"
  assumes "main C P w = Some (code, w')"
  obtains r where "code = exit_status r" "main_run C P (w\<lparr>debug_on := True\<rparr>) = Some (r, w')"
  using assms by (auto simp: main_def)

lemma live_waves_debug [simp]: "live_waves (w\<lparr>debug_on := b\<rparr>) = live_waves w"
  by (simp add: live_waves_def)

text \<open>
  C35: the daemon leaves no wave behind: however the process ends, by STOP, at the end of its
  input, by an error or by a panic, every wave it made is deleted.
\<close>

theorem main_leaves_no_wave:
  assumes "main C P w = Some (code, w')"
  shows "live_waves w' = live_waves w"
proof -
  from assms obtain r where run: "main_run C P (w\<lparr>debug_on := True\<rparr>) = Some (r, w')" by (rule main_cases)
  then show ?thesis
  proof (cases rule: main_run_cases)
    case (Run s w1 w2)
    from keepsD [OF keeps_debt_run [OF gpio.mdb_driver_axioms] Run(7)] Run show ?thesis
      by (simp add: wave_debt_def held_waves_def)
  qed simp
qed

text \<open>The process on a library that answers as the mock does, given a STOP.\<close>

lemma main_stop_gen:
  assumes "pg_call P = mock_call"
  shows "\<exists>w'. main list_codec P (bench_server d None [stop_request]) = Some (0, w')
     \<and> outs w' = [new_response\<lparr>rs_status := St_OK\<rparr>]"
proof -
  let ?w = "(bench_server d None [stop_request])\<lparr>debug_on := True\<rparr>"
  let ?w1 = "after P GpioInitialise (after P (GpioCfgInterfaces (PI_DISABLE_FIFO_IF P OR PI_DISABLE_SOCK_IF P)) ?w)"
  let ?w2 = "?w1\<lparr>srv := \<lparr>mdb = None, mock = False, running = False\<rparr>\<rparr>"
  have mock: "rc_of P c w = fst (mock_call c (dev w))" for c and w :: "('a, 'b) world_scheme"
    by (simp add: rc_of_def assms)
  have same: "ins ?w1 = ins ?w" "outs ?w1 = outs ?w" for w
    by (auto simp: after_def split: prod.splits)
  have new: "server_new P False ?w = Some (Ok \<lparr>mdb = None, mock = False, running = False\<rparr>, ?w1)"
    by (simp add: mock server_new_def init_def bindR_def io_q_def map_err_def check_ffi_run ret_def)
  obtain w3 where run: "server_run list_codec (gpio_driver P) ?w2 = Some (Ok (), w3)"
    "outs w3 = [new_response\<lparr>rs_status := St_OK\<rparr>]" "srv w3 = \<lparr>mdb = None, mock = False, running = False\<rparr>"
    using run_stop_run [OF list_codec_ok, of ?w2 stop_request "[]" "gpio_driver P"] same by auto
  have drop: "server_drop (gpio_driver P) w3 = Some (Ok (), set_mdb None w3)"
    by (simp add: server_drop_def drop_mdb_def bindR_gets run(3) andthen_def modify_run)
  have "main_run list_codec P ?w
      = with_drop (server_run list_codec (gpio_driver P)) (server_drop (gpio_driver P)) ?w2"
    unfolding main_run_def by (rule bindR_step, rule new, simp only: andthen_def bindR_modify)
  also have "\<dots> = Some (Ok (), set_mdb None w3)" by (rule with_drop_run, rule run(1), rule drop)
  finally have "main_run list_codec P ?w = Some (Ok (), set_mdb None w3)" .
  then show ?thesis by (simp add: main_def exit_status_def set_mdb_def run(2))
qed

lemmas main_stop_run = main_stop_gen [of mock_pigpio "()", OF mock_pigpio_simps(1)]

theorem main_leaves_no_wave_witness:
  "\<exists>w'. main list_codec mock_pigpio (bench_server () None [stop_request]) = Some (0, w')
    \<and> live_waves w' = live_waves (bench_server () None [stop_request])"
  using main_stop_run main_leaves_no_wave [where w = "bench_server () None [stop_request]"] by blast

text \<open>
  C36: the exit status tells how the session went: 0 exactly if a STOP was served, 1 if the
  library could not be initialised, with nothing served, or the input ended without one, 101
  if a request was left without a response by a panic. In every case the responses written
  answer, one each, a first part of the requests.
\<close>

theorem main_exit_status:
  assumes "codec_ok C reqs resps" and "main C P w = Some (code, w')"
  shows "\<exists>front rest rsps. reqs (ins w) = front @ rest \<and> resps (outs w') = resps (outs w) @ rsps
    \<and> length rsps = length front \<and> code \<in> {0, 1, 101}
    \<and> (code = 0 \<longleftrightarrow> (\<exists>q \<in> set front. rq_command q = STOP))
    \<and> (code = 1 \<longrightarrow> front = [] \<or> rest = []) \<and> (code = 101 \<longrightarrow> rest \<noteq> [])"
proof -
  from assms(2) obtain r where code: "code = exit_status r"
    and run: "main_run C P (w\<lparr>debug_on := True\<rparr>) = Some (r, w')" by (rule main_cases)
  from run show ?thesis
  proof (cases rule: main_run_cases)
    case (Init e)
    then show ?thesis
      by (intro exI [of _ "[]"] exI [of _ "reqs (ins w)"]) (simp add: code exit_status_def)
  next
    case (Run s w1 w2)
    from run_loop_post [OF gpio.mdb_driver_axioms assms(1) Run(7) [unfolded server_run_loop]]
    obtain front rest rsps p where post: "reqs (ins w1) = front @ rest" "resps (outs w2) = resps (outs w1) @ rsps"
      and trace: "serve_trace (mock (srv (set_running True w1))) (phase_of (srv (set_running True w1))) front (map rs_status rsps) p"
      and fin: "case r of Ok _ \<Rightarrow> p = phase_of (srv w2) \<and> \<not> active p
        | Err e \<Rightarrow> p = phase_of (srv w2) \<and> active p \<and> rest = [] \<and> (\<exists>x. e = Protobuf x)
        | Panic _ \<Rightarrow> active p \<and> rest \<noteq> []"
      by (auto simp: run_post_def set_running_def)
    have "length rsps = length front" using serve_trace_length [OF trace] by simp
    moreover have "active p \<longleftrightarrow> (\<forall>q \<in> set front. rq_command q \<noteq> STOP)"
      using serve_trace_active [OF trace] by simp
    ultimately show ?thesis
      using post fin Run(3,4,9,10)
      by (intro exI [of _ front] exI [of _ rest] exI [of _ rsps]) (auto simp: code exit_status_def split: outcome.splits)
  qed
qed

theorem main_exit_status_witness:
  "\<exists>w'. main list_codec mock_pigpio (bench_server () None [stop_request]) = Some (0, w')
    \<and> (\<exists>front rest rsps. ins (bench_server () None [stop_request]) = front @ rest
      \<and> outs w' = outs (bench_server () None [stop_request]) @ rsps \<and> length rsps = length front \<and> (0 :: nat) \<in> {0, 1, 101}
      \<and> ((0 :: nat) = 0 \<longleftrightarrow> (\<exists>q \<in> set front. rq_command q = STOP))
      \<and> ((0 :: nat) = 1 \<longrightarrow> front = [] \<or> rest = []) \<and> ((0 :: nat) = 101 \<longrightarrow> rest \<noteq> []))"
proof -
  obtain w' where run: "main list_codec mock_pigpio (bench_server () None [stop_request]) = Some (0, w')"
    using main_stop_run by blast
  from run main_exit_status [OF list_codec_ok run] show ?thesis by (intro exI [of _ w'] conjI)
qed

end
