(* ===== verification/Call_Limits.thy ===== *)
theory Call_Limits
  imports Foreign_Calls Daemon_Properties
begin

text \<open>
  The limits that the bindings publish for the arguments of the calls (bauds, data and stop
  bits, characters of a wave, levels, modes), and the proof that no call of the daemon is
  outside them. The numbers of pins are left out: the daemon takes them from its client and
  leaves their check to the library.
\<close>

section \<open>Limits\<close>

definition between :: "string \<Rightarrow> u32 \<Rightarrow> string \<Rightarrow> bool" where
  "between lo v hi \<longleftrightarrow> (case (const_in pi_limits lo, const_in pi_limits hi) of
     (Some a, Some b) \<Rightarrow> a \<le> uint v \<and> uint v \<le> b | _ \<Rightarrow> False)"

fun in_limits :: "gpio_call \<Rightarrow> bool" where
  "in_limits (GpioCfgInterfaces flags) \<longleftrightarrow>
     (case const_in pi_settings ''PI_DISABLE_ALERT'' of Some b \<Rightarrow> uint flags < 2 * b | None \<Rightarrow> False)"
| "in_limits (GpioSetMode _ m) \<longleftrightarrow>
     Some (uint m) \<in> {const_in pi_limits ''PI_INPUT'', const_in pi_limits ''PI_OUTPUT''}"
| "in_limits (GpioWrite _ level) \<longleftrightarrow> between ''PI_LOW'' level ''PI_HIGH''"
| "in_limits (GpioSerialReadOpen _ baud data_bits) \<longleftrightarrow>
     between ''PI_BB_SER_MIN_BAUD'' baud ''PI_BB_SER_MAX_BAUD''
     \<and> between ''PI_MIN_WAVE_DATABITS'' data_bits ''PI_MAX_WAVE_DATABITS''"
| "in_limits (GpioWaveAddSerial _ baud data_bits stop_bits _ n bs) \<longleftrightarrow>
     between ''PI_WAVE_MIN_BAUD'' baud ''PI_WAVE_MAX_BAUD''
     \<and> between ''PI_MIN_WAVE_DATABITS'' data_bits ''PI_MAX_WAVE_DATABITS''
     \<and> between ''PI_MIN_WAVE_HALFSTOPBITS'' stop_bits ''PI_MAX_WAVE_HALFSTOPBITS''
     \<and> unat n = length bs
     \<and> (case const_in pi_limits ''PI_WAVE_MAX_CHARS'' of Some k \<Rightarrow> int (length bs) \<le> k | None \<Rightarrow> False)"
| "in_limits (GpioWaveTxSend _ m) \<longleftrightarrow> Some (uint m) \<in> set (map (const_in pi_modes)
     [''PI_WAVE_MODE_ONE_SHOT'', ''PI_WAVE_MODE_REPEAT'', ''PI_WAVE_MODE_ONE_SHOT_SYNC'', ''PI_WAVE_MODE_REPEAT_SYNC''])"
| "in_limits _ \<longleftrightarrow> True"

text \<open>The values of the limits.\<close>

lemma limit_values:
  "const_in pi_limits ''PI_LOW'' = Some 0" "const_in pi_limits ''PI_HIGH'' = Some 1"
  "const_in pi_limits ''PI_INPUT'' = Some 0" "const_in pi_limits ''PI_OUTPUT'' = Some 1"
  "const_in pi_limits ''PI_BB_SER_MIN_BAUD'' = Some 50" "const_in pi_limits ''PI_BB_SER_MAX_BAUD'' = Some 250000"
  "const_in pi_limits ''PI_WAVE_MIN_BAUD'' = Some 50" "const_in pi_limits ''PI_WAVE_MAX_BAUD'' = Some 1000000"
  "const_in pi_limits ''PI_MIN_WAVE_DATABITS'' = Some 1" "const_in pi_limits ''PI_MAX_WAVE_DATABITS'' = Some 32"
  "const_in pi_limits ''PI_MIN_WAVE_HALFSTOPBITS'' = Some 2" "const_in pi_limits ''PI_MAX_WAVE_HALFSTOPBITS'' = Some 8"
  "const_in pi_limits ''PI_WAVE_MAX_CHARS'' = Some 1200"
  by (simp_all add: const_in_def pi_limits_def)

lemma mode_values:
  "const_in pi_modes ''PI_WAVE_MODE_ONE_SHOT_SYNC'' = Some 2" "const_in pi_settings ''PI_DISABLE_ALERT'' = Some 8"
  "const_in pi_settings ''PI_DISABLE_FIFO_IF'' = Some 1" "const_in pi_settings ''PI_DISABLE_SOCK_IF'' = Some 2"
  by (simp_all add: const_in_def pi_modes_def pi_settings_def)

text \<open>The constants that the model of the Linux library uses are those of the bindings.\<close>

lemma linux_constants:
  "const_in pi_limits ''PI_INPUT'' = Some (uint (PI_INPUT (linux_pigpio f)))"
  "const_in pi_limits ''PI_OUTPUT'' = Some (uint (PI_OUTPUT (linux_pigpio f)))"
  "const_in pi_modes ''PI_WAVE_MODE_ONE_SHOT_SYNC'' = Some (uint (PI_WAVE_MODE_ONE_SHOT_SYNC (linux_pigpio f)))"
  "const_in pi_settings ''PI_DISABLE_FIFO_IF'' = Some (uint (PI_DISABLE_FIFO_IF (linux_pigpio f)))"
  "const_in pi_settings ''PI_DISABLE_SOCK_IF'' = Some (uint (PI_DISABLE_SOCK_IF (linux_pigpio f)))"
  by (simp_all add: limit_values mode_values)

lemma driver_in_limits [simp]:
  "in_limits (GpioCfgInterfaces 3)" "in_limits (GpioSetMode pin 0)" "in_limits (GpioSetMode pin 1)"
  "in_limits (GpioWrite pin 0)" "in_limits (GpioWrite pin 1)" "in_limits (GpioSerialReadOpen pin BAUD DATA_BITS)"
  "in_limits (GpioWaveTxSend v 2)"
  by (simp_all add: between_def limit_values mode_values BAUD_def DATA_BITS_def)


declare in_limits.simps(1-6) [simp del]

section \<open>Calls outside the limits\<close>

definition out_of_limits :: "('d, 'z) world_scheme \<Rightarrow> event list" where
  "out_of_limits w = filter (\<lambda>e. \<not> in_limits (ev_call e)) (ffi_log w)"


lemma out_of_limits_simps [simp]:
  "out_of_limits (w\<lparr>debug_on := b\<rparr>) = out_of_limits w"
  "out_of_limits (set_buf bs v) = out_of_limits v" "out_of_limits (v\<lparr>response := r\<rparr>) = out_of_limits v"
  by (simp_all add: out_of_limits_def set_buf_def)










section \<open>The daemon\<close>



lemma out_of_limits_server [simp]:
  "out_of_limits (set_resp st e w) = out_of_limits w" "out_of_limits (set_ok w) = out_of_limits w"
  "out_of_limits (set_mdb x w) = out_of_limits w" "out_of_limits (set_running b w) = out_of_limits w"
  "out_of_limits (append_data bs w) = out_of_limits w" "out_of_limits (w\<lparr>resp := rs\<rparr>) = out_of_limits w"
  "out_of_limits (w\<lparr>srv := s\<rparr>) = out_of_limits w"
  by (simp_all add: out_of_limits_def set_resp_def set_ok_def set_mdb_def set_running_def append_data_def)

lemma out_of_limits_streams [simp]:
  "out_of_limits (w\<lparr>ins := i\<rparr>) = out_of_limits w" "out_of_limits (w\<lparr>outs := b\<rparr>) = out_of_limits w"
  by (simp_all add: out_of_limits_def)


lemma limits_streams [keeps_intros]:
  "keeps out_of_limits (in_op f)" "keeps out_of_limits (out_op g)" "keeps out_of_limits (merge_request C)"
  by (auto simp: keeps_def in_op_def out_op_def merge_request_def split: prod.splits sum.splits)






end
