(* ===== verification/Bus_Session.thy ===== *)
theory Bus_Session
  imports Daemon_Properties
begin

text \<open>
  The whole daemon on the scripted bus of \<open>Bus_Sim\<close>: a session of MDB_OPEN, any number of
  transactions and STOP, from the requests on standard input to the responses on standard
  output, through the loop, the handler, the driver and the waves.
\<close>

section \<open>What the client sends, and should get\<close>

definition open_request :: "u8 \<Rightarrow> u8 \<Rightarrow> request" where
  "open_request rx tx = new_request\<lparr>rq_command := MDB_OPEN, rq_arg_bytes := [rx, tx]\<rparr>"

lemma open_request_simps [simp]:
  "rq_command (open_request rx tx) = MDB_OPEN" "rq_arg_bytes (open_request rx tx) = [rx, tx]"
  by (simp_all add: open_request_def)




section \<open>The driver on the bus\<close>




lemma server_set_dev [simp]:
  "dev (set_ok w) = dev w" "dev (set_mdb x w) = dev w" "dev (set_resp st err w) = dev w" "dev (append_data bs w) = dev w"
  "dev (set_running b w) = dev w"
  by (simp_all add: set_ok_def set_mdb_def set_resp_def append_data_def set_running_def)




section \<open>The loop on the bus\<close>




section \<open>The process\<close>






end
