(* ===== verification/Iodin_Tests.thy ===== *)
theory Iodin_Tests
  imports Daemon_Properties
begin

text \<open>
  The unit tests of \<open>cmd/iodin/src/main.rs\<close> (module \<open>tests\<close>), as programs of the model, and
  the proof that they pass: on every library, every coding of messages and from every state,
  while the test runner tries one of each.
\<close>

definition unwrap :: "('s, error, 'a) prog \<Rightarrow> ('s, error, 'a) prog" where
  "unwrap m = bindR (attempt m) (\<lambda>r. case r of Inl _ \<Rightarrow> panic Expect_Failed | Inr a \<Rightarrow> ret a)"

text \<open>A mock server and an empty response; the server is dropped at the end of the test.\<close>

definition with_mock_server ::
  "'d pigpio \<Rightarrow> (('d, gpio_mdb, 'z) server_world_scheme, error, unit) prog
     \<Rightarrow> (('d, gpio_mdb, 'z) server_world_scheme, error, unit) prog" where
  "with_mock_server P body =
     bindR (unwrap (server_new P True)) (\<lambda>s.
     andthen (modify (\<lambda>w. w\<lparr>srv := s, resp := new_response\<rparr>))
     (with_drop body (server_drop (gpio_driver P))))"

definition server_exec_zero_invalid_command ::
  "'d pigpio \<Rightarrow> (('d, gpio_mdb, 'z) server_world_scheme, error, unit) prog" where
  "server_exec_zero_invalid_command P = with_mock_server P
     (bindR (attempt (exec (gpio_driver P) new_request)) (\<lambda>r.
      case r of
        Inl e \<Rightarrow> assert_that (error_to_string e = ''invalid command'')
      | Inr _ \<Rightarrow> panic Assert_Failed))"

text \<open>The tests of \<open>run\<close> read the stream \<open>i\<close> and write the stream \<open>b\<close>.\<close>

definition on_streams ::
  "'i \<Rightarrow> 'o \<Rightarrow> (('d, 'm, 'i, 'o, 'z) run_world_scheme, error, 'a) prog
     \<Rightarrow> (('d, 'm, 'i, 'o, 'z) run_world_scheme, error, 'a) prog" where
  "on_streams i b m = andthen (modify (\<lambda>w. w\<lparr>ins := i, outs := b\<rparr>)) m"

definition server_run_eof_test ::
  "('i, 'o) codec \<Rightarrow> 'd pigpio \<Rightarrow> 'i \<Rightarrow> 'o \<Rightarrow> (('d, gpio_mdb, 'i, 'o, 'z) run_world_scheme, error, unit) prog" where
  "server_run_eof_test C P i b = on_streams i b (with_mock_server P
     (bindR (attempt (server_run C (gpio_driver P))) (\<lambda>r.
      case r of
        Inl e \<Rightarrow> assert_that (case e of Protobuf (Proto_Unexpected_Eof _) \<Rightarrow> True | _ \<Rightarrow> False)
      | Inr _ \<Rightarrow> panic Assert_Failed)))"

definition server_run_stop_clean ::
  "('i, 'o) codec \<Rightarrow> 'd pigpio \<Rightarrow> 'i \<Rightarrow> 'o \<Rightarrow> (('d, gpio_mdb, 'i, 'o, 'z) run_world_scheme, error, unit) prog" where
  "server_run_stop_clean C P i b = on_streams i b (with_mock_server P
     (bindR (attempt (server_run C (gpio_driver P))) (\<lambda>r.
      assert_that (case r of Inl _ \<Rightarrow> False | Inr _ \<Rightarrow> True))))"

section \<open>They pass\<close>

lemma mock_server_new: "server_new P True w = Some (Ok \<lparr>mdb = None, mock = True, running = False\<rparr>, w)"
  by (simp add: server_new_def bindR_def ret_def)

text \<open>The body runs on a fresh server; one it leaves without a driver has nothing to drop.\<close>

lemma with_mock_server_run:
  assumes "body (w\<lparr>srv := \<lparr>mdb = None, mock = True, running = False\<rparr>, resp := new_response\<rparr>) = Some (r, w')"
    and "mdb (srv w') = None"
  shows "\<exists>w''. with_mock_server P body w = Some (r, w'')"
proof -
  have drop: "server_drop (gpio_driver P) w' = Some (Ok (), set_mdb None w')"
    by (simp add: server_drop_def drop_mdb_def bindR_gets assms(2) andthen_def modify_run)
  have "with_drop body (server_drop (gpio_driver P))
      (w\<lparr>srv := \<lparr>mdb = None, mock = True, running = False\<rparr>, resp := new_response\<rparr>) = Some (r, set_mdb None w')"
    by (rule with_drop_run, rule assms(1), rule drop)
  then show ?thesis
    by (simp add: with_mock_server_def unwrap_def bindR_def attempt_def mock_server_new ret_def andthen_def modify_def)
qed

lemma test_server_exec_zero_invalid_command:
  "\<exists>w'. server_exec_zero_invalid_command P w = Some (Ok (), w')"
proof -
  let ?w = "w\<lparr>srv := \<lparr>mdb = None, mock = True, running = False\<rparr>, resp := new_response\<rparr>"
  show ?thesis
    unfolding server_exec_zero_invalid_command_def
    by (rule with_mock_server_run [where w' = "set_resp ERR_INPUT ''invalid command'' ?w"])
      (simp_all add: exec_def reject_run bindR_def attempt_def assert_that_def ret_def)
qed

lemma test_server_run_eof:
  assumes "cd_read_fixed32 C i = (Inl (Proto_Unexpected_Eof t), i')"
  shows "\<exists>w'. server_run_eof_test C P i b w = Some (Ok (), w')"
proof -
  let ?w = "w\<lparr>ins := i, outs := b, srv := \<lparr>mdb = None, mock = True, running = False\<rparr>, resp := new_response\<rparr>"
  let ?w1 = "(set_running True ?w)\<lparr>ins := i'\<rparr>"
  have "serve_one C (gpio_driver P) (set_running True ?w) = Some (Err (Protobuf (Proto_Unexpected_Eof t)), ?w1)"
    by (simp add: serve_one_def andthen_def bindR_def modify_def in_op_def assms set_running_def)
  then have "server_run C (gpio_driver P) ?w = Some (Err (Protobuf (Proto_Unexpected_Eof t)), ?w1)"
    unfolding server_run_loop
    by (intro loopR_run(3)) (simp add: run_round_def bindR_gets andthen_def bindR_run)
  then show ?thesis
    unfolding server_run_eof_test_def on_streams_def andthen_def bindR_modify
    by (intro with_mock_server_run [where w' = ?w1])
      (simp_all add: bindR_def attempt_def assert_that_def ret_def set_running_def)
qed

lemma test_server_run_stop_clean:
  assumes "codec_ok C reqs resps" and "reqs i = [stop_request]"
  shows "\<exists>w'. server_run_stop_clean C P i b w = Some (Ok (), w')"
proof -
  let ?w = "w\<lparr>ins := i, outs := b, srv := \<lparr>mdb = None, mock = True, running = False\<rparr>, resp := new_response\<rparr>"
  obtain w' where "server_run C (gpio_driver P) ?w = Some (Ok (), w')" "srv w' = (srv ?w)\<lparr>running := False\<rparr>"
    using run_stop_run [OF assms(1), of ?w stop_request "[]" "gpio_driver P"] assms(2) by auto
  then show ?thesis
    unfolding server_run_stop_clean_def on_streams_def andthen_def bindR_modify
    by (intro with_mock_server_run [where w' = w'])
      (simp_all add: bindR_def attempt_def assert_that_def ret_def)
qed

end
