(* ===== verification/Spec2Isabelle.thy ===== *)
theory Spec2Isabelle
  imports Pigpio_Wait Tx_Properties Tx_Termination Bindings_Properties Call_Limits Bus_Session
    Iodin_Tests
begin

text \<open>
  Verification of the Rust part of the vending machine controller: the daemon \<open>iodin\<close>
  (\<open>cmd/iodin\<close>), which drives the MDB bus of the machine (bills, coins, dispensers) by
  bit-banging two pins, the crate \<open>pigpio\<close> (\<open>hardware/pigpio-rust\<close>), a wrapper over the C
  library of that name, and the generated bindings to that library (\<open>hardware/pigpio-sys\<close>).

  How the parts interact. A client writes requests to the standard input of the daemon, each a
  protocol buffer behind its length. \<open>Server::run\<close> (\<open>server.rs\<close>) reads one at a time, hands it to
  \<open>Server::exec\<close>, and writes one response. \<open>exec\<close> owns at most one driver \<open>GpioMdb\<close> (\<open>mdb.rs\<close>):
  MDB_OPEN replaces it, MDB_RESET pulses the bus, MDB_TX runs one transaction, STOP ends the
  loop. A transaction sends a frame of 9-bit words as a wave, polls the serial port for the
  answer, and sends ACK or NAK. Every step of the driver is a call of the C library through the
  wrapper (\<open>lib.rs\<close>), which turns negative results into errors; where the target is not Linux
  the wrapper is linked with a mock (\<open>mock.rs\<close>).

  The style. A piece of code is a program of type \<open>prog\<close> (Prelude): a function of the state
  whose result is \<open>None\<close> when it does not return, and otherwise \<open>Ok\<close>, \<open>Err\<close> (the error values of
  Rust) or \<open>Panic\<close>, with the state it leaves. \<open>bindR\<close> is the operator \<open>?\<close>, \<open>with_drop\<close> a scope
  with a destructor, \<open>loopR\<close> a loop that may run for ever (\<open>partial_function (option)\<close>), so
  that termination is always proved as such; there is no fuel anywhere. Integers are words of
  their Rust width; \<open>add32\<close> and \<open>mul32\<close> panic on overflow, as \<open>overflow-checks = true\<close> of
  \<open>Cargo.toml\<close> makes \<open>+\<close> and \<open>*\<close> do in every profile. The calculi \<open>keeps\<close>, \<open>errs\<close>, \<open>panics\<close>,
  \<open>adds\<close> and \<open>returns\<close> of the Prelude (what a program leaves alone, how it can fail, panic,
  change a balance; that it returns) have one rule per construct, in collections.
\<close>

text \<open>
  The theories, and what they model.

  \<^item> Prelude: outcomes, programs, loops, the calculi, decimal and hexadecimal texts.
  \<^item> Pigpio: \<open>pigpio-rust/src/lib.rs\<close>. The C library is a git submodule that is not in the
    repository, so it is the parameter \<open>P\<close>: a transition function on an unknown device and the
    constants it exports. The world keeps the log of the foreign calls; \<open>live_waves\<close> reads the
    waves made and not deleted off it. \<open>Pigpio_Wait\<close>: the loop \<open>wave_busy_wait\<close>. \<open>Pigpio_Mock\<close>:
    \<open>mock.rs\<close>, and the constants of the Linux library.
  \<^item> \<open>Iodin_Error\<close>: the module \<open>error\<close> of \<open>main.rs\<close>. \<open>Mdb_Frame\<close>: the constants and pure
    functions of \<open>mdb.rs\<close>. Mdb: the driver, \<open>new\<close>, \<open>close\<close>, \<open>drop\<close>, \<open>bus_reset\<close>, \<open>tx\<close>,
    \<open>wait_receive\<close>, with \<open>tx\<close> cut where its wave comes into scope and where the answer is
    complete; each loop is its body and a \<open>loopR\<close>.
  \<^item> \<open>Iodin_Proto\<close>, Server, \<open>Iodin_Main\<close>: \<open>iodin.proto\<close>, \<open>server.rs\<close>, and \<open>run\<close> and \<open>main\<close> of
    \<open>main.rs\<close>. The coding of messages (crate \<open>protobuf\<close>) is the parameter \<open>C\<close>; what \<open>run\<close>
    relies on of it is the hypothesis \<open>codec_ok\<close> (\<open>Server_Run\<close>), with \<open>list_codec\<close> an instance.
  \<^item> \<open>C_Types\<close>: types of a foreign interface and their layout (\<open>#[repr(C)]\<close>), over an ABI.
    \<open>Pigpio_Types\<close>, \<open>Pigpio_Constants\<close>, \<open>Pigpio_Functions\<close>: \<open>bindings-arm-linux.rs\<close>, its types with
    their layout tests, its constants, and the signatures of the functions of pigpio.
\<close>

text \<open>
  What is proved.

  \<^item> \<open>Mdb_Block\<close>, \<open>Mdb_Receive\<close>, \<open>Mdb_Tx\<close>, \<open>Mdb_Transaction\<close>, \<open>Tx_Properties\<close>: the receive loop refines
    the specification \<open>parse_block\<close> of an answer, however the bytes are cut into reads; a
    transaction settles with the verdict on the block it read (\<open>block_verdict\<close>), sends its
    request and at most one reply, ACK exactly for a right checksum; the words of its frame; its
    balance of waves; its panics, among them the overflow of a deadline near the wrap of the
    tick; and on a bus that answers it completes (\<open>Bus_Sim\<close> is such a bus).
  \<^item> \<open>Mdb_Waves\<close>, \<open>Mdb_Progress\<close>, \<open>Mdb_Properties\<close>: frames and balances of the driver's operations,
    construction, destruction, reset pulse, checksums, durations, and the termination of the
    polling loops on a device whose clock advances (locales \<open>ticking\<close> and \<open>finite_feed\<close>), with
    the case in which the receive loop does not end. \<open>Tx_Termination\<close>: a whole transaction
    returns; the state moves by \<open>drives\<close>, and the calculus \<open>takes\<close> bounds the time of its parts.
  \<^item> \<open>Server_Laws\<close>: what \<open>exec\<close> needs of a driver, the locale \<open>mdb_driver\<close>, interpreted on
    \<open>GpioMdb\<close>; the abstract server \<open>exec_step\<close>. \<open>Server_Run\<close>: \<open>run\<close> refines traces of it.
    \<open>Server_Properties\<close>, \<open>Daemon_Properties\<close>: every branch of \<open>exec\<close>, its panics, the waves it
    owns, the loop from the first request to STOP, the end of the input or a panic, the exit
    status of the process and the waves it leaves. \<open>Bus_Session\<close>: the process on \<open>Bus_Sim\<close>, a
    session of MDB_OPEN, transactions and STOP from its requests to its responses.
    \<open>Iodin_Tests\<close>: the unit tests of \<open>main.rs\<close>, which pass.
  \<^item> \<open>Bindings_Properties\<close>, \<open>Foreign_Calls\<close>, \<open>Call_Limits\<close>: the layout tests of the bindings hold and
    are sound, from the lemmas of the locale \<open>good_abi\<close> (interpreted on the ARM EABI); every
    foreign call is well typed against the bindings and the mock; and no call of the daemon
    leaves the limits that the bindings publish for its arguments.
\<close>

text \<open>
  Bounds. No bound is chosen by the development: block lengths, buffer and time-outs are the
  constants of the code. The termination theorems of the loops ask that a deadline lies a wait step and three
  calls (\<open>3 * J\<close> microseconds, \<open>J\<close> the cost of one call) before the 32-bit tick wraps, because
  the code compares the tick with absolute deadlines; nearer to the wrap a poll can miss every
  value past its deadline. That of a transaction asks for the first half of the period of the tick.

  Not modelled. The C code of pigpio and the crates \<open>protobuf\<close>, \<open>error_chain\<close>, \<open>log\<close> and
  \<open>stderrlog\<close> are not in the repository: the first two are parameters, of the third the kinds
  and texts that the daemon uses are modelled, and logging has no effect here except that the
  arguments of an enabled \<open>debug!\<close> are evaluated. Chained causes of errors are never made by the
  daemon and have no model. Signals, threads and the real-time scheduling of the process are
  outside the model. The bindings of C library functions that nothing calls, the build scripts,
  the crate root of \<open>pigpio-sys\<close> (an \<open>include!\<close>) and the generated protobuf code have no behaviour
  to model; the Go programs and the C firmware of the repository are other processes.
\<close>

end
